(* ===== verification/Prelude.thy ===== *)
theory Prelude
  imports Main "HOL-Library.Sublist"
begin

text \<open>
  Shared vocabulary of the development: the named collections the component
  proofs draw on, association lists used as Python dictionaries (insertion
  ordered, keys unique), and list facts about prefixes and infixes.
\<close>

named_theorems py_defs \<open>defining equations of the Python string operations\<close>
named_theorems emits_intros \<open>which events a program can add to the history\<close>
named_theorems steps_intros \<open>programs that always return\<close>
named_theorems pauses_intros \<open>loop bodies that sleep before they continue\<close>

section \<open>Dictionaries\<close>

text \<open>
  A Python dict keeps insertion order; updating a present key keeps its
  position.  The model is an association list.
\<close>

type_synonym ('k, 'v) dict = "('k \<times> 'v) list"

fun dict_set :: "('k, 'v) dict \<Rightarrow> 'k \<Rightarrow> 'v \<Rightarrow> ('k, 'v) dict" where
  "dict_set [] k v = [(k, v)]"
| "dict_set ((k', v') # d) k v =
     (if k' = k then (k, v) # d else (k', v') # dict_set d k v)"

definition dict_keys :: "('k, 'v) dict \<Rightarrow> 'k list" where
  "dict_keys d = map fst d"

definition dict_update :: "('k, 'v) dict \<Rightarrow> ('k, 'v) dict \<Rightarrow> ('k, 'v) dict" where
  "dict_update d e = fold (\<lambda>(k, v) acc. dict_set acc k v) e d"

definition dict_get :: "('k, 'v) dict \<Rightarrow> 'k \<Rightarrow> 'v \<Rightarrow> 'v" where
  "dict_get d k dflt = (case map_of d k of None \<Rightarrow> dflt | Some v \<Rightarrow> v)"

lemma map_of_dict_set [simp]: "map_of (dict_set d k v) = (map_of d)(k \<mapsto> v)"
  by (induction d k v rule: dict_set.induct) (auto simp: fun_eq_iff)

lemma set_keys_dict_set [simp]: "fst ` set (dict_set d k v) = insert k (fst ` set d)"
  by (induction d k v rule: dict_set.induct) auto

lemma set_map_keys_dict_set [simp]: "set (map fst (dict_set d k v)) = insert k (set (map fst d))"
  by (induction d k v rule: dict_set.induct) auto

lemma distinct_keys_dict_set [simp]:
  "distinct (map fst (dict_set d k v)) \<longleftrightarrow> distinct (map fst d)"
  by (induction d k v rule: dict_set.induct) (auto simp flip: set_map)

lemma list_all_dict_set: "P (k, v) \<Longrightarrow> list_all P d \<Longrightarrow> list_all P (dict_set d k v)"
  by (induction d k v rule: dict_set.induct) auto

lemma dict_set_same: "map_of d k = Some v \<Longrightarrow> dict_set d k v = d"
  by (induction d k v rule: dict_set.induct) auto

lemma dict_set_new: "k \<notin> fst ` set d \<Longrightarrow> dict_set d k v = d @ [(k, v)]"
  by (induction d k v rule: dict_set.induct) auto

lemma keys_dict_update: "fst ` set (dict_update d e) = fst ` set d \<union> fst ` set e"
  unfolding dict_update_def by (induction e arbitrary: d) (simp_all add: case_prod_beta)

lemma map_of_dict_update [simp]: "map_of (dict_update d e) = map_of d ++ map_of (rev e)"
  unfolding dict_update_def
proof (induction e arbitrary: d)
  case (Cons x e)
  obtain k v where x: "x = (k, v)" by (cases x)
  have "map_of d ++ map_of (rev (x # e)) = (map_of d)(k \<mapsto> v) ++ map_of (rev e)"
    by (simp add: x map_add_assoc [symmetric])
  with Cons.IH [of "dict_set d k v"] show ?case by (simp only: x fold.simps comp_apply prod.case map_of_dict_set)
qed simp

lemma distinct_keys_dict_update [simp]:
  "distinct (map fst (dict_update d e)) \<longleftrightarrow> distinct (map fst d)"
  unfolding dict_update_def by (induction e arbitrary: d) (simp_all add: split_beta)

section \<open>Lists\<close>

lemma take_eq_prefix: "take (length p) s = p \<longleftrightarrow> prefix p s"
  by (auto simp: prefix_def append_eq_conv_conj [symmetric]) (metis append_take_drop_id)

lemma sublist_Cons_iff: "sublist p (c # s) \<longleftrightarrow> prefix p (c # s) \<or> sublist p s"
  by (simp add: sublist_Cons_right)

lemma list_all_takeWhile: "list_all P (takeWhile P xs)"
  by (induction xs) auto

end
