(* ===== verification/PyString.thy ===== *)
theory PyString
  imports Prelude
begin

text \<open>
  The part of Python's \<open>str\<close> the scripts use: substring tests, splitting,
  stripping, replacing, joining, \<open>int()\<close> and the \<open>%\<close> formats.  A string is a
  list of characters; a character stands for the Unicode code point of the same
  number (0 to 255), so character classes follow Python's Latin-1 range.
\<close>

abbreviation code :: "char \<Rightarrow> nat" where
  "code c \<equiv> of_char c"

abbreviation nl :: char where
  "nl \<equiv> CHR 0x0A"

abbreviation cr :: char where
  "cr \<equiv> CHR 0x0D"

abbreviation tab :: char where
  "tab \<equiv> CHR 0x09"

section \<open>Searching\<close>

fun starts_with :: "string \<Rightarrow> string \<Rightarrow> bool" where
  "starts_with s [] = True"
| "starts_with [] (p # ps) = False"
| "starts_with (c # s) (p # ps) = (c = p \<and> starts_with s ps)"

definition ends_with :: "string \<Rightarrow> string \<Rightarrow> bool" where
  "ends_with s p = starts_with (rev s) (rev p)"

text \<open>\<open>contains p s\<close> is the Python test \<open>p in s\<close>.\<close>

fun contains :: "string \<Rightarrow> string \<Rightarrow> bool" where
  "contains p [] = (p = [])"
| "contains p (c # s) = (starts_with (c # s) p \<or> contains p s)"

text \<open>\<open>cut_at p s\<close> splits at the first occurrence of \<open>p\<close>.\<close>

fun cut_at :: "string \<Rightarrow> string \<Rightarrow> (string \<times> string) option" where
  "cut_at p [] = (if p = [] then Some ([], []) else None)"
| "cut_at p (c # s) =
     (if starts_with (c # s) p then Some ([], drop (length p) (c # s))
      else map_option (\<lambda>(a, b). (c # a, b)) (cut_at p s))"

lemma starts_with_iff: "starts_with s p \<longleftrightarrow> (\<exists>t. s = p @ t)"
  by (induction s p rule: starts_with.induct) auto

lemma starts_with_append [simp]: "starts_with (p @ s) p"
  by (auto simp: starts_with_iff)

lemma ends_with_iff: "ends_with s p \<longleftrightarrow> (\<exists>t. s = t @ p)"
proof
  assume "ends_with s p"
  then obtain t where "rev s = rev p @ t"
    by (auto simp: ends_with_def starts_with_iff)
  then have "s = rev t @ p" by (metis rev_append rev_rev_ident)
  then show "\<exists>t. s = t @ p" ..
qed (auto simp: ends_with_def starts_with_iff)

lemma contains_iff: "contains p s \<longleftrightarrow> (\<exists>a b. s = a @ p @ b)"
proof (induction s)
  case (Cons c s)
  show ?case
  proof
    assume "contains p (c # s)"
    then consider t where "c # s = [] @ p @ t" | a b where "c # s = (c # a) @ p @ b"
      using Cons.IH by (auto simp: starts_with_iff)
    then show "\<exists>a b. c # s = a @ p @ b" by cases blast+
  next
    assume "\<exists>a b. c # s = a @ p @ b"
    then obtain a b where eq: "c # s = a @ p @ b" by blast
    show "contains p (c # s)"
    proof (cases a)
      case Nil
      with eq have "starts_with (c # s) p" by (auto simp: starts_with_iff)
      then show ?thesis by simp
    next
      case (Cons x a')
      with eq have "s = a' @ p @ b" by simp
      then show ?thesis using Cons.IH by auto
    qed
  qed
qed auto

lemma contains_append1: "contains p s \<Longrightarrow> contains p (s @ t)"
  unfolding contains_iff by (elim exE) (metis append.assoc)

lemma contains_append2: "contains p t \<Longrightarrow> contains p (s @ t)"
  unfolding contains_iff by (elim exE) (metis append.assoc)

lemma contains_self [simp]: "contains p (a @ p @ b)"
  by (auto simp: contains_iff)

lemma cut_at_None: "cut_at p s = None \<longleftrightarrow> \<not> contains p s"
  by (induction p s rule: cut_at.induct) auto

lemma cut_at_SomeD: "cut_at p s = Some (a, b) \<Longrightarrow> s = a @ p @ b"
proof (induction p s arbitrary: a rule: cut_at.induct)
  case (2 p c s)
  then show ?case
    by (auto simp: starts_with_iff split: if_splits)
qed (auto split: if_splits)

lemma cut_at_first:
  assumes "cut_at p s = Some (a, b)" "s = a' @ p @ b'"
  shows "length a \<le> length a'"
  using assms
proof (induction p s arbitrary: a a' rule: cut_at.induct)
  case (2 p c s)
  show ?case
  proof (cases "starts_with (c # s) p")
    case True
    with "2.prems"(1) have "a = []" by simp
    then show ?thesis by simp
  next
    case False
    with "2.prems"(1) obtain a1 where a1: "cut_at p s = Some (a1, b)" "a = c # a1" by auto
    from False "2.prems"(2) have "a' \<noteq> []" by (auto simp: starts_with_iff)
    with "2.prems"(2) obtain a2 where "a' = c # a2" "s = a2 @ p @ b'" by (cases a') auto
    with a1 "2.IH" [OF False] show ?thesis by auto
  qed
qed (auto split: if_splits)

section \<open>Splitting and joining\<close>

fun split_on :: "char \<Rightarrow> string \<Rightarrow> string list" where
  "split_on c [] = [[]]"
| "split_on c (x # xs) =
     (if x = c then [] # split_on c xs
      else (case split_on c xs of [] \<Rightarrow> [[x]] | w # ws \<Rightarrow> (x # w) # ws))"

fun join :: "string \<Rightarrow> string list \<Rightarrow> string" where
  "join sep [] = []"
| "join sep [x] = x"
| "join sep (x # y # xs) = x @ sep @ join sep (y # xs)"

text \<open>\<open>s.split(c, 1)\<close> and \<open>s.rsplit(c, 1)\<close> when the separator is present.\<close>

definition split1 :: "char \<Rightarrow> string \<Rightarrow> (string \<times> string) option" where
  "split1 c s =
     (if c \<in> set s then Some (takeWhile (\<lambda>x. x \<noteq> c) s, tl (dropWhile (\<lambda>x. x \<noteq> c) s)) else None)"

definition rsplit1 :: "char \<Rightarrow> string \<Rightarrow> (string \<times> string) option" where
  "rsplit1 c s = map_option (\<lambda>(a, b). (rev b, rev a)) (split1 c (rev s))"

lemma split_on_not_Nil [simp]: "split_on c s \<noteq> []"
  by (induction c s rule: split_on.induct) (auto split: list.splits)

lemma join_Cons: "join sep (x # xs) = (if xs = [] then x else x @ sep @ join sep xs)"
  by (cases xs) auto

lemma join_split_on: "join [c] (split_on c s) = s"
proof (induction c s rule: split_on.induct)
  case (2 c x xs)
  obtain w ws where w: "split_on c xs = w # ws" by (cases "split_on c xs") auto
  with 2 show ?case by (auto simp: join_Cons split: if_splits)
qed simp

lemma split_on_no_sep: "w \<in> set (split_on c s) \<Longrightarrow> c \<notin> set w"
proof (induction c s arbitrary: w rule: split_on.induct)
  case (2 c x xs)
  obtain v vs where v: "split_on c xs = v # vs" by (cases "split_on c xs") auto
  with 2 show ?case by (auto split: if_splits)
qed simp

lemma split_on_join:
  assumes "xs \<noteq> []" "\<And>x. x \<in> set xs \<Longrightarrow> c \<notin> set x"
  shows "split_on c (join [c] xs) = xs"
proof -
  have no: "split_on c w = [w]" if "c \<notin> set w" for w
    using that by (induction w) auto
  have sep: "split_on c (w @ c # s) = w # split_on c s" if "c \<notin> set w" for w s
    using that by (induction w) auto
  from assms show ?thesis
    by (induction "[c]" xs rule: join.induct) (auto simp: no sep)
qed

lemma split1_Some: "split1 c s = Some (a, b) \<longleftrightarrow> s = a @ c # b \<and> c \<notin> set a"
proof
  assume "split1 c s = Some (a, b)"
  then have c: "c \<in> set s" and a: "a = takeWhile (\<lambda>x. x \<noteq> c) s"
    and b: "b = tl (dropWhile (\<lambda>x. x \<noteq> c) s)"
    by (auto simp: split1_def split: if_splits)
  from c have "dropWhile (\<lambda>x. x \<noteq> c) s \<noteq> []" by (auto simp: dropWhile_eq_Nil_conv)
  moreover from this have "hd (dropWhile (\<lambda>x. x \<noteq> c) s) = c"
    using hd_dropWhile by blast
  ultimately have "dropWhile (\<lambda>x. x \<noteq> c) s = c # b"
    unfolding b by (metis list.collapse)
  then have "s = a @ c # b" unfolding a by (metis takeWhile_dropWhile_id)
  moreover have "c \<notin> set a" unfolding a by (auto dest: set_takeWhileD)
  ultimately show "s = a @ c # b \<and> c \<notin> set a" by simp
next
  assume "s = a @ c # b \<and> c \<notin> set a"
  moreover from this have "takeWhile (\<lambda>x. x \<noteq> c) s = a" "dropWhile (\<lambda>x. x \<noteq> c) s = c # b"
    by (auto simp: takeWhile_append dropWhile_append)
  ultimately show "split1 c s = Some (a, b)"
    by (simp add: split1_def)
qed

lemma rsplit1_Some: "rsplit1 c s = Some (a, b) \<longleftrightarrow> s = a @ c # b \<and> c \<notin> set b"
proof -
  have "rsplit1 c s = Some (a, b) \<longleftrightarrow> split1 c (rev s) = Some (rev b, rev a)"
    by (auto simp: rsplit1_def)
  also have "\<dots> \<longleftrightarrow> rev s = rev b @ c # rev a \<and> c \<notin> set b"
    by (simp add: split1_Some)
  also have "\<dots> \<longleftrightarrow> s = a @ c # b \<and> c \<notin> set b"
    using rev_rev_ident [of s] by (auto simp: rev_swap)
  finally show ?thesis .
qed

lemma split1_None: "split1 c s = None \<longleftrightarrow> c \<notin> set s"
  by (simp add: split1_def)

lemma rsplit1_None: "rsplit1 c s = None \<longleftrightarrow> c \<notin> set s"
  by (simp add: rsplit1_def split1_None)

section \<open>Stripping, case, lines, replacement\<close>

definition is_space :: "char \<Rightarrow> bool" where
  "is_space c = (9 \<le> code c \<and> code c \<le> 13 \<or> 28 \<le> code c \<and> code c \<le> 32
     \<or> code c = 133 \<or> code c = 160)"

definition strip_by :: "(char \<Rightarrow> bool) \<Rightarrow> string \<Rightarrow> string" where
  "strip_by P s = rev (dropWhile P (rev (dropWhile P s)))"

definition strip :: "string \<Rightarrow> string" where
  "strip s = strip_by is_space s"

definition rstrip :: "string \<Rightarrow> string" where
  "rstrip s = rev (dropWhile is_space (rev s))"

definition lower_char :: "char \<Rightarrow> char" where
  "lower_char c =
     (let n = code c in
      if 65 \<le> n \<and> n \<le> 90 \<or> 192 \<le> n \<and> n \<le> 222 \<and> n \<noteq> 215 then char_of (n + 32) else c)"

definition lower :: "string \<Rightarrow> string" where
  "lower s = map lower_char s"

definition is_line_end :: "char \<Rightarrow> bool" where
  "is_line_end c = (10 \<le> code c \<and> code c \<le> 13 \<or> 28 \<le> code c \<and> code c \<le> 30 \<or> code c = 133)"

fun splitlines :: "string \<Rightarrow> string list" where
  "splitlines [] = []"
| "splitlines [c] = (if is_line_end c then [[]] else [[c]])"
| "splitlines (c # d # s) =
     (if c = cr \<and> d = nl then [] # splitlines s
      else if is_line_end c then [] # splitlines (d # s)
      else (case splitlines (d # s) of [] \<Rightarrow> [[c]] | w # ws \<Rightarrow> (c # w) # ws))"

fun words_acc :: "string \<Rightarrow> string \<Rightarrow> string list" where
  "words_acc w [] = (if w = [] then [] else [w])"
| "words_acc w (c # s) =
     (if is_space c then (if w = [] then words_acc [] s else w # words_acc [] s)
      else words_acc (w @ [c]) s)"

text \<open>\<open>s.split()\<close>: the maximal runs of non-space characters.\<close>

definition words :: "string \<Rightarrow> string list" where
  "words s = words_acc [] s"

text \<open>\<open>s.replace(old, new)\<close> for a non-empty \<open>old\<close>.\<close>

fun replace :: "string \<Rightarrow> string \<Rightarrow> string \<Rightarrow> string" where
  "replace old new [] = []"
| "replace old new (c # s) =
     (if old \<noteq> [] \<and> starts_with (c # s) old
      then new @ replace old new (drop (length old - 1) s)
      else c # replace old new s)"

lemma strip_by_cases: "strip_by P s = [] \<or> (\<not> P (hd (strip_by P s)) \<and> \<not> P (last (strip_by P s)))"
proof -
  let ?t = "rev (dropWhile P s)"
  show ?thesis
  proof (cases "dropWhile P ?t = []")
    case False
    then have lst: "\<not> P (hd (dropWhile P ?t))" by (rule hd_dropWhile)
    obtain u where u: "?t = u @ dropWhile P ?t" by (metis takeWhile_dropWhile_id)
    then have "dropWhile P s = rev (dropWhile P ?t) @ rev u" by (metis rev_append rev_rev_ident)
    then have "hd (dropWhile P s) = hd (rev (dropWhile P ?t) @ rev u)" by simp
    then have h: "hd (dropWhile P s) = last (dropWhile P ?t)"
      unfolding hd_append using False by (simp only: rev_is_Nil_conv if_False hd_rev)
    from False have "dropWhile P s \<noteq> []" by (metis dropWhile.simps(1) rev.simps(1))
    then have "\<not> P (hd (dropWhile P s))" by (rule hd_dropWhile)
    with h lst False show ?thesis by (simp add: strip_by_def hd_rev last_rev)
  qed (simp add: strip_by_def)
qed

lemma strip_by_id: "s = [] \<or> (\<not> P (hd s) \<and> \<not> P (last s)) \<Longrightarrow> strip_by P s = s"
proof (cases "s = []")
  case False
  assume "s = [] \<or> (\<not> P (hd s) \<and> \<not> P (last s))"
  with False have "\<not> P (hd s)" "\<not> P (hd (rev s))" by (auto simp: hd_rev)
  with False have "dropWhile P s = s" "dropWhile P (rev s) = rev s"
    by (auto simp: dropWhile_eq_self_iff)
  then show ?thesis by (simp add: strip_by_def)
qed (simp add: strip_by_def)

lemma strip_idem [simp]: "strip (strip s) = strip s"
  using strip_by_cases [of is_space s] by (simp add: strip_def strip_by_id)

lemma strip_Nil [simp]: "strip [] = []"
  by (simp add: strip_def strip_by_def)

lemma set_strip_by: "set (strip_by P s) \<subseteq> set s"
  unfolding strip_by_def by (auto dest!: set_dropWhileD)

lemma set_strip: "set (strip s) \<subseteq> set s"
  by (simp add: strip_def set_strip_by)

lemma replace_absent:
  "\<not> contains old s \<Longrightarrow> replace old new s = s"
proof (induction old new s rule: replace.induct)
  case (2 old new c s)
  then show ?case by auto
qed simp

section \<open>Integers\<close>

definition is_digit :: "char \<Rightarrow> bool" where
  "is_digit c = (48 \<le> code c \<and> code c \<le> 57)"

text \<open>
  \<open>str.isdigit\<close> also accepts the superscript digits (code points 178, 179 and
  185), which \<open>int()\<close> rejects.
\<close>

definition isdigit :: "string \<Rightarrow> bool" where
  "isdigit s = (s \<noteq> [] \<and> list_all (\<lambda>c. is_digit c \<or> code c \<in> {178, 179, 185}) s)"

fun int_digits :: "bool \<Rightarrow> int \<Rightarrow> string \<Rightarrow> int option" where
  "int_digits prev acc [] = (if prev then Some acc else None)"
| "int_digits prev acc (c # s) =
     (if is_digit c then int_digits True (10 * acc + (int (code c) - 48)) s
      else if c = CHR ''_'' \<and> prev then int_digits False acc s
      else None)"

text \<open>\<open>int(s)\<close>: surrounding space, a sign and single underscores are allowed; \<open>None\<close> is ValueError.\<close>

definition int_of_str :: "string \<Rightarrow> int option" where
  "int_of_str s =
     (case strip s of
        [] \<Rightarrow> None
      | c # r \<Rightarrow>
          if c = CHR ''-'' then map_option uminus (int_digits False 0 r)
          else if c = CHR ''+'' then int_digits False 0 r
          else int_digits False 0 (c # r))"

definition digit_char :: "nat \<Rightarrow> char" where
  "digit_char d = char_of (48 + d)"

fun str_nat :: "nat \<Rightarrow> string" where
  "str_nat n = (if n < 10 then [digit_char n] else str_nat (n div 10) @ [digit_char (n mod 10)])"

declare str_nat.simps [simp del]

definition str_int :: "int \<Rightarrow> string" where
  "str_int i = (if i < 0 then CHR ''-'' # str_nat (nat (- i)) else str_nat (nat i))"

text \<open>The same digits computed on binary integers, for evaluation.\<close>

function str_pos :: "int \<Rightarrow> string" where
  "str_pos i = (if i < 10 then [digit_char (nat i)] else str_pos (i div 10) @ [digit_char (nat (i mod 10))])"
  by pat_completeness auto
termination
  by (relation "measure nat") auto

declare str_pos.simps [simp del]

lemma str_pos_int: "str_pos (int n) = str_nat n"
proof (induction n rule: str_nat.induct)
  case (1 n)
  show ?case
  proof (cases "n < 10")
    case True
    then show ?thesis by (subst str_nat.simps, subst str_pos.simps) simp
  next
    case False
    with 1 have "str_pos (int n div 10) = str_nat (n div 10)" by (simp add: zdiv_int)
    with False show ?thesis
      by (subst str_nat.simps, subst str_pos.simps) (simp add: nat_mod_distrib)
  qed
qed

lemma str_nat_code [code]: "str_nat n = str_pos (int n)"
  by (simp add: str_pos_int)

lemma str_int_code [code]: "str_int i = (if i < 0 then CHR ''-'' # str_pos (- i) else str_pos i)"
  by (cases "i < 0") (simp_all add: str_int_def flip: str_pos_int)

lemma code_digit_char: "d < 10 \<Longrightarrow> code (digit_char d) = 48 + d"
  by (simp add: digit_char_def)

lemma is_digit_digit_char [simp]: "d < 10 \<Longrightarrow> is_digit (digit_char d)"
  by (simp add: is_digit_def code_digit_char)

lemma str_nat_not_Nil [simp]: "str_nat n \<noteq> []"
  by (subst str_nat.simps) simp

lemma str_nat_digits: "c \<in> set (str_nat n) \<Longrightarrow> is_digit c"
proof (induction n arbitrary: c rule: str_nat.induct)
  case (1 n)
  show ?case
  proof (cases "n < 10")
    case True
    with "1.prems" show ?thesis by (subst (asm) str_nat.simps) simp
  next
    case False
    with 1 show ?thesis by (subst (asm) (2) str_nat.simps) auto
  qed
qed

lemma int_digits_snoc:
  "list_all is_digit s \<Longrightarrow> s \<noteq> [] \<Longrightarrow> d < 10 \<Longrightarrow>
     int_digits p acc (s @ [digit_char d]) = map_option (\<lambda>n. 10 * n + int d) (int_digits p acc s)"
proof (induction s arbitrary: p acc)
  case (Cons c s)
  then show ?case by (cases "s = []") (auto simp: code_digit_char)
qed simp

lemma int_digits_str_nat: "int_digits False 0 (str_nat n) = Some (int n)"
proof (induction n rule: str_nat.induct)
  case (1 n)
  show ?case
  proof (cases "n < 10")
    case True
    then show ?thesis by (subst str_nat.simps) (simp add: code_digit_char)
  next
    case False
    have "list_all is_digit (str_nat (n div 10))"
      by (auto simp: list_all_iff str_nat_digits)
    with False 1 show ?thesis
      by (subst str_nat.simps) (simp add: int_digits_snoc zdiv_int zmod_int)
  qed
qed

lemma digit_not_space: "is_digit c \<Longrightarrow> \<not> is_space c"
  by (auto simp: is_digit_def is_space_def)

lemma strip_str_nat: "strip (str_nat n) = str_nat n"
  unfolding strip_def
  by (rule strip_by_id) (auto intro!: digit_not_space str_nat_digits [of _ n])

lemma int_of_str_str_int: "int_of_str (str_int i) = Some i"
proof (cases "i < 0")
  case True
  let ?s = "CHR ''-'' # str_nat (nat (- i))"
  have "last ?s \<in> set (str_nat (nat (- i)))" by simp
  then have "\<not> is_space (last ?s)" by (rule digit_not_space [OF str_nat_digits])
  then have "strip ?s = ?s"
    unfolding strip_def by (intro strip_by_id disjI2) (simp_all add: is_space_def)
  with True show ?thesis by (simp add: int_of_str_def str_int_def int_digits_str_nat)
next
  case False
  obtain c r where cr: "str_nat (nat i) = c # r" by (cases "str_nat (nat i)") auto
  then have "is_digit c" using str_nat_digits [of c "nat i"] by simp
  then have "c \<noteq> CHR ''-''" "c \<noteq> CHR ''+''" by (auto simp: is_digit_def)
  with False cr show ?thesis
    using strip_str_nat [of "nat i"] int_digits_str_nat [of "nat i"]
    by (simp add: int_of_str_def str_int_def)
qed

definition unspaced :: "string \<Rightarrow> bool" where
  "unspaced s = list_all (\<lambda>c. \<not> is_space c) s"

lemma unspaced_simps [simp]:
  "unspaced []" "unspaced (c # s) = (\<not> is_space c \<and> unspaced s)" "unspaced (s @ t) = (unspaced s \<and> unspaced t)"
  by (simp_all add: unspaced_def)

lemma words_acc_plain: "unspaced s \<Longrightarrow> words_acc w (s @ t) = words_acc (w @ s) t"
  by (induction s arbitrary: w) simp_all

lemma words_join:
  "list_all (\<lambda>w. w \<noteq> [] \<and> unspaced w) ws \<Longrightarrow> words (join '' '' ws) = ws"
proof (induction ws)
  case (Cons w ws)
  have w: "words (w @ t) = words_acc w t" for t
    using Cons.prems words_acc_plain [of w "[]" t] by (simp add: words_def)
  show ?case
  proof (cases ws)
    case Nil
    then show ?thesis using Cons.prems w [of "[]"] by simp
  next
    case (Cons v vs)
    then show ?thesis using Cons.prems Cons.IH w by (simp add: words_def is_space_def)
  qed
qed (simp add: words_def)

lemma str_int_no_space [simp]: "unspaced (str_int i)"
  by (auto simp: unspaced_def str_int_def list_all_iff is_space_def dest!: str_nat_digits digit_not_space)

lemma length_str_nat:
  "length (str_nat n) = (if n < 10 then 1 else Suc (length (str_nat (n div 10))))"
  by (subst str_nat.simps) simp

lemma length_str_int_4: "1000 \<le> i \<Longrightarrow> i \<le> 9999 \<Longrightarrow> length (str_int i) = 4"
proof -
  assume "1000 \<le> i" "i \<le> 9999"
  then have "1000 \<le> nat i" "nat i \<le> 9999" by simp_all
  then have "\<not> nat i < 10" "\<not> nat i div 10 < 10" "\<not> nat i div 10 div 10 < 10" "nat i div 10 div 10 div 10 < 10"
    by linarith+
  with \<open>1000 \<le> i\<close> show ?thesis
    by (simp add: str_int_def length_str_nat [of "nat i"] length_str_nat [of "nat i div 10"]
        length_str_nat [of "nat i div 10 div 10"] length_str_nat [of "nat i div 10 div 10 div 10"])
qed

lemma isdigit_str_int: "0 \<le> i \<Longrightarrow> isdigit (str_int i)"
  by (auto simp: isdigit_def str_int_def list_all_iff dest!: str_nat_digits)

lemma int_digits_nonneg: "int_digits p acc s = Some n \<Longrightarrow> 0 \<le> acc \<Longrightarrow> 0 \<le> n"
  by (induction p acc s rule: int_digits.induct) (auto split: if_splits simp: is_digit_def)

lemma isdigit_nonneg: "isdigit s \<Longrightarrow> int_of_str s = Some n \<Longrightarrow> 0 \<le> n"
proof -
  assume s: "isdigit s" "int_of_str s = Some n"
  obtain c r where cr: "s = c # r" "is_digit c \<or> code c \<in> {178, 179, 185}"
    using s(1) by (cases s) (auto simp: isdigit_def)
  have "is_digit (last s) \<or> code (last s) \<in> {178, 179, 185}"
    using s(1) last_in_set [of s] unfolding isdigit_def list_all_iff by blast
  then have "\<not> is_space (last s)" by (auto simp: is_digit_def is_space_def)
  then have "strip s = s"
    unfolding strip_def using cr by (intro strip_by_id) (auto simp: is_digit_def is_space_def)
  moreover have "c \<noteq> CHR ''-''" "c \<noteq> CHR ''+''" using cr(2) by (auto simp: is_digit_def)
  ultimately show ?thesis using s(2) cr(1) int_digits_nonneg [of False 0 s n] by (simp add: int_of_str_def)
qed

section \<open>Formats\<close>

definition ljust :: "nat \<Rightarrow> string \<Rightarrow> string" where
  "ljust n s = s @ replicate (n - length s) (CHR '' '')"

definition rjust :: "nat \<Rightarrow> string \<Rightarrow> string" where
  "rjust n s = replicate (n - length s) (CHR '' '') @ s"

definition hex_digit :: "nat \<Rightarrow> char" where
  "hex_digit d = (if d < 10 then char_of (48 + d) else char_of (87 + d))"

text \<open>\<open>"%02x"\<close> on values below 256.\<close>

definition hex2 :: "nat \<Rightarrow> string" where
  "hex2 n = [hex_digit (n div 16 mod 16), hex_digit (n mod 16)]"

lemma length_ljust [simp]: "length (ljust n s) = max n (length s)"
  by (simp add: ljust_def)

lemma length_rjust [simp]: "length (rjust n s) = max n (length s)"
  by (simp add: rjust_def)

section \<open>Environment variables\<close>

text \<open>
  The scripts read their configuration from the environment in three ways: a
  flag (\<open>v.lower() in {"1", "true", "yes", "on"}\<close>), a comma separated list
  with empty items dropped, and an integer.
\<close>

definition is_true_flag :: "string \<Rightarrow> bool" where
  "is_true_flag v = (lower v \<in> {''1'', ''true'', ''yes'', ''on''})"

definition comma_list :: "string \<Rightarrow> string list" where
  "comma_list v = filter (\<lambda>w. w \<noteq> []) (map strip (split_on (CHR '','') v))"

lemma comma_list_items:
  "w \<in> set (comma_list v) \<Longrightarrow> w \<noteq> [] \<and> strip w = w \<and> CHR '','' \<notin> set w"
  using set_strip by (fastforce simp: comma_list_def dest: split_on_no_sep)

lemma comma_list_join:
  assumes "\<And>w. w \<in> set ws \<Longrightarrow> w \<noteq> [] \<and> strip w = w \<and> CHR '','' \<notin> set w"
  shows "comma_list (join '','' ws) = ws"
proof (cases "ws = []")
  case False
  with assms have "split_on (CHR '','') (join '','' ws) = ws"
    by (intro split_on_join) auto
  moreover from assms have "map strip ws = ws" by (simp add: map_idI)
  moreover from assms have "filter (\<lambda>w. w \<noteq> []) ws = ws" by (simp add: filter_id_conv)
  ultimately show ?thesis by (simp add: comma_list_def)
qed (simp add: comma_list_def)

end
