(* ===== verification/PyVal.thy ===== *)
theory PyVal
  imports PyString "HOL-Library.Char_ord" "HOL-Library.List_Lexorder"
begin

text \<open>
  Python values as the scripts handle them: what \<open>json.loads\<close> returns and what
  the result rows hold.  Floating point numbers are IEEE doubles, written as
  sign, mantissa and binary exponent; division and decimal output round to
  nearest, ties to even, as CPython does.
\<close>

section \<open>Doubles\<close>

datatype f64 = Fin bool int int | Inf bool | NaN

definition div_rne :: "int \<Rightarrow> int \<Rightarrow> int" where
  "div_rne a b =
     (let q = a div b; r = a mod b in
      if 2 * r < b then q else if b < 2 * r then q + 1 else if even q then q else q + 1)"

function nbits :: "int \<Rightarrow> int" where
  "nbits n = (if n \<le> 0 then 0 else 1 + nbits (n div 2))"
  by pat_completeness auto
termination
  by (relation "measure nat") auto

declare nbits.simps [simp del]

definition scaled_div :: "int \<Rightarrow> int \<Rightarrow> int \<Rightarrow> int" where
  "scaled_div a b e = (if 0 \<le> e then div_rne a (b * 2 ^ nat e) else div_rne (a * 2 ^ nat (- e)) b)"

definition f64_exponent :: "int \<Rightarrow> int \<Rightarrow> int" where
  "f64_exponent a b =
     (let e = nbits a - nbits b - 53;
          big = (if 0 \<le> e + 53 then b * 2 ^ nat (e + 53) \<le> a else b \<le> a * 2 ^ nat (- (e + 53)))
      in max (if big then e + 1 else e) (-1074))"

text \<open>\<open>f64_ratio s a b\<close> is the double nearest to \<open>a / b\<close> with sign \<open>s\<close>, for \<open>b > 0\<close>.\<close>

definition f64_ratio :: "bool \<Rightarrow> int \<Rightarrow> int \<Rightarrow> f64" where
  "f64_ratio s a b =
     (if a = 0 then Fin s 0 0
      else (let e = f64_exponent a b; m = scaled_div a b e in
            if m = 2 ^ 53 then (if e + 1 > 971 then Inf s else Fin s (2 ^ 52) (e + 1))
            else if e > 971 then Inf s else Fin s m e))"

definition f64_of_int :: "int \<Rightarrow> f64" where
  "f64_of_int i = f64_ratio (i < 0) \<bar>i\<bar> 1"

text \<open>The value of a finite double as a fraction.\<close>

definition f64_num :: "int \<Rightarrow> int \<Rightarrow> int" where
  "f64_num m e = (if 0 \<le> e then m * 2 ^ nat e else m)"

definition f64_den :: "int \<Rightarrow> int" where
  "f64_den e = (if 0 \<le> e then 1 else 2 ^ nat (- e))"

definition f64_div :: "f64 \<Rightarrow> f64 \<Rightarrow> f64 option" where
  "f64_div x y =
     (case (x, y) of
        (Fin s m e, Fin t n f) \<Rightarrow>
          (if n = 0 then None
           else Some (f64_ratio (s \<noteq> t) (f64_num m e * f64_den f) (f64_den e * f64_num n f)))
      | (_, Fin t n f) \<Rightarrow> (if n = 0 then None else Some (case x of Inf s \<Rightarrow> Inf (s \<noteq> t) | _ \<Rightarrow> NaN))
      | (Fin s m e, Inf t) \<Rightarrow> Some (Fin (s \<noteq> t) 0 0)
      | _ \<Rightarrow> Some NaN)"

text \<open>\<open>x >= k\<close> for an integer \<open>k \<ge> 0\<close>.\<close>

definition f64_ge_int :: "f64 \<Rightarrow> int \<Rightarrow> bool" where
  "f64_ge_int x k =
     (case x of Fin s m e \<Rightarrow> (if s then m = 0 \<and> k = 0 else k * f64_den e \<le> f64_num m e)
      | Inf s \<Rightarrow> \<not> s | NaN \<Rightarrow> False)"

definition zero_pad :: "nat \<Rightarrow> string \<Rightarrow> string" where
  "zero_pad n s = replicate (n - length s) (CHR ''0'') @ s"

text \<open>\<open>"%.{p}f" % x\<close>.\<close>

definition fmt_fixed :: "nat \<Rightarrow> f64 \<Rightarrow> string" where
  "fmt_fixed p x =
     (case x of
        Fin s m e \<Rightarrow>
          (let n = div_rne (f64_num m e * 10 ^ p) (f64_den e) in
           (if s then ''-'' else []) @ str_int (n div 10 ^ p)
           @ (if p = 0 then [] else ''.'' @ zero_pad p (str_int (n mod 10 ^ p))))
      | Inf s \<Rightarrow> (if s then ''-inf'' else ''inf'')
      | NaN \<Rightarrow> ''nan'')"

text \<open>
  \<open>repr\<close> of a float: the shortest decimal that reads back as the same double,
  in exponent form outside \<open>1e-4 .. 1e16\<close>.
\<close>

definition dec_exponent :: "int \<Rightarrow> int \<Rightarrow> int" where
  "dec_exponent a b =
     (if b \<le> a then int (length (str_int (a div b))) - 1
      else (let z = length (str_int (b div a)) in
            if b \<le> a * 10 ^ (z - 1) then - int (z - 1) else - int z))"

definition f64_of_dec :: "bool \<Rightarrow> int \<Rightarrow> int \<Rightarrow> f64" where
  "f64_of_dec s d k = (if 0 \<le> k then f64_ratio s (d * 10 ^ nat k) 1 else f64_ratio s d (10 ^ nat (- k)))"

fun shortest :: "nat \<Rightarrow> int \<Rightarrow> bool \<Rightarrow> int \<Rightarrow> int \<Rightarrow> f64 \<Rightarrow> int \<times> int" where
  "shortest 0 n s a b x = (let k = dec_exponent a b - 16 in
      (if 0 \<le> k then div_rne a (b * 10 ^ nat k) else div_rne (a * 10 ^ nat (- k)) b, k))"
| "shortest (Suc f) n s a b x =
     (let k = dec_exponent a b - n;
          num = (if 0 \<le> k then a else a * 10 ^ nat (- k));
          den = (if 0 \<le> k then b * 10 ^ nat k else b);
          d = div_rne num den; lo = num div den
      in if f64_of_dec s d k = x then (d, k)
         else if f64_of_dec s lo k = x then (lo, k)
         else if f64_of_dec s (lo + 1) k = x then (lo + 1, k)
         else shortest f (n + 1) s a b x)"

definition strip_zeros :: "int \<times> int \<Rightarrow> string \<times> int" where
  "strip_zeros dk =
     (let ds = str_int (fst dk); t = rev (dropWhile (\<lambda>c. c = CHR ''0'') (rev ds))
      in (t, snd dk + int (length ds - length t)))"

definition repr_digits :: "string \<Rightarrow> int \<Rightarrow> string" where
  "repr_digits ds k =
     (let n = int (length ds); pt = n + k in
      if -4 < pt \<and> pt \<le> 16
      then (if pt \<le> 0 then ''0.'' @ replicate (nat (- pt)) (CHR ''0'') @ ds
            else if n \<le> pt then ds @ replicate (nat (pt - n)) (CHR ''0'') @ ''.0''
            else take (nat pt) ds @ ''.'' @ drop (nat pt) ds)
      else (let x = pt - 1; body = (if n = 1 then ds else take 1 ds @ ''.'' @ drop 1 ds) in
            body @ ''e'' @ (if x < 0 then ''-'' else ''+'') @ zero_pad 2 (str_int \<bar>x\<bar>)))"

definition f64_repr :: "f64 \<Rightarrow> string" where
  "f64_repr x =
     (case x of
        Fin s m e \<Rightarrow>
          (if s then ''-'' else []) @
          (if m = 0 then ''0.0''
           else (let (ds, k) = strip_zeros (shortest 17 0 s (f64_num m e) (f64_den e) x)
                 in repr_digits ds k))
      | Inf s \<Rightarrow> (if s then ''-inf'' else ''inf'')
      | NaN \<Rightarrow> ''nan'')"

section \<open>Values\<close>

datatype pyval =
    PNone
  | PBool bool
  | PInt int
  | PFloat f64
  | PStr string
  | PList "pyval list"
  | PDict "(string \<times> pyval) list"

type_synonym pydict = "(string, pyval) dict"

definition hex4 :: "nat \<Rightarrow> string" where
  "hex4 n = hex2 (n div 256) @ hex2 (n mod 256)"

definition repr_char :: "char \<Rightarrow> char \<Rightarrow> string" where
  "repr_char quo c =
     (let n = code c in
      if c = quo \<or> c = CHR 0x5C then [CHR 0x5C, c]
      else if c = nl then [CHR 0x5C, CHR ''n'']
      else if c = cr then [CHR 0x5C, CHR ''r'']
      else if c = tab then [CHR 0x5C, CHR ''t'']
      else if n < 32 \<or> 127 \<le> n \<and> n \<le> 160 \<or> n = 173 then CHR 0x5C # ''x'' @ hex2 n
      else [c])"

definition repr_str :: "string \<Rightarrow> string" where
  "repr_str s =
     (let quo = (if CHR 0x27 \<in> set s \<and> CHR 0x22 \<notin> set s then CHR 0x22 else CHR 0x27) in
      quo # concat (map (repr_char quo) s) @ [quo])"

fun py_repr :: "pyval \<Rightarrow> string" where
  "py_repr PNone = ''None''"
| "py_repr (PBool b) = (if b then ''True'' else ''False'')"
| "py_repr (PInt i) = str_int i"
| "py_repr (PFloat x) = f64_repr x"
| "py_repr (PStr s) = repr_str s"
| "py_repr (PList vs) = ''['' @ join '', '' (map py_repr vs) @ '']''"
| "py_repr (PDict d) =
     ''{'' @ join '', '' (map (\<lambda>kv. repr_str (fst kv) @ '': '' @ py_repr (snd kv)) d) @ ''}''"

text \<open>\<open>str(v)\<close>, also the \<open>%s\<close> conversion.\<close>

definition py_str :: "pyval \<Rightarrow> string" where
  "py_str v = (case v of PStr s \<Rightarrow> s | _ \<Rightarrow> py_repr v)"

text \<open>Truth value.\<close>

definition py_true :: "pyval \<Rightarrow> bool" where
  "py_true v =
     (case v of PNone \<Rightarrow> False | PBool b \<Rightarrow> b | PInt i \<Rightarrow> i \<noteq> 0
      | PFloat x \<Rightarrow> (case x of Fin s m e \<Rightarrow> m \<noteq> 0 | _ \<Rightarrow> True)
      | PStr s \<Rightarrow> s \<noteq> [] | PList vs \<Rightarrow> vs \<noteq> [] | PDict d \<Rightarrow> d \<noteq> [])"

text \<open>
  Equality: booleans are the integers 0 and 1, an integer equals the double of
  the same value, dictionaries compare without regard to order.
\<close>

definition num_of :: "pyval \<Rightarrow> (int \<times> int) option" where
  "num_of v =
     (case v of PBool b \<Rightarrow> Some (of_bool b, 1) | PInt i \<Rightarrow> Some (i, 1)
      | PFloat (Fin s m e) \<Rightarrow> Some ((if s then -1 else 1) * f64_num m e, f64_den e)
      | _ \<Rightarrow> None)"

definition num_eq :: "pyval \<Rightarrow> pyval \<Rightarrow> bool" where
  "num_eq v w =
     (case (num_of v, num_of w) of
        (Some (a, b), Some (c, d)) \<Rightarrow> a * d = c * b
      | _ \<Rightarrow> (\<exists>s\<in>{True, False}. v = PFloat (Inf s) \<and> w = PFloat (Inf s)))"

function py_eq :: "pyval \<Rightarrow> pyval \<Rightarrow> bool" where
  "py_eq PNone w = (case w of PNone \<Rightarrow> True | _ \<Rightarrow> False)"
| "py_eq (PBool b) w = num_eq (PBool b) w"
| "py_eq (PInt i) w = num_eq (PInt i) w"
| "py_eq (PFloat x) w = num_eq (PFloat x) w"
| "py_eq (PStr s) w = (case w of PStr t \<Rightarrow> s = t | _ \<Rightarrow> False)"
| "py_eq (PList vs) w =
     (case w of
        PList ws \<Rightarrow> length vs = length ws \<and> list_all (\<lambda>p. py_eq (fst p) (snd p)) (zip vs ws)
      | _ \<Rightarrow> False)"
| "py_eq (PDict d) w =
     (case w of
        PDict e \<Rightarrow>
          length d = length e \<and>
          list_all (\<lambda>kv. case map_of e (fst kv) of None \<Rightarrow> False | Some u \<Rightarrow> py_eq (snd kv) u) d
      | _ \<Rightarrow> False)"
  by pat_completeness auto
termination
proof (relation "measure (\<lambda>p. size (fst p))", goal_cases)
  case (2 vs w ws p)
  then have "fst p \<in> set vs" by (metis prod.collapse set_zip_leftD)
  then have "size (fst p) < Suc (size_list size vs)"
    by (simp add: size_list_estimation' le_imp_less_Suc)
  then show ?case by simp
next
  case (3 d w e kv u)
  have "size (snd kv) \<le> size_list (size_prod (\<lambda>x. 0) size) d"
    using 3 by (intro size_list_estimation' [of kv]) (auto simp: size_prod_simp split: prod.split)
  then show ?case by simp
qed simp

section \<open>Dictionary access\<close>

definition dget :: "pydict \<Rightarrow> string \<Rightarrow> pyval" where
  "dget d k = dict_get d k PNone"

text \<open>Lookups used in formats: \<open>row["k"]\<close> fails on a missing key.\<close>

definition ditem :: "pydict \<Rightarrow> string \<Rightarrow> pyval option" where
  "ditem d k = map_of d k"

section \<open>Types of values\<close>

text \<open>\<open>TText\<close> is the type of non-empty strings; a dictionary has its keys in order.\<close>

datatype pytype =
    TStr
  | TText
  | TInt
  | TNone
  | TList pytype
  | TEither pytype pytype
  | TDict "(string \<times> pytype) list"

fun has_type :: "pytype \<Rightarrow> pyval \<Rightarrow> bool"
  and fields_typed :: "(string \<times> pytype) list \<Rightarrow> pydict \<Rightarrow> bool" where
  "has_type TStr v = (case v of PStr s \<Rightarrow> True | _ \<Rightarrow> False)"
| "has_type TText v = (case v of PStr s \<Rightarrow> s \<noteq> [] | _ \<Rightarrow> False)"
| "has_type TInt v = (case v of PInt i \<Rightarrow> True | _ \<Rightarrow> False)"
| "has_type TNone v = (case v of PNone \<Rightarrow> True | _ \<Rightarrow> False)"
| "has_type (TList t) v = (case v of PList xs \<Rightarrow> list_all (has_type t) xs | _ \<Rightarrow> False)"
| "has_type (TEither t u) v = (has_type t v \<or> has_type u v)"
| "has_type (TDict fs) v = (case v of PDict d \<Rightarrow> fields_typed fs d | _ \<Rightarrow> False)"
| "fields_typed [] d = (d = [])"
| "fields_typed (f # fs) d =
     (case d of [] \<Rightarrow> False | kv # d' \<Rightarrow> fst kv = fst f \<and> has_type (snd f) (snd kv) \<and> fields_typed fs d')"

section \<open>Facts\<close>

lemma div_rne_exact: "b > 0 \<Longrightarrow> b dvd a \<Longrightarrow> div_rne a b = a div b"
  by (auto simp: div_rne_def Let_def)

lemma div_rne_close: "b > 0 \<Longrightarrow> 2 * \<bar>div_rne a b * b - a\<bar> \<le> b"
proof -
  assume b: "b > 0"
  define q r where "q = a div b" and "r = a mod b"
  have a: "a = q * b + r"
    unfolding q_def r_def by simp
  have r: "r < b" using b by (simp add: r_def)
  have "div_rne a b = q \<and> 2 * r \<le> b \<or> div_rne a b = q + 1 \<and> b \<le> 2 * r"
    by (auto simp: div_rne_def Let_def q_def r_def)
  moreover have "0 \<le> r" using b by (simp add: r_def)
  ultimately show ?thesis using a r by (auto simp: algebra_simps)
qed

lemma length_zero_pad [simp]: "length (zero_pad n s) = max n (length s)"
  by (simp add: zero_pad_def)

end
