(* ===== verification/Json.thy ===== *)
theory Json
  imports PyVal
begin

text \<open>
  The \<open>json\<close> module as the scripts use it: \<open>dumps\<close> with and without
  \<open>indent\<close> and \<open>sort_keys\<close>, and \<open>loads\<close>.  Texts whose \<open>\u\<close> escapes go
  beyond U+00FF are outside the model (\<open>loads\<close> gives \<open>None\<close>, as it does for
  malformed text).
\<close>

abbreviation bslash :: char where
  "bslash \<equiv> CHR 0x5C"

abbreviation quot :: char where
  "quot \<equiv> CHR 0x22"

section \<open>dumps\<close>

definition enc_char :: "char \<Rightarrow> string" where
  "enc_char c =
     (if c = quot \<or> c = bslash then [bslash, c]
      else if c = nl then [bslash, CHR ''n'']
      else if c = cr then [bslash, CHR ''r'']
      else if c = tab then [bslash, CHR ''t'']
      else if c = CHR 0x0C then [bslash, CHR ''f'']
      else if c = CHR 0x08 then [bslash, CHR ''b'']
      else if code c < 32 \<or> 126 < code c then bslash # CHR ''u'' # hex4 (code c)
      else [c])"

definition enc_str :: "string \<Rightarrow> string" where
  "enc_str s = quot # concat (map enc_char s) @ [quot]"

definition enc_float :: "f64 \<Rightarrow> string" where
  "enc_float x =
     (case x of Fin s m e \<Rightarrow> f64_repr x
      | Inf s \<Rightarrow> (if s then ''-Infinity'' else ''Infinity'') | NaN \<Rightarrow> ''NaN'')"

definition brk :: "nat option \<Rightarrow> nat \<Rightarrow> string" where
  "brk i l = (case i of None \<Rightarrow> [] | Some k \<Rightarrow> nl # replicate (k * l) (CHR '' ''))"

definition item_sep :: "nat option \<Rightarrow> nat \<Rightarrow> string" where
  "item_sep i l = (case i of None \<Rightarrow> '', '' | Some k \<Rightarrow> CHR '','' # brk i l)"

fun enc :: "nat option \<Rightarrow> nat \<Rightarrow> pyval \<Rightarrow> string" where
  "enc i l PNone = ''null''"
| "enc i l (PBool b) = (if b then ''true'' else ''false'')"
| "enc i l (PInt n) = str_int n"
| "enc i l (PFloat x) = enc_float x"
| "enc i l (PStr s) = enc_str s"
| "enc i l (PList vs) =
     (if vs = [] then ''[]''
      else CHR ''['' # brk i (Suc l) @ join (item_sep i (Suc l)) (map (enc i (Suc l)) vs)
             @ brk i l @ '']'')"
| "enc i l (PDict d) =
     (if d = [] then ''{}''
      else CHR ''{'' # brk i (Suc l)
             @ join (item_sep i (Suc l))
                 (map (\<lambda>kv. enc_str (fst kv) @ '': '' @ enc i (Suc l) (snd kv)) d)
             @ brk i l @ ''}'')"

fun sort_keys :: "pyval \<Rightarrow> pyval" where
  "sort_keys (PList vs) = PList (map sort_keys vs)"
| "sort_keys (PDict d) = PDict (sort_key fst (map (\<lambda>kv. (fst kv, sort_keys (snd kv))) d))"
| "sort_keys v = v"

definition json_dumps :: "pyval \<Rightarrow> string" where
  "json_dumps v = enc None 0 v"

definition json_dumps_sorted :: "pyval \<Rightarrow> string" where
  "json_dumps_sorted v = enc None 0 (sort_keys v)"

definition json_dumps_indent :: "nat \<Rightarrow> pyval \<Rightarrow> string" where
  "json_dumps_indent k v = enc (Some k) 0 v"

definition json_dumps_indent_sorted :: "nat \<Rightarrow> pyval \<Rightarrow> string" where
  "json_dumps_indent_sorted k v = enc (Some k) 0 (sort_keys v)"

section \<open>loads\<close>

definition js_ws :: "char \<Rightarrow> bool" where
  "js_ws c = (c = CHR '' '' \<or> c = tab \<or> c = nl \<or> c = cr)"

definition skip_ws :: "string \<Rightarrow> string" where
  "skip_ws s = dropWhile js_ws s"

definition hex_val :: "char \<Rightarrow> nat option" where
  "hex_val c =
     (let n = code c in
      if 48 \<le> n \<and> n \<le> 57 then Some (n - 48)
      else if 97 \<le> n \<and> n \<le> 102 then Some (n - 87)
      else if 65 \<le> n \<and> n \<le> 70 then Some (n - 55)
      else None)"

definition js_esc :: "string \<Rightarrow> (char \<times> string) option" where
  "js_esc s =
     (case s of
        [] \<Rightarrow> None
      | e # r \<Rightarrow>
          if e = quot \<or> e = bslash \<or> e = CHR ''/'' then Some (e, r)
          else if e = CHR ''n'' then Some (nl, r)
          else if e = CHR ''r'' then Some (cr, r)
          else if e = CHR ''t'' then Some (tab, r)
          else if e = CHR ''f'' then Some (CHR 0x0C, r)
          else if e = CHR ''b'' then Some (CHR 0x08, r)
          else if e = CHR ''u'' then
            (case r of
               a # b # c # d # r' \<Rightarrow>
                 (case (hex_val a, hex_val b, hex_val c, hex_val d) of
                    (Some 0, Some 0, Some h, Some k) \<Rightarrow> Some (char_of (16 * h + k), r')
                  | _ \<Rightarrow> None)
             | _ \<Rightarrow> None)
          else None)"

lemma js_esc_shorter: "js_esc s = Some (c, r) \<Longrightarrow> length r < length s"
  by (auto simp: js_esc_def split: list.splits option.splits if_splits nat.splits)

function js_str :: "string \<Rightarrow> (string \<times> string) option" where
  "js_str [] = None"
| "js_str (c # s) =
     (if c = quot then Some ([], s)
      else if c = bslash then
        (case js_esc s of None \<Rightarrow> None
         | Some (e, r) \<Rightarrow> map_option (\<lambda>(t, r'). (e # t, r')) (js_str r))
      else if code c < 32 then None
      else map_option (\<lambda>(t, r). (c # t, r)) (js_str s))"
  by pat_completeness auto
termination
  by (relation "measure length") (auto dest: js_esc_shorter)

definition js_frac :: "string \<Rightarrow> string \<times> string" where
  "js_frac s =
     (case s of
        c # r \<Rightarrow> if c = CHR ''.'' \<and> takeWhile is_digit r \<noteq> []
                 then (takeWhile is_digit r, dropWhile is_digit r) else ([], s)
      | [] \<Rightarrow> ([], []))"

definition js_exp :: "string \<Rightarrow> int option \<times> string" where
  "js_exp s =
     (case s of
        c # r \<Rightarrow>
          if c = CHR ''e'' \<or> c = CHR ''E'' then
            (let neg = (r \<noteq> [] \<and> hd r = CHR ''-'');
                 r' = (if r \<noteq> [] \<and> (hd r = CHR ''-'' \<or> hd r = CHR ''+'') then tl r else r);
                 ds = takeWhile is_digit r'
             in if ds = [] then (None, s)
                else (map_option (\<lambda>n. if neg then - n else n) (int_digits False 0 ds),
                      dropWhile is_digit r'))
          else (None, s)
      | [] \<Rightarrow> (None, []))"

definition js_int :: "string \<Rightarrow> string" where
  "js_int s = (if s \<noteq> [] \<and> hd s = CHR ''0'' then ''0'' else takeWhile is_digit s)"

definition js_num :: "string \<Rightarrow> (pyval \<times> string) option" where
  "js_num s =
     (let neg = (s \<noteq> [] \<and> hd s = CHR ''-'');
          s1 = (if neg then tl s else s);
          ds = js_int s1;
          s2 = drop (length ds) s1
      in if ds = [] then None
         else (let (fr, s3) = js_frac s2; (ex, s4) = js_exp s3 in
               if fr = [] \<and> ex = None
               then map_option (\<lambda>n. (PInt (if neg then - n else n), s2)) (int_digits False 0 ds)
               else map_option (\<lambda>n. (PFloat (f64_of_dec neg n
                        ((case ex of None \<Rightarrow> 0 | Some x \<Rightarrow> x) - int (length fr))), s4))
                      (int_digits False 0 (ds @ fr))))"

definition js_word :: "string \<Rightarrow> (pyval \<times> string) option" where
  "js_word s =
     (if starts_with s ''null'' then Some (PNone, drop 4 s)
      else if starts_with s ''true'' then Some (PBool True, drop 4 s)
      else if starts_with s ''false'' then Some (PBool False, drop 5 s)
      else if starts_with s ''NaN'' then Some (PFloat NaN, drop 3 s)
      else if starts_with s ''Infinity'' then Some (PFloat (Inf False), drop 8 s)
      else if starts_with s ''-Infinity'' then Some (PFloat (Inf True), drop 9 s)
      else js_num s)"

text \<open>
  The fuel bounds the number of nested and repeated calls; \<open>2 * length s + 2\<close>
  is enough for any text, since every value and every separator consumes a
  character (\<open>js_val_enc\<close> below shows it for printed values).
\<close>

fun js_val :: "nat \<Rightarrow> string \<Rightarrow> (pyval \<times> string) option"
  and js_elems :: "nat \<Rightarrow> string \<Rightarrow> (pyval list \<times> string) option"
  and js_members :: "nat \<Rightarrow> pydict \<Rightarrow> string \<Rightarrow> (pydict \<times> string) option"
where
  "js_val 0 s = None"
| "js_val (Suc n) s =
     (case s of
        [] \<Rightarrow> None
      | c # r \<Rightarrow>
          if c = quot then map_option (\<lambda>(t, r'). (PStr t, r')) (js_str r)
          else if c = CHR ''{'' then
            (case skip_ws r of
               [] \<Rightarrow> None
             | d # r' \<Rightarrow> if d = CHR ''}'' then Some (PDict [], r')
                         else map_option (\<lambda>(m, r''). (PDict m, r'')) (js_members n [] (d # r')))
          else if c = CHR ''['' then
            (case skip_ws r of
               [] \<Rightarrow> None
             | d # r' \<Rightarrow> if d = CHR '']'' then Some (PList [], r')
                         else map_option (\<lambda>(m, r''). (PList m, r'')) (js_elems n (d # r')))
          else js_word s)"
| "js_elems 0 s = None"
| "js_elems (Suc n) s =
     (case js_val n s of
        None \<Rightarrow> None
      | Some (v, r) \<Rightarrow>
          (case skip_ws r of
             [] \<Rightarrow> None
           | d # r' \<Rightarrow>
               if d = CHR '','' then map_option (\<lambda>(vs, r''). (v # vs, r'')) (js_elems n (skip_ws r'))
               else if d = CHR '']'' then Some ([v], r')
               else None))"
| "js_members 0 acc s = None"
| "js_members (Suc n) acc s =
     (case s of
        [] \<Rightarrow> None
      | c # r \<Rightarrow>
          if c \<noteq> quot then None
          else (case js_str r of
             None \<Rightarrow> None
           | Some (k, r1) \<Rightarrow>
               (case skip_ws r1 of
                  [] \<Rightarrow> None
                | d # r2 \<Rightarrow>
                    if d \<noteq> CHR '':'' then None
                    else (case js_val n (skip_ws r2) of
                       None \<Rightarrow> None
                     | Some (v, r3) \<Rightarrow>
                         (case skip_ws r3 of
                            [] \<Rightarrow> None
                          | f # r4 \<Rightarrow>
                              if f = CHR '','' then js_members n (dict_set acc k v) (skip_ws r4)
                              else if f = CHR ''}'' then Some (dict_set acc k v, r4)
                              else None)))))"

definition json_loads :: "string \<Rightarrow> pyval option" where
  "json_loads s =
     (case js_val (2 * length s + 2) (skip_ws s) of
        None \<Rightarrow> None
      | Some (v, r) \<Rightarrow> if skip_ws r = [] then Some v else None)"

section \<open>loads after dumps\<close>

lemma hex_val_digit: "n < 16 \<Longrightarrow> hex_val (hex_digit n) = Some n"
  apply (subgoal_tac "n \<in> set [0..<16]")
   apply (simp add: upt_rec)
   apply (elim disjE; simp add: hex_val_def hex_digit_def)
  apply simp
  done

lemma code_less: "code c < 256"
  using of_char_of [of "code c"] by (cases c) (simp add: of_char_def)

lemma js_esc_hex: "js_esc (CHR ''u'' # hex4 (code c) @ r) = Some (c, r)"
proof -
  have "code c < 256" by (rule code_less)
  then have d: "code c div 16 < 16" "code c mod 16 < 16" "code c div 256 = 0" "code c mod 256 = code c"
    by (auto simp: less_mult_imp_div_less)
  have m: "16 * (code c div 16) + code c mod 16 = code c" by simp
  show ?thesis
    using d hex_val_digit [of "code c div 16"] hex_val_digit [of "code c mod 16"] hex_val_digit [of 0]
    by (simp add: js_esc_def hex4_def hex2_def m Let_def)
qed

lemma js_str_escape: "js_str (bslash # s) =
    (case js_esc s of None \<Rightarrow> None | Some (e, r) \<Rightarrow> map_option (\<lambda>(t, r'). (e # t, r')) (js_str r))"
  by simp

lemma js_str_enc_char: "js_str (enc_char c @ r) = map_option (\<lambda>(t, r'). (c # t, r')) (js_str r)"
proof -
  consider "c = quot \<or> c = bslash" | "c = nl" | "c = cr" | "c = tab" | "c = CHR 0x0C" | "c = CHR 0x08"
    | "c \<noteq> quot" "c \<noteq> bslash" "code c < 32 \<or> 126 < code c" "enc_char c = bslash # CHR ''u'' # hex4 (code c)"
    | "c \<noteq> quot" "c \<noteq> bslash" "\<not> code c < 32" "enc_char c = [c]"
    unfolding enc_char_def by argo
  then show ?thesis
  proof cases
    case 7
    then show ?thesis by (simp only: append_Cons js_str_escape js_esc_hex option.case prod.case)
  qed (auto simp: enc_char_def js_esc_def)
qed

lemma js_str_enc: "js_str (concat (map enc_char s) @ quot # r) = Some (s, r)"
  by (induction s) (simp_all add: js_str_enc_char)

definition stops :: "string \<Rightarrow> bool" where
  "stops r = (case r of [] \<Rightarrow> True
     | c # r' \<Rightarrow> \<not> is_digit c \<and> c \<noteq> CHR ''.'' \<and> c \<noteq> CHR ''e'' \<and> c \<noteq> CHR ''E'')"

lemma takeWhile_stop: "list_all P xs \<Longrightarrow> (case r of [] \<Rightarrow> True | c # r' \<Rightarrow> \<not> P c) \<Longrightarrow> takeWhile P (xs @ r) = xs"
  by (induction xs) (auto split: list.splits)

lemma stops_frac: "stops r \<Longrightarrow> js_frac r = ([], r)" "stops r \<Longrightarrow> js_exp r = (None, r)"
  by (auto simp: stops_def js_frac_def js_exp_def split: list.splits)

lemma str_nat_zero: "hd (str_nat n) = CHR ''0'' \<Longrightarrow> n = 0"
proof (induction n rule: str_nat.induct)
  case (1 n)
  show ?case
  proof (cases "n < 10")
    case True
    then have "code (digit_char n) = 48" using "1.prems" by (subst (asm) str_nat.simps) simp
    then show ?thesis using True by (simp add: code_digit_char)
  next
    case False
    then have "hd (str_nat (n div 10)) = CHR ''0''" using "1.prems" by (subst (asm) (1) str_nat.simps) simp
    then show ?thesis using 1(1) False by simp
  qed
qed

lemma js_int_nat:
  assumes "stops r" shows "js_int (str_nat n @ r) = str_nat n"
proof -
  have "takeWhile is_digit (str_nat n @ r) = str_nat n"
    using assms by (intro takeWhile_stop) (auto simp: list_all_iff str_nat_digits stops_def split: list.splits)
  moreover have "str_nat n = ''0''" if "hd (str_nat n) = CHR ''0''"
    using str_nat_zero [OF that] by (simp add: str_nat.simps [of 0] digit_char_def) code_simp
  ultimately show ?thesis by (auto simp: js_int_def)
qed

lemma hd_str_nat: "is_digit (hd (str_nat n))"
  by (rule str_nat_digits [of _ n]) simp

lemma js_num_nat:
  assumes "stops r"
  shows "js_num (str_nat n @ r) = Some (PInt (int n), r)"
    and "js_num (CHR ''-'' # str_nat n @ r) = Some (PInt (- int n), r)"
proof -
  have "hd (str_nat n) \<noteq> CHR ''-''" using hd_str_nat [of n] by (auto simp: is_digit_def)
  then show "js_num (str_nat n @ r) = Some (PInt (int n), r)"
    using assms by (simp add: js_num_def Let_def stops_frac js_int_nat int_digits_str_nat)
  show "js_num (CHR ''-'' # str_nat n @ r) = Some (PInt (- int n), r)"
    using assms by (simp add: js_num_def Let_def stops_frac js_int_nat int_digits_str_nat)
qed

lemma js_word_int:
  assumes "stops r" shows "js_word (str_int i @ r) = Some (PInt i, r)"
proof -
  have nd: "c \<in> set (str_nat k) \<Longrightarrow> c \<noteq> CHR ''n'' \<and> c \<noteq> CHR ''t'' \<and> c \<noteq> CHR ''f'' \<and> c \<noteq> CHR ''N'' \<and> c \<noteq> CHR ''I'' \<and> c \<noteq> CHR ''-''" for c k
    using str_nat_digits [of c k] by (auto simp: is_digit_def)
  obtain c t where ct: "str_nat (nat \<bar>i\<bar>) = c # t" by (cases "str_nat (nat \<bar>i\<bar>)") auto
  with nd [of c "nat \<bar>i\<bar>"] js_num_nat [OF assms, of "nat \<bar>i\<bar>"] show ?thesis
    by (cases "i < 0") (auto simp: js_word_def str_int_def)
qed

lemma skip_ws_append: "list_all js_ws w \<Longrightarrow> skip_ws (w @ r) = skip_ws r"
  by (induction w) (auto simp: skip_ws_def)

lemma skip_ws_Cons: "\<not> js_ws c \<Longrightarrow> skip_ws (c # r) = c # r"
  by (simp add: skip_ws_def)

lemma brk_ws: "list_all js_ws (brk i l)"
  by (auto simp: brk_def js_ws_def list_all_iff split: option.split)

lemma item_sep_ws: "\<exists>w. item_sep i l = CHR '','' # w \<and> list_all js_ws w"
  using brk_ws [of i l] by (auto simp: item_sep_def js_ws_def split: option.split)

lemmas skip_ws_simps = skip_ws_append [OF brk_ws] skip_ws_Cons

fun json_ok :: "pyval \<Rightarrow> bool" where
  "json_ok (PFloat x) = False"
| "json_ok (PList vs) = list_all json_ok vs"
| "json_ok (PDict d) = (distinct (map fst d) \<and> list_all (\<lambda>kv. json_ok (snd kv)) d)"
| "json_ok v = True"

lemma enc_not_ws: "json_ok v \<Longrightarrow> \<exists>c t. enc i l v = c # t \<and> \<not> js_ws c \<and> c \<noteq> CHR '']''"
proof (cases v)
  case (PInt k)
  have "is_digit c \<Longrightarrow> \<not> js_ws c \<and> c \<noteq> CHR '']''" for c by (auto simp: is_digit_def js_ws_def)
  with hd_str_nat [of "nat k"] show ?thesis
    using PInt by (cases "str_nat (nat k)") (auto simp: str_int_def js_ws_def)
qed (auto simp: enc_str_def js_ws_def)

lemma skip_ws_enc: "json_ok v \<Longrightarrow> skip_ws (enc i l v @ r) = enc i l v @ r"
  using enc_not_ws [of v i l] by (auto simp: skip_ws_Cons)

abbreviation js_inverse :: "nat option \<Rightarrow> nat \<Rightarrow> pyval \<Rightarrow> bool" where
  "js_inverse i l v \<equiv>
     \<forall>n r. 2 * length (enc i l v) \<le> n \<longrightarrow> stops r \<longrightarrow> js_val n (enc i l v @ r) = Some (v, r)"

lemma stops_sep [simp]: "stops (item_sep i l @ r)"
  using item_sep_ws [of i l] by (auto simp: stops_def is_digit_def)

lemma stops_close [simp]: "c = CHR '']'' \<or> c = CHR ''}'' \<Longrightarrow> stops (brk i l @ c # r)"
  by (auto simp: stops_def is_digit_def brk_def split: option.split)

lemma join_Cons2: "xs \<noteq> [] \<Longrightarrow> join sep (x # xs) = x @ sep @ join sep xs"
  by (cases xs) simp_all

lemma js_elems_enc:
  assumes "vs \<noteq> []" "\<forall>v\<in>set vs. json_ok v \<and> js_inverse i k v"
    "2 * length (join (item_sep i k) (map (enc i k) vs)) + 3 \<le> n"
  shows "js_elems n (join (item_sep i k) (map (enc i k) vs) @ brk i l @ CHR '']'' # r) = Some (vs, r)"
  using assms
proof (induction vs arbitrary: n)
  case (Cons v vs)
  obtain m where m: "n = Suc m" using Cons.prems by (cases n) auto
  show ?case
  proof (cases "vs = []")
    case True
    then show ?thesis using Cons.prems m by (simp add: skip_ws_simps js_ws_def)
  next
    case False
    obtain w where w: "item_sep i k = CHR '','' # w" "list_all js_ws w" using item_sep_ws by blast
    let ?rest = "join (item_sep i k) (map (enc i k) vs) @ brk i l @ CHR '']'' # r"
    have tx: "join (item_sep i k) (map (enc i k) (v # vs)) @ brk i l @ CHR '']'' # r
      = enc i k v @ item_sep i k @ ?rest"
      using False by (simp add: join_Cons2)
    have v: "js_val m (enc i k v @ item_sep i k @ ?rest) = Some (v, item_sep i k @ ?rest)"
      using Cons.prems m False by (simp add: join_Cons2)
    obtain u us where us: "vs = u # us" using False by (cases vs) auto
    then have "skip_ws ?rest = ?rest"
      using Cons.prems by (cases us) (simp_all add: skip_ws_enc)
    moreover have "js_elems m ?rest = Some (vs, r)"
      using Cons.prems m False w by (intro Cons.IH) (auto simp: join_Cons2)
    ultimately show ?thesis
      unfolding tx m js_elems.simps v using w by (simp add: skip_ws_append skip_ws_Cons js_ws_def)
  qed
qed simp

lemma js_members_enc:
  assumes "d \<noteq> []" "\<forall>kv\<in>set d. json_ok (snd kv) \<and> js_inverse i k (snd kv)"
    "distinct (map fst (acc @ d))"
    "2 * length (join (item_sep i k) (map (\<lambda>kv. enc_str (fst kv) @ '': '' @ enc i k (snd kv)) d)) \<le> n"
  shows "js_members n acc (join (item_sep i k)
      (map (\<lambda>kv. enc_str (fst kv) @ '': '' @ enc i k (snd kv)) d) @ brk i l @ CHR ''}'' # r) = Some (acc @ d, r)"
  using assms
proof (induction d arbitrary: n acc)
  case (Cons kv d)
  let ?e = "\<lambda>kv. enc_str (fst kv) @ '': '' @ enc i k (snd kv)"
  obtain m where m: "n = Suc m" using Cons.prems by (cases n) (auto simp: enc_str_def join_Cons2 split: if_splits; cases d; simp)+
  have new: "dict_set acc (fst kv) (snd kv) = acc @ [kv]"
    using Cons.prems(3) by (simp add: dict_set_new)
  have key: "js_str (concat (map enc_char (fst kv)) @ quot # x) = Some (fst kv, x)" for x
    by (rule js_str_enc)
  have ok: "skip_ws (enc i k (snd kv) @ x) = enc i k (snd kv) @ x" for x
    using Cons.prems(2) by (simp add: skip_ws_enc)
  have colon: "skip_ws ('': '' @ x) = '': '' @ x" "skip_ws (CHR '' '' # x) = skip_ws x" for x
    by (simp_all add: skip_ws_def js_ws_def)
  show ?case
  proof (cases "d = []")
    case True
    have v: "js_val m (enc i k (snd kv) @ brk i l @ CHR ''}'' # r) = Some (snd kv, brk i l @ CHR ''}'' # r)"
      using Cons.prems m True by (simp add: enc_str_def)
    show ?thesis
      using True m new by (simp add: enc_str_def key colon ok v skip_ws_simps js_ws_def)
  next
    case False
    obtain w where w: "item_sep i k = CHR '','' # w" "list_all js_ws w" using item_sep_ws by blast
    let ?rest = "join (item_sep i k) (map ?e d) @ brk i l @ CHR ''}'' # r"
    have v: "js_val m (enc i k (snd kv) @ CHR '','' # x) = Some (snd kv, CHR '','' # x)" for x
      using Cons.prems m False by (simp add: join_Cons2 enc_str_def stops_def is_digit_def)
    obtain u us where us: "d = u # us" using False by (cases d) auto
    then have "skip_ws ?rest = ?rest"
      by (cases us) (simp_all add: enc_str_def skip_ws_Cons js_ws_def)
    moreover have "js_members m (acc @ [kv]) ?rest = Some ((acc @ [kv]) @ d, r)"
      using Cons.prems m False by (intro Cons.IH) (auto simp: join_Cons2)
    ultimately show ?thesis
      using w False m new
      by (simp add: join_Cons2 enc_str_def key colon ok v skip_ws_append skip_ws_Cons js_ws_def)
  qed
qed simp

lemma js_word_consts:
  "js_word (''null'' @ r) = Some (PNone, r)"
  "js_word (''true'' @ r) = Some (PBool True, r)"
  "js_word (''false'' @ r) = Some (PBool False, r)"
  by (simp_all add: js_word_def)


lemma js_val_list:
  "d \<noteq> CHR '']'' \<Longrightarrow> \<not> js_ws d \<Longrightarrow>
     js_val (Suc n) (CHR ''['' # brk i l @ d # t)
       = map_option (\<lambda>(m, r''). (PList m, r'')) (js_elems n (d # t))"
  by (simp add: skip_ws_simps)

lemma js_val_dict:
  "js_val (Suc n) (CHR ''{'' # brk i l @ quot # t)
       = map_option (\<lambda>(m, r''). (PDict m, r'')) (js_members n [] (quot # t))"
  by (simp add: skip_ws_simps js_ws_def)

lemma js_val_word: "c \<noteq> quot \<Longrightarrow> c \<noteq> CHR ''{'' \<Longrightarrow> c \<noteq> CHR ''['' \<Longrightarrow> js_val (Suc n) (c # s) = js_word (c # s)"
  by simp

lemma numeral_le_Suc: "numeral k \<le> n \<Longrightarrow> \<exists>m. n = Suc m"
  by (cases n) simp_all

lemma js_val_enc: "json_ok v \<Longrightarrow> js_inverse i l v"
proof (induction v arbitrary: l)
  case (PInt k)
  obtain c t where ct: "str_int k = c # t" "is_digit c \<or> c = CHR ''-''"
    using hd_str_nat [of "nat k"] by (cases "str_nat (nat k)"; cases "k < 0") (auto simp: str_int_def)
  have "c \<noteq> quot" "c \<noteq> CHR ''{''" "c \<noteq> CHR ''[''" using ct by (auto simp: is_digit_def)
  then show ?case
    using ct js_word_int [of _ k] by (auto simp: Suc_le_D dest!: Suc_le_D)
next
  case (PList vs)
  show ?case
  proof (cases "vs = []")
    case False
    have e: "\<forall>v\<in>set vs. json_ok v \<and> js_inverse i (Suc l) v"
      using PList by (auto simp: list_all_iff)
    obtain u us where us: "vs = u # us" using False by (cases vs) auto
    obtain c t where "enc i (Suc l) u = c # t" "\<not> js_ws c" "c \<noteq> CHR '']''"
      using enc_not_ws [of u i "Suc l"] e us by auto
    then obtain t' where t': "join (item_sep i (Suc l)) (map (enc i (Suc l)) vs) = c # t'"
      using us by (cases us) auto
    show ?thesis
    proof (intro allI impI)
      fix n r
      assume n: "2 * length (enc i l (PList vs)) \<le> n"
      then obtain m where m: "n = Suc m" using False by (cases n) auto
      have "js_elems m (c # t' @ brk i l @ CHR '']'' # r) = Some (vs, r)"
        using js_elems_enc [of vs i "Suc l" m l r] False e n m by (simp add: t')
      then show "js_val n (enc i l (PList vs) @ r) = Some (PList vs, r)"
        using js_val_list [of c m i "Suc l" "t' @ brk i l @ CHR '']'' # r"] False m
          \<open>\<not> js_ws c\<close> \<open>c \<noteq> CHR '']''\<close> by (simp add: t' del: js_val.simps)
    qed
  qed (auto simp: skip_ws_def js_ws_def Suc_le_eq dest!: less_imp_Suc_add numeral_le_Suc)
next
  case (PDict d)
  show ?case
  proof (cases "d = []")
    case False
    let ?j = "join (item_sep i (Suc l)) (map (\<lambda>kv. enc_str (fst kv) @ '': '' @ enc i (Suc l) (snd kv)) d)"
    have e: "\<forall>kv\<in>set d. json_ok (snd kv) \<and> js_inverse i (Suc l) (snd kv)"
      using PDict by (force simp: list_all_iff)
    obtain t' where t': "?j = quot # t'"
      using False by (cases d; cases "tl d") (auto simp: enc_str_def)
    show ?thesis
    proof (intro allI impI)
      fix n r
      assume n: "2 * length (enc i l (PDict d)) \<le> n"
      then obtain m where m: "n = Suc m" using False by (cases n) auto
      have "js_members m [] (quot # t' @ brk i l @ CHR ''}'' # r) = Some (d, r)"
        using js_members_enc [of d i "Suc l" "[]" m l r] False e n m PDict.prems by (simp add: t' [simplified])
      then show "js_val n (enc i l (PDict d) @ r) = Some (PDict d, r)"
        using js_val_dict [of m i "Suc l" "t' @ brk i l @ CHR ''}'' # r"] False m
        by (simp add: t' [simplified] del: js_val.simps)
    qed
  qed (auto simp: skip_ws_def js_ws_def Suc_le_eq dest!: less_imp_Suc_add numeral_le_Suc)
qed (use js_word_consts js_str_enc in \<open>auto simp: enc_str_def dest!: Suc_le_D numeral_le_Suc\<close>)

lemma json_loads_enc: "json_ok v \<Longrightarrow> json_loads (enc i l v) = Some v"
proof -
  assume v: "json_ok v"
  then have "js_val (2 * length (enc i l v) + 2) (enc i l v @ []) = Some (v, [])"
    by (intro js_val_enc [rule_format]) (simp_all add: stops_def)
  then show ?thesis
    using skip_ws_enc [OF v, of i l "[]"] by (simp add: json_loads_def del: js_val.simps) (simp add: skip_ws_def)
qed

lemma json_ok_sort_keys: "json_ok v \<Longrightarrow> json_ok (sort_keys v)"
proof (induction v)
  case (PDict d)
  have "distinct (map fst (sort_key fst (map (\<lambda>kv. (fst kv, sort_keys (snd kv))) d)))"
    using PDict.prems by (auto simp: distinct_map inj_on_def)
  then show ?case using PDict by (force simp: list_all_iff)
qed (auto simp: list_all_iff)

theorem loads_dumps:
  assumes "json_ok v"
  shows "json_loads (json_dumps v) = Some v"
    and "json_loads (json_dumps_indent k v) = Some v"
    and "json_loads (json_dumps_sorted v) = Some (sort_keys v)"
    and "json_loads (json_dumps_indent_sorted k v) = Some (sort_keys v)"
  using assms json_ok_sort_keys [OF assms]
  by (simp_all add: json_dumps_def json_dumps_indent_def json_dumps_sorted_def
      json_dumps_indent_sorted_def json_loads_enc)
end
