(* ===== verification/Shell_Words.thy ===== *)
theory Shell_Words
  imports PyString
begin

text \<open>
  \<open>shlex.quote\<close> and how a POSIX shell reads the words it protects.  The
  scripts build almost every command line as a format string over
  \<open>q(value) = shlex.quote(str(value))\<close>; the lemmas here show that the shell
  gives each value back unchanged, whatever characters it holds.
\<close>

definition sh_safe :: "char \<Rightarrow> bool" where
  "sh_safe c =
     (let n = code c in
      48 \<le> n \<and> n \<le> 57 \<or> 65 \<le> n \<and> n \<le> 90 \<or> 97 \<le> n \<and> n \<le> 122
      \<or> n = 95 \<or> n = 64 \<or> n = 37 \<or> n = 43 \<or> n = 61 \<or> n = 58 \<or> n = 44 \<or> n = 46 \<or> n = 47 \<or> n = 45)"

abbreviation squote :: char where
  "squote \<equiv> CHR 0x27"

abbreviation dquote :: char where
  "dquote \<equiv> CHR 0x22"

definition sh_escape :: "string \<Rightarrow> string" where
  "sh_escape s =
     concat (map (\<lambda>c. if c = squote then [squote, dquote, squote, dquote, squote] else [c]) s)"

definition shlex_quote :: "string \<Rightarrow> string" where
  "shlex_quote s =
     (if s = [] then [squote, squote]
      else if list_all sh_safe s then s
      else squote # sh_escape s @ [squote])"

text \<open>
  The reader accepts the fragment of the shell language in which a command is a
  sequence of literal words: blanks separate words, quotes may occur anywhere
  in a word, and unquoted characters are the ones the shell never interprets.
  Everything else (expansions, redirections, operators, comments) is outside
  the fragment and gives \<open>None\<close>.
\<close>

datatype sh_mode = Blank | Word string | Sq string | Dq string

definition sh_blank :: "char \<Rightarrow> bool" where
  "sh_blank c = (c = CHR '' '' \<or> c = tab)"

fun sh_lex :: "sh_mode \<Rightarrow> string \<Rightarrow> string list option" where
  "sh_lex Blank [] = Some []"
| "sh_lex (Word w) [] = Some [w]"
| "sh_lex (Sq w) [] = None"
| "sh_lex (Dq w) [] = None"
| "sh_lex Blank (c # s) =
     (if sh_blank c then sh_lex Blank s
      else if c = squote then sh_lex (Sq []) s
      else if c = dquote then sh_lex (Dq []) s
      else if sh_safe c then sh_lex (Word [c]) s
      else None)"
| "sh_lex (Word w) (c # s) =
     (if sh_blank c then map_option ((#) w) (sh_lex Blank s)
      else if c = squote then sh_lex (Sq w) s
      else if c = dquote then sh_lex (Dq w) s
      else if sh_safe c then sh_lex (Word (w @ [c])) s
      else None)"
| "sh_lex (Sq w) (c # s) =
     (if c = squote then sh_lex (Word w) s else sh_lex (Sq (w @ [c])) s)"
| "sh_lex (Dq w) (c # s) =
     (if c = dquote then sh_lex (Word w) s
      else if c = CHR ''$'' \<or> c = CHR 0x60 \<or> c = CHR 0x5C then None
      else sh_lex (Dq (w @ [c])) s)"

definition sh_words :: "string \<Rightarrow> string list option" where
  "sh_words s = sh_lex Blank s"

lemma sh_safe_not_special:
  "sh_safe c \<Longrightarrow> \<not> sh_blank c \<and> c \<noteq> squote \<and> c \<noteq> dquote"
  by (auto simp: sh_safe_def sh_blank_def Let_def)

lemma sh_lex_Word_safe:
  "list_all sh_safe x \<Longrightarrow> sh_lex (Word w) (x @ s) = sh_lex (Word (w @ x)) s"
  by (induction x arbitrary: w) (auto dest: sh_safe_not_special)

lemma sh_lex_Blank_safe:
  "list_all sh_safe x \<Longrightarrow> x \<noteq> [] \<Longrightarrow> sh_lex Blank (x @ s) = sh_lex (Word x) s"
  by (cases x) (auto dest: sh_safe_not_special simp: sh_lex_Word_safe)

lemma sh_lex_Sq_escape:
  "sh_lex (Sq w) (sh_escape x @ s) = sh_lex (Sq (w @ x)) s"
proof (induction x arbitrary: w)
  case (Cons c x)
  have quote: "\<not> sh_blank squote" "\<not> sh_blank dquote" by (auto simp: sh_blank_def)
  from Cons [of "w @ [c]"] quote show ?case by (auto simp: sh_escape_def)
qed (simp add: sh_escape_def)

lemma sh_lex_Word_quote [simp]:
  "sh_lex (Word w) (shlex_quote x @ s) = sh_lex (Word (w @ x)) s"
  by (auto simp: shlex_quote_def sh_lex_Word_safe sh_lex_Sq_escape sh_blank_def)

lemma sh_lex_Blank_quote [simp]:
  "sh_lex Blank (shlex_quote x @ s) = sh_lex (Word x) s"
  by (auto simp: shlex_quote_def sh_lex_Blank_safe sh_lex_Sq_escape sh_blank_def)

lemmas sh_lex_quote_end [simp] =
  sh_lex_Word_quote [where s = "[]", simplified]
  sh_lex_Blank_quote [where s = "[]", simplified]

lemma sh_words_quote: "sh_words (shlex_quote x) = Some [x]"
  by (simp add: sh_words_def)

text \<open>A space after a quoted word ends it.\<close>

lemma sh_blank_space [simp]: "sh_blank (CHR '' '')"
  by (simp add: sh_blank_def)

text \<open>Quoted values joined by spaces come back as the list of values.\<close>

lemma sh_lex_quoted_list:
  "sh_lex Blank (join '' '' (map shlex_quote xs)) = Some xs"
  by (induction xs rule: induct_list012) auto

text \<open>A literal prefix made of safe characters and single blanks is read as it is written.\<close>

lemma sh_lex_literal:
  "list_all sh_safe w \<Longrightarrow> w \<noteq> [] \<Longrightarrow>
     sh_lex Blank (w @ CHR '' '' # s) = map_option ((#) w) (sh_lex Blank s)"
  by (simp add: sh_lex_Blank_safe)

text \<open>Printed integers are plain words.\<close>

lemma sh_safe_digit: "is_digit c \<Longrightarrow> sh_safe c"
  by (simp add: is_digit_def sh_safe_def)

lemma sh_safe_str_int: "list_all sh_safe (str_int i)"
  by (auto simp: str_int_def list_all_iff sh_safe_def [of "CHR ''-''"] intro: sh_safe_digit dest: str_nat_digits)

lemma str_int_not_Nil [simp]: "str_int i \<noteq> []"
  by (simp add: str_int_def)

lemma sh_lex_int [simp]:
  "sh_lex (Word w) (str_int i @ s) = sh_lex (Word (w @ str_int i)) s"
  "sh_lex Blank (str_int i @ s) = sh_lex (Word (str_int i)) s"
  by (simp_all add: sh_lex_Word_safe sh_lex_Blank_safe sh_safe_str_int)

lemmas sh_lex_int_end [simp] =
  sh_lex_int(1) [where s = "[]", simplified]
  sh_lex_int(2) [where s = "[]", simplified]

lemmas sh_eval = sh_words_def sh_safe_def sh_blank_def Let_def

end
