(* ===== verification/Prog.thy ===== *)
theory Prog
  imports Json Shell_Words
begin

text \<open>
  The effects of the scripts.  A statement or call of a script is a \<open>prog\<close>: from
  the environment and the history of what the script has done so far it gives an
  outcome (a value or the exception raised) and the longer history, or \<open>None\<close> when
  it does not return.  The environment is everything the scripts talk to: shell
  commands, child processes, the clock, the file system, HTTP servers.  It answers
  each request by an arbitrary function of the history, and the event recorded in
  the history (newest first) holds the request and the answer.  Times are integer
  nanoseconds.
\<close>

section \<open>Exceptions\<close>

datatype exn =
    RuntimeError string
  | TimeoutError string
  | CalledProcessError int string
  | TimeoutExpired string
  | SystemExit pyval
  | ValueError string
  | KeyError string
  | IndexError
  | TypeError string
  | AttributeError string
  | OSError string
  | URLError string
  | HTTPError int string
  | JSONDecodeError string
  | OverflowError string
  | ZeroDivisionError
  | KeyboardInterrupt
  | EOFError

text \<open>\<open>except Exception\<close> catches all but \<open>SystemExit\<close> and \<open>KeyboardInterrupt\<close>.\<close>

fun is_exception :: "exn \<Rightarrow> bool" where
  "is_exception (SystemExit v) = False"
| "is_exception KeyboardInterrupt = False"
| "is_exception _ = True"

text \<open>
  \<open>str(err)\<close>, as the scripts print it.  For an exception that the standard library
  raises, the message is a word and the operand at fault; its wording is not modelled,
  only that it is not empty.
\<close>

fun exn_str :: "exn \<Rightarrow> string" where
  "exn_str (RuntimeError s) = s"
| "exn_str (TimeoutError s) = s"
| "exn_str (CalledProcessError rc c) =
     ''Command '' @ c @ '' returned non-zero exit status '' @ str_int rc @ ''.''"
| "exn_str (TimeoutExpired s) = ''Command '' @ s @ '' timed out''"
| "exn_str (SystemExit v) = py_str v"
| "exn_str (ValueError s) = ''invalid value: '' @ s"
| "exn_str (KeyError s) = repr_str s"
| "exn_str IndexError = ''list index out of range''"
| "exn_str (TypeError s) = ''unsupported type: '' @ s"
| "exn_str (AttributeError s) = ''no such attribute: '' @ s"
| "exn_str (OSError s) = ''[Errno] '' @ s"
| "exn_str (URLError s) = ''<urlopen error '' @ s @ ''>''"
| "exn_str (HTTPError n s) = ''HTTP Error '' @ str_int n @ '': '' @ s"
| "exn_str (JSONDecodeError s) = ''Expecting value: '' @ s"
| "exn_str (OverflowError s) = ''int too large to convert to float: '' @ s"
| "exn_str ZeroDivisionError = ''float division by zero''"
| "exn_str KeyboardInterrupt = []"
| "exn_str EOFError = ''EOF when reading a line''"

datatype 'a outcome = Ok (ok_val: 'a) | Exc exn

section \<open>Events and the environment\<close>

datatype http_answer =
    HttpOk string
  | HttpStatus int string string
  | HttpDown string

text \<open>Reading a descriptor without blocking: text, nothing to read now, or another error.\<close>

datatype fd_answer = FdText string | FdAgain | FdFail string

datatype event =
    Shell string int string
  | ShellLimit string int "(int \<times> string) option"
  | Exec "string list" string "(int \<times> string) option"
  | ExecIn "string list" string "(string \<times> string) list" "(int \<times> string) option"
  | Spawn "string list" "int option"
  | Poll int "int option"
  | Wait int int "int option"
  | Term int
  | Kill int
  | Out string
  | Err string
  | Clock int
  | Sleep int
  | Exists string bool
  | Access string bool
  | FileSize string "int option"
  | FileTime string "int option"
  | Glob string "string list"
  | ReadText string "string option"
  | WriteText string string bool
  | Mkdir string bool
  | Unlink string
  | OpenFile string string bool
  | CloseFile string
  | Resolve string string
  | Rand int int int
  | Http string string string int http_answer
  | SignalGroup int string bool
  | CopyFile string string bool
  | AppendText string string bool
  | OpenPty "(int \<times> int) option"
  | ReadFd int fd_answer
  | WriteFd int string bool
  | CloseFd int bool
  | Input string "string outcome"

type_synonym hist = "event list"

text \<open>
  The answers.  \<open>None\<close> stands for a program that cannot be started
  (\<open>e_exec\<close>, \<open>e_spawn\<close>), a process still running (\<open>e_poll\<close>), an expired timeout
  (\<open>e_wait\<close>, \<open>e_shell_limit\<close>) and a file that cannot be read (\<open>e_read\<close>, \<open>e_size\<close>,
  \<open>e_mtime\<close>).
\<close>

record env =
  e_environ :: "string \<rightharpoonup> string"
  e_platform :: string
  e_uname :: string
  e_script :: string
  e_euid :: int
  e_shell :: "hist \<Rightarrow> string \<Rightarrow> int \<times> string"
  e_shell_limit :: "hist \<Rightarrow> string \<Rightarrow> int \<Rightarrow> (int \<times> string) option"
  e_exec :: "hist \<Rightarrow> string list \<Rightarrow> string \<Rightarrow> (int \<times> string) option"
  e_exec_in :: "hist \<Rightarrow> string list \<Rightarrow> string \<Rightarrow> (string \<times> string) list \<Rightarrow> (int \<times> string) option"
  e_spawn :: "hist \<Rightarrow> string list \<Rightarrow> int option"
  e_poll :: "hist \<Rightarrow> int \<Rightarrow> int option"
  e_wait :: "hist \<Rightarrow> int \<Rightarrow> int \<Rightarrow> int option"
  e_clock :: "hist \<Rightarrow> int"
  e_exists :: "hist \<Rightarrow> string \<Rightarrow> bool"
  e_access :: "hist \<Rightarrow> string \<Rightarrow> bool"
  e_size :: "hist \<Rightarrow> string \<Rightarrow> int option"
  e_mtime :: "hist \<Rightarrow> string \<Rightarrow> int option"
  e_glob :: "hist \<Rightarrow> string \<Rightarrow> string list"
  e_read :: "hist \<Rightarrow> string \<Rightarrow> string option"
  e_write :: "hist \<Rightarrow> string \<Rightarrow> bool"
  e_resolve :: "hist \<Rightarrow> string \<Rightarrow> string"
  e_rand :: "hist \<Rightarrow> int \<Rightarrow> int \<Rightarrow> int"
  e_http :: "hist \<Rightarrow> string \<Rightarrow> string \<Rightarrow> string \<Rightarrow> int \<Rightarrow> http_answer"
  e_pty :: "hist \<Rightarrow> (int \<times> int) option"
  e_fd_read :: "hist \<Rightarrow> int \<Rightarrow> fd_answer"
  e_fd_write :: "hist \<Rightarrow> int \<Rightarrow> bool"
  e_group :: "hist \<Rightarrow> int \<Rightarrow> string \<Rightarrow> bool"
  e_input :: "hist \<Rightarrow> string outcome"

type_synonym 'a prog = "env \<Rightarrow> hist \<Rightarrow> ('a outcome \<times> hist) option"

section \<open>Control\<close>

definition ret :: "'a \<Rightarrow> 'a prog" where
  "ret x = (\<lambda>E h. Some (Ok x, h))"

definition raise :: "exn \<Rightarrow> 'a prog" where
  "raise e = (\<lambda>E h. Some (Exc e, h))"

definition bnd :: "'a prog \<Rightarrow> ('a \<Rightarrow> 'b prog) \<Rightarrow> 'b prog" where
  "bnd m f = (\<lambda>E h.
     case m E h of
       None \<Rightarrow> None
     | Some (Exc e, h') \<Rightarrow> Some (Exc e, h')
     | Some (Ok x, h') \<Rightarrow> f x E h')"

definition thn :: "'a prog \<Rightarrow> 'b prog \<Rightarrow> 'b prog" where
  "thn m k = bnd m (\<lambda>_. k)"

fun seq :: "unit prog list \<Rightarrow> unit prog" where
  "seq [] = ret ()"
| "seq (m # ms) = thn m (seq ms)"

definition skip :: "unit prog" where
  "skip = ret ()"

definition cond_do :: "bool \<Rightarrow> unit prog \<Rightarrow> unit prog" where
  "cond_do b m = (if b then m else skip)"

text \<open>\<open>try: m except ...: handler\<close>; a handler gives \<open>None\<close> for what it does not catch.\<close>

definition catching :: "'a prog \<Rightarrow> (exn \<Rightarrow> 'a prog option) \<Rightarrow> 'a prog" where
  "catching m hnd = (\<lambda>E h.
     case m E h of
       Some (Exc e, h') \<Rightarrow> (case hnd e of None \<Rightarrow> Some (Exc e, h') | Some k \<Rightarrow> k E h')
     | r \<Rightarrow> r)"

text \<open>
  The part of a \<open>try\<close> block before its \<open>finally\<close> clause has something to undo: \<open>k\<close> runs,
  and the exception goes on.
\<close>

definition on_error :: "'a prog \<Rightarrow> unit prog \<Rightarrow> 'a prog" where
  "on_error m k = catching m (\<lambda>e. Some (thn k (raise e)))"

text \<open>\<open>try: m finally: k\<close>; an exception of \<open>k\<close> replaces the outcome of \<open>m\<close>.\<close>

definition finally_do :: "'a prog \<Rightarrow> unit prog \<Rightarrow> 'a prog" where
  "finally_do m k = (\<lambda>E h.
     case m E h of
       None \<Rightarrow> None
     | Some (r, h') \<Rightarrow>
         (case k E h' of
            None \<Rightarrow> None
          | Some (Exc e, h'') \<Rightarrow> Some (Exc e, h'')
          | Some (Ok u, h'') \<Rightarrow> Some (r, h'')))"

fun for_each :: "'a list \<Rightarrow> 's \<Rightarrow> ('a \<Rightarrow> 's \<Rightarrow> 's prog) \<Rightarrow> 's prog" where
  "for_each [] s f = ret s"
| "for_each (x # xs) s f = bnd (f x s) (\<lambda>s'. for_each xs s' f)"

definition for_all :: "'a list \<Rightarrow> ('a \<Rightarrow> unit prog) \<Rightarrow> unit prog" where
  "for_all xs f = for_each xs () (\<lambda>x _. f x)"

datatype ('s, 'r) ctl = Continue 's | Leave 'r

text \<open>A \<open>for\<close> loop that may be left by \<open>return\<close> or \<open>break\<close>.\<close>

fun for_until :: "'a list \<Rightarrow> 's \<Rightarrow> ('a \<Rightarrow> 's \<Rightarrow> ('s, 'r) ctl prog) \<Rightarrow> ('s, 'r) ctl prog" where
  "for_until [] s f = ret (Continue s)"
| "for_until (x # xs) s f =
     bnd (f x s) (\<lambda>c. case c of Continue s' \<Rightarrow> for_until xs s' f | Leave r \<Rightarrow> ret (Leave r))"

text \<open>\<open>while True\<close> with a loop state; the body continues with a new state or leaves.\<close>

partial_function (option) py_loop :: "('s \<Rightarrow> ('s, 'r) ctl prog) \<Rightarrow> 's \<Rightarrow> 'r prog" where
  "py_loop body s E h =
     (case body s E h of
        None \<Rightarrow> None
      | Some (Exc e, h') \<Rightarrow> Some (Exc e, h')
      | Some (Ok (Leave r), h') \<Rightarrow> Some (Ok r, h')
      | Some (Ok (Continue s'), h') \<Rightarrow> py_loop body s' E h')"

section \<open>Primitive operations\<close>

definition answer :: "(env \<Rightarrow> hist \<Rightarrow> 'a) \<Rightarrow> ('a \<Rightarrow> event) \<Rightarrow> 'a prog" where
  "answer f ev = (\<lambda>E h. let a = f E h in Some (Ok a, ev a # h))"

definition tell :: "event \<Rightarrow> unit prog" where
  "tell ev = answer (\<lambda>E h. ()) (\<lambda>_. ev)"

definition asks :: "(env \<Rightarrow> 'a) \<Rightarrow> 'a prog" where
  "asks f = (\<lambda>E h. Some (Ok (f E), h))"

definition or_raise :: "exn \<Rightarrow> 'a option \<Rightarrow> 'a prog" where
  "or_raise e x = (case x of None \<Rightarrow> raise e | Some a \<Rightarrow> ret a)"

definition check_ok :: "exn \<Rightarrow> bool \<Rightarrow> unit prog" where
  "check_ok e b = (if b then skip else raise e)"

definition print :: "string \<Rightarrow> unit prog" where
  "print s = tell (Out s)"

definition print_err :: "string \<Rightarrow> unit prog" where
  "print_err s = tell (Err s)"

definition time_ns :: "int prog" where
  "time_ns = answer e_clock Clock"

text \<open>
  \<open>while time.time() < deadline: body\<close>.  The value is \<open>Leave r\<close> when the body
  returned \<open>r\<close>, \<open>Continue s\<close> when the deadline passed in state \<open>s\<close>.
\<close>

definition while_before :: "int \<Rightarrow> ('s \<Rightarrow> ('s, 'r) ctl prog) \<Rightarrow> 's \<Rightarrow> ('s, 'r) ctl prog" where
  "while_before deadline body s =
     py_loop (\<lambda>s. bnd time_ns (\<lambda>t.
       if t < deadline
       then bnd (body s) (\<lambda>c. ret (case c of Continue s' \<Rightarrow> Continue s' | Leave r \<Rightarrow> Leave (Leave r)))
       else ret (Leave (Continue s)))) s"

definition sleep_ms :: "int \<Rightarrow> unit prog" where
  "sleep_ms d = tell (Sleep (d * 1000000))"

definition sec :: "int \<Rightarrow> int" where
  "sec n = n * 1000000000"

definition exists_path :: "string \<Rightarrow> bool prog" where
  "exists_path p = answer (\<lambda>E h. e_exists E h p) (Exists p)"

text \<open>\<open>os.access(p, os.X_OK)\<close>\<close>

definition can_execute :: "string \<Rightarrow> bool prog" where
  "can_execute p = answer (\<lambda>E h. e_access E h p) (Access p)"

definition stat_size :: "string \<Rightarrow> int prog" where
  "stat_size p = bnd (answer (\<lambda>E h. e_size E h p) (FileSize p)) (or_raise (OSError p))"

definition stat_mtime_ns :: "string \<Rightarrow> int prog" where
  "stat_mtime_ns p = bnd (answer (\<lambda>E h. e_mtime E h p) (FileTime p)) (or_raise (OSError p))"

text \<open>\<open>Path(dir).glob(pattern)\<close>, the paths in the order the system lists them.\<close>

definition glob_paths :: "string \<Rightarrow> string list prog" where
  "glob_paths p = answer (\<lambda>E h. e_glob E h p) (Glob p)"

definition geteuid :: "int prog" where
  "geteuid = asks e_euid"

definition read_text :: "string \<Rightarrow> string prog" where
  "read_text p = bnd (answer (\<lambda>E h. e_read E h p) (ReadText p)) (or_raise (OSError p))"

definition write_text :: "string \<Rightarrow> string \<Rightarrow> unit prog" where
  "write_text p s = bnd (answer (\<lambda>E h. e_write E h p) (WriteText p s)) (check_ok (OSError p))"

text \<open>\<open>mkdir(parents=True, exist_ok=True)\<close>\<close>

definition mkdirs :: "string \<Rightarrow> unit prog" where
  "mkdirs p = bnd (answer (\<lambda>E h. e_write E h p) (Mkdir p)) (check_ok (OSError p))"

text \<open>\<open>unlink(missing_ok=True)\<close>\<close>

definition unlink_ok :: "string \<Rightarrow> unit prog" where
  "unlink_ok p = tell (Unlink p)"

definition open_file :: "string \<Rightarrow> string \<Rightarrow> unit prog" where
  "open_file p mode = bnd (answer (\<lambda>E h. e_write E h p) (OpenFile p mode)) (check_ok (OSError p))"

definition close_file :: "string \<Rightarrow> unit prog" where
  "close_file p = tell (CloseFile p)"

definition resolve_path :: "string \<Rightarrow> string prog" where
  "resolve_path p = answer (\<lambda>E h. e_resolve E h p) (Resolve p)"

definition randint :: "int \<Rightarrow> int \<Rightarrow> int prog" where
  "randint a b = answer (\<lambda>E h. e_rand E h a b) (Rand a b)"

definition py_input :: "string \<Rightarrow> string prog" where
  "py_input prompt =
     bnd (answer (\<lambda>E h. e_input E h) (Input prompt)) (\<lambda>r. case r of Ok s \<Rightarrow> ret s | Exc e \<Rightarrow> raise e)"

text \<open>
  \<open>subprocess.run(cmd, shell=True, stdout=PIPE, stderr=STDOUT, check=check)\<close>
  and the same on an argument list, with the text given on standard input.
\<close>

definition sh_result :: "string \<Rightarrow> (int \<times> string) prog" where
  "sh_result cmd = answer (\<lambda>E h. e_shell E h cmd) (\<lambda>(rc, out). Shell cmd rc out)"

definition sh_run :: "string \<Rightarrow> bool \<Rightarrow> string prog" where
  "sh_run cmd check =
     bnd (sh_result cmd) (\<lambda>(rc, out).
       if check \<and> rc \<noteq> 0 then raise (CalledProcessError rc (repr_str cmd)) else ret out)"

text \<open>
  The same with \<open>timeout=limit\<close> (nanoseconds): \<open>subprocess.run\<close> kills the command and
  raises when the limit expires.
\<close>

definition sh_limit_result :: "string \<Rightarrow> int \<Rightarrow> (int \<times> string) prog" where
  "sh_limit_result cmd limit =
     bnd (answer (\<lambda>E h. e_shell_limit E h cmd limit) (ShellLimit cmd limit)) (or_raise (TimeoutExpired (repr_str cmd)))"

definition exec_result :: "string list \<Rightarrow> string \<Rightarrow> (int \<times> string) prog" where
  "exec_result argv input =
     bnd (answer (\<lambda>E h. e_exec E h argv input) (Exec argv input)) (or_raise (OSError (hd argv)))"

text \<open>The same in a working directory and with variables set over the environment.\<close>

definition exec_in :: "string list \<Rightarrow> string \<Rightarrow> (string \<times> string) list \<Rightarrow> (int \<times> string) prog" where
  "exec_in argv cwd vars =
     bnd (answer (\<lambda>E h. e_exec_in E h argv cwd vars) (ExecIn argv cwd vars)) (or_raise (OSError (hd argv)))"

text \<open>\<open>subprocess.run(argv, check=True)\<close>\<close>

definition exec_check :: "string list \<Rightarrow> string \<Rightarrow> string prog" where
  "exec_check argv input =
     bnd (exec_result argv input) (\<lambda>(rc, out).
       if rc \<noteq> 0 then raise (CalledProcessError rc (py_repr (PList (map PStr argv)))) else ret out)"

definition popen :: "string list \<Rightarrow> int prog" where
  "popen argv = bnd (answer (\<lambda>E h. e_spawn E h argv) (Spawn argv)) (or_raise (OSError (hd argv)))"

definition poll :: "int \<Rightarrow> int option prog" where
  "poll pid = answer (\<lambda>E h. e_poll E h pid) (Poll pid)"

definition wait_limit :: "int \<Rightarrow> int \<Rightarrow> int prog" where
  "wait_limit pid d =
     bnd (answer (\<lambda>E h. e_wait E h pid d) (Wait pid d)) (or_raise (TimeoutExpired []))"

definition terminate :: "int \<Rightarrow> unit prog" where
  "terminate pid = tell (Term pid)"

definition kill :: "int \<Rightarrow> unit prog" where
  "kill pid = tell (Kill pid)"

text \<open>\<open>os.killpg(os.getpgid(pid), sig)\<close>; it raises \<open>ProcessLookupError\<close>, an \<open>OSError\<close>, when the group is gone.\<close>

definition kill_group :: "int \<Rightarrow> string \<Rightarrow> unit prog" where
  "kill_group pid sig = bnd (answer (\<lambda>E h. e_group E h pid sig) (SignalGroup pid sig)) (check_ok (OSError sig))"

text \<open>\<open>shutil.copyfile\<close>\<close>

definition copy_file :: "string \<Rightarrow> string \<Rightarrow> unit prog" where
  "copy_file src dst = bnd (answer (\<lambda>E h. e_write E h dst) (CopyFile src dst)) (check_ok (OSError dst))"

text \<open>
  \<open>urlopen(Request(url, data, method=meth), timeout=limit).read()\<close>.  The body of a request
  without data is written as the empty string; a status outside 2xx raises \<open>HTTPError\<close>.
\<close>

definition http_send :: "string \<Rightarrow> string \<Rightarrow> string \<Rightarrow> int \<Rightarrow> string prog" where
  "http_send meth url data limit =
     bnd (answer (\<lambda>E h. e_http E h meth url data limit) (Http meth url data limit)) (\<lambda>a.
     case a of
       HttpOk body \<Rightarrow> ret body
     | HttpStatus n reason body \<Rightarrow> raise (HTTPError n reason)
     | HttpDown why \<Rightarrow> raise (URLError why))"

section \<open>Descriptors\<close>

definition append_text :: "string \<Rightarrow> string \<Rightarrow> unit prog" where
  "append_text p s = bnd (answer (\<lambda>E h. e_write E h p) (AppendText p s)) (check_ok (OSError p))"

definition openpty :: "(int \<times> int) prog" where
  "openpty = bnd (answer e_pty OpenPty) (or_raise (OSError ''openpty''))"

definition fd_read :: "int \<Rightarrow> fd_answer prog" where
  "fd_read fd = answer (\<lambda>E h. e_fd_read E h fd) (ReadFd fd)"

definition fd_write :: "int \<Rightarrow> string \<Rightarrow> unit prog" where
  "fd_write fd s = bnd (answer (\<lambda>E h. e_fd_write E h fd) (WriteFd fd s)) (check_ok (OSError ''write''))"

definition fd_close :: "int \<Rightarrow> unit prog" where
  "fd_close fd = bnd (answer (\<lambda>E h. e_fd_write E h fd) (CloseFd fd)) (check_ok (OSError ''close''))"

end
