(* ===== verification/Prog_Rules.thy ===== *)
theory Prog_Rules
  imports Prog
begin

text \<open>
  Reasoning about \<open>prog\<close>: weakest preconditions for total correctness, what a
  program may add to the history, and loops that wait for a deadline.
\<close>

section \<open>Equations\<close>

lemma bnd_ret: "bnd (ret x) f = f x"
  by (simp add: bnd_def ret_def fun_eq_iff)

lemma bnd_raise: "bnd (raise e) f = raise e"
  by (simp add: bnd_def raise_def fun_eq_iff)

lemma bnd_assoc: "bnd (bnd m f) g = bnd m (\<lambda>x. bnd (f x) g)"
  by (auto simp: bnd_def fun_eq_iff split: option.split outcome.split)

lemma bnd_if: "bnd (if b then m else k) f = (if b then bnd m f else bnd k f)"
  by simp

lemmas bnd_simps = bnd_ret bnd_raise bnd_assoc thn_def

section \<open>Weakest preconditions\<close>

text \<open>\<open>wp m Q E h\<close>: run from \<open>h\<close>, \<open>m\<close> returns, with an outcome and history satisfying \<open>Q\<close>.\<close>

definition wp :: "'a prog \<Rightarrow> ('a outcome \<Rightarrow> hist \<Rightarrow> bool) \<Rightarrow> env \<Rightarrow> hist \<Rightarrow> bool" where
  "wp m Q E h = (case m E h of None \<Rightarrow> False | Some (r, h') \<Rightarrow> Q r h')"

named_theorems wp_simps

lemma wp_mono: "wp m Q E h \<Longrightarrow> (\<And>r h'. Q r h' \<Longrightarrow> Q' r h') \<Longrightarrow> wp m Q' E h"
  by (auto simp: wp_def split: option.splits)

lemma wp_cong: "(\<And>r h'. Q r h' = Q' r h') \<Longrightarrow> wp m Q E h = wp m Q' E h"
  by (simp add: wp_def split: option.split)

lemma wp_conj: "wp m (\<lambda>r h'. Q r h' \<and> R r h') E h \<longleftrightarrow> wp m Q E h \<and> wp m R E h"
  by (auto simp: wp_def split: option.splits)

lemma wp_returns:
  "wp m (\<lambda>r h'. r = Ok x) E h \<Longrightarrow> wp m (\<lambda>r h'. r = Ok x \<longrightarrow> Q h') E h \<Longrightarrow> wp m (\<lambda>r h'. r = Ok x \<and> Q h') E h"
  by (auto simp: wp_def split: option.splits)

lemma wp_run: "wp m Q E h \<longleftrightarrow> (\<exists>r h'. m E h = Some (r, h') \<and> Q r h')"
  by (auto simp: wp_def split: option.splits)

lemma wp_ret [wp_simps]: "wp (ret x) Q E h = Q (Ok x) h"
  by (simp add: wp_def ret_def)

lemma wp_skip [wp_simps]: "wp skip Q E h = Q (Ok ()) h"
  by (simp add: skip_def wp_ret)

lemma wp_raise [wp_simps]: "wp (raise e) Q E h = Q (Exc e) h"
  by (simp add: wp_def raise_def)

lemma wp_bnd [wp_simps]:
  "wp (bnd m f) Q E h =
     wp m (\<lambda>r h'. case r of Ok x \<Rightarrow> wp (f x) Q E h' | Exc e \<Rightarrow> Q (Exc e) h') E h"
  by (auto simp: wp_def bnd_def split: option.splits outcome.splits)

lemma wp_thn [wp_simps]:
  "wp (thn m k) Q E h =
     wp m (\<lambda>r h'. case r of Ok x \<Rightarrow> wp k Q E h' | Exc e \<Rightarrow> Q (Exc e) h') E h"
  by (simp add: thn_def wp_bnd)

lemma wp_cond_do [wp_simps]: "wp (cond_do b m) Q E h = (if b then wp m Q E h else Q (Ok ()) h)"
  by (simp add: cond_do_def wp_skip)

lemma wp_catching [wp_simps]:
  "wp (catching m hnd) Q E h =
     wp m (\<lambda>r h'. case r of Ok x \<Rightarrow> Q (Ok x) h'
        | Exc e \<Rightarrow> (case hnd e of None \<Rightarrow> Q (Exc e) h' | Some k \<Rightarrow> wp k Q E h')) E h"
  by (auto simp: wp_def catching_def split: option.splits outcome.splits)

lemma wp_on_error [wp_simps]:
  "wp (on_error m k) Q E h =
     wp m (\<lambda>r h'. case r of Ok x \<Rightarrow> Q (Ok x) h'
        | Exc e \<Rightarrow> wp k (\<lambda>u h''. case u of Ok _ \<Rightarrow> Q (Exc e) h'' | Exc e' \<Rightarrow> Q (Exc e') h'') E h') E h"
  by (auto simp: on_error_def wp_catching wp_thn wp_raise intro!: wp_cong split: outcome.split)

lemma wp_finally [wp_simps]:
  "wp (finally_do m k) Q E h =
     wp m (\<lambda>r h'. wp k (\<lambda>u h''. case u of Ok _ \<Rightarrow> Q r h'' | Exc e \<Rightarrow> Q (Exc e) h'') E h') E h"
  by (auto simp: wp_def finally_do_def split: option.splits outcome.splits)

lemma wp_answer [wp_simps]: "wp (answer f ev) Q E h = Q (Ok (f E h)) (ev (f E h) # h)"
  by (simp add: wp_def answer_def Let_def)

lemma wp_asks [wp_simps]: "wp (asks f) Q E h = Q (Ok (f E)) h"
  by (simp add: wp_def asks_def)

lemma wp_if [wp_simps]: "wp (if b then m else k) Q E h = (if b then wp m Q E h else wp k Q E h)"
  by simp

lemma wp_or_raise [wp_simps]:
  "wp (or_raise e x) Q E h = (case x of None \<Rightarrow> Q (Exc e) h | Some a \<Rightarrow> Q (Ok a) h)"
  by (simp add: or_raise_def wp_raise wp_ret split: option.split)

lemma wp_check_ok [wp_simps]: "wp (check_ok e b) Q E h = (if b then Q (Ok ()) h else Q (Exc e) h)"
  by (simp add: check_ok_def wp_raise wp_skip)

lemma wp_seq [wp_simps]:
  "wp (seq []) Q E h = Q (Ok ()) h"
  "wp (seq (m # ms)) Q E h =
     wp m (\<lambda>r h'. case r of Ok x \<Rightarrow> wp (seq ms) Q E h' | Exc e \<Rightarrow> Q (Exc e) h') E h"
  by (simp_all add: wp_ret wp_thn)

lemmas prim_defs = print_def print_err_def tell_def time_ns_def sleep_ms_def exists_path_def
  stat_size_def read_text_def write_text_def mkdirs_def unlink_ok_def open_file_def close_file_def
  resolve_path_def randint_def sh_result_def sh_run_def exec_check_def exec_result_def py_input_def exec_in_def can_execute_def popen_def poll_def
  wait_limit_def terminate_def kill_def sh_limit_result_def kill_group_def copy_file_def http_send_def
  stat_mtime_ns_def glob_paths_def geteuid_def append_text_def openpty_def fd_read_def fd_write_def fd_close_def

lemma wp_sh_run:
  "wp (sh_run cmd ck) Q E h =
     (case e_shell E h cmd of (rc, out) \<Rightarrow>
        Q (if ck \<and> rc \<noteq> 0 then Exc (CalledProcessError rc (repr_str cmd)) else Ok out) (Shell cmd rc out # h))"
  by (cases "e_shell E h cmd") (auto simp: sh_run_def sh_result_def wp_simps)

lemma wp_for_each:
  assumes "I s h"
    and "\<And>x s h. x \<in> set xs \<Longrightarrow> I s h \<Longrightarrow>
      wp (f x s) (\<lambda>r h'. case r of Ok s' \<Rightarrow> I s' h' | Exc e \<Rightarrow> Q (Exc e) h') E h"
    and "\<And>s h. I s h \<Longrightarrow> Q (Ok s) h"
  shows "wp (for_each xs s f) Q E h"
  using assms
proof (induction xs arbitrary: s h)
  case (Cons x xs)
  have "wp (f x s) (\<lambda>r h'. case r of Ok s' \<Rightarrow> I s' h' | Exc e \<Rightarrow> Q (Exc e) h') E h"
    using Cons.prems by simp
  moreover have "wp (for_each xs s' f) Q E h'" if "I s' h'" for s' h'
    using that Cons.prems by (intro Cons.IH) auto
  ultimately show ?case
    unfolding for_each.simps wp_bnd by (auto elim!: wp_mono split: outcome.splits)
qed (simp add: wp_ret)

text \<open>The same with an invariant that knows the elements done so far.\<close>

lemma wp_for_each_prefix:
  assumes "I [] s h"
    and "\<And>ys x zs s h. xs = ys @ x # zs \<Longrightarrow> I ys s h \<Longrightarrow>
      wp (f x s) (\<lambda>r h'. case r of Ok s' \<Rightarrow> I (ys @ [x]) s' h' | Exc e \<Rightarrow> Q (Exc e) h') E h"
    and "\<And>s h. I xs s h \<Longrightarrow> Q (Ok s) h"
  shows "wp (for_each xs s f) Q E h"
proof -
  have "wp (for_each zs s f) Q E h" if "xs = ys @ zs" "I ys s h" for ys zs s h
    using that
  proof (induction zs arbitrary: ys s h)
    case (Cons x zs)
    have "wp (f x s) (\<lambda>r h'. case r of Ok s' \<Rightarrow> I (ys @ [x]) s' h' | Exc e \<Rightarrow> Q (Exc e) h') E h"
      using Cons.prems by (rule assms(2))
    moreover have "wp (for_each zs s' f) Q E h'" if "I (ys @ [x]) s' h'" for s' h'
      using Cons.prems that by (intro Cons.IH) simp_all
    ultimately show ?case
      unfolding for_each.simps wp_bnd by (auto elim!: wp_mono split: outcome.splits)
  qed (simp add: wp_ret assms(3))
  from this [of "[]" xs] assms(1) show ?thesis by simp
qed

section \<open>Loops\<close>

lemma ctl_outcome_cases:
  obtains (Exc) e where "r = Exc e" | (Leave) x where "r = Ok (Leave x)" | (Continue) s where "r = Ok (Continue s)"
  by (cases r) (metis ctl.exhaust, blast)

lemma wp_loop:
  fixes \<mu> :: "'s \<Rightarrow> hist \<Rightarrow> nat"
  assumes "I s h"
    and "\<And>s h. I s h \<Longrightarrow> wp (body s) (\<lambda>r h'. case r of
        Exc e \<Rightarrow> Q (Exc e) h'
      | Ok (Leave x) \<Rightarrow> Q (Ok x) h'
      | Ok (Continue s') \<Rightarrow> I s' h' \<and> \<mu> s' h' < \<mu> s h) E h"
  shows "wp (py_loop body s) Q E h"
  using assms(1)
proof (induction "\<mu> s h" arbitrary: s h rule: less_induct)
  case less
  obtain r h' where r: "body s E h = Some (r, h')" "case r of Exc e \<Rightarrow> Q (Exc e) h'
      | Ok (Leave x) \<Rightarrow> Q (Ok x) h' | Ok (Continue s') \<Rightarrow> I s' h' \<and> \<mu> s' h' < \<mu> s h"
    using assms(2) [OF less.prems] by (auto simp: wp_run)
  show ?case
  proof (cases r)
    case (Ok c)
    show ?thesis
    proof (cases c)
      case (Continue s')
      then have "wp (py_loop body s') Q E h'" using r Ok less.hyps by simp
      then show ?thesis using r Ok Continue by (simp add: wp_def py_loop.simps [of body s])
    qed (use r Ok in \<open>simp add: wp_def py_loop.simps [of body s]\<close>)
  qed (use r in \<open>simp add: wp_def py_loop.simps [of body s]\<close>)
qed

lemma wp_py_loop:
  "wp (py_loop body s) Q E h =
     wp (body s) (\<lambda>r h'. case r of Ok (Leave x) \<Rightarrow> Q (Ok x) h'
       | Ok (Continue s') \<Rightarrow> wp (py_loop body s') Q E h' | Exc e \<Rightarrow> Q (Exc e) h') E h"
  by (auto simp: wp_def py_loop.simps [of body s] split: option.split outcome.split ctl.split)

text \<open>One round of a deadline loop.\<close>

lemma wp_while_before_step:
  "wp (while_before deadline body s) Q E h =
     (if e_clock E h < deadline
      then wp (body s) (\<lambda>r h'. case r of Ok (Leave x) \<Rightarrow> Q (Ok (Leave x)) h'
        | Ok (Continue s') \<Rightarrow> wp (while_before deadline body s') Q E h' | Exc e \<Rightarrow> Q (Exc e) h')
        E (Clock (e_clock E h) # h)
      else Q (Ok (Continue s)) (Clock (e_clock E h) # h))"
proof (cases "e_clock E h < deadline")
  case True
  then show ?thesis
    unfolding while_before_def
    by (subst wp_py_loop, simp add: time_ns_def wp_answer wp_bnd, intro wp_cong)
      (case_tac r rule: ctl_outcome_cases; simp add: wp_ret)
next
  case False
  then show ?thesis
    unfolding while_before_def by (subst wp_py_loop) (simp add: time_ns_def wp_answer wp_bnd wp_ret)
qed

text \<open>
  The clock: it never runs backwards, and \<open>time.sleep(d)\<close> takes at least \<open>d\<close>, as the
  Python documentation promises.
\<close>

fun slept :: "event \<Rightarrow> int" where
  "slept (Sleep d) = max 0 d"
| "slept _ = 0"

definition clock_law :: "env \<Rightarrow> bool" where
  "clock_law E = (\<forall>ev h. e_clock E h + slept ev \<le> e_clock E (ev # h))"

lemma slept_nonneg: "0 \<le> slept ev"
  by (cases ev) auto

lemma clock_step: "clock_law E \<Longrightarrow> e_clock E h \<le> e_clock E (ev # h)"
  using slept_nonneg [of ev] by (auto simp: clock_law_def) (metis add_le_cancel_left add.right_neutral order_trans)

lemma clock_sleep: "clock_law E \<Longrightarrow> 0 \<le> d \<Longrightarrow> e_clock E h + d \<le> e_clock E (Sleep d # h)"
  by (auto simp: clock_law_def) (metis max_absorb2 slept.simps(1))

lemma clock_mono: "clock_law E \<Longrightarrow> e_clock E h \<le> e_clock E (ks @ h)"
  by (induction ks) (auto intro: order_trans clock_step)

lemma clock_advance:
  assumes "clock_law E" "Sleep d \<in> set ks" "0 < d"
  shows "e_clock E h < e_clock E (ks @ h)"
proof -
  obtain as bs where ks: "ks = as @ Sleep d # bs" using assms(2) by (auto dest: split_list)
  have "e_clock E h \<le> e_clock E (bs @ h)" by (rule clock_mono [OF assms(1)])
  also have "\<dots> < e_clock E (Sleep d # bs @ h)"
    using clock_sleep [OF assms(1), of d "bs @ h"] assms(3) by simp
  also have "\<dots> \<le> e_clock E (as @ Sleep d # bs @ h)" by (rule clock_mono [OF assms(1)])
  finally show ?thesis by (simp add: ks)
qed

text \<open>A stretch of history in which the program slept.\<close>

definition slept_between :: "hist \<Rightarrow> hist \<Rightarrow> bool" where
  "slept_between h h' = (\<exists>ks d. h' = ks @ h \<and> Sleep d \<in> set ks \<and> 0 < d)"

lemma slept_between_clock: "clock_law E \<Longrightarrow> slept_between h h' \<Longrightarrow> e_clock E h < e_clock E h'"
  by (auto simp: slept_between_def clock_advance)

lemma slept_between_Sleep: "0 < d \<Longrightarrow> suffix h h' \<Longrightarrow> slept_between h (Sleep d # h')"
  unfolding slept_between_def suffix_def by (metis append_Cons list.set_intros(1))

lemma wp_while_before_clock:
  assumes "clock_law E" "I s h"
    and "\<And>s h. I s h \<Longrightarrow> e_clock E h < deadline \<Longrightarrow> wp (body s) (\<lambda>r h'. case r of
        Exc e \<Rightarrow> Q (Exc e) h'
      | Ok (Leave x) \<Rightarrow> Q (Ok (Leave x)) h'
      | Ok (Continue s') \<Rightarrow> I s' h' \<and> slept_between (Clock (e_clock E h) # h) h') E (Clock (e_clock E h) # h)"
    and "\<And>s h. I s h \<Longrightarrow> deadline \<le> e_clock E h \<Longrightarrow> Q (Ok (Continue s)) (Clock (e_clock E h) # h)"
  shows "wp (while_before deadline body s) Q E h"
  unfolding while_before_def
proof (rule wp_loop [where I = I and \<mu> = "\<lambda>s h. nat (deadline - e_clock E h)"])
  show "I s h" by fact
next
  fix s h
  assume I: "I s h"
  let ?t = "e_clock E h"
  let ?Q = "\<lambda>r h'. case r of Exc e \<Rightarrow> Q (Exc e) h'
      | Ok (Leave x) \<Rightarrow> Q (Ok (Leave x)) h'
      | Ok (Continue s') \<Rightarrow> I s' h' \<and> slept_between (Clock ?t # h) h'"
  let ?R = "\<lambda>r h'. case r of Exc e \<Rightarrow> Q (Exc e) h' | Ok (Leave x) \<Rightarrow> Q (Ok x) h'
       | Ok (Continue s') \<Rightarrow> I s' h' \<and> nat (deadline - e_clock E h') < nat (deadline - ?t)"
  have late: "nat (deadline - e_clock E h') < nat (deadline - ?t)"
    if "?t < deadline" "slept_between (Clock ?t # h) h'" for h'
    using that slept_between_clock [OF assms(1) that(2)] clock_step [OF assms(1), of h "Clock ?t"]
    by simp
  show "wp (bnd time_ns (\<lambda>t. if t < deadline
       then bnd (body s) (\<lambda>c. ret (case c of Continue s' \<Rightarrow> Continue s' | Leave r \<Rightarrow> Leave (Leave r)))
       else ret (Leave (Continue s)))) ?R E h"
  proof (cases "?t < deadline")
    case True
    have "wp (body s) ?Q E (Clock ?t # h)" by (rule assms(3) [OF I True])
    then have "wp (body s) (\<lambda>r h'. case r of
          Ok c \<Rightarrow> wp (ret (case c of Continue s' \<Rightarrow> Continue s' | Leave r \<Rightarrow> Leave (Leave r))) ?R E h'
        | Exc e \<Rightarrow> ?R (Exc e) h') E (Clock ?t # h)"
    proof (rule wp_mono)
      fix r h'
      assume "?Q r h'"
      then show "case r of Ok c \<Rightarrow> wp (ret (case c of Continue s' \<Rightarrow> Continue s' | Leave r \<Rightarrow> Leave (Leave r))) ?R E h'
        | Exc e \<Rightarrow> ?R (Exc e) h'"
        using late [OF True] True by (cases r rule: ctl_outcome_cases) (auto simp: wp_ret)
    qed
    then show ?thesis using True by (simp add: time_ns_def wp_answer wp_bnd)
  next
    case False
    then show ?thesis using assms(4) [OF I] by (simp add: time_ns_def wp_simps)
  qed
qed

lemma wp_while_before:
  assumes "clock_law E" "I s h"
    and "\<And>s h t. I s h \<Longrightarrow> t < deadline \<Longrightarrow> wp (body s) (\<lambda>r h'. case r of
        Exc e \<Rightarrow> Q (Exc e) h'
      | Ok (Leave x) \<Rightarrow> Q (Ok (Leave x)) h'
      | Ok (Continue s') \<Rightarrow> I s' h' \<and> slept_between (Clock t # h) h') E (Clock t # h)"
    and "\<And>s h t. I s h \<Longrightarrow> deadline \<le> t \<Longrightarrow> Q (Ok (Continue s)) (Clock t # h)"
  shows "wp (while_before deadline body s) Q E h"
  by (rule wp_while_before_clock [where I = I, OF assms(1,2)]) (simp_all add: assms(3,4))

section \<open>What a program adds to the history\<close>

text \<open>Every event that \<open>m\<close> adds satisfies \<open>A\<close>; nothing is removed from the history.\<close>

definition emits :: "(event \<Rightarrow> bool) \<Rightarrow> 'a prog \<Rightarrow> bool" where
  "emits A m = (\<forall>E h r h'. m E h = Some (r, h') \<longrightarrow> (\<exists>ks. h' = ks @ h \<and> list_all A ks))"

lemma emitsD: "emits A m \<Longrightarrow> m E h = Some (r, h') \<Longrightarrow> \<exists>ks. h' = ks @ h \<and> list_all A ks"
  by (simp add: emits_def)

lemma emitsI: "(\<And>E h r h'. m E h = Some (r, h') \<Longrightarrow> \<exists>ks. h' = ks @ h \<and> list_all A ks) \<Longrightarrow> emits A m"
  by (simp add: emits_def)

lemma emits_append:
  "\<exists>ks. h' = ks @ h \<and> list_all A ks \<Longrightarrow> \<exists>ks. h'' = ks @ h' \<and> list_all A ks \<Longrightarrow>
     \<exists>ks. h'' = ks @ h \<and> list_all A ks"
proof (elim exE conjE)
  fix ks ls
  assume "h' = ks @ h" "list_all A ks" "h'' = ls @ h'" "list_all A ls"
  then have "h'' = (ls @ ks) @ h \<and> list_all A (ls @ ks)" by simp
  then show ?thesis by blast
qed

lemma emits_mono:
  assumes "emits A m" "\<And>ev. A ev \<Longrightarrow> B ev" shows "emits B m"
proof (rule emitsI)
  fix E h r h'
  assume "m E h = Some (r, h')"
  then obtain ks where "h' = ks @ h" "list_all A ks" using emitsD [OF assms(1)] by blast
  moreover have "list_all B ks" using \<open>list_all A ks\<close> assms(2) by (simp add: list_all_iff)
  ultimately show "\<exists>ks. h' = ks @ h \<and> list_all B ks" by blast
qed

lemma emits_ret [emits_intros]: "emits A (ret x)"
  by (simp add: emits_def ret_def)

lemma emits_skip [emits_intros]: "emits A skip"
  by (simp add: skip_def emits_ret)

lemma emits_raise [emits_intros]: "emits A (raise e)"
  by (simp add: emits_def raise_def)

lemma emits_answer: "(\<And>a. A (ev a)) \<Longrightarrow> emits A (answer f ev)"
  by (simp add: emits_def answer_def Let_def)

lemma emits_tell: "A ev \<Longrightarrow> emits A (tell ev)"
  by (simp add: tell_def emits_answer)

lemma emits_asks [emits_intros]: "emits A (asks f)"
  by (simp add: emits_def asks_def)

lemma emits_bnd [emits_intros]:
  assumes "emits A m" "\<And>x. emits A (f x)" shows "emits A (bnd m f)"
proof (rule emitsI)
  fix E h r h'
  assume "bnd m f E h = Some (r, h')"
  then consider e where "m E h = Some (Exc e, h')"
    | x h1 where "m E h = Some (Ok x, h1)" "f x E h1 = Some (r, h')"
    by (auto simp: bnd_def split: option.splits outcome.splits)
  then show "\<exists>ks. h' = ks @ h \<and> list_all A ks"
    by cases (blast intro: emits_append dest: emitsD [OF assms(1)] emitsD [OF assms(2)])+
qed

lemma emits_thn [emits_intros]: "emits A m \<Longrightarrow> emits A k \<Longrightarrow> emits A (thn m k)"
  by (simp add: thn_def emits_bnd)

lemma emits_seq [emits_intros]: "emits A (seq [])" "emits A m \<Longrightarrow> emits A (seq ms) \<Longrightarrow> emits A (seq (m # ms))"
  by (simp_all add: emits_ret emits_thn)

lemma emits_if [emits_intros]:
  "(b \<Longrightarrow> emits A m) \<Longrightarrow> (\<not> b \<Longrightarrow> emits A k) \<Longrightarrow> emits A (if b then m else k)"
  by simp

lemma emits_cond_do [emits_intros]: "(b \<Longrightarrow> emits A m) \<Longrightarrow> emits A (cond_do b m)"
  by (simp add: cond_do_def emits_skip)

lemma emits_case_option [emits_intros]:
  "(x = None \<Longrightarrow> emits A m) \<Longrightarrow> (\<And>y. x = Some y \<Longrightarrow> emits A (f y)) \<Longrightarrow>
     emits A (case x of None \<Rightarrow> m | Some y \<Rightarrow> f y)"
  by (cases x) simp_all

lemma emits_case_prod [emits_intros]:
  "(\<And>a b. p = (a, b) \<Longrightarrow> emits A (f a b)) \<Longrightarrow> emits A (case p of (a, b) \<Rightarrow> f a b)"
  by (cases p) simp

lemma emits_case_ctl [emits_intros]:
  "(\<And>s. c = Continue s \<Longrightarrow> emits A (f s)) \<Longrightarrow> (\<And>r. c = Leave r \<Longrightarrow> emits A (g r)) \<Longrightarrow>
     emits A (case c of Continue s \<Rightarrow> f s | Leave r \<Rightarrow> g r)"
  by (cases c) simp_all

lemma emits_case_outcome [emits_intros]:
  "(\<And>s. c = Ok s \<Longrightarrow> emits A (f s)) \<Longrightarrow> (\<And>r. c = Exc r \<Longrightarrow> emits A (g r)) \<Longrightarrow>
     emits A (case c of Ok s \<Rightarrow> f s | Exc r \<Rightarrow> g r)"
  by (cases c) simp_all

lemma emits_case_fd [emits_intros]:
  "(\<And>s. c = FdText s \<Longrightarrow> emits A (f s)) \<Longrightarrow> (c = FdAgain \<Longrightarrow> emits A g) \<Longrightarrow> (\<And>s. c = FdFail s \<Longrightarrow> emits A (k s)) \<Longrightarrow>
     emits A (case c of FdText s \<Rightarrow> f s | FdAgain \<Rightarrow> g | FdFail s \<Rightarrow> k s)"
  by (cases c) simp_all

lemma emits_case_http [emits_intros]:
  "(\<And>b. c = HttpOk b \<Longrightarrow> emits A (f b)) \<Longrightarrow> (\<And>n x b. c = HttpStatus n x b \<Longrightarrow> emits A (g n x b)) \<Longrightarrow>
     (\<And>w. c = HttpDown w \<Longrightarrow> emits A (k w)) \<Longrightarrow>
     emits A (case c of HttpOk b \<Rightarrow> f b | HttpStatus n x b \<Rightarrow> g n x b | HttpDown w \<Rightarrow> k w)"
  by (cases c) simp_all

lemma emits_let [emits_intros]: "(\<And>x. x = a \<Longrightarrow> emits A (f x)) \<Longrightarrow> emits A (let x = a in f x)"
  by simp

lemma emits_or_raise [emits_intros]: "emits A (or_raise e x)"
  by (simp add: or_raise_def emits_raise emits_ret split: option.split)

lemma emits_check_ok [emits_intros]: "emits A (check_ok e b)"
  by (simp add: check_ok_def emits_raise emits_skip)

lemma emits_catching [emits_intros]:
  assumes "emits A m" "\<And>e k. hnd e = Some k \<Longrightarrow> emits A k"
  shows "emits A (catching m hnd)"
proof (rule emitsI)
  fix E h r h'
  assume "catching m hnd E h = Some (r, h')"
  then consider "m E h = Some (r, h')"
    | e h1 k where "m E h = Some (Exc e, h1)" "hnd e = Some k" "k E h1 = Some (r, h')"
    by (auto simp: catching_def split: option.splits outcome.splits prod.splits)
  then show "\<exists>ks. h' = ks @ h \<and> list_all A ks"
    by cases (blast intro: emits_append dest: emitsD [OF assms(1)] emitsD [OF assms(2)])+
qed

lemma emits_on_error [emits_intros]: "emits A m \<Longrightarrow> emits A k \<Longrightarrow> emits A (on_error m k)"
  unfolding on_error_def by (rule emits_catching) (auto intro: emits_thn emits_raise)

lemma emits_finally [emits_intros]:
  assumes "emits A m" "emits A k" shows "emits A (finally_do m k)"
proof (rule emitsI)
  fix E h r h'
  assume "finally_do m k E h = Some (r, h')"
  then obtain r1 h1 r2 where "m E h = Some (r1, h1)" "k E h1 = Some (r2, h')"
    by (auto simp: finally_do_def split: option.splits outcome.splits prod.splits)
  then show "\<exists>ks. h' = ks @ h \<and> list_all A ks"
    by (blast intro: emits_append dest: emitsD [OF assms(1)] emitsD [OF assms(2)])
qed

lemma emits_for_each [emits_intros]:
  "(\<And>x s. x \<in> set xs \<Longrightarrow> emits A (f x s)) \<Longrightarrow> emits A (for_each xs s f)"
  by (induction xs arbitrary: s) (auto intro: emits_ret emits_bnd)

lemma emits_for_all [emits_intros]: "(\<And>x. x \<in> set xs \<Longrightarrow> emits A (f x)) \<Longrightarrow> emits A (for_all xs f)"
  by (simp add: for_all_def emits_for_each)

lemma emits_for_until [emits_intros]:
  "(\<And>x s. x \<in> set xs \<Longrightarrow> emits A (f x s)) \<Longrightarrow> emits A (for_until xs s f)"
  by (induction xs arbitrary: s) (auto intro!: emits_ret emits_bnd emits_case_ctl)

lemma emits_loop [emits_intros]:
  assumes "\<And>s. emits A (body s)" shows "emits A (py_loop body s)"
proof (rule emitsI)
  fix E h r h'
  assume "py_loop body s E h = Some (r, h')"
  moreover have "py_loop bd s E h = Some x \<Longrightarrow> bd = body \<longrightarrow> (\<exists>ks. snd x = ks @ h \<and> list_all A ks)"
    for bd :: "'a \<Rightarrow> ('a, 'b) ctl prog" and s E h x
  proof (erule py_loop.raw_induct [rotated], intro impI)
    fix loop bd and s :: 'a and E h x
    assume ih: "\<And>(bd :: 'a \<Rightarrow> ('a, 'b) ctl prog) s E h y. loop bd s E h = Some y \<Longrightarrow>
        bd = body \<longrightarrow> (\<exists>ks. snd y = ks @ h \<and> list_all A ks)"
      and step: "(case bd s E h of None \<Rightarrow> None | Some (Ok (Continue s'), h') \<Rightarrow> loop bd s' E h'
        | Some (Ok (Leave r), h') \<Rightarrow> Some (Ok r, h') | Some (Exc e, h') \<Rightarrow> Some (Exc e, h')) = Some x"
      and "bd = body"
    then obtain r1 h1 where b: "bd s E h = Some (r1, h1)" by (auto split: option.splits)
    with assms \<open>bd = body\<close> have "\<exists>ks. h1 = ks @ h \<and> list_all A ks" by (blast dest: emitsD)
    then show "\<exists>ks. snd x = ks @ h \<and> list_all A ks"
      using step b ih [of bd _ E h1 x] \<open>bd = body\<close>
      by (cases r1 rule: ctl_outcome_cases) (auto intro: emits_append)
  qed
  ultimately show "\<exists>ks. h' = ks @ h \<and> list_all A ks" by fastforce
qed

lemma emits_while_before [emits_intros]:
  "(\<And>t. A (Clock t)) \<Longrightarrow> (\<And>s. emits A (body s)) \<Longrightarrow> emits A (while_before deadline body s)"
  unfolding while_before_def time_ns_def by (intro emits_intros emits_answer)


lemma emits_prims [emits_intros]:
  "A (Out s) \<Longrightarrow> emits A (print s)"
  "A (Err s) \<Longrightarrow> emits A (print_err s)"
  "(\<And>t. A (Clock t)) \<Longrightarrow> emits A (time_ns)"
  "A (Sleep (d * 1000000)) \<Longrightarrow> emits A (sleep_ms d)"
  "(\<And>b. A (Exists p b)) \<Longrightarrow> emits A (exists_path p)"
  "(\<And>b. A (FileSize p b)) \<Longrightarrow> emits A (stat_size p)"
  "(\<And>b. A (ReadText p b)) \<Longrightarrow> emits A (read_text p)"
  "(\<And>b. A (WriteText p s b)) \<Longrightarrow> emits A (write_text p s)"
  "(\<And>b. A (Mkdir p b)) \<Longrightarrow> emits A (mkdirs p)"
  "A (Unlink p) \<Longrightarrow> emits A (unlink_ok p)"
  "(\<And>b. A (OpenFile p md b)) \<Longrightarrow> emits A (open_file p md)"
  "A (CloseFile p) \<Longrightarrow> emits A (close_file p)"
  "(\<And>b. A (Resolve p b)) \<Longrightarrow> emits A (resolve_path p)"
  "(\<And>x. A (Rand a b x)) \<Longrightarrow> emits A (randint a b)"
  "(\<And>rc out. A (Shell c rc out)) \<Longrightarrow> emits A (sh_result c)"
  "(\<And>rc out. A (Shell c rc out)) \<Longrightarrow> emits A (sh_run c ck)"
  "(\<And>x. A (Exec argv i x)) \<Longrightarrow> emits A (exec_result argv i)"
  "(\<And>x. A (ExecIn argv cwd vars x)) \<Longrightarrow> emits A (exec_in argv cwd vars)"
  "(\<And>b. A (Access p b)) \<Longrightarrow> emits A (can_execute p)"
  "(\<And>x. A (Exec argv i x)) \<Longrightarrow> emits A (exec_check argv i)"
  "(\<And>x. A (Input s x)) \<Longrightarrow> emits A (py_input s)"
  "(\<And>x. A (Spawn argv x)) \<Longrightarrow> emits A (popen argv)"
  "(\<And>x. A (Poll pid x)) \<Longrightarrow> emits A (poll pid)"
  "(\<And>x. A (Wait pid d x)) \<Longrightarrow> emits A (wait_limit pid d)"
  "A (Term pid) \<Longrightarrow> emits A (terminate pid)"
  "A (Kill pid) \<Longrightarrow> emits A (kill pid)"
  "(\<And>x. A (ShellLimit c d x)) \<Longrightarrow> emits A (sh_limit_result c d)"
  "(\<And>b. A (SignalGroup pid sig b)) \<Longrightarrow> emits A (kill_group pid sig)"
  "(\<And>b. A (CopyFile src dst b)) \<Longrightarrow> emits A (copy_file src dst)"
  "(\<And>x. A (Http meth url body d x)) \<Longrightarrow> emits A (http_send meth url body d)"
  "(\<And>b. A (AppendText p s b)) \<Longrightarrow> emits A (append_text p s)"
  "(\<And>x. A (OpenPty x)) \<Longrightarrow> emits A openpty"
  "(\<And>x. A (ReadFd fd x)) \<Longrightarrow> emits A (fd_read fd)"
  "(\<And>b. A (WriteFd fd s b)) \<Longrightarrow> emits A (fd_write fd s)"
  "(\<And>b. A (CloseFd fd b)) \<Longrightarrow> emits A (fd_close fd)"
  "(\<And>x. A (FileTime p x)) \<Longrightarrow> emits A (stat_mtime_ns p)" "(\<And>x. A (Glob p x)) \<Longrightarrow> emits A (glob_paths p)" "emits A geteuid"
  unfolding prim_defs
  by (rule emits_answer emits_intros | simp split: prod.split | assumption)+

text \<open>When \<open>m\<close> succeeds, every event that it adds satisfies \<open>A\<close>.\<close>

definition emits_ok :: "(event \<Rightarrow> bool) \<Rightarrow> 'a prog \<Rightarrow> bool" where
  "emits_ok A m = (\<forall>E h v h'. m E h = Some (Ok v, h') \<longrightarrow> (\<exists>ks. h' = ks @ h \<and> list_all A ks))"

lemma emits_okD: "emits_ok A m \<Longrightarrow> m E h = Some (Ok v, h') \<Longrightarrow> \<exists>ks. h' = ks @ h \<and> list_all A ks"
  by (simp add: emits_ok_def)

lemma emits_ok_emits: "emits A m \<Longrightarrow> emits_ok A m"
  by (simp add: emits_def emits_ok_def)

lemma emits_ok_bnd: "emits_ok A m \<Longrightarrow> (\<And>x. emits_ok A (f x)) \<Longrightarrow> emits_ok A (bnd m f)"
  unfolding emits_ok_def [of A "bnd m f"]
  by (auto simp: bnd_def split: option.splits outcome.splits dest!: emits_okD intro: emits_append)

lemma emits_ok_thn: "emits_ok A m \<Longrightarrow> emits_ok A k \<Longrightarrow> emits_ok A (thn m k)"
  by (simp add: thn_def emits_ok_bnd)

lemma emits_ok_finally:
  assumes "emits_ok A m" "emits_ok A k" shows "emits_ok A (finally_do m k)"
  unfolding emits_ok_def
proof (intro allI impI)
  fix E h v h'
  assume "finally_do m k E h = Some (Ok v, h')"
  then obtain h1 u where "m E h = Some (Ok v, h1)" "k E h1 = Some (Ok u, h')"
    by (auto simp: finally_do_def split: option.splits outcome.splits prod.splits)
  then show "\<exists>ks. h' = ks @ h \<and> list_all A ks" by (blast intro: emits_append dest: emits_okD [OF assms(1)] emits_okD [OF assms(2)])
qed

lemma emits_ok_let: "emits_ok A (f a) \<Longrightarrow> emits_ok A (let x = a in f x)"
  by simp

lemma emits_ok_cond: "emits_ok A m \<Longrightarrow> emits_ok A (cond_do b m)"
  by (simp add: cond_do_def emits_ok_emits emits_skip)

lemma emits_ok_for_all: "(\<And>x. emits_ok A (f x)) \<Longrightarrow> emits_ok A (for_all xs f)"
  unfolding for_all_def by (induction xs) (simp_all add: emits_ok_emits emits_ret emits_ok_bnd)

end
