(* ===== verification/Paths.thy ===== *)
theory Paths
  imports PyString
begin

text \<open>
  \<open>pathlib.PurePosixPath\<close> as the scripts use it.  A path is the string that
  \<open>str\<close> gives: no empty and no \<open>.\<close> component, no trailing slash, and \<open>.\<close> for the
  empty relative path.
\<close>

definition path_root :: "string \<Rightarrow> string" where
  "path_root s =
     (if starts_with s ''//'' \<and> \<not> starts_with s ''///'' then ''//''
      else if starts_with s ''/'' then ''/'' else [])"

definition path_parts :: "string \<Rightarrow> string list" where
  "path_parts s = filter (\<lambda>p. p \<noteq> [] \<and> p \<noteq> ''.'') (split_on CHR ''/'' s)"

definition of_parts :: "string \<Rightarrow> string list \<Rightarrow> string" where
  "of_parts r ps = (if r = [] \<and> ps = [] then ''.'' else r @ join ''/'' ps)"

definition mk_path :: "string \<Rightarrow> string" where
  "mk_path s = of_parts (path_root s) (path_parts s)"

definition pdiv :: "string \<Rightarrow> string \<Rightarrow> string" where
  "pdiv a b =
     (if starts_with b ''/'' then mk_path b
      else of_parts (path_root a) (path_parts a @ path_parts b))"

definition path_parent :: "string \<Rightarrow> string" where
  "path_parent p = of_parts (path_root p) (butlast (path_parts p))"

definition path_name :: "string \<Rightarrow> string" where
  "path_name p = (if path_parts p = [] then [] else last (path_parts p))"

text \<open>A plain file name: one component.\<close>

definition file_name :: "string \<Rightarrow> bool" where
  "file_name n = (n \<noteq> [] \<and> n \<noteq> ''.'' \<and> CHR ''/'' \<notin> set n)"

lemma path_parts_no_slash: "p \<in> set (path_parts s) \<Longrightarrow> file_name p"
  using split_on_no_sep [of p "CHR ''/''" s] by (auto simp: path_parts_def file_name_def)

lemma path_parts_file_name: "file_name n \<Longrightarrow> path_parts n = [n]"
  using split_on_join [of "[n]" "CHR ''/''"] by (simp add: file_name_def path_parts_def)

lemma path_parts_of_parts:
  assumes "\<forall>p\<in>set ps. file_name p" "r = [] \<or> r = ''/'' \<or> r = ''//''"
  shows "path_parts (of_parts r ps) = ps"
proof -
  have root: "path_parts (CHR ''/'' # s) = path_parts s" for s
    by (simp add: path_parts_def)
  have "path_parts (join ''/'' ps) = ps" if "ps \<noteq> []"
    using that assms split_on_join [of ps "CHR ''/''"]
    by (auto simp: path_parts_def file_name_def intro!: filter_True)
  moreover have "path_parts [] = []" "path_parts ''.'' = []" by (simp_all add: path_parts_def)
  ultimately show ?thesis using assms(2)
    by (cases "ps = []") (auto simp: of_parts_def root)
qed

lemma path_root_cases: "path_root s = [] \<or> path_root s = ''/'' \<or> path_root s = ''//''"
  by (simp add: path_root_def)

lemma path_parts_div:
  "file_name n \<Longrightarrow> path_parts (pdiv a n) = path_parts a @ [n]"
proof -
  assume n: "file_name n"
  then have "\<not> starts_with n ''/''" by (cases n) (auto simp: file_name_def)
  then have "pdiv a n = of_parts (path_root a) (path_parts a @ [n])"
    by (simp add: pdiv_def path_parts_file_name [OF n])
  then show ?thesis
    using n path_root_cases [of a]
    by (simp add: path_parts_of_parts path_parts_no_slash)
qed

lemma path_name_div: "file_name n \<Longrightarrow> path_name (pdiv a n) = n"
  by (simp add: path_name_def path_parts_div)

end
