(* ===== verification/PyTime.thy ===== *)
theory PyTime
  imports PyString
begin

text \<open>
  \<open>time.gmtime\<close> and \<open>strftime\<close> for the formats the scripts use, on integer
  nanoseconds since the epoch.
\<close>

definition civil_of_days :: "int \<Rightarrow> int \<times> int \<times> int" where
  "civil_of_days z =
     (let a = z + 719468;
          era = a div 146097;
          doe = a mod 146097;
          yoe = (doe - doe div 1460 + doe div 36524 - doe div 146096) div 365;
          doy = doe - (365 * yoe + yoe div 4 - yoe div 100);
          mp = (5 * doy + 2) div 153;
          d = doy - (153 * mp + 2) div 5 + 1;
          m = (if mp < 10 then mp + 3 else mp - 9)
      in (yoe + era * 400 + (if m \<le> 2 then 1 else 0), m, d))"

definition two :: "int \<Rightarrow> string" where
  "two n = (if n < 10 then CHR ''0'' # str_int n else str_int n)"

definition stamp_parts :: "int \<Rightarrow> string \<times> string \<times> string \<times> string \<times> string \<times> string" where
  "stamp_parts ns =
     (let s = ns div 1000000000; (y, m, d) = civil_of_days (s div 86400); r = s mod 86400 in
      (str_int y, two m, two d, two (r div 3600), two (r div 60 mod 60), two (r mod 60)))"

text \<open>\<open>%Y-%m-%dT%H:%M:%SZ\<close> and \<open>%Y%m%dT%H%M%SZ\<close>\<close>

definition iso_stamp :: "int \<Rightarrow> string" where
  "iso_stamp ns = (case stamp_parts ns of (y, mo, d, h, mi, s) \<Rightarrow>
     y @ ''-'' @ mo @ ''-'' @ d @ ''T'' @ h @ '':'' @ mi @ '':'' @ s @ ''Z'')"

definition compact_stamp :: "int \<Rightarrow> string" where
  "compact_stamp ns = (case stamp_parts ns of (y, mo, d, h, mi, s) \<Rightarrow>
     y @ mo @ d @ ''T'' @ h @ mi @ s @ ''Z'')"

end
