(* ===== verification/Markers.thy ===== *)
theory Markers
  imports Json
begin

text \<open>
  Results printed on a line of their own, \<open>NAME={json object}\<close>: the searches
  \<open>re.search(r"NAME=(\{[^\r\n]*\})", text)\<close> of the scripts, and that they find the
  object a benchmark printed.
\<close>

definition same_line :: "char \<Rightarrow> bool" where
  "same_line c = (c \<noteq> cr \<and> c \<noteq> nl)"

text \<open>The group \<open>(\{[^\r\n]*\})\<close> matched greedily at the front of the text.\<close>

definition braced :: "string \<Rightarrow> string option" where
  "braced s =
     (case s of
        [] \<Rightarrow> None
      | c # r \<Rightarrow>
          if c = CHR ''{''
          then map_option (\<lambda>(a, b). a @ ''}'') (rsplit1 CHR ''}'' (takeWhile same_line s))
          else None)"

text \<open>\<open>re.search\<close>: the group of the leftmost match.\<close>

fun search_obj :: "string \<Rightarrow> string \<Rightarrow> string option" where
  "search_obj mark [] = (if mark = [] then braced [] else None)"
| "search_obj mark (c # s) =
     (case (if starts_with (c # s) mark then braced (drop (length mark) (c # s)) else None) of
        Some g \<Rightarrow> Some g
      | None \<Rightarrow> search_obj mark s)"

lemma search_obj_Some:
  assumes "search_obj mark s = Some g"
  shows "\<exists>a b. s = a @ mark @ b \<and> braced b = Some g"
  using assms
proof (induction s)
  case (Cons c s)
  show ?case
  proof (cases "starts_with (c # s) mark \<and> braced (drop (length mark) (c # s)) \<noteq> None")
    case True
    then have g: "braced (drop (length mark) (c # s)) = Some g" using Cons.prems by auto
    obtain b where b: "c # s = mark @ b" using True by (auto simp: starts_with_iff)
    have "drop (length mark) (c # s) = b" unfolding b by simp
    then have "braced b = Some g" using g by simp
    then show ?thesis using b by (intro exI [of _ "[]"] exI [of _ b]) simp
  next
    case False
    then have "search_obj mark s = Some g" using Cons.prems by (auto split: if_splits option.splits)
    then obtain a b where "s = a @ mark @ b" "braced b = Some g" using Cons.IH by blast
    then show ?thesis by (intro exI [of _ "c # a"] exI [of _ b]) simp
  qed
qed (auto simp: braced_def split: if_splits)

lemma braced_Some:
  assumes "braced s = Some g"
  shows "\<exists>b. s = g @ b \<and> list_all same_line g \<and> hd g = CHR ''{'' \<and> last g = CHR ''}''
     \<and> CHR ''}'' \<notin> set (takeWhile same_line b)"
proof -
  obtain r where s: "s = CHR ''{'' # r" using assms by (auto simp: braced_def split: list.splits if_splits)
  then obtain a b where ab: "takeWhile same_line s = a @ CHR ''}'' # b" "CHR ''}'' \<notin> set b" "g = a @ ''}''"
    using assms by (auto simp: braced_def rsplit1_Some)
  have full: "s = g @ b @ dropWhile same_line s"
    using takeWhile_dropWhile_id [of same_line s] ab by simp
  have all: "list_all same_line (takeWhile same_line s)" by (rule list_all_takeWhile)
  have "takeWhile same_line (b @ dropWhile same_line s) = b"
    using all ab(1) by (simp add: list_all_iff takeWhile_append2) (metis hd_dropWhile list.collapse takeWhile.simps)
  moreover have "hd g = CHR ''{''" using full s ab(3) by (cases a) auto
  ultimately show ?thesis
    using full ab all by (intro exI [of _ "b @ dropWhile same_line s"]) simp
qed

lemma braced_object:
  assumes "list_all same_line g" "hd g = CHR ''{''" "last g = CHR ''}''" "g \<noteq> []"
    and "CHR ''}'' \<notin> set (takeWhile same_line rest)"
  shows "braced (g @ rest) = Some g"
proof -
  have g: "g = butlast g @ ''}''" using assms(3,4) by (metis append_butlast_last_id)
  have "takeWhile same_line (g @ rest) = g @ takeWhile same_line rest"
    using assms(1) by (simp add: list_all_iff)
  then have "takeWhile same_line (g @ rest) = butlast g @ CHR ''}'' # takeWhile same_line rest"
    using g by (metis append.assoc append_Cons append_Nil)
  then have "rsplit1 CHR ''}'' (takeWhile same_line (g @ rest)) = Some (butlast g, takeWhile same_line rest)"
    using assms(5) by (simp add: rsplit1_Some)
  moreover have "braced (g @ rest)
      = map_option (\<lambda>(a, b). a @ ''}'') (rsplit1 CHR ''}'' (takeWhile same_line (g @ rest)))"
    using assms(2,4) by (cases g) (simp_all add: braced_def)
  ultimately show ?thesis using g by (simp only: option.map prod.case)
qed

section \<open>Printed objects stay on one line\<close>

lemma same_line_code: "same_line c \<longleftrightarrow> code c \<noteq> 13 \<and> code c \<noteq> 10"
proof -
  have "code c = code d \<longleftrightarrow> c = d" for d by (metis char_of_char)
  from this [of cr] this [of nl] show ?thesis by (simp add: same_line_def)
qed

lemma same_line_enc_char: "list_all same_line (enc_char c)"
proof -
  have "same_line (hex_digit n)" if "n < 16" for n
    using that by (auto simp: hex_digit_def same_line_code)
  then show ?thesis
    by (auto simp: enc_char_def hex4_def hex2_def list_all_iff same_line_def)
qed

lemma same_line_enc_str: "list_all same_line (enc_str s)"
  using same_line_enc_char by (auto simp: enc_str_def list_all_iff same_line_def)

lemma same_line_str_int: "list_all same_line (str_int i)"
proof -
  have "same_line c" if "is_digit c" for c using that by (auto simp: is_digit_def same_line_def)
  then show ?thesis
    by (auto simp: str_int_def list_all_iff same_line_def dest: str_nat_digits)
qed

lemma list_all_join: "list_all P (join sep xs) \<longleftrightarrow> list_all (list_all P) xs \<and> (length xs \<le> 1 \<or> list_all P sep)"
  by (induction sep xs rule: join.induct) auto

lemma same_line_punct [simp]:
  "same_line CHR ''[''" "same_line CHR '']''" "same_line CHR ''{''" "same_line CHR ''}''"
  "same_line CHR '',''" "same_line CHR '' ''" "same_line CHR '':''"
  by (simp_all add: same_line_def)

lemma same_line_enc: "json_ok v \<Longrightarrow> list_all same_line (enc None l v)"
proof (induction v arbitrary: l)
  case (PList vs)
  then have "list_all (list_all same_line) (map (enc None (Suc l)) vs)"
    by (simp add: list_all_iff)
  then show ?case by (simp add: list_all_join brk_def item_sep_def)
next
  case (PDict d)
  have "list_all same_line (enc_str (fst kv) @ '': '' @ enc None (Suc l) (snd kv))" if "kv \<in> set d" for kv
  proof -
    have "json_ok (snd kv)" using PDict.prems that by (simp add: list_all_iff [of _ d])
    then have "list_all same_line (enc None (Suc l) (snd kv))"
      using PDict.IH [OF that, of "snd kv" "Suc l"] by (cases kv) simp
    then show ?thesis using same_line_enc_str by simp
  qed
  then have "list_all (list_all same_line) (map (\<lambda>kv. enc_str (fst kv) @ '': '' @ enc None (Suc l) (snd kv)) d)"
    by (simp add: list_all_iff [of _ "map _ _"])
  then show ?case by (simp add: list_all_join brk_def item_sep_def)
next
  case (PStr s)
  then show ?case using same_line_enc_str by simp
next
  case (PInt i)
  then show ?case using same_line_str_int by simp
qed (simp_all add: same_line_def)

lemma braced_dumps:
  assumes "json_ok (PDict d)" "CHR ''}'' \<notin> set (takeWhile same_line rest)"
  shows "braced (json_dumps (PDict d) @ rest) = Some (json_dumps (PDict d))"
  using assms same_line_enc [OF assms(1), of 0]
  by (intro braced_object) (auto simp: json_dumps_def brk_def)

section \<open>The first marker wins\<close>

text \<open>
  A marker whose last character occurs nowhere else in it (here always the
  equals sign) cannot overlap itself.
\<close>

locale result_marker =
  fixes mark :: string and stem :: string
  assumes mark_eq: "mark = stem @ ''=''"
    and stem_no_eq: "CHR ''='' \<notin> set stem"
begin

lemma no_early_start:
  assumes "\<not> contains mark pre" "pre \<noteq> []"
  shows "\<not> starts_with (pre @ mark @ t) mark"
proof
  assume "starts_with (pre @ mark @ t) mark"
  then obtain u where u: "pre @ mark @ t = mark @ u" by (auto simp: starts_with_iff)
  show False
  proof (cases "length mark \<le> length pre")
    case True
    then have "take (length mark) pre = take (length mark) (pre @ mark @ t)" by simp
    also have "\<dots> = mark" unfolding u by simp
    finally have "pre = [] @ mark @ drop (length mark) pre"
      using append_take_drop_id [of "length mark" pre] by simp
    then have "contains mark pre" unfolding contains_iff by blast
    then show False using assms(1) by simp
  next
    case False
    define w where "w = drop (length pre) mark"
    have "take (length pre) mark = take (length pre) (mark @ u)" using False by simp
    then have "take (length pre) mark = pre" unfolding u [symmetric] by simp
    then have w: "mark = pre @ w" "w \<noteq> []"
      using False append_take_drop_id [of "length pre" mark] by (simp_all add: w_def)
    have "pre @ mark @ t = pre @ w @ u" using u arg_cong [OF w(1), of "\<lambda>x. x @ u"] by simp
    then have eq: "stem @ CHR ''='' # t = w @ u" by (simp add: mark_eq)
    have "last mark = CHR ''=''" by (simp add: mark_eq)
    then have "last w = CHR ''=''" using w by simp
    moreover have "length w \<le> length stem"
      using arg_cong [OF w(1), of length] assms(2) mark_eq by (cases pre) simp_all
    then have "w = take (length w) stem" using arg_cong [OF eq, of "take (length w)"] by simp
    ultimately have "CHR ''='' \<in> set stem" using w(2) by (metis in_set_takeD last_in_set)
    then show False using stem_no_eq by simp
  qed
qed

lemma search_first:
  assumes "\<not> contains mark pre" "braced t = Some g"
  shows "search_obj mark (pre @ mark @ t) = Some g"
  using assms(1)
proof (induction pre)
  case Nil
  obtain c r where "mark @ t = c # r" using mark_eq by (cases "mark @ t") auto
  moreover have "starts_with (mark @ t) mark" by (simp add: starts_with_iff)
  moreover have "drop (length mark) (mark @ t) = t" by simp
  ultimately show ?case using assms(2) by (metis append_Nil option.simps(5) search_obj.simps(2))
next
  case (Cons c pre)
  have "\<not> contains mark pre" using Cons.prems contains_append2 [of mark pre "[c]"] by auto
  then show ?case using Cons.IH no_early_start [OF Cons.prems, of t] by simp
qed

lemma search_dumps:
  assumes "json_ok (PDict d)" "\<not> contains mark pre" "CHR ''}'' \<notin> set (takeWhile same_line rest)"
  shows "search_obj mark (pre @ mark @ json_dumps (PDict d) @ rest) = Some (json_dumps (PDict d))"
  by (rule search_first [OF assms(2) braced_dumps [OF assms(1,3)]])

end

end
