(* ===== verification/Script.thy ===== *)
theory Script
  imports Prog_Rules Paths PyTime Markers
begin

text \<open>
  Operations that every script uses: values of the process environment, items of
  JSON objects, numbers from them, the top level \<open>except\<close>, and stopping a child
  process.
\<close>

section \<open>Configuration from the process environment\<close>

definition env_opt :: "string \<Rightarrow> string option prog" where
  "env_opt k = asks (\<lambda>E. e_environ E k)"

definition env_get :: "string \<Rightarrow> string \<Rightarrow> string prog" where
  "env_get k dflt = asks (\<lambda>E. case e_environ E k of None \<Rightarrow> dflt | Some v \<Rightarrow> v)"

definition to_int :: "string \<Rightarrow> int prog" where
  "to_int s = or_raise (ValueError s) (int_of_str s)"

definition env_int :: "string \<Rightarrow> string \<Rightarrow> int prog" where
  "env_int k dflt = bnd (env_get k dflt) to_int"

definition env_flag :: "string \<Rightarrow> string \<Rightarrow> bool prog" where
  "env_flag k dflt = bnd (env_get k dflt) (\<lambda>s. ret (is_true_flag s))"

definition env_list :: "string \<Rightarrow> string \<Rightarrow> string list prog" where
  "env_list k dflt = bnd (env_get k dflt) (\<lambda>s. ret (comma_list s))"

definition env_path :: "string \<Rightarrow> string \<Rightarrow> string prog" where
  "env_path k dflt = bnd (env_get k dflt) (\<lambda>s. ret (mk_path s))"

section \<open>Values\<close>

definition as_dict :: "pyval \<Rightarrow> pydict prog" where
  "as_dict v = (case v of PDict d \<Rightarrow> ret d | _ \<Rightarrow> raise (TypeError (py_repr v)))"

text \<open>\<open>v.get(k)\<close>, \<open>v.get(k, default)\<close> and \<open>v[0]\<close>\<close>

definition as_obj :: "pyval \<Rightarrow> pydict prog" where
  "as_obj v = (case v of PDict d \<Rightarrow> ret d | _ \<Rightarrow> raise (AttributeError (py_repr v)))"

definition get_or :: "pyval \<Rightarrow> string \<Rightarrow> pyval \<Rightarrow> pyval prog" where
  "get_or v k dflt = bnd (as_obj v) (\<lambda>d. ret (dict_get d k dflt))"

definition first_item :: "pyval \<Rightarrow> pyval prog" where
  "first_item v =
     (case v of
        PList xs \<Rightarrow> (case xs of [] \<Rightarrow> raise IndexError | x # _ \<Rightarrow> ret x)
      | PStr s \<Rightarrow> (case s of [] \<Rightarrow> raise IndexError | c # _ \<Rightarrow> ret (PStr [c]))
      | PDict d \<Rightarrow> raise (KeyError ''0'')
      | _ \<Rightarrow> raise (TypeError (py_repr v)))"

text \<open>\<open>v or w\<close>\<close>

definition py_or :: "pyval \<Rightarrow> pyval \<Rightarrow> pyval" where
  "py_or v w = (if py_true v then v else w)"

text \<open>\<open>for x in v\<close>\<close>

definition py_iter :: "pyval \<Rightarrow> pyval list prog" where
  "py_iter v =
     (case v of
        PList xs \<Rightarrow> ret xs
      | PStr s \<Rightarrow> ret (map (\<lambda>c. PStr [c]) s)
      | PDict d \<Rightarrow> ret (map (\<lambda>kv. PStr (fst kv)) d)
      | _ \<Rightarrow> raise (TypeError (py_repr v)))"

definition as_int :: "pyval \<Rightarrow> int prog" where
  "as_int v = (case v of PInt i \<Rightarrow> ret i | _ \<Rightarrow> raise (TypeError (py_repr v)))"

text \<open>A value used as a string: \<open>v in text\<close>, \<open>v.encode()\<close>, \<open>"...".join\<close>.\<close>

definition as_str :: "pyval \<Rightarrow> string prog" where
  "as_str v = (case v of PStr s \<Rightarrow> ret s | _ \<Rightarrow> raise (TypeError (py_repr v)))"

definition get_item :: "pyval \<Rightarrow> string \<Rightarrow> pyval prog" where
  "get_item v k = bnd (as_dict v) (\<lambda>d. or_raise (KeyError k) (map_of d k))"

definition set_item :: "pyval \<Rightarrow> string \<Rightarrow> pyval \<Rightarrow> pyval prog" where
  "set_item v k x = bnd (as_dict v) (\<lambda>d. ret (PDict (dict_set d k x)))"

text \<open>Joining the items of a value by line ends.\<close>

definition join_lines :: "pyval \<Rightarrow> string prog" where
  "join_lines v =
     bnd (py_iter v) (\<lambda>xs.
     bnd (for_each xs [] (\<lambda>x ls. bnd (as_str x) (\<lambda>s. ret (ls @ [s])))) (\<lambda>ls.
     ret (join [nl] ls)))"

text \<open>The item of a dictionary, if there is one.\<close>

fun field :: "pyval \<Rightarrow> string \<Rightarrow> pyval option" where
  "field (PDict d) k = map_of d k"
| "field v k = None"

definition loads :: "string \<Rightarrow> pyval prog" where
  "loads s = or_raise (JSONDecodeError s) (json_loads s)"

text \<open>\<open>int(seconds * 1000)\<close> of a time difference: milliseconds, rounded towards zero.\<close>

definition to_ms :: "int \<Rightarrow> int" where
  "to_ms ns = (if ns < 0 then - ((- ns) div 1000000) else ns div 1000000)"

text \<open>\<open>s[-n:]\<close>\<close>

definition last_chars :: "nat \<Rightarrow> string \<Rightarrow> string" where
  "last_chars n s = drop (length s - n) s"

text \<open>\<open>"...%(key)s..." % result\<close>: text and key, alternating.\<close>

definition fmt_fields :: "(string \<times> string) list \<Rightarrow> pyval \<Rightarrow> string prog" where
  "fmt_fields fs v =
     for_each fs [] (\<lambda>f s. bnd (get_item v (snd f)) (\<lambda>x. ret (s @ fst f @ py_str x)))"

text \<open>
  \<open>float(v)\<close>.  A string is read by the grammar of \<open>float\<close>: surrounding blanks, a sign,
  \<open>inf\<close>, \<open>infinity\<close> or \<open>nan\<close>, or digits with single underscores between them, a
  fraction and an exponent.
\<close>

fun underscores_ok :: "bool \<Rightarrow> string \<Rightarrow> bool" where
  "underscores_ok prev [] = True"
| "underscores_ok prev (c # s) =
     ((c = CHR ''_'' \<longrightarrow> prev \<and> s \<noteq> [] \<and> is_digit (hd s)) \<and> underscores_ok (is_digit c) s)"

definition float_digits :: "bool \<Rightarrow> string \<Rightarrow> f64 option" where
  "float_digits neg s =
     (let ds = takeWhile is_digit s;
          r = dropWhile is_digit s;
          fr = (if r \<noteq> [] \<and> hd r = CHR ''.'' then takeWhile is_digit (tl r) else []);
          r' = (if r \<noteq> [] \<and> hd r = CHR ''.'' then dropWhile is_digit (tl r) else r);
          (ex, rest) = js_exp r'
      in if ds @ fr = [] \<or> rest \<noteq> [] then None
         else map_option (\<lambda>n. f64_of_dec neg n ((case ex of None \<Rightarrow> 0 | Some x \<Rightarrow> x) - int (length fr)))
                (int_digits False 0 (ds @ fr)))"

definition float_of_str :: "string \<Rightarrow> f64 option" where
  "float_of_str s0 =
     (let s = strip s0;
          neg = (s \<noteq> [] \<and> hd s = CHR ''-'');
          t = (if s \<noteq> [] \<and> (hd s = CHR ''-'' \<or> hd s = CHR ''+'') then tl s else s)
      in if lower t = ''inf'' \<or> lower t = ''infinity'' then Some (Inf neg)
         else if lower t = ''nan'' then Some NaN
         else if underscores_ok False t then float_digits neg (filter (\<lambda>c. c \<noteq> CHR ''_'') t)
         else None)"

definition to_float :: "pyval \<Rightarrow> f64 prog" where
  "to_float v =
     (case v of
        PInt i \<Rightarrow> (case f64_of_int i of Inf s \<Rightarrow> raise (OverflowError (str_int i)) | x \<Rightarrow> ret x)
      | PBool b \<Rightarrow> ret (f64_of_int (if b then 1 else 0))
      | PFloat x \<Rightarrow> ret x
      | PStr s \<Rightarrow> or_raise (ValueError s) (float_of_str s)
      | _ \<Rightarrow> raise (TypeError (py_repr v)))"

definition float_div :: "f64 \<Rightarrow> f64 \<Rightarrow> f64 prog" where
  "float_div x y = or_raise ZeroDivisionError (f64_div x y)"

text \<open>
  \<open>subprocess.run\<close> on a shell command that is printed first; the output of a failed one
  is printed too.  A text that ends a line is printed with \<open>end=""\<close>.
\<close>

definition chomp :: "string \<Rightarrow> string" where
  "chomp s = (if ends_with s [nl] then butlast s else s)"

definition checked :: "string \<Rightarrow> bool \<Rightarrow> int \<times> string \<Rightarrow> string prog" where
  "checked cmd check result =
     (if check \<and> fst result \<noteq> 0
      then thn (cond_do (snd result \<noteq> []) (print (chomp (snd result))))
             (raise (CalledProcessError (fst result) (repr_str cmd)))
      else ret (snd result))"

definition logged_run :: "string \<Rightarrow> bool \<Rightarrow> string prog" where
  "logged_run cmd check = thn (print (''$ '' @ cmd)) (bnd (sh_result cmd) (checked cmd check))"

definition logged_run_limit :: "string \<Rightarrow> bool \<Rightarrow> int \<Rightarrow> string prog" where
  "logged_run_limit cmd check limit =
     thn (print (''$ '' @ cmd)) (bnd (sh_limit_result cmd limit) (checked cmd check))"

lemma emits_logged_run [emits_intros]:
  "(\<And>s. A (Out s)) \<Longrightarrow> (\<And>rc out. A (Shell cmd rc out)) \<Longrightarrow> emits A (logged_run cmd ck)"
  "(\<And>s. A (Out s)) \<Longrightarrow> (\<And>r. A (ShellLimit cmd d r)) \<Longrightarrow> emits A (logged_run_limit cmd ck d)"
  unfolding logged_run_def logged_run_limit_def checked_def by (intro emits_intros; simp)+

lemma wp_logged_run:
  "wp (logged_run cmd False) Q E h =
     Q (Ok (snd (e_shell E (Out (''$ '' @ cmd) # h) cmd)))
       (Shell cmd (fst (e_shell E (Out (''$ '' @ cmd) # h) cmd)) (snd (e_shell E (Out (''$ '' @ cmd) # h) cmd)) # Out (''$ '' @ cmd) # h)"
  by (simp add: logged_run_def checked_def print_def tell_def sh_result_def wp_simps split: prod.split)

text \<open>\<open>with path.open(mode)\<close>\<close>

definition with_open :: "string \<Rightarrow> string \<Rightarrow> 'a prog \<Rightarrow> 'a prog" where
  "with_open path mode m = thn (open_file path mode) (finally_do m (close_file path))"

text \<open>\<open>try: main() except Exception as err: print("error: %s" % err); sys.exit(1)\<close>\<close>

definition report_errors :: "unit prog \<Rightarrow> unit prog" where
  "report_errors m =
     catching m (\<lambda>e. if is_exception e
       then Some (thn (print_err (''error: '' @ exn_str e)) (raise (SystemExit (PInt 1))))
       else None)"

section \<open>Stopping a child process\<close>

definition is_reap :: "int \<Rightarrow> event \<Rightarrow> bool" where
  "is_reap pid ev = (case ev of Poll p (Some st) \<Rightarrow> p = pid | Wait p d (Some st) \<Rightarrow> p = pid | _ \<Rightarrow> False)"

text \<open>The process has been waited for: \<open>poll\<close> or \<open>wait\<close> gave its exit status.\<close>

definition reaped :: "int \<Rightarrow> hist \<Rightarrow> bool" where
  "reaped pid h = list_ex (is_reap pid) h"

definition on_timeout :: "'a prog \<Rightarrow> exn \<Rightarrow> 'a prog option" where
  "on_timeout k e = (case e of TimeoutExpired s \<Rightarrow> Some k | _ \<Rightarrow> None)"

definition terminate_or_kill :: "int \<Rightarrow> int \<Rightarrow> int \<Rightarrow> unit prog" where
  "terminate_or_kill pid limit kill_limit =
     thn (terminate pid)
       (catching (thn (wait_limit pid limit) skip)
          (on_timeout (thn (kill pid) (thn (wait_limit pid kill_limit) skip))))"

definition stop_within :: "int \<Rightarrow> int \<Rightarrow> int \<Rightarrow> unit prog" where
  "stop_within pid limit kill_limit =
     bnd (poll pid) (\<lambda>st. cond_do (st = None) (terminate_or_kill pid limit kill_limit))"

definition stop_running :: "int \<Rightarrow> int \<Rightarrow> unit prog" where
  "stop_running pid limit = stop_within pid limit limit"

text \<open>A process killed by itself or with its group can be waited for.\<close>

definition killed :: "int \<Rightarrow> hist \<Rightarrow> bool" where
  "killed pid h = (Kill pid \<in> set h \<or> SignalGroup pid ''SIGKILL'' True \<in> set h)"

definition kill_law :: "env \<Rightarrow> bool" where
  "kill_law E = (\<forall>h pid d. killed pid h \<longrightarrow> e_wait E h pid d \<noteq> None)"

lemma reaped_simps [simp]:
  "reaped pid [] = False"
  "reaped pid (ev # h) = (is_reap pid ev \<or> reaped pid h)"
  "reaped pid (ks @ h) = (reaped pid ks \<or> reaped pid h)"
  by (simp_all add: reaped_def)

lemma is_reap_simps [simp]:
  "is_reap pid (Poll p st) = (p = pid \<and> st \<noteq> None)"
  "is_reap pid (Wait p d st) = (p = pid \<and> st \<noteq> None)"
  by (auto simp: is_reap_def split: option.splits)

lemma is_reap_others [simp]:
  "\<not> is_reap pid (Term p)" "\<not> is_reap pid (Kill p)" "\<not> is_reap pid (Clock t)" "\<not> is_reap pid (Sleep t)"
  "\<not> is_reap pid (Spawn a x)" "\<not> is_reap pid (CloseFile f)"
  by (simp_all add: is_reap_def)

lemma wp_terminate_or_kill:
  "wp (terminate_or_kill pid limit limit') (\<lambda>r h'.
      (r = Ok () \<and> reaped pid h'
       \<or> r = Exc (TimeoutExpired []) \<and> (\<exists>h1. h' = Wait pid limit' None # h1 \<and> Kill pid \<in> set h1 \<and> e_wait E h1 pid limit' = None))
      \<and> suffix h h') E h"
  by (simp add: terminate_or_kill_def on_timeout_def prim_defs wp_simps suffix_Cons split: option.split)

lemma wp_stop_within:
  "wp (stop_within pid limit limit') (\<lambda>r h'.
      (r = Ok () \<and> reaped pid h'
       \<or> r = Exc (TimeoutExpired []) \<and> (\<exists>h1. h' = Wait pid limit' None # h1 \<and> Kill pid \<in> set h1 \<and> e_wait E h1 pid limit' = None))
      \<and> suffix h h') E h"
  unfolding stop_within_def
  by (auto simp: poll_def wp_simps suffix_Cons intro!: wp_mono [OF wp_terminate_or_kill]
      dest: suffix_ConsD)

lemma wp_stop_within_killed:
  assumes "kill_law E"
  shows "wp (stop_within pid limit limit') (\<lambda>r h'. r = Ok () \<and> reaped pid h' \<and> suffix h h') E h"
  using assms unfolding kill_law_def killed_def by (intro wp_mono [OF wp_stop_within]) blast

lemma wp_stop_running_killed:
  "kill_law E \<Longrightarrow> wp (stop_running pid limit) (\<lambda>r h'. r = Ok () \<and> reaped pid h' \<and> suffix h h') E h"
  unfolding stop_running_def by (rule wp_stop_within_killed)

end
