(* ===== verification/Procs.thy ===== *)
theory Procs
  imports Script
begin

text \<open>
  Child processes a script has started and not yet waited for, and rules that show
  a script returns and leaves no child behind.
\<close>

section \<open>Live children\<close>

fun live :: "hist \<Rightarrow> int set" where
  "live [] = {}"
| "live (Spawn argv (Some p) # h) = insert p (live h)"
| "live (Poll p (Some st) # h) = live h - {p}"
| "live (Wait p d (Some st) # h) = live h - {p}"
| "live (ev # h) = live h"

definition spawn_free :: "event \<Rightarrow> bool" where
  "spawn_free ev = (case ev of Spawn argv (Some p) \<Rightarrow> False | _ \<Rightarrow> True)"

lemma live_step: "spawn_free ev \<Longrightarrow> live (ev # h) \<subseteq> live h"
  by (induction "ev # h" rule: live.induct) (auto simp: spawn_free_def)

lemma live_spawn_free: "list_all spawn_free ks \<Longrightarrow> live (ks @ h) \<subseteq> live h"
proof (induction ks)
  case (Cons ev ks)
  then show ?case using live_step [of ev "ks @ h"] by auto
qed simp

lemma live_Poll [simp]: "live (Poll p st # h) = (if st = None then live h else live h - {p})"
  by (cases st) simp_all

lemma live_Wait [simp]: "live (Wait p d st # h) = (if st = None then live h else live h - {p})"
  by (cases st) simp_all

lemma live_Spawn [simp]: "live (Spawn argv x # h) = (case x of None \<Rightarrow> live h | Some p \<Rightarrow> insert p (live h))"
  by (cases x) simp_all

section \<open>Programs that leave no child\<close>

text \<open>
  \<open>keeps E m\<close>: \<open>m\<close> returns, and every child it started has been waited for.
  \<open>reaps E p m\<close>: moreover \<open>p\<close> has been waited for.
\<close>

definition keeps :: "env \<Rightarrow> 'a prog \<Rightarrow> bool" where
  "keeps E m = (\<forall>h. wp m (\<lambda>r h'. live h' \<subseteq> live h) E h)"

definition reaps :: "env \<Rightarrow> int \<Rightarrow> 'a prog \<Rightarrow> bool" where
  "reaps E p m = (\<forall>h. wp m (\<lambda>r h'. live h' \<subseteq> live h - {p}) E h)"

named_theorems keeps_intros

lemma keepsD: "keeps E m \<Longrightarrow> live h \<subseteq> X \<Longrightarrow> wp m (\<lambda>r h'. live h' \<subseteq> X) E h"
  unfolding keeps_def by (blast intro: wp_mono)

lemma reapsD: "reaps E p m \<Longrightarrow> live h \<subseteq> X \<Longrightarrow> wp m (\<lambda>r h'. live h' \<subseteq> X - {p}) E h"
  unfolding reaps_def by (blast intro: wp_mono)

lemma case_outcome_same [simp]: "(case u of Ok x \<Rightarrow> P | Exc e \<Rightarrow> P) = P"
  by (cases u) simp_all

definition returns :: "env \<Rightarrow> 'a prog \<Rightarrow> bool" where
  "returns E m = (\<forall>h. m E h \<noteq> None)"

lemma returns_wp: "returns E m \<longleftrightarrow> (\<forall>h. wp m (\<lambda>r h'. True) E h)"
  by (simp add: returns_def wp_run)

lemma wp_emits:
  assumes "emits A m" "wp m Q E h"
  shows "wp m (\<lambda>r h'. Q r h' \<and> (\<exists>ks. h' = ks @ h \<and> list_all A ks)) E h"
  using assms by (auto simp: wp_run dest: emitsD)

lemma keeps_spawn_free: "returns E m \<Longrightarrow> emits spawn_free m \<Longrightarrow> keeps E m"
  unfolding keeps_def returns_wp
  by (blast intro: wp_mono [OF wp_emits] dest: live_spawn_free)

lemma keeps_ret [keeps_intros]: "keeps E (ret x)"
  by (simp add: keeps_def wp_ret)

lemma keeps_skip [keeps_intros]: "keeps E skip"
  by (simp add: keeps_def wp_skip)

lemma keeps_raise [keeps_intros]: "keeps E (raise e)"
  by (simp add: keeps_def wp_raise)

lemma keeps_asks [keeps_intros]: "keeps E (asks f)"
  by (simp add: keeps_def wp_asks)

lemma keeps_bnd [keeps_intros]:
  assumes "keeps E m" "\<And>x. keeps E (f x)" shows "keeps E (bnd m f)"
  unfolding keeps_def wp_bnd
  by (auto intro!: wp_mono [OF keepsD [OF assms(1) order_refl]] keepsD [OF assms(2)] split: outcome.split)

lemma keeps_thn [keeps_intros]: "keeps E m \<Longrightarrow> keeps E k \<Longrightarrow> keeps E (thn m k)"
  by (simp add: thn_def keeps_bnd)

lemma keeps_seq [keeps_intros]: "keeps E (seq [])" "keeps E m \<Longrightarrow> keeps E (seq ms) \<Longrightarrow> keeps E (seq (m # ms))"
  by (simp_all add: keeps_ret keeps_thn)

lemma keeps_if [keeps_intros]: "(b \<Longrightarrow> keeps E m) \<Longrightarrow> (\<not> b \<Longrightarrow> keeps E k) \<Longrightarrow> keeps E (if b then m else k)"
  by simp

lemma keeps_cond_do [keeps_intros]: "(b \<Longrightarrow> keeps E m) \<Longrightarrow> keeps E (cond_do b m)"
  by (simp add: cond_do_def keeps_skip)

lemma keeps_let [keeps_intros]: "(\<And>x. x = a \<Longrightarrow> keeps E (f x)) \<Longrightarrow> keeps E (let x = a in f x)"
  by simp

lemma keeps_case_option [keeps_intros]:
  "(x = None \<Longrightarrow> keeps E m) \<Longrightarrow> (\<And>y. x = Some y \<Longrightarrow> keeps E (f y)) \<Longrightarrow>
     keeps E (case x of None \<Rightarrow> m | Some y \<Rightarrow> f y)"
  by (cases x) simp_all

lemma keeps_case_prod [keeps_intros]: "(\<And>a b. p = (a, b) \<Longrightarrow> keeps E (f a b)) \<Longrightarrow> keeps E (case p of (a, b) \<Rightarrow> f a b)"
  by (cases p) simp

lemma keeps_case_ctl [keeps_intros]:
  "(\<And>s. c = Continue s \<Longrightarrow> keeps E (f s)) \<Longrightarrow> (\<And>r. c = Leave r \<Longrightarrow> keeps E (g r)) \<Longrightarrow>
     keeps E (case c of Continue s \<Rightarrow> f s | Leave r \<Rightarrow> g r)"
  by (cases c) simp_all

lemma keeps_case_outcome [keeps_intros]:
  "(\<And>s. c = Ok s \<Longrightarrow> keeps E (f s)) \<Longrightarrow> (\<And>r. c = Exc r \<Longrightarrow> keeps E (g r)) \<Longrightarrow>
     keeps E (case c of Ok s \<Rightarrow> f s | Exc r \<Rightarrow> g r)"
  by (cases c) simp_all

lemma keeps_case_fd [keeps_intros]:
  "(\<And>s. c = FdText s \<Longrightarrow> keeps E (f s)) \<Longrightarrow> (c = FdAgain \<Longrightarrow> keeps E g) \<Longrightarrow> (\<And>s. c = FdFail s \<Longrightarrow> keeps E (k s)) \<Longrightarrow>
     keeps E (case c of FdText s \<Rightarrow> f s | FdAgain \<Rightarrow> g | FdFail s \<Rightarrow> k s)"
  by (cases c) simp_all

lemma keeps_case_http [keeps_intros]:
  "(\<And>b. c = HttpOk b \<Longrightarrow> keeps E (f b)) \<Longrightarrow> (\<And>n x b. c = HttpStatus n x b \<Longrightarrow> keeps E (g n x b)) \<Longrightarrow>
     (\<And>w. c = HttpDown w \<Longrightarrow> keeps E (k w)) \<Longrightarrow>
     keeps E (case c of HttpOk b \<Rightarrow> f b | HttpStatus n x b \<Rightarrow> g n x b | HttpDown w \<Rightarrow> k w)"
  by (cases c) simp_all

lemma keeps_or_raise [keeps_intros]: "keeps E (or_raise e x)"
  by (simp add: or_raise_def keeps_raise keeps_ret split: option.split)

lemma keeps_check_ok [keeps_intros]: "keeps E (check_ok e b)"
  by (simp add: check_ok_def keeps_raise keeps_skip)

lemma keeps_answer: "(\<And>a. spawn_free (ev a)) \<Longrightarrow> keeps E (answer f ev)"
  by (simp add: keeps_def wp_answer live_step)

lemma keeps_catching [keeps_intros]:
  assumes "keeps E m" "\<And>e k. hnd e = Some k \<Longrightarrow> keeps E k"
  shows "keeps E (catching m hnd)"
  unfolding keeps_def wp_catching
  by (auto intro!: wp_mono [OF keepsD [OF assms(1) order_refl]] keepsD [OF assms(2)]
      split: outcome.split option.split)

lemma keeps_on_error [keeps_intros]: "keeps E m \<Longrightarrow> keeps E k \<Longrightarrow> keeps E (on_error m k)"
  unfolding on_error_def by (rule keeps_catching) (auto intro: keeps_thn keeps_raise)

lemma reaps_finally:
  assumes "keeps E m" "reaps E p k" shows "reaps E p (finally_do m k)"
  unfolding reaps_def wp_finally
  by (auto intro!: wp_mono [OF keepsD [OF assms(1) order_refl]] reapsD [OF assms(2)])

lemma keeps_finally [keeps_intros]:
  assumes "keeps E m" "keeps E k" shows "keeps E (finally_do m k)"
  unfolding keeps_def wp_finally
  by (auto intro!: wp_mono [OF keepsD [OF assms(1) order_refl]] keepsD [OF assms(2)])

text \<open>Starting a child and waiting for it whatever happens.\<close>

lemma keeps_popen:
  assumes "\<And>p. reaps E p (k p)" shows "keeps E (bnd (popen argv) k)"
proof -
  have "wp (k p) (\<lambda>r h'. live h' \<subseteq> live h) E (Spawn argv (Some p) # h)" for p h
    by (rule wp_mono [OF reapsD [OF assms order_refl]]) auto
  then show ?thesis
    by (auto simp: keeps_def popen_def wp_simps split: option.split)
qed

lemma reaps_tell:
  assumes "spawn_free ev" "reaps E p k" shows "reaps E p (thn (tell ev) k)"
  using live_step [OF assms(1)] unfolding reaps_def tell_def wp_thn wp_answer outcome.case
  by (auto intro!: reapsD [OF assms(2)])

lemma reaps_thn:
  assumes "reaps E p m" "keeps E k" shows "reaps E p (thn m k)"
  unfolding reaps_def wp_thn
  by (auto intro!: wp_mono [OF reapsD [OF assms(1) order_refl]] keepsD [OF assms(2)] split: outcome.split)

lemma reaps_stop_within:
  assumes "kill_law E" shows "reaps E p (stop_within p limit limit')"
proof -
  have "\<exists>st. e_wait E (Kill p # h) p limit' = Some st" for h
    using assms unfolding kill_law_def killed_def by (metis list.set_intros(1) not_None_eq)
  then show ?thesis
    unfolding reaps_def stop_within_def terminate_or_kill_def on_timeout_def prim_defs
    by (auto simp: wp_simps split: option.splits) (metis option.distinct(1))+
qed

lemma reaps_stop_running: "kill_law E \<Longrightarrow> reaps E p (stop_running p limit)"
  unfolding stop_running_def by (rule reaps_stop_within)

lemma keeps_reaps: "reaps E p m \<Longrightarrow> keeps E m"
  unfolding reaps_def keeps_def by (blast intro: wp_mono)

text \<open>On success \<open>p\<close> has been waited for.\<close>

definition reaps_ok :: "env \<Rightarrow> int \<Rightarrow> 'a prog \<Rightarrow> bool" where
  "reaps_ok E p m = (\<forall>h. wp m (\<lambda>r h'. live h' \<subseteq> live h \<and> ((\<exists>v. r = Ok v) \<longrightarrow> p \<notin> live h')) E h)"

named_theorems reaps_ok_intros

lemma reaps_okD:
  "reaps_ok E p m \<Longrightarrow> live h \<subseteq> X \<Longrightarrow> wp m (\<lambda>r h'. live h' \<subseteq> X \<and> ((\<exists>v. r = Ok v) \<longrightarrow> p \<notin> live h')) E h"
  unfolding reaps_ok_def by (blast intro: wp_mono)

lemma reaps_ok_reaps: "reaps E p m \<Longrightarrow> reaps_ok E p m"
  unfolding reaps_def reaps_ok_def by (blast intro: wp_mono)

lemma reaps_ok_bnd [reaps_ok_intros]:
  assumes "keeps E m" "\<And>x. reaps_ok E p (f x)" shows "reaps_ok E p (bnd m f)"
  unfolding reaps_ok_def wp_bnd
  by (auto intro!: wp_mono [OF keepsD [OF assms(1) order_refl]] reaps_okD [OF assms(2)] split: outcome.split)

lemma reaps_ok_thn [reaps_ok_intros]: "keeps E m \<Longrightarrow> reaps_ok E p k \<Longrightarrow> reaps_ok E p (thn m k)"
  by (simp add: thn_def reaps_ok_bnd)

lemma reaps_ok_finally [reaps_ok_intros]:
  assumes "keeps E m" "reaps_ok E p k" shows "reaps_ok E p (finally_do m k)"
proof -
  have "wp k (\<lambda>u h''. case u of Ok x \<Rightarrow> live h'' \<subseteq> live h \<and> ((\<exists>v. r = Ok v) \<longrightarrow> p \<notin> live h'')
      | Exc e \<Rightarrow> live h'' \<subseteq> live h \<and> ((\<exists>v. (Exc e :: 'a outcome) = Ok v) \<longrightarrow> p \<notin> live h'')) E h'"
    if "live h' \<subseteq> live h" for r :: "'a outcome" and h h'
    by (rule wp_mono [OF reaps_okD [OF assms(2) that]]) (simp split: outcome.split)
  then show ?thesis
    unfolding reaps_ok_def wp_finally
    by (auto intro!: wp_mono [OF keepsD [OF assms(1) order_refl]])
qed

lemma reaps_ok_popen:
  assumes "\<And>p. reaps E p (k p)" "\<And>p. reaps_ok E q (k p)" shows "reaps_ok E q (bnd (popen argv) k)"
proof -
  have "wp (k p) (\<lambda>r h'. live h' \<subseteq> live h \<and> ((\<exists>v. r = Ok v) \<longrightarrow> q \<notin> live h')) E (Spawn argv (Some p) # h)" for p h
  proof -
    let ?h = "Spawn argv (Some p) # h"
    have "wp (k p) (\<lambda>r h'. live h' \<subseteq> live ?h - {p} \<and> (live h' \<subseteq> live ?h \<and> ((\<exists>v. r = Ok v) \<longrightarrow> q \<notin> live h'))) E ?h"
      unfolding wp_conj [where Q = "\<lambda>r h'. live h' \<subseteq> live ?h - {p}"]
      by (rule conjI [OF reapsD [OF assms(1) order_refl] reaps_okD [OF assms(2) order_refl]])
    then show ?thesis by (rule wp_mono) auto
  qed
  then show ?thesis
    by (auto simp: reaps_ok_def popen_def wp_simps split: option.split)
qed

text \<open>On success every child has been waited for.\<close>

definition keeps_ok :: "env \<Rightarrow> 'a prog \<Rightarrow> bool" where
  "keeps_ok E m = (\<forall>h. wp m (\<lambda>r h'. (\<exists>v. r = Ok v) \<longrightarrow> live h' \<subseteq> live h) E h)"

named_theorems keeps_ok_intros

lemma keeps_okD: "keeps_ok E m \<Longrightarrow> live h \<subseteq> X \<Longrightarrow> wp m (\<lambda>r h'. (\<exists>v. r = Ok v) \<longrightarrow> live h' \<subseteq> X) E h"
  unfolding keeps_ok_def by (blast intro: wp_mono)

lemma keeps_ok_keeps: "keeps E m \<Longrightarrow> keeps_ok E m"
  unfolding keeps_def keeps_ok_def by (blast intro: wp_mono)

lemma keeps_ok_raise [keeps_ok_intros]: "keeps_ok E (raise e)"
  by (simp add: keeps_ok_def wp_raise)

lemma keeps_ok_bnd [keeps_ok_intros]:
  assumes "keeps E m" "\<And>x. keeps_ok E (f x)" shows "keeps_ok E (bnd m f)"
  unfolding keeps_ok_def wp_bnd
  by (auto intro!: wp_mono [OF keepsD [OF assms(1) order_refl]] keeps_okD [OF assms(2)] split: outcome.split)

lemma keeps_ok_if [keeps_ok_intros]:
  "(b \<Longrightarrow> keeps_ok E m) \<Longrightarrow> (\<not> b \<Longrightarrow> keeps_ok E k) \<Longrightarrow> keeps_ok E (if b then m else k)"
  by simp

lemma keeps_ok_let [keeps_ok_intros]: "(\<And>x. x = a \<Longrightarrow> keeps_ok E (f x)) \<Longrightarrow> keeps_ok E (let x = a in f x)"
  by simp

lemma keeps_ok_popen:
  assumes "\<And>p. reaps_ok E p (k p)" shows "keeps_ok E (bnd (popen argv) k)"
proof -
  have "wp (k p) (\<lambda>r h'. (\<exists>v. r = Ok v) \<longrightarrow> live h' \<subseteq> live h) E (Spawn argv (Some p) # h)" for p h
    by (rule wp_mono [OF reaps_okD [OF assms order_refl]]) auto
  then show ?thesis
    by (auto simp: keeps_ok_def popen_def wp_simps split: option.split)
qed

text \<open>A program that may start one child, which its value names.\<close>

definition spawns :: "env \<Rightarrow> ('a \<Rightarrow> int) \<Rightarrow> 'a prog \<Rightarrow> bool" where
  "spawns E sel m = (\<forall>h. wp m (\<lambda>r h'. case r of Ok v \<Rightarrow> live h' \<subseteq> insert (sel v) (live h) | Exc e \<Rightarrow> live h' \<subseteq> live h) E h)"

lemma spawns_popen: "spawns E (\<lambda>p. p) (popen argv)"
  by (auto simp: spawns_def popen_def wp_simps split: option.split)

lemma spawns_bnd:
  assumes "keeps E m" "\<And>x. spawns E sel (f x)" shows "spawns E sel (bnd m f)"
  unfolding spawns_def wp_bnd
proof
  fix h
  have "wp (f x) (\<lambda>r h'. case r of Ok v \<Rightarrow> live h' \<subseteq> insert (sel v) (live h) | Exc e \<Rightarrow> live h' \<subseteq> live h) E h1"
    if "live h1 \<subseteq> live h" for x h1
    using assms(2) [of x] unfolding spawns_def
    by (rule_tac wp_mono, erule_tac spec) (use that in \<open>auto split: outcome.splits\<close>)
  then show "wp m (\<lambda>r h'. case r of
      Ok x \<Rightarrow> wp (f x) (\<lambda>r h'. case r of Ok v \<Rightarrow> live h' \<subseteq> insert (sel v) (live h) | Exc e \<Rightarrow> live h' \<subseteq> live h) E h'
    | Exc e \<Rightarrow> (case Exc e of Ok v \<Rightarrow> live h' \<subseteq> insert (sel v) (live h) | Exc e \<Rightarrow> live h' \<subseteq> live h)) E h"
    by (intro wp_mono [OF keepsD [OF assms(1) order_refl]]) (simp split: outcome.split)
qed

lemma spawns_thn: "keeps E m \<Longrightarrow> spawns E sel k \<Longrightarrow> spawns E sel (thn m k)"
  by (simp add: thn_def spawns_bnd)

lemma spawns_ret:
  assumes "spawns E sel m" "\<And>v. sel' (g v) = sel v" shows "spawns E sel' (bnd m (\<lambda>v. ret (g v)))"
  unfolding spawns_def wp_bnd
proof
  fix h
  have "wp m (\<lambda>r h'. case r of Ok v \<Rightarrow> live h' \<subseteq> insert (sel v) (live h) | Exc e \<Rightarrow> live h' \<subseteq> live h) E h"
    using assms(1) by (simp add: spawns_def)
  then show "wp m (\<lambda>r h'. case r of
      Ok x \<Rightarrow> wp (ret (g x)) (\<lambda>r h'. case r of Ok v \<Rightarrow> live h' \<subseteq> insert (sel' v) (live h) | Exc e \<Rightarrow> live h' \<subseteq> live h) E h'
    | Exc e \<Rightarrow> (case Exc e of Ok v \<Rightarrow> live h' \<subseteq> insert (sel' v) (live h) | Exc e \<Rightarrow> live h' \<subseteq> live h)) E h"
    by (rule wp_mono) (simp add: wp_ret assms(2) split: outcome.splits)
qed

lemma spawns_on_error:
  assumes "spawns E sel m" "keeps E k" shows "spawns E sel (on_error m k)"
  unfolding spawns_def wp_on_error
proof
  fix h
  have "wp m (\<lambda>r h'. case r of Ok v \<Rightarrow> live h' \<subseteq> insert (sel v) (live h) | Exc e \<Rightarrow> live h' \<subseteq> live h) E h"
    using assms(1) by (simp add: spawns_def)
  then show "wp m (\<lambda>r h'. case r of
      Ok x \<Rightarrow> (case Ok x of Ok v \<Rightarrow> live h' \<subseteq> insert (sel v) (live h) | Exc e \<Rightarrow> live h' \<subseteq> live h)
    | Exc e \<Rightarrow> wp k (\<lambda>u h''. case u of
        Ok _ \<Rightarrow> (case Exc e of Ok v \<Rightarrow> live h'' \<subseteq> insert (sel v) (live h) | Exc e \<Rightarrow> live h'' \<subseteq> live h)
      | Exc e' \<Rightarrow> (case Exc e' of Ok v \<Rightarrow> live h'' \<subseteq> insert (sel v) (live h) | Exc e \<Rightarrow> live h'' \<subseteq> live h)) E h') E h"
    by (rule wp_mono) (case_tac r, simp, simp, erule wp_mono [OF keepsD [OF assms(2)]], simp split: outcome.split)
qed

lemma keeps_spawns:
  assumes "spawns E sel m" "\<And>v. reaps E (sel v) (f v)" shows "keeps E (bnd m f)"
  unfolding keeps_def wp_bnd
proof
  fix h
  have f: "wp (f v) (\<lambda>r h'. live h' \<subseteq> live h) E h1" if "live h1 \<subseteq> insert (sel v) (live h)" for v h1
    by (rule wp_mono [OF reapsD [OF assms(2) that]]) auto
  have "wp m (\<lambda>r h'. case r of Ok v \<Rightarrow> live h' \<subseteq> insert (sel v) (live h) | Exc e \<Rightarrow> live h' \<subseteq> live h) E h"
    using assms(1) by (simp add: spawns_def)
  then show "wp m (\<lambda>r h'. case r of Ok x \<Rightarrow> wp (f x) (\<lambda>r h'. live h' \<subseteq> live h) E h' | Exc e \<Rightarrow> live h' \<subseteq> live h) E h"
    by (rule wp_mono) (simp add: f split: outcome.splits)
qed

lemma keeps_prims [keeps_intros]:
  "keeps E (print s)" "keeps E (print_err s)" "keeps E time_ns" "keeps E (sleep_ms d)"
  "keeps E (exists_path p)" "keeps E (stat_size p)" "keeps E (read_text p)" "keeps E (write_text p s)"
  "keeps E (mkdirs p)" "keeps E (unlink_ok p)" "keeps E (open_file p md)" "keeps E (close_file p)"
  "keeps E (resolve_path p)" "keeps E (randint a b)" "keeps E (sh_result c)" "keeps E (sh_run c ck)"
  "keeps E (exec_result argv i)" "keeps E (exec_check argv i)" "keeps E (py_input s)" "keeps E (exec_in argv cwd vars)" "keeps E (can_execute p)" "keeps E (poll pid)" "keeps E (wait_limit pid d)"
  "keeps E (terminate pid)" "keeps E (kill pid)" "keeps E (sh_limit_result c d)" "keeps E (kill_group pid sig)"
  "keeps E (copy_file src dst)" "keeps E (http_send meth url body d)" "keeps E (append_text p s)" "keeps E openpty"
  "keeps E (fd_read fd)" "keeps E (fd_write fd s)" "keeps E (fd_close fd)"
  "keeps E (stat_mtime_ns p)" "keeps E (glob_paths p)" "keeps E geteuid"
  unfolding prim_defs
  by (rule keeps_answer keeps_intros | simp add: spawn_free_def split: prod.split option.split)+

lemma keeps_logged_run [keeps_intros]: "keeps E (logged_run cmd ck)" "keeps E (logged_run_limit cmd ck d)"
  unfolding logged_run_def logged_run_limit_def checked_def by (intro keeps_intros)+

lemma keeps_for_each [keeps_intros]:
  "(\<And>x s. x \<in> set xs \<Longrightarrow> keeps E (f x s)) \<Longrightarrow> keeps E (for_each xs s f)"
  by (induction xs arbitrary: s) (auto intro: keeps_ret keeps_bnd)

lemma keeps_for_all [keeps_intros]: "(\<And>x. x \<in> set xs \<Longrightarrow> keeps E (f x)) \<Longrightarrow> keeps E (for_all xs f)"
  by (simp add: for_all_def keeps_for_each)

lemma reaps_thn_ok:
  assumes "\<And>h. wp m (\<lambda>r h'. (\<exists>v. r = Ok v) \<and> live h' \<subseteq> live h) E h" "reaps E p k" shows "reaps E p (thn m k)"
  unfolding reaps_def wp_thn
  by (auto intro!: wp_mono [OF assms(1)] reapsD [OF assms(2)])

lemma keeps_for_until [keeps_intros]:
  "(\<And>x s. x \<in> set xs \<Longrightarrow> keeps E (f x s)) \<Longrightarrow> keeps E (for_until xs s f)"
  by (induction xs arbitrary: s) (auto intro!: keeps_ret keeps_bnd keeps_case_ctl)

text \<open>A stage of a \<open>try\<close> block, with what its \<open>finally\<close> clause has to undo so far.\<close>

lemma reaps_stage:
  assumes "keeps E m" "reaps E p k" "\<And>v. reaps E p (f v)" shows "reaps E p (bnd (on_error m k) f)"
  unfolding reaps_def wp_bnd wp_on_error
proof
  fix h
  show "wp m (\<lambda>r h'. case r of
      Ok x \<Rightarrow> (case Ok x of Ok x \<Rightarrow> wp (f x) (\<lambda>r h'. live h' \<subseteq> live h - {p}) E h' | Exc e \<Rightarrow> live h' \<subseteq> live h - {p})
    | Exc e \<Rightarrow> wp k (\<lambda>u h''. case u of
        Ok _ \<Rightarrow> (case Exc e of Ok x \<Rightarrow> wp (f x) (\<lambda>r h'. live h' \<subseteq> live h - {p}) E h'' | Exc e \<Rightarrow> live h'' \<subseteq> live h - {p})
      | Exc e' \<Rightarrow> (case Exc e' of Ok x \<Rightarrow> wp (f x) (\<lambda>r h'. live h' \<subseteq> live h - {p}) E h'' | Exc e \<Rightarrow> live h'' \<subseteq> live h - {p})) E h') E h"
    by (rule wp_mono [OF keepsD [OF assms(1) order_refl]])
      (auto intro!: reapsD [OF assms(3)] wp_mono [OF reapsD [OF assms(2)]] split: outcome.split)
qed

lemma reaps_stage_spawns:
  assumes "spawns E sel m" "reaps E p k" "\<And>v. reaps E p (f v)" "\<And>v. reaps E (sel v) (f v)"
  shows "reaps E p (bnd (on_error m k) f)"
  unfolding reaps_def wp_bnd wp_on_error
proof
  fix h
  have f: "wp (f v) (\<lambda>r h'. live h' \<subseteq> live h - {p}) E h1" if "live h1 \<subseteq> insert (sel v) (live h)" for v h1
  proof -
    have "wp (f v) (\<lambda>r h'. live h' \<subseteq> insert (sel v) (live h) - {p} \<and> live h' \<subseteq> insert (sel v) (live h) - {sel v}) E h1"
      unfolding wp_conj using reapsD [OF assms(3) that] reapsD [OF assms(4) that] by blast
    then show ?thesis by (rule wp_mono) auto
  qed
  have "wp m (\<lambda>r h'. case r of Ok v \<Rightarrow> live h' \<subseteq> insert (sel v) (live h) | Exc e \<Rightarrow> live h' \<subseteq> live h) E h"
    using assms(1) by (simp add: spawns_def)
  then show "wp m (\<lambda>r h'. case r of
      Ok x \<Rightarrow> (case Ok x of Ok x \<Rightarrow> wp (f x) (\<lambda>r h'. live h' \<subseteq> live h - {p}) E h' | Exc e \<Rightarrow> live h' \<subseteq> live h - {p})
    | Exc e \<Rightarrow> wp k (\<lambda>u h''. case u of
        Ok _ \<Rightarrow> (case Exc e of Ok x \<Rightarrow> wp (f x) (\<lambda>r h'. live h' \<subseteq> live h - {p}) E h'' | Exc e \<Rightarrow> live h'' \<subseteq> live h - {p})
      | Exc e' \<Rightarrow> (case Exc e' of Ok x \<Rightarrow> wp (f x) (\<lambda>r h'. live h' \<subseteq> live h - {p}) E h'' | Exc e \<Rightarrow> live h'' \<subseteq> live h - {p})) E h') E h"
    by (rule wp_mono) (auto intro!: f wp_mono [OF reapsD [OF assms(2)]] split: outcome.splits)
qed

text \<open>The system gives a new child an identifier that no child has that was not waited for.\<close>

definition spawn_law :: "env \<Rightarrow> bool" where
  "spawn_law E = (\<forall>h argv p. e_spawn E h argv = Some p \<longrightarrow> p \<notin> live h)"

section \<open>Children kept on success\<close>

lemma keeps_ok_bind:
  assumes "keeps_ok E m" "\<And>x. keeps_ok E (f x)" shows "keeps_ok E (bnd m f)"
  unfolding keeps_ok_def wp_bnd
proof
  fix h
  have "wp m (\<lambda>r h'. (\<exists>v. r = Ok v) \<longrightarrow> live h' \<subseteq> live h) E h" using assms(1) by (simp add: keeps_ok_def)
  then show "wp m (\<lambda>r h'. case r of Ok x \<Rightarrow> wp (f x) (\<lambda>r h'. (\<exists>v. r = Ok v) \<longrightarrow> live h' \<subseteq> live h) E h'
      | Exc e \<Rightarrow> (\<exists>v. Exc e = Ok v) \<longrightarrow> live h' \<subseteq> live h) E h"
    by (rule wp_mono) (simp add: keeps_okD [OF assms(2)] split: outcome.split)
qed

lemma keeps_ok_for_each: "(\<And>x s. x \<in> set xs \<Longrightarrow> keeps_ok E (f x s)) \<Longrightarrow> keeps_ok E (for_each xs s f)"
proof (induction xs arbitrary: s)
  case (Cons x xs)
  then show ?case by (auto intro!: keeps_ok_bind)
qed (simp add: keeps_ok_keeps keeps_ret)

text \<open>A child started by the first part is waited for by the second, if the first succeeds.\<close>

lemma keeps_ok_spawns:
  assumes "\<And>h. wp m (\<lambda>r h'. \<forall>v. r = Ok v \<longrightarrow> live h' \<subseteq> insert (sel v) (live h)) E h" "\<And>v. reaps E (sel v) (f v)"
  shows "keeps_ok E (bnd m f)"
  unfolding keeps_ok_def wp_bnd
proof
  fix h
  have f: "wp (f v) (\<lambda>r h'. (\<exists>v. r = Ok v) \<longrightarrow> live h' \<subseteq> live h) E h1" if "live h1 \<subseteq> insert (sel v) (live h)" for v h1
    by (rule wp_mono [OF reapsD [OF assms(2) that]]) auto
  show "wp m (\<lambda>r h'. case r of Ok x \<Rightarrow> wp (f x) (\<lambda>r h'. (\<exists>v. r = Ok v) \<longrightarrow> live h' \<subseteq> live h) E h'
      | Exc e \<Rightarrow> (\<exists>v. Exc e = Ok v) \<longrightarrow> live h' \<subseteq> live h) E h"
    by (rule wp_mono [OF assms(1)]) (simp add: f split: outcome.split)
qed

lemma spawns_with_open:
  assumes "spawns E sel m" shows "spawns E sel (with_open path md m)"
  unfolding with_open_def
proof (rule spawns_thn [OF keeps_prims(11)])
  show "spawns E sel (finally_do m (close_file path))"
    unfolding spawns_def wp_finally
  proof
    fix h
    have "wp m (\<lambda>r h'. case r of Ok v \<Rightarrow> live h' \<subseteq> insert (sel v) (live h) | Exc e \<Rightarrow> live h' \<subseteq> live h) E h"
      using assms by (simp add: spawns_def)
    then show "wp m (\<lambda>r h'. wp (close_file path) (\<lambda>u h''. case u of
        Ok _ \<Rightarrow> (case r of Ok v \<Rightarrow> live h'' \<subseteq> insert (sel v) (live h) | Exc e \<Rightarrow> live h'' \<subseteq> live h)
      | Exc e \<Rightarrow> (case Exc e of Ok v \<Rightarrow> live h'' \<subseteq> insert (sel v) (live h) | Exc e \<Rightarrow> live h'' \<subseteq> live h)) E h') E h"
      by (rule wp_mono) (simp add: close_file_def tell_def wp_answer split: outcome.splits)
  qed
qed

lemma wp_wait_killed:
  assumes "kill_law E" "killed p h"
  shows "wp (thn (wait_limit p d) skip) (\<lambda>r h'. r = Ok () \<and> live h' = live h - {p}) E h"
  using assms unfolding kill_law_def by (auto simp: wait_limit_def wp_simps split: option.split)

end
