(* ===== verification/Waiting.thy ===== *)
theory Waiting
  imports Procs
begin

text \<open>
  Programs without unbounded loops always return; a loop that waits for a deadline
  returns because its body sleeps before it goes round again.
\<close>

section \<open>Programs that always return\<close>

definition steps :: "'a prog \<Rightarrow> bool" where
  "steps m = (\<forall>E h. wp m (\<lambda>r h'. suffix h h') E h)"

lemma stepsD: "steps m \<Longrightarrow> suffix h0 h \<Longrightarrow> wp m (\<lambda>r h'. suffix h0 h') E h"
  unfolding steps_def by (blast intro: wp_mono suffix_order.trans)

lemma steps_returns: "steps m \<Longrightarrow> returns E m"
  unfolding steps_def returns_wp by (blast intro: wp_mono)

lemma steps_ret [steps_intros]: "steps (ret x)"
  by (simp add: steps_def wp_ret)

lemma steps_skip [steps_intros]: "steps skip"
  by (simp add: steps_def wp_skip)

lemma steps_raise [steps_intros]: "steps (raise e)"
  by (simp add: steps_def wp_raise)

lemma steps_asks [steps_intros]: "steps (asks f)"
  by (simp add: steps_def wp_asks)

lemma steps_answer [steps_intros]: "steps (answer f ev)"
  by (simp add: steps_def wp_answer suffix_Cons)

lemma steps_bnd [steps_intros]:
  assumes "steps m" "\<And>x. steps (f x)" shows "steps (bnd m f)"
  unfolding steps_def wp_bnd
  by (auto intro!: wp_mono [OF stepsD [OF assms(1) suffix_order.refl]] stepsD [OF assms(2)] split: outcome.split)

lemma steps_thn [steps_intros]: "steps m \<Longrightarrow> steps k \<Longrightarrow> steps (thn m k)"
  by (simp add: thn_def steps_bnd)

lemma steps_seq [steps_intros]: "steps (seq [])" "steps m \<Longrightarrow> steps (seq ms) \<Longrightarrow> steps (seq (m # ms))"
  by (simp_all add: steps_ret steps_thn)

lemma steps_if [steps_intros]: "(b \<Longrightarrow> steps m) \<Longrightarrow> (\<not> b \<Longrightarrow> steps k) \<Longrightarrow> steps (if b then m else k)"
  by simp

lemma steps_cond_do [steps_intros]: "(b \<Longrightarrow> steps m) \<Longrightarrow> steps (cond_do b m)"
  by (simp add: cond_do_def steps_skip)

lemma steps_let [steps_intros]: "(\<And>x. x = a \<Longrightarrow> steps (f x)) \<Longrightarrow> steps (let x = a in f x)"
  by simp

lemma steps_case_option [steps_intros]:
  "(x = None \<Longrightarrow> steps m) \<Longrightarrow> (\<And>y. x = Some y \<Longrightarrow> steps (f y)) \<Longrightarrow> steps (case x of None \<Rightarrow> m | Some y \<Rightarrow> f y)"
  by (cases x) simp_all

lemma steps_case_prod [steps_intros]: "(\<And>a b. p = (a, b) \<Longrightarrow> steps (f a b)) \<Longrightarrow> steps (case p of (a, b) \<Rightarrow> f a b)"
  by (cases p) simp

lemma steps_case_ctl [steps_intros]:
  "(\<And>s. c = Continue s \<Longrightarrow> steps (f s)) \<Longrightarrow> (\<And>r. c = Leave r \<Longrightarrow> steps (g r)) \<Longrightarrow>
     steps (case c of Continue s \<Rightarrow> f s | Leave r \<Rightarrow> g r)"
  by (cases c) simp_all

lemma steps_case_outcome [steps_intros]:
  "(\<And>s. c = Ok s \<Longrightarrow> steps (f s)) \<Longrightarrow> (\<And>r. c = Exc r \<Longrightarrow> steps (g r)) \<Longrightarrow>
     steps (case c of Ok s \<Rightarrow> f s | Exc r \<Rightarrow> g r)"
  by (cases c) simp_all

lemma steps_case_fd [steps_intros]:
  "(\<And>s. c = FdText s \<Longrightarrow> steps (f s)) \<Longrightarrow> (c = FdAgain \<Longrightarrow> steps g) \<Longrightarrow> (\<And>s. c = FdFail s \<Longrightarrow> steps (k s)) \<Longrightarrow>
     steps (case c of FdText s \<Rightarrow> f s | FdAgain \<Rightarrow> g | FdFail s \<Rightarrow> k s)"
  by (cases c) simp_all

lemma steps_case_http [steps_intros]:
  "(\<And>b. c = HttpOk b \<Longrightarrow> steps (f b)) \<Longrightarrow> (\<And>n x b. c = HttpStatus n x b \<Longrightarrow> steps (g n x b)) \<Longrightarrow>
     (\<And>w. c = HttpDown w \<Longrightarrow> steps (k w)) \<Longrightarrow>
     steps (case c of HttpOk b \<Rightarrow> f b | HttpStatus n x b \<Rightarrow> g n x b | HttpDown w \<Rightarrow> k w)"
  by (cases c) simp_all

lemma steps_or_raise [steps_intros]: "steps (or_raise e x)"
  by (simp add: or_raise_def steps_raise steps_ret split: option.split)

lemma steps_check_ok [steps_intros]: "steps (check_ok e b)"
  by (simp add: check_ok_def steps_raise steps_skip)

lemma steps_catching [steps_intros]:
  assumes "steps m" "\<And>e k. hnd e = Some k \<Longrightarrow> steps k" shows "steps (catching m hnd)"
  unfolding steps_def wp_catching
  by (auto intro!: wp_mono [OF stepsD [OF assms(1) suffix_order.refl]] stepsD [OF assms(2)]
      split: outcome.split option.split)

lemma steps_on_error [steps_intros]: "steps m \<Longrightarrow> steps k \<Longrightarrow> steps (on_error m k)"
  unfolding on_error_def by (rule steps_catching) (auto intro: steps_thn steps_raise)

lemma steps_finally [steps_intros]:
  assumes "steps m" "steps k" shows "steps (finally_do m k)"
  unfolding steps_def wp_finally
  by (auto intro!: wp_mono [OF stepsD [OF assms(1) suffix_order.refl]] stepsD [OF assms(2)])

lemma steps_for_each [steps_intros]: "(\<And>x s. x \<in> set xs \<Longrightarrow> steps (f x s)) \<Longrightarrow> steps (for_each xs s f)"
  by (induction xs arbitrary: s) (auto intro: steps_ret steps_bnd)

lemma steps_for_all [steps_intros]: "(\<And>x. x \<in> set xs \<Longrightarrow> steps (f x)) \<Longrightarrow> steps (for_all xs f)"
  by (simp add: for_all_def steps_for_each)

lemma steps_for_until [steps_intros]: "(\<And>x s. x \<in> set xs \<Longrightarrow> steps (f x s)) \<Longrightarrow> steps (for_until xs s f)"
  by (induction xs arbitrary: s) (auto intro!: steps_ret steps_bnd steps_case_ctl)

lemma steps_tell [steps_intros]: "steps (tell ev)"
  by (simp add: tell_def steps_answer)

lemma steps_prims [steps_intros]:
  "steps (print s)" "steps (print_err s)" "steps time_ns" "steps (sleep_ms d)"
  "steps (exists_path p)" "steps (stat_size p)" "steps (read_text p)" "steps (write_text p s)"
  "steps (mkdirs p)" "steps (unlink_ok p)" "steps (open_file p md)" "steps (close_file p)"
  "steps (resolve_path p)" "steps (randint a b)" "steps (sh_result c)" "steps (sh_run c ck)"
  "steps (exec_result argv i)" "steps (exec_check argv i)" "steps (py_input s)" "steps (exec_in argv cwd vars)" "steps (can_execute p)" "steps (popen argv)" "steps (poll pid)" "steps (wait_limit pid d)"
  "steps (terminate pid)" "steps (kill pid)" "steps (sh_limit_result c d)" "steps (kill_group pid sig)"
  "steps (copy_file src dst)" "steps (http_send meth url body d)" "steps (append_text p s)" "steps openpty"
  "steps (fd_read fd)" "steps (fd_write fd s)" "steps (fd_close fd)"
  "steps (stat_mtime_ns p)" "steps (glob_paths p)" "steps geteuid"
  unfolding prim_defs by (intro steps_intros)+

lemma steps_as_dict [steps_intros]: "steps (as_dict v)"
  by (simp add: as_dict_def steps_raise steps_ret split: pyval.split)

lemma steps_as_obj [steps_intros]: "steps (as_obj v)"
  by (simp add: as_obj_def steps_raise steps_ret split: pyval.split)

lemma steps_as_str [steps_intros]: "steps (as_str v)"
  by (simp add: as_str_def steps_raise steps_ret split: pyval.split)

lemma steps_py_iter [steps_intros]: "steps (py_iter v)"
  by (simp add: py_iter_def steps_raise steps_ret split: pyval.split)

lemma steps_as_int [steps_intros]: "steps (as_int v)"
  by (simp add: as_int_def steps_raise steps_ret split: pyval.split)

lemma steps_first_item [steps_intros]: "steps (first_item v)"
  by (simp add: first_item_def steps_raise steps_ret split: pyval.split list.split)

lemma steps_to_float [steps_intros]: "steps (to_float v)"
  by (simp add: to_float_def steps_raise steps_ret steps_or_raise split: pyval.split f64.split)

lemma steps_values [steps_intros]:
  "steps (get_or v k w)" "steps (get_item v k)" "steps (set_item v k x)" "steps (loads s)"
  "steps (float_div a b)" "steps (to_int t)" "steps (fmt_fields fs v)"
  "steps (env_opt k)" "steps (env_get k d)"
  "steps (env_int k d)" "steps (env_flag k d)" "steps (env_list k d)" "steps (env_path k d)"
  unfolding get_or_def get_item_def set_item_def loads_def float_div_def to_int_def env_opt_def env_get_def
    env_int_def env_flag_def env_list_def env_path_def fmt_fields_def
  by (intro steps_intros)+

lemma emits_as_dict [emits_intros]: "emits A (as_dict v)"
  by (simp add: as_dict_def emits_raise emits_ret split: pyval.split)

lemma emits_as_obj [emits_intros]: "emits A (as_obj v)"
  by (simp add: as_obj_def emits_raise emits_ret split: pyval.split)

lemma emits_as_str [emits_intros]: "emits A (as_str v)"
  by (simp add: as_str_def emits_raise emits_ret split: pyval.split)

lemma emits_py_iter [emits_intros]: "emits A (py_iter v)"
  by (simp add: py_iter_def emits_raise emits_ret split: pyval.split)

lemma emits_as_int [emits_intros]: "emits A (as_int v)"
  by (simp add: as_int_def emits_raise emits_ret split: pyval.split)

lemma emits_first_item [emits_intros]: "emits A (first_item v)"
  by (simp add: first_item_def emits_raise emits_ret split: pyval.split list.split)

lemma emits_to_float [emits_intros]: "emits A (to_float v)"
  by (simp add: to_float_def emits_raise emits_ret emits_or_raise split: pyval.split f64.split)

lemma emits_values [emits_intros]:
  "emits A (get_or v k w)" "emits A (get_item v k)" "emits A (set_item v k x)" "emits A (loads s)"
  "emits A (float_div a b)" "emits A (to_int t)" "emits A (fmt_fields fs v)"
  "emits A (env_opt k)" "emits A (env_get k d)"
  "emits A (env_int k d)" "emits A (env_flag k d)" "emits A (env_list k d)" "emits A (env_path k d)"
  unfolding get_or_def get_item_def set_item_def loads_def float_div_def to_int_def env_opt_def env_get_def
    env_int_def env_flag_def env_list_def env_path_def fmt_fields_def
  by (intro emits_intros)+

lemma keeps_as_dict [keeps_intros]: "keeps E (as_dict v)"
  by (simp add: as_dict_def keeps_raise keeps_ret split: pyval.split)

lemma keeps_as_obj [keeps_intros]: "keeps E (as_obj v)"
  by (simp add: as_obj_def keeps_raise keeps_ret split: pyval.split)

lemma keeps_as_str [keeps_intros]: "keeps E (as_str v)"
  by (simp add: as_str_def keeps_raise keeps_ret split: pyval.split)

lemma keeps_py_iter [keeps_intros]: "keeps E (py_iter v)"
  by (simp add: py_iter_def keeps_raise keeps_ret split: pyval.split)

lemma keeps_as_int [keeps_intros]: "keeps E (as_int v)"
  by (simp add: as_int_def keeps_raise keeps_ret split: pyval.split)

lemma keeps_first_item [keeps_intros]: "keeps E (first_item v)"
  by (simp add: first_item_def keeps_raise keeps_ret split: pyval.split list.split)

lemma keeps_to_float [keeps_intros]: "keeps E (to_float v)"
  by (simp add: to_float_def keeps_raise keeps_ret keeps_or_raise split: pyval.split f64.split)

lemma keeps_values [keeps_intros]:
  "keeps E (get_or v k w)" "keeps E (get_item v k)" "keeps E (set_item v k x)" "keeps E (loads s)"
  "keeps E (float_div a b)" "keeps E (to_int t)" "keeps E (fmt_fields fs v)"
  "keeps E (env_opt k)" "keeps E (env_get k d)"
  "keeps E (env_int k d)" "keeps E (env_flag k d)" "keeps E (env_list k d)" "keeps E (env_path k d)"
  by (intro keeps_spawn_free steps_returns steps_intros emits_intros)+

section \<open>What a program gives when it succeeds\<close>

definition gives :: "('a \<Rightarrow> bool) \<Rightarrow> 'a prog \<Rightarrow> bool" where
  "gives P m = (\<forall>E h. wp m (\<lambda>r h'. \<forall>v. r = Ok v \<longrightarrow> P v) E h)"

named_theorems gives_intros

lemma gives_ret [gives_intros]: "P v \<Longrightarrow> gives P (ret v)"
  by (simp add: gives_def wp_ret)

lemma gives_raise [gives_intros]: "gives P (raise e)"
  by (simp add: gives_def wp_raise)

lemma gives_steps: "steps m \<Longrightarrow> gives (\<lambda>_. True) m"
  unfolding steps_def gives_def by (blast intro: wp_mono)

lemma gives_bind:
  assumes "gives P m" "\<And>x. P x \<Longrightarrow> gives Q (f x)" shows "gives Q (bnd m f)"
  unfolding gives_def wp_bnd
proof (intro allI)
  fix E h
  have "wp m (\<lambda>r h'. \<forall>v. r = Ok v \<longrightarrow> P v) E h" using assms(1) by (simp add: gives_def)
  then show "wp m (\<lambda>r h'. case r of Ok x \<Rightarrow> wp (f x) (\<lambda>r h'. \<forall>v. r = Ok v \<longrightarrow> Q v) E h'
      | Exc e \<Rightarrow> \<forall>v. Exc e = Ok v \<longrightarrow> Q v) E h"
    by (rule wp_mono) (use assms(2) in \<open>simp add: gives_def split: outcome.split\<close>)
qed

lemma gives_bnd [gives_intros]: "steps m \<Longrightarrow> (\<And>x. gives Q (f x)) \<Longrightarrow> gives Q (bnd m f)"
  by (rule gives_bind [OF gives_steps])

lemma gives_thn [gives_intros]: "steps m \<Longrightarrow> gives Q k \<Longrightarrow> gives Q (thn m k)"
  by (simp add: thn_def gives_bnd)

lemma gives_if [gives_intros]: "(b \<Longrightarrow> gives P m) \<Longrightarrow> (\<not> b \<Longrightarrow> gives P k) \<Longrightarrow> gives P (if b then m else k)"
  by simp

lemma gives_let [gives_intros]: "(\<And>x. x = a \<Longrightarrow> gives P (f x)) \<Longrightarrow> gives P (let x = a in f x)"
  by simp

lemma wp_bnd_gives:
  assumes "gives P m" "\<And>x h'. P x \<Longrightarrow> wp (f x) Q E h'" "\<And>e h'. Q (Exc e) h'"
  shows "wp (bnd m f) Q E h"
  unfolding wp_bnd
proof -
  have "wp m (\<lambda>r h'. \<forall>v. r = Ok v \<longrightarrow> P v) E h" using assms(1) by (simp add: gives_def)
  then show "wp m (\<lambda>r h'. case r of Ok x \<Rightarrow> wp (f x) Q E h' | Exc e \<Rightarrow> Q (Exc e) h') E h"
    by (rule wp_mono) (use assms(2,3) in \<open>simp split: outcome.split\<close>)
qed

lemma wp_bnd_any:
  "steps m \<Longrightarrow> (\<And>x h'. wp (f x) Q E h') \<Longrightarrow> (\<And>e h'. Q (Exc e) h') \<Longrightarrow> wp (bnd m f) Q E h"
  by (rule wp_bnd_gives [OF gives_steps])

lemma wp_ifI: "(b \<Longrightarrow> wp m Q E h) \<Longrightarrow> (\<not> b \<Longrightarrow> wp k Q E h) \<Longrightarrow> wp (if b then m else k) Q E h"
  by simp

lemma gives_for_each:
  assumes "I [] s"
    and "\<And>ys x zs s. xs = ys @ x # zs \<Longrightarrow> I ys s \<Longrightarrow> gives (I (ys @ [x])) (f x s)"
  shows "gives (I xs) (for_each xs s f)"
  unfolding gives_def
proof (intro allI, rule wp_for_each_prefix [where I = "\<lambda>ys s h. I ys s"])
  fix E h ys x zs s
  assume "xs = ys @ x # zs" "I ys s"
  then have "wp (f x s) (\<lambda>r h'. \<forall>v. r = Ok v \<longrightarrow> I (ys @ [x]) v) E h" for h
    using assms(2) by (simp add: gives_def)
  then show "wp (f x s) (\<lambda>r h'. case r of Ok s' \<Rightarrow> I (ys @ [x]) s' | Exc e \<Rightarrow> \<forall>v. Exc e = Ok v \<longrightarrow> I xs v) E h" for h
    by (rule wp_mono) (simp split: outcome.split)
qed (simp_all add: assms(1))

section \<open>Loop bodies that pause\<close>

definition pauses :: "('s, 'r) ctl prog \<Rightarrow> bool" where
  "pauses m = (\<forall>E h. wp m (\<lambda>r h'. \<forall>s. r = Ok (Continue s) \<longrightarrow> slept_between h h') E h)"

lemma slept_between_suffix: "slept_between h h' \<Longrightarrow> suffix h0 h \<Longrightarrow> slept_between h0 h'"
proof -
  assume "slept_between h h'" "suffix h0 h"
  then obtain ks d as where "h' = (ks @ as) @ h0" "Sleep d \<in> set (ks @ as)" "0 < d"
    by (auto simp: slept_between_def suffix_def)
  then show ?thesis unfolding slept_between_def by blast
qed

lemma slept_between_later: "slept_between h h' \<Longrightarrow> suffix h' h'' \<Longrightarrow> slept_between h h''"
proof -
  assume "slept_between h h'" "suffix h' h''"
  then obtain ks d as where "h'' = (as @ ks) @ h" "Sleep d \<in> set (as @ ks)" "0 < d"
    by (auto simp: slept_between_def suffix_def)
  then show ?thesis unfolding slept_between_def by blast
qed

lemma pauses_leave [pauses_intros]: "pauses (ret (Leave r))"
  by (simp add: pauses_def wp_ret)

lemma pauses_raise [pauses_intros]: "pauses (raise e)"
  by (simp add: pauses_def wp_raise)

lemma pauses_bnd [pauses_intros]:
  assumes "steps m" "\<And>x. pauses (f x)" shows "pauses (bnd m f)"
proof -
  have "wp (f x) (\<lambda>r h'. \<forall>s. r = Ok (Continue s) \<longrightarrow> slept_between h0 h') E h" if "suffix h0 h" for x h0 h E
    using assms(2) [of x] that unfolding pauses_def by (blast intro: wp_mono slept_between_suffix)
  then show ?thesis unfolding pauses_def wp_bnd
    by (auto intro!: wp_mono [OF stepsD [OF assms(1) suffix_order.refl]] split: outcome.split)
qed

lemma pauses_thn: "steps m \<Longrightarrow> pauses k \<Longrightarrow> pauses (thn m k)"
  by (simp add: thn_def pauses_bnd)

lemma pauses_sleep [pauses_intros]:
  assumes "0 < d" "steps k" shows "pauses (thn (sleep_ms d) k)"
proof -
  have "slept_between h (Sleep (d * 1000000) # h)" for h
    using assms(1) by (intro slept_between_Sleep) simp_all
  then have "wp k (\<lambda>r h'. \<forall>s. r = Ok (Continue s) \<longrightarrow> slept_between h h') E (Sleep (d * 1000000) # h)" for E h
    using assms(2) unfolding steps_def by (blast intro: wp_mono slept_between_later)
  then show ?thesis by (simp add: pauses_def sleep_ms_def tell_def wp_thn wp_answer)
qed

lemma pauses_if [pauses_intros]: "(b \<Longrightarrow> pauses m) \<Longrightarrow> (\<not> b \<Longrightarrow> pauses k) \<Longrightarrow> pauses (if b then m else k)"
  by simp

lemma pauses_let [pauses_intros]: "(\<And>x. x = a \<Longrightarrow> pauses (f x)) \<Longrightarrow> pauses (let x = a in f x)"
  by simp

lemma pauses_case_option [pauses_intros]:
  "(x = None \<Longrightarrow> pauses m) \<Longrightarrow> (\<And>y. x = Some y \<Longrightarrow> pauses (f y)) \<Longrightarrow> pauses (case x of None \<Rightarrow> m | Some y \<Rightarrow> f y)"
  by (cases x) simp_all

lemma pauses_case_prod [pauses_intros]: "(\<And>a b. p = (a, b) \<Longrightarrow> pauses (f a b)) \<Longrightarrow> pauses (case p of (a, b) \<Rightarrow> f a b)"
  by (cases p) simp

lemma pauses_case_ctl [pauses_intros]:
  "(\<And>s. c = Continue s \<Longrightarrow> pauses (f s)) \<Longrightarrow> (\<And>r. c = Leave r \<Longrightarrow> pauses (g r)) \<Longrightarrow>
     pauses (case c of Continue s \<Rightarrow> f s | Leave r \<Rightarrow> g r)"
  by (cases c) simp_all

section \<open>Waiting for a deadline\<close>

text \<open>
  The contract of a polling loop: its body returns, and it sleeps before it asks to
  go round again.
\<close>

locale poller =
  fixes body :: "'s \<Rightarrow> ('s, 'r) ctl prog"
  assumes body_pauses: "pauses (body s)"
begin

lemma wp_wait_clock:
  assumes "clock_law E" "I s h"
    and "\<And>s h. I s h \<Longrightarrow> e_clock E h < deadline \<Longrightarrow> wp (body s) (\<lambda>r h'. case r of
        Exc e \<Rightarrow> Q (Exc e) h' | Ok (Leave x) \<Rightarrow> Q (Ok (Leave x)) h'
      | Ok (Continue s') \<Rightarrow> I s' h') E (Clock (e_clock E h) # h)"
    and "\<And>s h. I s h \<Longrightarrow> deadline \<le> e_clock E h \<Longrightarrow> Q (Ok (Continue s)) (Clock (e_clock E h) # h)"
  shows "wp (while_before deadline body s) Q E h"
proof (rule wp_while_before_clock [where I = I, OF assms(1,2)])
  fix s h
  let ?t = "e_clock E h"
  assume "I s h" "?t < deadline"
  note b = assms(3) [OF this]
  have p: "wp (body s) (\<lambda>r h'. \<forall>s. r = Ok (Continue s) \<longrightarrow> slept_between (Clock ?t # h) h') E (Clock ?t # h)"
    using body_pauses by (simp add: pauses_def)
  show "wp (body s) (\<lambda>r h'. case r of Exc e \<Rightarrow> Q (Exc e) h' | Ok (Leave x) \<Rightarrow> Q (Ok (Leave x)) h'
      | Ok (Continue s') \<Rightarrow> I s' h' \<and> slept_between (Clock ?t # h) h') E (Clock ?t # h)"
  proof (rule wp_mono [OF conjI [OF b p, folded wp_conj]])
    fix r h'
    assume "(case r of Exc e \<Rightarrow> Q (Exc e) h' | Ok (Leave x) \<Rightarrow> Q (Ok (Leave x)) h' | Ok (Continue s') \<Rightarrow> I s' h')
      \<and> (\<forall>s. r = Ok (Continue s) \<longrightarrow> slept_between (Clock ?t # h) h')"
    then show "case r of Exc e \<Rightarrow> Q (Exc e) h' | Ok (Leave x) \<Rightarrow> Q (Ok (Leave x)) h'
      | Ok (Continue s') \<Rightarrow> I s' h' \<and> slept_between (Clock ?t # h) h'"
      by (cases r rule: ctl_outcome_cases) simp_all
  qed
qed (rule assms(4))

lemma wp_wait:
  assumes "clock_law E" "I s h"
    and "\<And>s h t. I s h \<Longrightarrow> t < deadline \<Longrightarrow> wp (body s) (\<lambda>r h'. case r of
        Exc e \<Rightarrow> Q (Exc e) h' | Ok (Leave x) \<Rightarrow> Q (Ok (Leave x)) h'
      | Ok (Continue s') \<Rightarrow> I s' h') E (Clock t # h)"
    and "\<And>s h t. I s h \<Longrightarrow> deadline \<le> t \<Longrightarrow> Q (Ok (Continue s)) (Clock t # h)"
  shows "wp (while_before deadline body s) Q E h"
  by (rule wp_wait_clock [where I = I, OF assms(1,2)]) (simp_all add: assms(3,4))

lemma returns_wait: "clock_law E \<Longrightarrow> returns E (while_before deadline body s)"
  unfolding returns_wp
proof
  fix h
  assume "clock_law E"
  then show "wp (while_before deadline body s) (\<lambda>r h'. True) E h"
  proof (rule wp_wait [where I = "\<lambda>s h. True", OF _ TrueI])
    fix s h t
    have "wp (body s) (\<lambda>r h'. \<forall>s. r = Ok (Continue s) \<longrightarrow> slept_between (Clock t # h) h') E (Clock t # h)"
      using body_pauses by (simp add: pauses_def)
    then show "wp (body s) (\<lambda>r h'. case r of Ok (Continue s') \<Rightarrow> True | Ok (Leave x) \<Rightarrow> True | Exc e \<Rightarrow> True) E (Clock t # h)"
      by (rule wp_mono) (simp split: outcome.split ctl.split)
  qed simp_all
qed

lemma keeps_wait:
  "clock_law E \<Longrightarrow> (\<And>s. emits spawn_free (body s)) \<Longrightarrow> keeps E (while_before deadline body s)"
  by (intro keeps_spawn_free returns_wait emits_while_before) (simp_all add: spawn_free_def)

end


section \<open>Waiting while a child runs\<close>

text \<open>
  \<open>while time.time() < deadline and process.poll() is None: body\<close>.  The value is \<open>Leave r\<close>
  when the body returned \<open>r\<close>, \<open>Continue s\<close> when the loop ended in state \<open>s\<close>.
\<close>

definition running_body :: "int \<Rightarrow> ('s \<Rightarrow> ('s, 'r) ctl prog) \<Rightarrow> 's \<Rightarrow> ('s, ('s, 'r) ctl) ctl prog" where
  "running_body pid body s =
     bnd (poll pid) (\<lambda>st.
     if st \<noteq> None then ret (Leave (Continue s))
     else bnd (body s) (\<lambda>c. ret (case c of Continue s' \<Rightarrow> Continue s' | Leave r \<Rightarrow> Leave (Leave r))))"

definition while_running :: "int \<Rightarrow> int \<Rightarrow> ('s \<Rightarrow> ('s, 'r) ctl prog) \<Rightarrow> 's \<Rightarrow> ('s, 'r) ctl prog" where
  "while_running deadline pid body s =
     bnd (while_before deadline (running_body pid body) s) (\<lambda>c.
     ret (case c of Continue s' \<Rightarrow> Continue s' | Leave r \<Rightarrow> r))"

lemma pauses_rewrap:
  assumes "pauses m"
  shows "pauses (bnd m (\<lambda>c. ret (case c of Continue s' \<Rightarrow> Continue s' | Leave r \<Rightarrow> Leave (Leave r))))"
  unfolding pauses_def wp_bnd
proof (intro allI)
  fix E h
  have "wp m (\<lambda>r h'. \<forall>s. r = Ok (Continue s) \<longrightarrow> slept_between h h') E h"
    using assms by (simp add: pauses_def)
  then show "wp m (\<lambda>r h'. case r of
      Ok c \<Rightarrow> wp (ret (case c of Continue s' \<Rightarrow> Continue s' | Leave r \<Rightarrow> Leave (Leave r)))
        (\<lambda>r h'. \<forall>s. r = Ok (Continue s) \<longrightarrow> slept_between h h') E h'
    | Exc e \<Rightarrow> \<forall>s. Exc e = Ok (Continue s) \<longrightarrow> slept_between h h') E h"
    by (rule wp_mono) (case_tac r rule: ctl_outcome_cases; simp add: wp_ret)
qed

lemma emits_running_body:
  "(\<And>x. A (Poll pid x)) \<Longrightarrow> (\<And>s. emits A (body s)) \<Longrightarrow> emits A (running_body pid body s)"
  unfolding running_body_def by (intro emits_intros)

context poller
begin

lemma running_poller: "poller (running_body pid body)"
  by unfold_locales (unfold running_body_def, intro pauses_intros steps_intros pauses_rewrap body_pauses)

lemma returns_running: "clock_law E \<Longrightarrow> returns E (while_running deadline pid body s)"
  using poller.returns_wait [OF running_poller, of E deadline pid s]
  by (auto simp: while_running_def returns_wp wp_bnd wp_ret elim!: allE wp_mono split: outcome.split)

lemma keeps_running:
  assumes "clock_law E" "\<And>s. emits spawn_free (body s)" shows "keeps E (while_running deadline pid body s)"
proof -
  have "keeps E (while_before deadline (running_body pid body) s)"
    by (rule poller.keeps_wait [OF running_poller assms(1) emits_running_body]) (simp_all add: assms(2) spawn_free_def)
  then show ?thesis unfolding while_running_def by (intro keeps_bnd keeps_ret)
qed

end

context poller
begin

lemma wp_running:
  assumes "clock_law E" "I s h"
    and "\<And>s h t. I s h \<Longrightarrow> t < deadline \<Longrightarrow> wp (body s) (\<lambda>r h'. case r of
        Exc e \<Rightarrow> Q (Exc e) h' | Ok (Leave x) \<Rightarrow> Q (Ok (Leave x)) h'
      | Ok (Continue s') \<Rightarrow> I s' h') E (Poll pid None # Clock t # h)"
    and "\<And>s h t. I s h \<Longrightarrow> deadline \<le> t \<Longrightarrow> Q (Ok (Continue s)) (Clock t # h)"
    and "\<And>s h t st. I s h \<Longrightarrow> t < deadline \<Longrightarrow> Q (Ok (Continue s)) (Poll pid (Some st) # Clock t # h)"
  shows "wp (while_running deadline pid body s) Q E h"
  unfolding while_running_def wp_bnd
proof (rule poller.wp_wait [OF running_poller, where I = I, OF assms(1,2)])
  fix s h t
  assume I: "I s h" and t: "t < deadline"
  let ?R = "\<lambda>r h'. case r of
      Ok c \<Rightarrow> wp (ret (case c of Continue s' \<Rightarrow> Continue s' | Leave r \<Rightarrow> r)) Q E h' | Exc e \<Rightarrow> Q (Exc e) h'"
  show "wp (running_body pid body s) (\<lambda>r h'. case r of Exc e \<Rightarrow> ?R (Exc e) h' | Ok (Leave x) \<Rightarrow> ?R (Ok (Leave x)) h'
      | Ok (Continue s') \<Rightarrow> I s' h') E (Clock t # h)"
  proof (cases "e_poll E (Clock t # h) pid")
    case None
    then show ?thesis
      by (simp add: running_body_def poll_def wp_bnd wp_answer)
        (rule wp_mono [OF assms(3) [OF I t]], case_tac r rule: ctl_outcome_cases; simp add: wp_ret)
  next
    case (Some st)
    with assms(5) [OF I t] show ?thesis by (simp add: running_body_def poll_def wp_bnd wp_answer wp_ret)
  qed
qed (simp add: assms(4) wp_ret)

end

section \<open>Stepping through a program\<close>

lemma wp_bnd_steps:
  assumes "steps m"
    and "\<And>x h1. m E h = Some (Ok x, h1) \<Longrightarrow> suffix h h1 \<Longrightarrow> wp (f x) Q E h1"
    and "\<And>e h1. suffix h h1 \<Longrightarrow> Q (Exc e) h1"
  shows "wp (bnd m f) Q E h"
proof -
  obtain r h1 where m: "m E h = Some (r, h1)" "suffix h h1"
    using assms(1) unfolding steps_def wp_run by blast
  then show ?thesis using assms(2,3) by (cases r) (auto simp: wp_def bnd_def)
qed

lemma clock_suffix: "clock_law E \<Longrightarrow> suffix h h' \<Longrightarrow> e_clock E h \<le> e_clock E h'"
  by (auto simp: suffix_def clock_mono)

lemma wp_bnd_time: "wp (bnd time_ns f) Q E h = wp (f (e_clock E h)) Q E (Clock (e_clock E h) # h)"
  by (simp add: time_ns_def wp_bnd wp_answer)

lemma clock_div_step: "clock_law E \<Longrightarrow> e_clock E h div 1000000 \<le> e_clock E (ev # h) div 1000000"
  using clock_step by (intro zdiv_mono1) simp_all

lemma clock_div_suffix: "clock_law E \<Longrightarrow> suffix h h' \<Longrightarrow> e_clock E h div 1000000 \<le> e_clock E h' div 1000000"
  using clock_suffix by (intro zdiv_mono1) simp_all

lemma steps_stop_within [steps_intros]: "steps (stop_within pid d d')"
  unfolding stop_within_def terminate_or_kill_def
  by (intro steps_intros; auto simp: on_timeout_def intro!: steps_intros split: exn.splits)

lemma steps_stop_running [steps_intros]: "steps (stop_running pid d)"
  unfolding stop_running_def by (rule steps_stop_within)

lemma steps_logged_run [steps_intros]: "steps (logged_run cmd ck)" "steps (logged_run_limit cmd ck d)"
  unfolding logged_run_def logged_run_limit_def checked_def by (intro steps_intros)+

lemma steps_join_lines [steps_intros]: "steps (join_lines v)"
  unfolding join_lines_def by (intro steps_intros)

lemma keeps_join_lines [keeps_intros]: "keeps E (join_lines v)"
  unfolding join_lines_def by (intro keeps_intros)

lemma wp_bnd_later:
  assumes "steps m" "\<And>x h1. suffix h h1 \<Longrightarrow> wp (f x) Q E h1" "\<And>e h1. Q (Exc e) h1"
  shows "wp (bnd m f) Q E h"
  by (rule wp_bnd_steps [OF assms(1)]) (use assms(2,3) in blast)+

lemma wp_thn_later:
  assumes "steps m" "\<And>h1. suffix h h1 \<Longrightarrow> wp k Q E h1" "\<And>e h1. Q (Exc e) h1"
  shows "wp (thn m k) Q E h"
  unfolding thn_def by (rule wp_bnd_later [OF assms])

lemma wp_finally_later:
  assumes "wp m Q E h" "steps k" "\<And>r h1 h2. Q r h1 \<Longrightarrow> suffix h1 h2 \<Longrightarrow> Q r h2" "\<And>e h. Q (Exc e) h"
  shows "wp (finally_do m k) Q E h"
  unfolding wp_finally
proof (rule wp_mono [OF assms(1)])
  fix r h1
  assume q: "Q r h1"
  have "wp k (\<lambda>u h2. suffix h1 h2) E h1" using assms(2) by (simp add: steps_def)
  then show "wp k (\<lambda>u h''. case u of Ok x \<Rightarrow> Q r h'' | Exc e \<Rightarrow> Q (Exc e) h'') E h1"
    by (rule wp_mono) (use assms(3) [OF q] assms(4) in \<open>simp split: outcome.split\<close>)
qed

abbreviation extends :: "'a prog \<Rightarrow> bool" where
  "extends m \<equiv> emits (\<lambda>ev. True) m"

lemma steps_extends: "steps m \<Longrightarrow> extends m"
proof (rule emitsI)
  fix E h r h'
  assume "steps m" "m E h = Some (r, h')"
  then have "wp m (\<lambda>r h'. suffix h h') E h" "m E h = Some (r, h')" by (simp_all add: steps_def)
  then show "\<exists>ks. h' = ks @ h \<and> list_all (\<lambda>ev. True) ks" by (auto simp: wp_def suffix_def list_all_iff)
qed

lemma extends_suffix: "extends m \<Longrightarrow> wp m Q E h \<Longrightarrow> wp m (\<lambda>r h'. Q r h' \<and> suffix h h') E h"
  by (drule (1) wp_emits, erule wp_mono) (auto simp: suffix_def)

lemma extends_while: "(\<And>s. extends (body s)) \<Longrightarrow> extends (while_before deadline body s)"
  "(\<And>s. extends (body s)) \<Longrightarrow> extends (while_running deadline pid body s)"
  unfolding while_running_def by (intro emits_intros emits_running_body; simp)+

lemma keeps_steps: "steps m \<Longrightarrow> emits spawn_free m \<Longrightarrow> keeps E m"
  by (intro keeps_spawn_free steps_returns)

lemma wp_bnd_inv:
  assumes "wp m (\<lambda>r h'. I h') E h" "\<And>x h1. I h1 \<Longrightarrow> wp (f x) (\<lambda>r h'. I h') E h1"
  shows "wp (bnd m f) (\<lambda>r h'. I h') E h"
  unfolding wp_bnd by (rule wp_mono [OF assms(1)]) (simp add: assms(2) split: outcome.split)

lemma keeps_returns: "keeps E m \<Longrightarrow> returns E m"
  unfolding keeps_def returns_wp by (blast intro: wp_mono)

lemma steps_with_open [steps_intros]: "steps m \<Longrightarrow> steps (with_open path md m)"
  unfolding with_open_def by (intro steps_intros)

section \<open>What a program yields in a given environment\<close>

definition yields :: "env \<Rightarrow> ('a \<Rightarrow> bool) \<Rightarrow> 'a prog \<Rightarrow> bool" where
  "yields E P m = (\<forall>h. wp m (\<lambda>r h'. \<forall>v. r = Ok v \<longrightarrow> P v) E h)"

lemma yields_ret: "P v \<Longrightarrow> yields E P (ret v)"
  by (simp add: yields_def wp_ret)

lemma yields_returns: "returns E m \<Longrightarrow> yields E (\<lambda>_. True) m"
  by (simp add: yields_def returns_wp)

lemma yields_bind:
  assumes "yields E P m" "\<And>x. P x \<Longrightarrow> yields E Q (f x)" shows "yields E Q (bnd m f)"
  unfolding yields_def wp_bnd
proof
  fix h
  have "wp m (\<lambda>r h'. \<forall>v. r = Ok v \<longrightarrow> P v) E h" using assms(1) by (simp add: yields_def)
  then show "wp m (\<lambda>r h'. case r of Ok x \<Rightarrow> wp (f x) (\<lambda>r h'. \<forall>v. r = Ok v \<longrightarrow> Q v) E h'
      | Exc e \<Rightarrow> \<forall>v. Exc e = Ok v \<longrightarrow> Q v) E h"
    by (rule wp_mono) (use assms(2) in \<open>simp add: yields_def split: outcome.split\<close>)
qed

lemma yields_bnd: "returns E m \<Longrightarrow> (\<And>x. yields E Q (f x)) \<Longrightarrow> yields E Q (bnd m f)"
  by (rule yields_bind [OF yields_returns])

lemma yields_thn: "returns E m \<Longrightarrow> yields E Q k \<Longrightarrow> yields E Q (thn m k)"
  by (simp add: thn_def yields_bnd)

lemma yields_finally:
  assumes "yields E P m" "returns E k" shows "yields E P (finally_do m k)"
  unfolding yields_def wp_finally
proof
  fix h
  have "wp m (\<lambda>r h'. \<forall>v. r = Ok v \<longrightarrow> P v) E h" using assms(1) by (simp add: yields_def)
  then show "wp m (\<lambda>r h'. wp k (\<lambda>u h''. case u of Ok _ \<Rightarrow> \<forall>v. r = Ok v \<longrightarrow> P v | Exc e \<Rightarrow> \<forall>v. Exc e = Ok v \<longrightarrow> P v) E h') E h"
    by (rule wp_mono, rule_tac wp_mono [where Q = "\<lambda>u h'. True"]) (use assms(2) in \<open>simp_all add: returns_wp split: outcome.split\<close>)
qed

lemma yields_for_each:
  assumes "I [] s" "\<And>ys x s. I ys s \<Longrightarrow> yields E (I (ys @ [x])) (f x s)" shows "yields E (I xs) (for_each xs s f)"
proof -
  have "yields E (I (ys @ xs)) (for_each xs s f)" if "I ys s" for ys
    using that
  proof (induction xs arbitrary: ys s)
    case (Cons x xs)
    show ?case
      using yields_bind [OF assms(2) [OF Cons.prems, of x], where Q = "I (ys @ x # xs)" and f = "\<lambda>s'. for_each xs s' f"]
        Cons.IH [of "ys @ [x]"] by simp
  qed (simp add: yields_ret)
  from this [of "[]"] assms(1) show ?thesis by simp
qed

lemma wp_bnd_yields:
  assumes "yields E P m" "\<And>x h'. P x \<Longrightarrow> wp (f x) Q E h'" "\<And>e h'. Q (Exc e) h'"
  shows "wp (bnd m f) Q E h"
proof -
  have "wp m (\<lambda>r h'. \<forall>v. r = Ok v \<longrightarrow> P v) E h" using assms(1) by (simp add: yields_def)
  then show ?thesis
    unfolding wp_bnd by (rule wp_mono) (use assms(2,3) in \<open>simp split: outcome.split\<close>)
qed

lemma yields_get_item: "yields E (\<lambda>x. field v k = Some x) (get_item v k)"
  by (cases v) (simp_all add: yields_def get_item_def as_dict_def wp_simps split: option.split)

lemma yields_set_item: "yields E (\<lambda>w. field w = (field v)(k \<mapsto> x)) (set_item v k x)"
  by (cases v) (auto simp: yields_def set_item_def as_dict_def wp_simps)

lemma yields_fmt_fields:
  "yields E (\<lambda>s. s = concat (map (\<lambda>f. fst f @ py_str (the (field v (snd f)))) fs)) (fmt_fields fs v)"
  unfolding fmt_fields_def
proof (rule yields_for_each)
  fix ys :: "(string \<times> string) list" and f s
  assume "s = concat (map (\<lambda>f. fst f @ py_str (the (field v (snd f)))) ys)"
  then show "yields E (\<lambda>s. s = concat (map (\<lambda>f. fst f @ py_str (the (field v (snd f)))) (ys @ [f])))
      (bnd (get_item v (snd f)) (\<lambda>x. ret (s @ fst f @ py_str x)))"
    by (intro yields_bind [OF yields_get_item] yields_ret) simp
qed simp

section \<open>What a program leaves behind when it succeeds\<close>

text \<open>Started where \<open>A\<close> holds, the program ends, and a value it returns satisfies \<open>P\<close> with the history.\<close>

definition ends :: "env \<Rightarrow> (hist \<Rightarrow> bool) \<Rightarrow> ('a \<Rightarrow> hist \<Rightarrow> bool) \<Rightarrow> 'a prog \<Rightarrow> bool" where
  "ends E A P m = (\<forall>h. A h \<longrightarrow> wp m (\<lambda>r h'. \<forall>v. r = Ok v \<longrightarrow> P v h') E h)"

definition lasting :: "(hist \<Rightarrow> bool) \<Rightarrow> bool" where
  "lasting A = (\<forall>h h'. A h \<longrightarrow> suffix h h' \<longrightarrow> A h')"

lemma lastingD: "lasting A \<Longrightarrow> A h \<Longrightarrow> suffix h h' \<Longrightarrow> A h'"
  by (simp add: lasting_def)

lemma endsD: "ends E A P m \<Longrightarrow> A h \<Longrightarrow> wp m (\<lambda>r h'. \<forall>v. r = Ok v \<longrightarrow> P v h') E h"
  by (simp add: ends_def)

lemma ends_ret: "(\<And>h. A h \<Longrightarrow> P v h) \<Longrightarrow> ends E A P (ret v)"
  by (simp add: ends_def wp_ret)

lemma ends_bind:
  assumes "ends E A P m" "\<And>x. ends E (P x) Q (f x)" shows "ends E A Q (bnd m f)"
  unfolding ends_def wp_bnd
  by (intro allI impI, drule endsD [OF assms(1)], erule wp_mono) (use assms(2) in \<open>simp add: ends_def split: outcome.split\<close>)

lemma ends_pass: 
  assumes "returns E m" "extends m" "lasting A" shows "ends E A (\<lambda>v. A) m"
  unfolding ends_def
proof (intro allI impI)
  fix h
  assume "A h"
  have "wp m (\<lambda>r h'. True \<and> suffix h h') E h" using assms(1) by (intro extends_suffix [OF assms(2)]) (simp add: returns_wp)
  then show "wp m (\<lambda>r h'. \<forall>v. r = Ok v \<longrightarrow> A h') E h"
    by (rule wp_mono) (use \<open>A h\<close> assms(3) in \<open>auto dest: lastingD\<close>)
qed

lemma ends_yields:
  assumes "yields E R m" "extends m" "lasting A" shows "ends E A (\<lambda>v h. A h \<and> R v) m"
  unfolding ends_def
proof (intro allI impI)
  fix h
  assume "A h"
  have "wp m (\<lambda>r h'. (\<forall>v. r = Ok v \<longrightarrow> R v) \<and> suffix h h') E h" using assms(1) by (intro extends_suffix [OF assms(2)]) (simp add: yields_def)
  then show "wp m (\<lambda>r h'. \<forall>v. r = Ok v \<longrightarrow> A h' \<and> R v) E h"
    by (rule wp_mono) (use \<open>A h\<close> assms(3) in \<open>auto dest: lastingD\<close>)
qed

lemma ends_bnd: "returns E m \<Longrightarrow> extends m \<Longrightarrow> lasting A \<Longrightarrow> (\<And>x. ends E A Q (f x)) \<Longrightarrow> ends E A Q (bnd m f)"
  by (rule ends_bind [OF ends_pass])

lemma ends_thn: "returns E m \<Longrightarrow> extends m \<Longrightarrow> lasting A \<Longrightarrow> ends E A Q k \<Longrightarrow> ends E A Q (thn m k)"
  by (simp add: thn_def ends_bnd)

lemma ends_next: "steps m \<Longrightarrow> lasting A \<Longrightarrow> (\<And>x. ends E A Q (f x)) \<Longrightarrow> ends E A Q (bnd m f)"
  by (intro ends_bnd steps_returns steps_extends)

lemma ends_then: "steps m \<Longrightarrow> lasting A \<Longrightarrow> ends E A Q k \<Longrightarrow> ends E A Q (thn m k)"
  by (intro ends_thn steps_returns steps_extends)

text \<open>The value is that of a run of the program which is part of the history.\<close>

definition came_from :: "env \<Rightarrow> 'a prog \<Rightarrow> 'a \<Rightarrow> hist \<Rightarrow> bool" where
  "came_from E m v h = (\<exists>h0 h1. m E h0 = Some (Ok v, h1) \<and> suffix h0 h1 \<and> suffix h1 h)"

lemma lasting_came_from [intro]: "lasting (came_from E m v)"
  unfolding lasting_def came_from_def by (blast intro: suffix_order.trans)

lemma lasting_conj [intro]: "lasting A \<Longrightarrow> lasting B \<Longrightarrow> lasting (\<lambda>h. A h \<and> B h)"
  by (auto simp: lasting_def)

lemma lasting_const [intro]: "lasting (\<lambda>h. b)"
  by (simp add: lasting_def)

lemma ends_came_from:
  assumes "returns E m" "extends m" "lasting A" shows "ends E A (\<lambda>v h. A h \<and> came_from E m v h) m"
  unfolding ends_def
proof (intro allI impI)
  fix h
  assume "A h"
  obtain r h' where m: "m E h = Some (r, h')" using assms(1) unfolding returns_def by (metis not_None_eq prod.exhaust)
  with assms(2) have s: "suffix h h'" by (auto dest: emitsD simp: suffix_def)
  have "\<forall>v. r = Ok v \<longrightarrow> A h' \<and> came_from E m v h'"
    using m lastingD [OF assms(3) \<open>A h\<close> s] s by (auto simp: came_from_def)
  then show "wp m (\<lambda>r h'. \<forall>v. r = Ok v \<longrightarrow> A h' \<and> came_from E m v h') E h" using m by (simp add: wp_def)
qed

lemma ends_finally:
  assumes "ends E A P m" "returns E k" "extends k" "\<And>v. lasting (P v)" shows "ends E A P (finally_do m k)"
  unfolding ends_def wp_finally
proof (intro allI impI)
  fix h
  assume "A h"
  have k: "wp k (\<lambda>u h'. True \<and> suffix h1 h') E h1" for h1
    using assms(2) by (intro extends_suffix [OF assms(3)]) (simp add: returns_wp)
  show "wp m (\<lambda>r h'. wp k (\<lambda>u h''. case u of Ok _ \<Rightarrow> \<forall>v. r = Ok v \<longrightarrow> P v h'' | Exc e \<Rightarrow> \<forall>v. Exc e = Ok v \<longrightarrow> P v h'') E h') E h"
    by (rule wp_mono [OF endsD [OF assms(1) \<open>A h\<close>]], rule wp_mono [OF k])
      (auto dest: lastingD [OF assms(4)] split: outcome.split)
qed

lemma ends_conj: "ends E A P m \<Longrightarrow> ends E A Q m \<Longrightarrow> ends E A (\<lambda>v h. P v h \<and> Q v h) m"
  by (simp add: ends_def all_conj_distrib imp_conjR wp_conj)

lemma ends_mono: "ends E A P m \<Longrightarrow> (\<And>h. B h \<Longrightarrow> A h) \<Longrightarrow> (\<And>v h. P v h \<Longrightarrow> Q v h) \<Longrightarrow> ends E B Q m"
  unfolding ends_def by (blast intro: wp_mono)

lemma ends_for_each:
  assumes "\<And>h. A h \<Longrightarrow> I [] s h" "\<And>ys x s. ends E (I ys s) (I (ys @ [x])) (f x s)"
  shows "ends E A (I xs) (for_each xs s f)"
  unfolding ends_def
  by (intro allI impI, rule wp_for_each_prefix [where I = I, OF assms(1)])
    (auto split: outcome.split intro!: wp_mono [OF endsD [OF assms(2)]])

lemma wp_bnd_ends:
  assumes "ends E A P m" "A h" "\<And>x h'. P x h' \<Longrightarrow> wp (f x) Q E h'" "\<And>e h'. Q (Exc e) h'"
  shows "wp (bnd m f) Q E h"
  unfolding wp_bnd
  by (rule wp_mono [OF endsD [OF assms(1,2)]]) (use assms(3,4) in \<open>simp split: outcome.split\<close>)

section \<open>A quiet environment\<close>

text \<open>
  An environment that satisfies the laws: every command succeeds and prints nothing,
  children end at once, no file exists, and only sleeping takes time.
\<close>

definition quiet_env :: env where
  "quiet_env = \<lparr>
     e_environ = Map.empty, e_platform = ''linux'', e_uname = ''6.1.0'', e_script = ''/repo/scripts/run.py'', e_euid = 0,
     e_shell = (\<lambda>h c. (0, [])), e_shell_limit = (\<lambda>h c d. Some (0, [])), e_exec = (\<lambda>h a i. Some (0, [])), e_exec_in = (\<lambda>h a d v. Some (0, [])),
     e_spawn = (\<lambda>h a. Some 100), e_poll = (\<lambda>h p. Some 0), e_wait = (\<lambda>h p d. Some 0),
     e_clock = (\<lambda>h. sum_list (map slept h)), e_exists = (\<lambda>h p. False), e_access = (\<lambda>h p. False), e_size = (\<lambda>h p. None),
     e_mtime = (\<lambda>h p. None), e_glob = (\<lambda>h p. []),
     e_read = (\<lambda>h p. None), e_write = (\<lambda>h p. True), e_resolve = (\<lambda>h p. p), e_rand = (\<lambda>h a b. a),
     e_http = (\<lambda>h m u b d. HttpDown []), e_pty = (\<lambda>h. Some (3, 4)), e_fd_read = (\<lambda>h fd. FdAgain), e_fd_write = (\<lambda>h fd. True), e_group = (\<lambda>h p s. True), e_input = (\<lambda>h. Ok [])\<rparr>"

lemma quiet_clock: "clock_law quiet_env"
  by (simp add: clock_law_def quiet_env_def)

lemma quiet_kill: "kill_law quiet_env"
  by (simp add: kill_law_def quiet_env_def)

lemmas quiet_laws = quiet_clock quiet_kill

text \<open>The same with every file present and holding the given text.\<close>

definition file_env :: "string \<Rightarrow> env" where
  "file_env text = quiet_env \<lparr>e_exists := (\<lambda>h p. True), e_read := (\<lambda>h p. Some text)\<rparr>"

lemma file_clock: "clock_law (file_env text)"
  by (simp add: clock_law_def file_env_def quiet_env_def)

lemma file_kill: "kill_law (file_env text)"
  by (simp add: kill_law_def file_env_def quiet_env_def)

lemmas file_laws = file_clock file_kill

text \<open>A resource released on both sides of the point where a \<open>try\<close> block is split.\<close>

lemma wp_released:
  assumes "steps m" "\<And>h. wp k (\<lambda>u h'. P h') E h" "\<And>v h. wp (f v) (\<lambda>r h'. P h') E h"
  shows "wp (bnd (on_error m k) f) (\<lambda>r h'. P h') E h"
  unfolding wp_bnd wp_on_error
proof (rule wp_mono)
  show "wp m (\<lambda>r h'. True) E h" using steps_returns [OF assms(1)] by (simp add: returns_wp)
  show "case r of
      Ok x \<Rightarrow> (case Ok x of Ok x \<Rightarrow> wp (f x) (\<lambda>r h'. P h') E h' | Exc e \<Rightarrow> P h')
    | Exc e \<Rightarrow> wp k (\<lambda>u h''. case u of
        Ok _ \<Rightarrow> (case Exc e of Ok x \<Rightarrow> wp (f x) (\<lambda>r h'. P h') E h'' | Exc e \<Rightarrow> P h'')
      | Exc e' \<Rightarrow> (case Exc e' of Ok x \<Rightarrow> wp (f x) (\<lambda>r h'. P h') E h'' | Exc e \<Rightarrow> P h'')) E h'" for r h'
    using assms(3) by (cases r) (auto intro!: wp_mono [OF assms(2)] split: outcome.split)
qed

lemma wp_finally_released:
  assumes "returns E m" "\<And>h. wp k (\<lambda>u h'. P h') E h" shows "wp (finally_do m k) (\<lambda>r h'. P h') E h"
  unfolding wp_finally
  by (rule wp_mono [where Q = "\<lambda>r h'. True"]) (use assms in \<open>simp_all add: returns_wp\<close>)

lemma wp_thn_ok:
  assumes "wp m (\<lambda>r h'. r = Ok () \<and> P h') E h" "\<And>h'. P h' \<Longrightarrow> wp k Q E h'" shows "wp (thn m k) Q E h"
  unfolding wp_thn by (rule wp_mono [OF assms(1)]) (use assms(2) in simp)

lemma wp_stage:
  assumes "wp m (\<lambda>r h'. case r of Ok v \<Rightarrow> A v h' | Exc e \<Rightarrow> B h') E h"
    and "\<And>v h'. A v h' \<Longrightarrow> wp (f v) (\<lambda>r h'. P h') E h'" "\<And>h'. B h' \<Longrightarrow> wp k (\<lambda>u h'. P h') E h'"
  shows "wp (bnd (on_error m k) f) (\<lambda>r h'. P h') E h"
  unfolding wp_bnd wp_on_error
proof (rule wp_mono [OF assms(1)])
  fix r h'
  assume "case r of Ok v \<Rightarrow> A v h' | Exc e \<Rightarrow> B h'"
  then show "case r of
      Ok x \<Rightarrow> (case Ok x of Ok x \<Rightarrow> wp (f x) (\<lambda>r h'. P h') E h' | Exc e \<Rightarrow> P h')
    | Exc e \<Rightarrow> wp k (\<lambda>u h''. case u of
        Ok _ \<Rightarrow> (case Exc e of Ok x \<Rightarrow> wp (f x) (\<lambda>r h'. P h') E h'' | Exc e \<Rightarrow> P h'')
      | Exc e' \<Rightarrow> (case Exc e' of Ok x \<Rightarrow> wp (f x) (\<lambda>r h'. P h') E h'' | Exc e \<Rightarrow> P h'')) E h'"
    using assms(2,3) by (cases r) (auto intro!: wp_mono [OF assms(3)] split: outcome.split)
qed

lemma wp_thn_returns:
  assumes "returns E m" "\<And>h1. wp k Q E h1" "\<And>e h1. Q (Exc e) h1" shows "wp (thn m k) Q E h"
  unfolding wp_thn
  by (rule wp_mono [where Q = "\<lambda>r h'. True"]) (use assms in \<open>auto simp: returns_wp split: outcome.split\<close>)

text \<open>The quiet environment with a new identifier for every child.\<close>

fun spawned_id :: "event \<Rightarrow> int" where
  "spawned_id (Spawn argv (Some p)) = \<bar>p\<bar>"
| "spawned_id ev = 0"

definition fresh_env :: env where
  "fresh_env = quiet_env \<lparr>e_spawn := (\<lambda>h a. Some (1 + sum_list (map spawned_id h)))\<rparr>"

lemma spawned_nonneg: "0 \<le> sum_list (map spawned_id h)"
proof -
  have "0 \<le> spawned_id ev" for ev by (induction ev rule: spawned_id.induct) simp_all
  then show ?thesis by (induction h) (simp_all add: add_nonneg_nonneg)
qed

lemma live_spawned: "p \<in> live h \<Longrightarrow> p \<le> sum_list (map spawned_id h)"
proof (induction h)
  case (Cons ev h)
  show ?case
  proof (cases "spawn_free ev")
    case True
    have "0 \<le> spawned_id ev" by (induction ev rule: spawned_id.induct) simp_all
    then show ?thesis using Cons live_step [OF True, of h] by auto
  next
    case False
    then obtain argv q where "ev = Spawn argv (Some q)" by (auto simp: spawn_free_def split: event.splits option.splits)
    then show ?thesis using Cons spawned_nonneg [of h] by auto
  qed
qed simp

lemma fresh_laws: "clock_law fresh_env" "kill_law fresh_env" "spawn_law fresh_env"
proof -
  show "clock_law fresh_env" "kill_law fresh_env"
    using quiet_laws by (simp_all add: clock_law_def kill_law_def fresh_env_def)
  show "spawn_law fresh_env"
    using live_spawned by (fastforce simp: spawn_law_def fresh_env_def)
qed

end
