(* ===== verification/Go_Bench.thy ===== *)
theory Go_Bench
  imports Markers "HOL-Library.Word"
begin

text \<open>
  The result lines of the two benchmark programs, \<open>src/cmd/disk-bench/main.go\<close> and
  \<open>src/cmd/cpu-bench/main.go\<close>: their result structs, the text that \<open>encoding/json\<close>
  gives for them (compact, unlike the \<open>json.dumps\<close> of the scripts), and that
  \<open>json.loads\<close> reads it back.
\<close>

section \<open>encoding/json\<close>

text \<open>
  The types of the struct fields: strings, signed and unsigned 64-bit integers (\<open>int\<close> has
  64 bits on amd64) and booleans.
\<close>

datatype go_value = GoString string | GoInt "64 word" | GoUint "64 word" | GoBool bool

text \<open>
  \<open>json.Marshal\<close> escapes quotes, backslashes and control characters, and the three
  characters that are special in HTML.
\<close>

definition go_char :: "char \<Rightarrow> string" where
  "go_char c =
     (if c = quot \<or> c = bslash then [bslash, c]
      else if c = CHR 0x08 then [bslash, CHR ''b'']
      else if c = CHR 0x0C then [bslash, CHR ''f'']
      else if c = nl then [bslash, CHR ''n'']
      else if c = cr then [bslash, CHR ''r'']
      else if c = tab then [bslash, CHR ''t'']
      else if code c < 32 \<or> c = CHR ''<'' \<or> c = CHR ''>'' \<or> c = CHR ''&'' then bslash # CHR ''u'' # hex4 (code c)
      else [c])"

definition go_string :: "string \<Rightarrow> string" where
  "go_string s = quot # concat (map go_char s) @ [quot]"

fun go_text :: "go_value \<Rightarrow> string" where
  "go_text (GoString s) = go_string s"
| "go_text (GoInt w) = str_int (sint w)"
| "go_text (GoUint w) = str_int (uint w)"
| "go_text (GoBool b) = (if b then ''true'' else ''false'')"

definition go_member :: "string \<times> go_value \<Rightarrow> string" where
  "go_member f = go_string (fst f) @ CHR '':'' # go_text (snd f)"

definition marshal :: "(string \<times> go_value) list \<Rightarrow> string" where
  "marshal fs = ''{'' @ join '','' (map go_member fs) @ ''}''"

text \<open>The value that \<open>json.loads\<close> has for a field.\<close>

fun go_py :: "go_value \<Rightarrow> pyval" where
  "go_py (GoString s) = PStr s"
| "go_py (GoInt w) = PInt (sint w)"
| "go_py (GoUint w) = PInt (uint w)"
| "go_py (GoBool b) = PBool b"

definition go_dict :: "(string \<times> go_value) list \<Rightarrow> pydict" where
  "go_dict fs = map (\<lambda>f. (fst f, go_py (snd f))) fs"

section \<open>Reading it back\<close>

lemma js_str_go_char: "js_str (go_char c @ r) = map_option (\<lambda>(t, r'). (c # t, r')) (js_str r)"
proof -
  consider "c = quot \<or> c = bslash" | "c = nl" | "c = cr" | "c = tab" | "c = CHR 0x0C" | "c = CHR 0x08"
    | "go_char c = bslash # CHR ''u'' # hex4 (code c)"
    | "c \<noteq> quot" "c \<noteq> bslash" "\<not> code c < 32" "go_char c = [c]"
    unfolding go_char_def by argo
  then show ?thesis
  proof cases
    case 7
    then show ?thesis by (simp only: append_Cons js_str_escape js_esc_hex option.case prod.case)
  qed (auto simp: go_char_def js_esc_def)
qed

lemma js_str_go: "js_str (concat (map go_char s) @ quot # r) = Some (s, r)"
  by (induction s) (simp_all add: js_str_go_char)

lemma js_val_int:
  assumes "stops r" shows "js_val (Suc n) (str_int k @ r) = Some (PInt k, r)"
proof -
  obtain c t where ct: "str_int k = c # t" "is_digit c \<or> c = CHR ''-''"
    using hd_str_nat [of "nat k"] by (cases "str_nat (nat k)"; cases "k < 0") (auto simp: str_int_def)
  have "c \<noteq> quot" "c \<noteq> CHR ''{''" "c \<noteq> CHR ''[''" using ct by (auto simp: is_digit_def)
  then show ?thesis using ct js_word_int [OF assms, of k] by (simp del: js_val.simps add: js_val_word)
qed

lemma js_val_go:
  assumes "stops r" shows "js_val (Suc n) (go_text v @ r) = Some (go_py v, r)"
  using js_val_int [OF assms] js_word_consts(2,3) [of r]
  by (cases v) (simp_all add: go_string_def js_str_go)

lemma go_text_not_ws: "skip_ws (go_text v @ r) = go_text v @ r"
proof -
  have "\<exists>c t. str_int k = c # t \<and> \<not> js_ws c" for k
    using enc_not_ws [of "PInt k" None 0] by auto
  then have "\<exists>c t. go_text v = c # t \<and> \<not> js_ws c"
    by (cases v) (auto simp: go_string_def js_ws_def)
  then show ?thesis by (auto simp: skip_ws_Cons)
qed

lemma js_members_go:
  assumes "fs \<noteq> []" "distinct (map fst acc @ map fst fs)" "length fs < n"
  shows "js_members n acc (join '','' (map go_member fs) @ CHR ''}'' # r) = Some (acc @ go_dict fs, r)"
  using assms
proof (induction fs arbitrary: n acc)
  case (Cons f fs)
  obtain m where m: "n = Suc (Suc m)" using Cons.prems(3) by (cases n; cases "n - 1") auto
  have new: "dict_set acc (fst f) x = acc @ [(fst f, x)]" for x
    using Cons.prems(2) by (simp add: dict_set_new)
  have ws: "skip_ws (CHR '','' # x) = CHR '','' # x" "skip_ws (CHR ''}'' # x) = CHR ''}'' # x" "skip_ws (CHR '':'' # x) = CHR '':'' # x" for x
    by (simp_all add: skip_ws_Cons js_ws_def)
  let ?v = "go_py (snd f)"
  have v: "js_val (Suc m) (go_text (snd f) @ c # x) = Some (?v, c # x)" if "c = CHR '','' \<or> c = CHR ''}''" for c x
    using that by (intro js_val_go) (auto simp: stops_def is_digit_def)
  have step: "js_members (Suc (Suc m)) acc (go_member f @ c # x) =
      (if c = CHR '','' then js_members (Suc m) (acc @ [(fst f, ?v)]) (skip_ws x) else Some (acc @ [(fst f, ?v)], x))"
    if "c = CHR '','' \<or> c = CHR ''}''" for c x
    using that v [OF that, of x]
    by (subst js_members.simps(2)) (elim disjE; simp add: go_member_def go_string_def js_str_go go_text_not_ws ws new
        del: js_members.simps js_val.simps)
  show ?case
  proof (cases "fs = []")
    case True
    then show ?thesis using m step [of "CHR ''}''" r] by (simp add: go_dict_def del: js_members.simps)
  next
    case False
    let ?rest = "join '','' (map go_member fs) @ CHR ''}'' # r"
    obtain u us where us: "fs = u # us" using False by (cases fs) auto
    then have "skip_ws ?rest = ?rest"
      by (cases us) (simp_all add: go_member_def go_string_def skip_ws_Cons js_ws_def)
    moreover have "js_members (Suc m) (acc @ [(fst f, ?v)]) ?rest = Some ((acc @ [(fst f, ?v)]) @ go_dict fs, r)"
      using Cons.prems m False by (intro Cons.IH) auto
    ultimately show ?thesis
      using False m step [of "CHR '',''" ?rest] by (simp add: join_Cons2 go_dict_def del: js_members.simps)
  qed
qed simp

lemma join_length:
  assumes "sep \<noteq> []" shows "length xs \<le> length (join sep (map f xs)) + 1"
proof (induction xs)
  case (Cons x xs)
  have "1 \<le> length sep" using assms by (cases sep) simp_all
  then show ?case using Cons by (cases "xs = []") (simp_all add: join_Cons2)
qed simp

lemma loads_marshal:
  assumes "distinct (map fst fs)" shows "json_loads (marshal fs) = Some (PDict (go_dict fs))"
proof (cases "fs = []")
  case True
  then show ?thesis by (simp add: marshal_def go_dict_def) code_simp
next
  case False
  let ?j = "join '','' (map go_member fs)"
  obtain t where t: "?j = quot # t"
    using False by (cases fs; cases "tl fs") (auto simp: go_member_def go_string_def)
  have "length fs \<le> length ?j + 1" by (rule join_length) simp
  then have "js_members (2 * length (marshal fs) + 1) [] (?j @ CHR ''}'' # []) = Some ([] @ go_dict fs, [])"
    using False assms by (intro js_members_go) (auto simp: marshal_def)
  then have "js_val (Suc (2 * length (marshal fs) + 1)) (marshal fs) = Some (PDict (go_dict fs), [])"
    using js_val_dict [of "2 * length (marshal fs) + 1" None 0 "t @ CHR ''}'' # []"]
    by (simp add: marshal_def t brk_def del: js_val.simps js_members.simps)
  moreover have "skip_ws (marshal fs) = marshal fs" by (simp add: marshal_def skip_ws_Cons js_ws_def)
  ultimately show ?thesis by (simp add: json_loads_def skip_ws_def del: js_val.simps js_members.simps)
qed

section \<open>One line\<close>

lemma same_line_go_string: "list_all same_line (go_string s)"
proof -
  have "same_line (hex_digit n)" if "n < 16" for n
    using that by (auto simp: hex_digit_def same_line_code)
  then have "list_all same_line (go_char c)" for c
    by (auto simp: go_char_def hex4_def hex2_def list_all_iff same_line_def)
  then show ?thesis by (auto simp: go_string_def list_all_iff same_line_def)
qed

lemma same_line_marshal: "list_all same_line (marshal fs)"
proof -
  have "list_all same_line (go_text v)" for v
    using same_line_go_string same_line_str_int by (cases v) (simp_all add: same_line_def)
  then have "list_all same_line (go_member f)" for f
    using same_line_go_string by (simp add: go_member_def)
  then show ?thesis by (simp add: marshal_def list_all_join list_all_iff [of "list_all same_line"])
qed

text \<open>A terminal turns a line feed into a carriage return and a line feed.\<close>

definition onlcr :: "string \<Rightarrow> string" where
  "onlcr s = concat (map (\<lambda>c. if c = nl then [cr, nl] else [c]) s)"

lemma onlcr_same_line: "list_all same_line s \<Longrightarrow> onlcr s = s"
  by (induction s) (auto simp: onlcr_def same_line_def)

lemma onlcr_append: "onlcr (s @ t) = onlcr s @ onlcr t"
  by (simp add: onlcr_def)

lemma braced_marshal:
  assumes "c = nl \<or> c = cr" shows "braced (marshal fs @ c # rest) = Some (marshal fs)"
  using same_line_marshal [of fs] assms
  by (intro braced_object) (auto simp: marshal_def same_line_def)

text \<open>The line \<open>NAME=object\<close> of a benchmark, and that it is found in a log or on a console.\<close>

definition result_line :: "string \<Rightarrow> (string \<times> go_value) list \<Rightarrow> string" where
  "result_line mark fs = mark @ marshal fs @ [nl]"

lemma onlcr_result_line:
  "list_all same_line mark \<Longrightarrow> onlcr (result_line mark fs) = mark @ marshal fs @ [cr, nl]"
  by (simp add: result_line_def onlcr_append onlcr_same_line same_line_marshal) (simp add: onlcr_def)

context result_marker
begin

lemma search_result_line:
  assumes "\<not> contains mark pre"
  shows "search_obj mark (pre @ result_line mark fs @ post) = Some (marshal fs)"
    and "list_all same_line mark \<Longrightarrow> search_obj mark (pre @ onlcr (result_line mark fs) @ post) = Some (marshal fs)"
proof -
  show "search_obj mark (pre @ result_line mark fs @ post) = Some (marshal fs)"
    using search_first [OF assms braced_marshal [of nl fs post]] by (simp add: result_line_def)
  show "search_obj mark (pre @ onlcr (result_line mark fs) @ post) = Some (marshal fs)" if "list_all same_line mark"
    using search_first [OF assms braced_marshal [of cr fs "nl # post"]] onlcr_result_line [OF that, of fs] by simp
qed

end

section \<open>The disk benchmark\<close>

record disk_result =
  disk_Kind :: string
  disk_Mode :: string
  disk_Path :: string
  disk_SizeBytes :: "64 word"
  disk_BlockBytes :: "64 word"
  disk_Direct :: bool
  disk_ReadAheadKB :: "64 word"
  disk_IODepth :: "64 word"
  disk_Ops :: "64 word"
  disk_BytesRead :: "64 word"
  disk_DurationMS :: "64 word"
  disk_MBPerSec :: "64 word"
  disk_IOPS :: "64 word"
  disk_Checksum :: "64 word"
  disk_GoVersion :: string
  disk_NumCPU :: "64 word"
  disk_GOMAXPROCS :: "64 word"

definition disk_fields :: "disk_result \<Rightarrow> (string \<times> go_value) list" where
  "disk_fields r =
     [(''kind'', GoString (disk_Kind r)),
      (''mode'', GoString (disk_Mode r)),
      (''path'', GoString (disk_Path r)),
      (''size_bytes'', GoInt (disk_SizeBytes r)),
      (''block_bytes'', GoInt (disk_BlockBytes r)),
      (''direct'', GoBool (disk_Direct r)),
      (''read_ahead_kb'', GoInt (disk_ReadAheadKB r)),
      (''io_depth'', GoInt (disk_IODepth r)),
      (''ops'', GoInt (disk_Ops r)),
      (''bytes_read'', GoInt (disk_BytesRead r)),
      (''duration_ms'', GoInt (disk_DurationMS r)),
      (''mb_per_sec'', GoInt (disk_MBPerSec r)),
      (''iops'', GoInt (disk_IOPS r)),
      (''checksum'', GoUint (disk_Checksum r)),
      (''go_version'', GoString (disk_GoVersion r)),
      (''num_cpu'', GoInt (disk_NumCPU r)),
      (''gomaxprocs'', GoInt (disk_GOMAXPROCS r))]"

definition disk_bench_line :: "disk_result \<Rightarrow> string" where
  "disk_bench_line r = result_line ''DISK_BENCH_RESULT='' (disk_fields r)"

section \<open>The CPU benchmark\<close>

record cpu_result =
  cpu_Kind :: string
  cpu_Iterations :: "64 word"
  cpu_DurationMS :: "64 word"
  cpu_OpsPerSec :: "64 word"
  cpu_Checksum :: "64 word"
  cpu_GoVersion :: string
  cpu_NumCPU :: "64 word"
  cpu_GOMAXPROCS :: "64 word"

definition cpu_fields :: "cpu_result \<Rightarrow> (string \<times> go_value) list" where
  "cpu_fields r =
     [(''kind'', GoString (cpu_Kind r)),
      (''iterations'', GoUint (cpu_Iterations r)),
      (''duration_ms'', GoInt (cpu_DurationMS r)),
      (''ops_per_sec'', GoUint (cpu_OpsPerSec r)),
      (''checksum'', GoUint (cpu_Checksum r)),
      (''go_version'', GoString (cpu_GoVersion r)),
      (''num_cpu'', GoInt (cpu_NumCPU r)),
      (''gomaxprocs'', GoInt (cpu_GOMAXPROCS r))]"

definition cpu_bench_line :: "cpu_result \<Rightarrow> string" where
  "cpu_bench_line r = result_line ''CPU_BENCH_RESULT='' (cpu_fields r)"

lemma distinct_fields: "distinct (map fst (disk_fields r))" "distinct (map fst (cpu_fields r'))"
  by (simp_all add: disk_fields_def cpu_fields_def)

end
