(* ===== verification/Disk_Bench.thy ===== *)
theory Disk_Bench
  imports Waiting Go_Bench
begin

text \<open>
  \<open>src/scripts/measure-disk-docker-vs-firecracker.py\<close>: the disk benchmark in a
  Docker container and in a Firecracker microVM, with a file-backed drive or a
  vhost-user-blk drive served by \<open>qemu-storage-daemon\<close>.
\<close>

section \<open>Configuration\<close>

record disk_config =
  IMAGE :: string
  ASSET_DIR :: string
  WORK_PARENT :: string
  DATA_DIR :: string
  SIZE_MB :: int
  RANDOM_OPS :: int
  SEQ_BLOCK_BYTES :: int
  RANDOM_BLOCK_BYTES :: int
  TIMEOUT_SECONDS :: int
  MEM_SIZE_MIB :: int
  VCPU_COUNT :: int
  DIRECT :: bool
  READ_AHEAD_KB :: "string option"
  MODES :: "string list"
  SKIP_DOCKER :: bool
  IO_ENGINE :: string
  BACKEND :: string
  PREBUILT_BIN :: string
  IO_DEPTH :: int

definition load_config :: "disk_config prog" where
  "load_config =
     bnd (env_get ''DISK_BENCH_IMAGE'' ''alpine:3.22'') (\<lambda>image.
     bnd (env_path ''ASSET_DIR'' ''firecracker-assets'') (\<lambda>asset_dir.
     bnd (env_path ''WORK_PARENT'' ''.tmp/disk-bench'') (\<lambda>work_parent.
     bnd (env_path ''DISK_BENCH_DATA_DIR'' work_parent) (\<lambda>data_dir.
     bnd (env_int ''DISK_BENCH_SIZE_MB'' ''256'') (\<lambda>size_mb.
     bnd (env_int ''DISK_BENCH_RANDOM_OPS'' ''65536'') (\<lambda>random_ops.
     bnd (env_int ''DISK_BENCH_SEQ_BLOCK_BYTES'' (str_int (128 * 1024))) (\<lambda>seq_block_bytes.
     bnd (env_int ''DISK_BENCH_RANDOM_BLOCK_BYTES'' ''4096'') (\<lambda>random_block_bytes.
     bnd (env_int ''DISK_BENCH_TIMEOUT_SECONDS'' ''120'') (\<lambda>timeout_seconds.
     bnd (env_int ''MEM_SIZE_MIB'' ''256'') (\<lambda>mem_size_mib.
     bnd (env_int ''VCPU_COUNT'' ''1'') (\<lambda>vcpu_count.
     bnd (env_flag ''DISK_BENCH_DIRECT'' ''false'') (\<lambda>direct.
     bnd (env_opt ''DISK_BENCH_READ_AHEAD_KB'') (\<lambda>read_ahead_kb.
     bnd (env_list ''DISK_BENCH_MODES'' ''sequential,random'') (\<lambda>modes.
     bnd (env_flag ''DISK_BENCH_SKIP_DOCKER'' ''false'') (\<lambda>skip_docker.
     bnd (env_get ''DISK_BENCH_IO_ENGINE'' []) (\<lambda>io_engine.
     bnd (env_get ''DISK_BENCH_BACKEND'' ''virtio-blk'') (\<lambda>backend.
     bnd (env_get ''DISK_BENCH_BIN'' []) (\<lambda>prebuilt_bin.
     bnd (env_int ''DISK_BENCH_IO_DEPTH'' ''1'') (\<lambda>io_depth.
     ret \<lparr>IMAGE = image, ASSET_DIR = asset_dir, WORK_PARENT = work_parent, DATA_DIR = data_dir,
          SIZE_MB = size_mb, RANDOM_OPS = random_ops, SEQ_BLOCK_BYTES = seq_block_bytes,
          RANDOM_BLOCK_BYTES = random_block_bytes, TIMEOUT_SECONDS = timeout_seconds,
          MEM_SIZE_MIB = mem_size_mib, VCPU_COUNT = vcpu_count, DIRECT = direct,
          READ_AHEAD_KB = read_ahead_kb, MODES = modes, SKIP_DOCKER = skip_docker,
          IO_ENGINE = strip io_engine, BACKEND = strip backend, PREBUILT_BIN = strip prebuilt_bin,
          IO_DEPTH = io_depth\<rparr>)))))))))))))))))))"

section \<open>Small operations\<close>

definition run :: "string \<Rightarrow> bool \<Rightarrow> string prog" where
  "run cmd check = sh_run cmd check"

definition q :: "string \<Rightarrow> string" where
  "q value = shlex_quote value"

definition now_ms :: "int prog" where
  "now_ms = bnd time_ns (\<lambda>t. ret (t div 1000000))"

definition result_mark :: string where
  "result_mark = ''DISK_BENCH_RESULT=''"

definition extract_result :: "string \<Rightarrow> pyval prog" where
  "extract_result output =
     (case search_obj result_mark output of
        None \<Rightarrow> raise (RuntimeError (''DISK_BENCH_RESULT marker not found in output:'' @ [nl]
                  @ last_chars 4000 output))
      | Some g \<Rightarrow> loads g)"

definition build_binary :: "string \<Rightarrow> unit prog" where
  "build_binary bin_path =
     seq [mkdirs (path_parent bin_path),
          print (''building static linux disk benchmark at '' @ bin_path),
          thn (run (''CGO_ENABLED=0 GOOS=linux GOARCH=amd64 go build -trimpath -ldflags ''
                  @ [squote] @ ''-s -w'' @ [squote] @ '' -o '' @ q bin_path @ '' ./cmd/disk-bench'') True) skip]"

definition prepare_data_file :: "disk_config \<Rightarrow> string \<Rightarrow> unit prog" where
  "prepare_data_file c path =
     (let size_bytes = SIZE_MB c * 1024 * 1024 in
      bnd (exists_path path) (\<lambda>present.
      bnd (if present then bnd (stat_size path) (\<lambda>n. ret (n = size_bytes)) else ret False) (\<lambda>reuse.
      if reuse then print (''reusing benchmark data file '' @ path)
      else seq [print (''creating '' @ str_int (SIZE_MB c) @ '' MiB benchmark data file at '' @ path),
                unlink_ok path,
                thn (run (''dd if=/dev/urandom of='' @ q path @ '' bs=1M count='' @ str_int (SIZE_MB c)
                       @ '' status=none'') True) skip])))"

definition drop_caches :: "unit prog" where
  "drop_caches =
     seq [thn (run ''sync'' False) skip,
          thn (run (''sudo sh -c '' @ [squote] @ ''echo 3 > /proc/sys/vm/drop_caches'' @ [squote]) False) skip]"

definition bench_args :: "disk_config \<Rightarrow> string \<Rightarrow> string \<Rightarrow> string \<Rightarrow> string prog" where
  "bench_args c kind path mode =
     (let block_bytes = (if mode = ''sequential'' then SEQ_BLOCK_BYTES c else RANDOM_BLOCK_BYTES c);
          args = ''-kind '' @ kind @ ''-'' @ mode @ '' -mode '' @ mode @ '' -path '' @ path
             @ '' -size-bytes '' @ str_int (SIZE_MB c * 1024 * 1024)
             @ '' -block-bytes '' @ str_int block_bytes @ '' -random-ops '' @ str_int (RANDOM_OPS c)
             @ '' -io-depth '' @ str_int (IO_DEPTH c);
          args' = (if DIRECT c then args @ '' -direct'' else args)
      in case READ_AHEAD_KB c of
           None \<Rightarrow> ret args'
         | Some kb \<Rightarrow> bnd (to_int kb) (\<lambda>n. ret (args' @ '' -read-ahead-kb '' @ str_int n)))"

definition docker_command :: "disk_config \<Rightarrow> string \<Rightarrow> string \<Rightarrow> string \<Rightarrow> string" where
  "docker_command c bin_path data_path args =
     ''docker run --rm --entrypoint /disk-bench -v '' @ q bin_path @ '':/disk-bench:ro -v ''
       @ q data_path @ '':/bench.dat:ro '' @ q (IMAGE c) @ '' '' @ args"

definition measure_docker :: "disk_config \<Rightarrow> string \<Rightarrow> string \<Rightarrow> string \<Rightarrow> pyval prog" where
  "measure_docker c bin_path data_path mode =
     bnd (bench_args c ''docker'' ''/bench.dat'' mode) (\<lambda>args.
     thn (print (''running '' @ mode @ '' disk benchmark in Docker image '' @ IMAGE c))
     (thn drop_caches
     (bnd now_ms (\<lambda>start.
      bnd (run (docker_command c bin_path data_path args) True) (\<lambda>output.
      bnd (extract_result output) (\<lambda>result.
      bnd now_ms (\<lambda>t.
      bnd (set_item result ''wall_ms'' (PInt (t - start))) (\<lambda>result.
      set_item result ''raw_output'' (PStr (strip output)))))))))) "

definition build_initramfs :: "disk_config \<Rightarrow> string \<Rightarrow> string \<Rightarrow> unit prog" where
  "build_initramfs c bin_path initramfs_path =
     thn (mkdirs (path_parent initramfs_path))
     (bnd (run (''mktemp -d '' @ q (pdiv (WORK_PARENT c) ''initramfs.XXXXXX'')) True) (\<lambda>out.
      let root = mk_path (strip out) in
      finally_do
        (seq [thn (run (''install -m 0755 '' @ q bin_path @ '' '' @ q (pdiv root ''init'')) True) skip,
              bnd (resolve_path initramfs_path) (\<lambda>target.
                thn (run (''cd '' @ q root @ '' && find . -print0 | cpio --null -ov --format=newc 2>/dev/null | gzip -9 > ''
                       @ q target) True) skip)])
        (thn (run (''rm -rf '' @ q root) False) skip)))"

section \<open>The Firecracker benchmark\<close>

definition boot_args :: "disk_config \<Rightarrow> string \<Rightarrow> string prog" where
  "boot_args c mode =
     bnd (bench_args c ''firecracker'' ''/dev/vda'' mode) (\<lambda>args.
     ret (''console=ttyS0 reboot=k panic=1 pci=off init=/init '' @ args))"

definition storage_daemon_argv :: "string \<Rightarrow> string \<Rightarrow> string list" where
  "storage_daemon_argv data vhost_socket_path =
     [''qemu-storage-daemon'',
      ''--blockdev'',
      ''driver=file,node-name=bench-file,filename='' @ data,
      ''--blockdev'',
      ''driver=raw,node-name=bench-raw,file=bench-file'',
      ''--export'',
      ''type=vhost-user-blk,id=bench-export,node-name=bench-raw,addr.type=unix,addr.path='' @ vhost_socket_path
        @ '',writable=off,num-queues=1,logical-block-size=512'']"

definition socket_body :: "int \<Rightarrow> string \<Rightarrow> string \<Rightarrow> unit \<Rightarrow> (unit, unit) ctl prog" where
  "socket_body qemu vhost_socket_path qemu_log_path s =
     bnd (exists_path vhost_socket_path) (\<lambda>there.
     if there then ret (Leave ())
     else bnd (poll qemu) (\<lambda>st.
       if st \<noteq> None
       then bnd (read_text qemu_log_path) (\<lambda>log.
              raise (RuntimeError (''qemu-storage-daemon exited before socket appeared:'' @ [nl] @ log)))
       else thn (sleep_ms 50) (ret (Continue ()))))"

definition wait_vhost_socket :: "int \<Rightarrow> string \<Rightarrow> string \<Rightarrow> unit prog" where
  "wait_vhost_socket qemu vhost_socket_path qemu_log_path =
     bnd time_ns (\<lambda>t.
     thn (while_before (t + sec 10) (socket_body qemu vhost_socket_path qemu_log_path) ())
     (bnd (exists_path vhost_socket_path) (\<lambda>there.
      if there then skip
      else raise (TimeoutError (''timed out waiting for vhost-user-blk socket '' @ vhost_socket_path)))))"

text \<open>The drive of the machine, and the storage daemon that serves it, if any.\<close>

definition start_backend :: "disk_config \<Rightarrow> string \<Rightarrow> string \<Rightarrow> string \<Rightarrow> (pyval \<times> int option) prog" where
  "start_backend c data_path vhost_socket_path qemu_log_path =
     (if BACKEND c = ''vhost-user-blk'' then
        thn (open_file qemu_log_path ''ab'')
        (bnd (resolve_path data_path) (\<lambda>data.
         bnd (popen (storage_daemon_argv data vhost_socket_path)) (\<lambda>qemu.
         thn (wait_vhost_socket qemu vhost_socket_path qemu_log_path)
         (ret (PDict [(''drive_id'', PStr ''bench''),
                      (''is_root_device'', PBool False),
                      (''socket'', PStr vhost_socket_path)], Some qemu)))))
      else if BACKEND c = ''virtio-blk'' then
        bnd (resolve_path data_path) (\<lambda>data.
        ret (PDict ([(''drive_id'', PStr ''bench''),
                     (''path_on_host'', PStr data),
                     (''is_root_device'', PBool False),
                     (''is_read_only'', PBool True)]
                    @ (if IO_ENGINE c \<noteq> [] then [(''io_engine'', PStr (IO_ENGINE c))] else [])), None))
      else raise (RuntimeError (''unsupported DISK_BENCH_BACKEND='' @ repr_str (BACKEND c))))"

definition machine_config :: "disk_config \<Rightarrow> string \<Rightarrow> string \<Rightarrow> string \<Rightarrow> pyval \<Rightarrow> string \<Rightarrow> pyval" where
  "machine_config c kernel_path initrd args drive log_path =
     PDict [(''boot-source'', PDict [
               (''kernel_image_path'', PStr kernel_path),
               (''initrd_path'', PStr initrd),
               (''boot_args'', PStr args)]),
            (''drives'', PList [drive]),
            (''machine-config'', PDict [
               (''vcpu_count'', PInt (VCPU_COUNT c)),
               (''mem_size_mib'', PInt (MEM_SIZE_MIB c)),
               (''track_dirty_pages'', PBool False)]),
            (''logger'', PDict [
               (''log_path'', PStr log_path),
               (''level'', PStr ''Info''),
               (''show_level'', PBool True),
               (''show_log_origin'', PBool True)])]"

definition result_body ::
  "disk_config \<Rightarrow> string \<Rightarrow> string option \<Rightarrow> int \<Rightarrow> int \<Rightarrow> string \<Rightarrow> (string, pyval) ctl prog" where
  "result_body c run_dir qemu_log proc start output =
     (let serial_log = pdiv run_dir ''serial.log'' in
      bnd (exists_path serial_log) (\<lambda>there.
      bnd (if there then read_text serial_log else ret output) (\<lambda>output.
      if search_obj result_mark output \<noteq> None
      then bnd (extract_result output) (\<lambda>result.
           bnd now_ms (\<lambda>t.
           bnd (set_item result ''wall_ms'' (PInt (t - start))) (\<lambda>result.
           bnd (set_item result ''work_dir'' (PStr run_dir)) (\<lambda>result.
           bnd (set_item result ''serial_log'' (PStr serial_log)) (\<lambda>result.
           bnd (case qemu_log of None \<Rightarrow> ret result | Some l \<Rightarrow> set_item result ''qemu_log'' (PStr l)) (\<lambda>result.
           bnd (set_item result ''backend'' (PStr (BACKEND c))) (\<lambda>result.
           ret (Leave result))))))))
      else bnd (poll proc) (\<lambda>st.
           if st \<noteq> None \<and> \<not> contains result_mark output
           then raise (RuntimeError (''Firecracker exited before result:'' @ [nl] @ last_chars 4000 output))
           else thn (sleep_ms 50) (ret (Continue output))))))"

definition wait_result :: "disk_config \<Rightarrow> string \<Rightarrow> string option \<Rightarrow> int \<Rightarrow> int \<Rightarrow> pyval prog" where
  "wait_result c run_dir qemu_log proc start =
     bnd time_ns (\<lambda>t.
     bnd (while_before (t + sec (TIMEOUT_SECONDS c)) (result_body c run_dir qemu_log proc start) []) (\<lambda>r.
     case r of
       Leave result \<Rightarrow> ret result
     | Continue output \<Rightarrow>
         raise (TimeoutError (''timed out waiting for DISK_BENCH_RESULT; serial log: ''
                  @ pdiv run_dir ''serial.log''))))"

definition stop_all :: "int \<Rightarrow> int option \<Rightarrow> string \<Rightarrow> unit prog" where
  "stop_all proc qemu qemu_log_path =
     thn (stop_running proc (sec 5))
     (case qemu of None \<Rightarrow> skip
      | Some pid \<Rightarrow> thn (stop_running pid (sec 5)) (close_file qemu_log_path))"

text \<open>From the machine configuration to the result; \<open>qemu\<close> is the storage daemon, if any.\<close>

definition run_machine ::
  "disk_config \<Rightarrow> string \<Rightarrow> string \<Rightarrow> string \<Rightarrow> pyval \<Rightarrow> int option \<Rightarrow> pyval prog" where
  "run_machine c run_dir mode args drive qemu =
     (let initramfs = pdiv run_dir ''disk-bench-initramfs.cpio.gz'';
          serial_log = pdiv run_dir ''serial.log'';
          firecracker_log = pdiv run_dir ''firecracker.log'';
          socket_path = pdiv run_dir ''firecracker.sock'';
          config_path = pdiv run_dir ''firecracker.json'';
          qemu_log_path = pdiv run_dir ''qemu-storage-daemon.log''
      in
      bnd (resolve_path (pdiv (ASSET_DIR c) ''vmlinux'')) (\<lambda>kernel_path.
      bnd (resolve_path initramfs) (\<lambda>initrd.
      thn (write_text config_path
             (json_dumps_indent 2 (machine_config c kernel_path initrd args drive firecracker_log)))
      (thn (print (''running '' @ mode @ '' disk benchmark in Firecracker''))
      (thn drop_caches
      (bnd now_ms (\<lambda>start.
       thn (open_file serial_log ''wb'')
       (thn (open_file firecracker_log ''ab'')
       (bnd (resolve_path (pdiv (ASSET_DIR c) ''firecracker'')) (\<lambda>fc_path.
        bnd (popen [fc_path, ''--api-sock'', socket_path, ''--config-file'', config_path]) (\<lambda>proc.
        thn (close_file serial_log)
        (thn (close_file firecracker_log)
        (finally_do
           (wait_result c run_dir (if qemu \<noteq> None then Some qemu_log_path else None) proc start)
           (stop_all proc qemu qemu_log_path)))))))))))))) "

definition measure_firecracker :: "disk_config \<Rightarrow> string \<Rightarrow> string \<Rightarrow> string \<Rightarrow> pyval prog" where
  "measure_firecracker c bin_path data_path mode =
     bnd (exists_path (pdiv (ASSET_DIR c) ''firecracker'')) (\<lambda>fc.
     bnd (if fc then exists_path (pdiv (ASSET_DIR c) ''vmlinux'') else ret False) (\<lambda>assets.
     if \<not> assets then raise (RuntimeError (''missing Firecracker assets under '' @ ASSET_DIR c)) else
     bnd (exists_path ''/dev/kvm'') (\<lambda>kvm.
     if \<not> kvm then raise (RuntimeError ''/dev/kvm is missing'') else
     bnd (run (''mktemp -d '' @ q (pdiv (WORK_PARENT c) ''firecracker.XXXXXX'')) True) (\<lambda>out.
     let run_dir = mk_path (strip out) in
     thn (build_initramfs c bin_path (pdiv run_dir ''disk-bench-initramfs.cpio.gz''))
     (bnd (boot_args c mode) (\<lambda>args.
      bnd (start_backend c data_path (pdiv run_dir ''vhost-user-blk.sock'')
             (pdiv run_dir ''qemu-storage-daemon.log'')) (\<lambda>(drive, qemu).
      run_machine c run_dir mode args drive qemu)))))))"

section \<open>Reports and the main program\<close>

definition print_result :: "pyval \<Rightarrow> unit prog" where
  "print_result result =
     bnd (fmt_fields [(''['', ''kind''), (''] mode='', ''mode''), ('' duration_ms='', ''duration_ms''),
            ('' wall_ms='', ''wall_ms''), ('' mb_per_sec='', ''mb_per_sec''), ('' iops='', ''iops''),
            ('' block_bytes='', ''block_bytes''), ('' direct='', ''direct''),
            ('' read_ahead_kb='', ''read_ahead_kb''), ('' io_depth='', ''io_depth''),
            ('' bytes_read='', ''bytes_read''), ('' checksum='', ''checksum'')] result) (\<lambda>line.
     thn (print line)
     (bnd (as_dict result) (\<lambda>d.
      seq [cond_do (py_true (dget d ''serial_log'')) (print (''  serial_log='' @ py_str (dget d ''serial_log''))),
           cond_do (py_true (dget d ''qemu_log'')) (print (''  qemu_log='' @ py_str (dget d ''qemu_log'')))])))"

definition measure_mode :: "disk_config \<Rightarrow> string \<Rightarrow> string \<Rightarrow> string \<Rightarrow> pydict \<Rightarrow> pydict prog" where
  "measure_mode c bin_path data_path mode results =
     bnd (if SKIP_DOCKER c then ret None
          else bnd (measure_docker c bin_path data_path mode) (\<lambda>r. ret (Some r))) (\<lambda>docker.
     bnd (measure_firecracker c bin_path data_path mode) (\<lambda>firecracker.
     let entry = PDict ((''firecracker'', firecracker)
           # (case docker of None \<Rightarrow> [] | Some d \<Rightarrow> [(''docker'', d)]))
     in
     thn (print [])
     (thn (case docker of None \<Rightarrow> skip | Some d \<Rightarrow> print_result d)
     (thn (print_result firecracker)
     (thn (case docker of
             None \<Rightarrow> skip
           | Some d \<Rightarrow>
               bnd (get_item firecracker ''duration_ms'') (\<lambda>fv.
               bnd (to_float fv) (\<lambda>fx.
               bnd (get_item d ''duration_ms'') (\<lambda>dv.
               bnd (to_float dv) (\<lambda>dx.
               bnd (float_div fx dx) (\<lambda>ratio.
               print (''firecracker_vs_docker_'' @ mode @ ''_duration_ratio='' @ fmt_fixed 2 ratio @ ''x'')))))))
     (ret (dict_set results mode entry)))))))"

definition main :: "disk_config \<Rightarrow> unit prog" where
  "main c =
     thn (mkdirs (WORK_PARENT c))
     (thn (mkdirs (DATA_DIR c))
     (bnd (if PREBUILT_BIN c \<noteq> [] then resolve_path (mk_path (PREBUILT_BIN c))
           else ret (pdiv (WORK_PARENT c) ''disk-bench-linux-amd64'')) (\<lambda>bin_path.
      let data_path = pdiv (DATA_DIR c) (''bench-'' @ str_int (SIZE_MB c) @ ''mib.dat'') in
      thn (if PREBUILT_BIN c \<noteq> [] then print (''using prebuilt disk benchmark at '' @ bin_path)
           else build_binary bin_path)
      (thn (prepare_data_file c data_path)
      (thn (seq [print (''direct_io='' @ py_str (PBool (DIRECT c))),
                 print (''read_ahead_kb='' @ (case READ_AHEAD_KB c of None \<Rightarrow> ''default'' | Some kb \<Rightarrow> kb)),
                 print (''io_engine='' @ (if IO_ENGINE c \<noteq> [] then IO_ENGINE c else ''default'')),
                 print (''backend='' @ BACKEND c),
                 print (''io_depth='' @ str_int (IO_DEPTH c)),
                 print (''modes='' @ join '','' (MODES c)),
                 print (''skip_docker='' @ py_str (PBool (SKIP_DOCKER c)))])
      (bnd (for_each (MODES c) [] (measure_mode c bin_path data_path)) (\<lambda>results.
       print (''SUMMARY_JSON='' @ json_dumps_sorted (PDict results)))))))))"

definition script :: "unit prog" where
  "script = bnd load_config (\<lambda>c. report_errors (main c))"


text \<open>A configuration and a console output to run the definitions on.\<close>

definition sample_config :: disk_config where
  "sample_config = \<lparr>IMAGE = ''alpine:3.22'', ASSET_DIR = ''firecracker-assets'', WORK_PARENT = ''.tmp/disk-bench'',
     DATA_DIR = ''.tmp/disk-bench'', SIZE_MB = 256, RANDOM_OPS = 65536, SEQ_BLOCK_BYTES = 131072,
     RANDOM_BLOCK_BYTES = 4096, TIMEOUT_SECONDS = 120, MEM_SIZE_MIB = 256, VCPU_COUNT = 1, DIRECT = False,
     READ_AHEAD_KB = None, MODES = [''sequential'', ''random''], SKIP_DOCKER = False, IO_ENGINE = [],
     BACKEND = ''virtio-blk'', PREBUILT_BIN = [], IO_DEPTH = 1\<rparr>"

definition sample_output :: string where
  "sample_output = ''boot'' @ nl # ''DISK_BENCH_RESULT={'' @ dquote # ''iops'' @ dquote # '': 42}'' @ [nl]"

section \<open>No child is left running\<close>

lemmas small_defs = run_def now_ms_def build_binary_def prepare_data_file_def drop_caches_def bench_args_def
  boot_args_def measure_docker_def build_initramfs_def print_result_def

lemma steps_extract_result [steps_intros]: "steps (extract_result output)"
  unfolding extract_result_def by (intro steps_intros)

lemma emits_extract_result [emits_intros]: "emits A (extract_result output)"
  unfolding extract_result_def by (intro emits_intros)

lemma keeps_extract_result [keeps_intros]: "keeps E (extract_result output)"
  unfolding extract_result_def by (intro keeps_intros)

interpretation socket_wait: poller "socket_body qemu sock log" for qemu sock log
  by unfold_locales (simp add: socket_body_def, intro pauses_intros steps_intros, simp)

interpretation result_wait: poller "result_body c run_dir qemu_log proc start" for c run_dir qemu_log proc start
  by unfold_locales (unfold result_body_def now_ms_def, intro pauses_intros steps_intros, simp)

lemma spawn_free_bodies:
  "emits spawn_free (socket_body qemu sock log s)"
  "emits spawn_free (result_body c run_dir qemu_log proc start out)"
  unfolding socket_body_def result_body_def now_ms_def
  by (intro emits_intros; simp add: spawn_free_def)+

lemma keeps_small [keeps_intros]:
  "keeps E (run cmd ck)" "keeps E now_ms" "keeps E (build_binary p)" "keeps E (prepare_data_file c p)"
  "keeps E drop_caches" "keeps E (bench_args c kind p mode)" "keeps E (boot_args c mode)"
  "keeps E (measure_docker c b d mode)" "keeps E (build_initramfs c b i)" "keeps E (print_result v)"
  unfolding small_defs by (intro keeps_intros)+

lemma keeps_waits:
  assumes "clock_law E"
  shows "keeps E (wait_vhost_socket qemu sock log)" "keeps E (wait_result c run_dir qemu_log proc start)"
  unfolding wait_vhost_socket_def wait_result_def
  by (intro keeps_intros socket_wait.keeps_wait result_wait.keeps_wait assms spawn_free_bodies)+

lemma stop_all_reaps:
  assumes "kill_law E"
  shows "reaps E proc (stop_all proc qemu log)" "reaps_ok E qp (stop_all proc (Some qp) log)"
  unfolding stop_all_def
  by (intro reaps_thn reaps_stop_running assms keeps_intros keeps_reaps [OF reaps_stop_running]
      reaps_ok_intros reaps_ok_reaps; simp add: keeps_prims)+

lemma run_machine_children:
  assumes "clock_law E" "kill_law E"
  shows "keeps E (run_machine c run_dir mode args drive qemu)"
    and "reaps_ok E qp (run_machine c run_dir mode args drive (Some qp))"
  unfolding run_machine_def Let_def close_file_def
  by (intro keeps_popen reaps_ok_popen keeps_intros reaps_ok_intros reaps_tell reaps_finally
      keeps_waits stop_all_reaps assms; simp add: spawn_free_def keeps_answer tell_def)+

lemma start_backend_keeps:
  "BACKEND c \<noteq> ''vhost-user-blk'' \<Longrightarrow> keeps E (start_backend c d sock log)"
  unfolding start_backend_def by (simp, intro impI conjI keeps_intros)

text \<open>
  C6: whatever the commands, files and child processes do, as long as the clock runs
  and a killed child ends, \<open>measure_firecracker\<close> returns (no wait is endless).  With the
  file-backed drive every child it started has been waited for, on every error path;
  with vhost-user-blk this holds whenever it returns a result.
\<close>

theorem measure_firecracker_children:
  assumes "clock_law E" "kill_law E"
  shows "wp (measure_firecracker c bin_path data_path mode)
     (\<lambda>r h'. (BACKEND c \<noteq> ''vhost-user-blk'' \<or> (\<exists>v. r = Ok v)) \<longrightarrow> live h' \<subseteq> live h) E h"
proof (cases "BACKEND c = ''vhost-user-blk''")
  case False
  have "keeps E (measure_firecracker c bin_path data_path mode)"
    unfolding measure_firecracker_def
    by (intro keeps_intros start_backend_keeps [OF False] run_machine_children assms)
  then show ?thesis by (auto simp: keeps_def intro: wp_mono)
next
  case True
  have "keeps_ok E (measure_firecracker c bin_path data_path mode)"
    unfolding measure_firecracker_def start_backend_def if_P [OF True] bnd_simps prod.case
    by (intro keeps_ok_popen keeps_ok_intros reaps_ok_intros keeps_intros keeps_waits
        run_machine_children assms)
  then show ?thesis using True by (simp add: keeps_ok_def)
qed

lemma measure_firecracker_children_witness:
  "clock_law (file_env sample_output) \<and> kill_law (file_env sample_output) \<and>
   wp (measure_firecracker sample_config ''bench'' ''data'' ''random'')
     (\<lambda>r h'. (BACKEND sample_config \<noteq> ''vhost-user-blk'' \<or> (\<exists>v. r = Ok v)) \<longrightarrow> live h' \<subseteq> live [])
     (file_env sample_output) []"
  using measure_firecracker_children [OF file_laws, of sample_config "''bench''" "''data''" "''random''" "[]"] file_laws
  by simp

text \<open>
  C11: a whole run with the file-backed drive ends (with a summary or with an exception)
  and leaves no child process behind.
\<close>

theorem main_children:
  assumes "clock_law E" "kill_law E" "BACKEND c \<noteq> ''vhost-user-blk''"
  shows "wp (main c) (\<lambda>r h'. live h' \<subseteq> live h) E h"
proof -
  have "keeps E (measure_firecracker c b d m)" for b d m
    unfolding measure_firecracker_def
    by (intro keeps_intros start_backend_keeps [OF assms(3)] run_machine_children assms)
  then have "keeps E (main c)"
    unfolding main_def measure_mode_def by (intro keeps_intros)
  then show ?thesis by (simp add: keeps_def)
qed

lemma main_children_witness:
  "BACKEND sample_config \<noteq> ''vhost-user-blk'' \<and> wp (main sample_config) (\<lambda>r h'. live h' \<subseteq> live []) quiet_env []"
  using main_children [OF quiet_laws, of sample_config "[]"] by (simp add: sample_config_def)

section \<open>The storage daemon can be left behind\<close>

text \<open>
  The storage daemon is started before the \<open>try\<close> whose \<open>finally\<close> stops it.  Here it
  starts, its socket does not appear within ten seconds, and \<open>start_backend\<close> raises
  with the daemon still running.
\<close>

definition slow_env :: env where
  "slow_env = quiet_env \<lparr>e_poll := (\<lambda>h p. None),
     e_clock := (\<lambda>h. sum_list (map slept h) + 11000000000 * int (length h))\<rparr>"

lemma start_backend_leaks_daemon:
  "clock_law slow_env \<and> kill_law slow_env \<and>
   wp (start_backend (sample_config \<lparr>BACKEND := ''vhost-user-blk''\<rparr>) ''data'' ''/w/vhost.sock'' ''/w/qemu.log'')
     (\<lambda>r h'. r = Exc (TimeoutError ''timed out waiting for vhost-user-blk socket /w/vhost.sock'')
             \<and> 100 \<in> live h') slow_env []"
proof (intro conjI)
  show "clock_law slow_env" "kill_law slow_env"
    by (simp_all add: clock_law_def kill_law_def slow_env_def quiet_env_def)
  show "wp (start_backend (sample_config \<lparr>BACKEND := ''vhost-user-blk''\<rparr>) ''data'' ''/w/vhost.sock'' ''/w/qemu.log'')
     (\<lambda>r h'. r = Exc (TimeoutError ''timed out waiting for vhost-user-blk socket /w/vhost.sock'')
             \<and> 100 \<in> live h') slow_env []"
    by (simp add: start_backend_def wait_vhost_socket_def wp_while_before_step prim_defs wp_simps sec_def
        slow_env_def quiet_env_def)
qed

section \<open>Results on the serial console\<close>

interpretation disk_mark: result_marker result_mark "''DISK_BENCH_RESULT''"
  by unfold_locales (simp_all add: result_mark_def)

text \<open>
  C: \<open>extract_result\<close> gives back every field of the result that the disk benchmark printed,
  with 64-bit integers as they are, from the output of the container and from the serial
  console (where line ends are \<open>CR LF\<close>), whatever follows the line; the text before it must
  not hold the marker.
\<close>

theorem extract_result_roundtrip:
  assumes "\<not> contains result_mark pre"
  shows "extract_result (pre @ disk_bench_line r @ post) = ret (PDict (go_dict (disk_fields r)))
    \<and> extract_result (pre @ onlcr (disk_bench_line r) @ post) = ret (PDict (go_dict (disk_fields r)))"
proof -
  have line: "disk_bench_line r = result_line result_mark (disk_fields r)" by (simp add: disk_bench_line_def result_mark_def)
  have same: "list_all same_line result_mark" by (simp add: result_mark_def same_line_def)
  show ?thesis
    using disk_mark.search_result_line [OF assms] same loads_marshal [OF distinct_fields(1)]
    by (simp add: line extract_result_def loads_def or_raise_def)
qed

definition sample_disk :: disk_result where
  "sample_disk = \<lparr>disk_Kind = ''firecracker-file-random'', disk_Mode = ''random'', disk_Path = ''/dev/vda'', disk_SizeBytes = 268435456,
     disk_BlockBytes = 4096, disk_Direct = False, disk_ReadAheadKB = -1, disk_IODepth = 1, disk_Ops = 65536, disk_BytesRead = 268435456,
     disk_DurationMS = 2000, disk_MBPerSec = 128, disk_IOPS = 32768, disk_Checksum = 18446744073709551615,
     disk_GoVersion = ''go1.24.1'', disk_NumCPU = 1, disk_GOMAXPROCS = 1\<rparr>"

lemma extract_result_roundtrip_witness:
  "extract_result (''boot '' @ onlcr (disk_bench_line sample_disk) @ ''} off'') = ret (PDict (go_dict (disk_fields sample_disk)))
   \<and> map_of (go_dict (disk_fields sample_disk)) ''read_ahead_kb'' = Some (PInt (-1))
   \<and> map_of (go_dict (disk_fields sample_disk)) ''checksum'' = Some (PInt 18446744073709551615)"
proof -
  have "\<not> contains result_mark ''boot ''" by code_simp
  then show ?thesis
    using extract_result_roundtrip [of "''boot ''" sample_disk "''} off''"] by (simp add: sample_disk_def disk_fields_def go_dict_def)
qed

end
