(* ===== verification/Vhost_Blk.thy ===== *)
theory Vhost_Blk
  imports Disk_Bench
begin

text \<open>
  \<open>src/scripts/measure-firecracker-vhost-user-blk.py\<close>: runs the disk benchmark script
  once per drive backend, reads the summary it prints and writes a report.
\<close>

section \<open>Configuration\<close>

record vhost_config =
  ROOT :: string
  RESULTS_FILE :: string
  BACKENDS :: "string list"
  VMODES :: "string list"

definition load_config :: "vhost_config prog" where
  "load_config =
     bnd (asks e_script) (\<lambda>script.
     bnd (env_path ''FC_VHOST_RESULTS_FILE'' ''docs/benchmarks/firecracker-vhost-user-blk-results.md'') (\<lambda>results_file.
     bnd (env_list ''FC_VHOST_BACKENDS'' ''virtio-blk,vhost-user-blk'') (\<lambda>backends.
     bnd (env_get ''DISK_BENCH_MODES'' ''sequential,random'') (\<lambda>disk_modes.
     bnd (env_list ''FC_VHOST_MODES'' disk_modes) (\<lambda>modes.
     ret \<lparr>ROOT = path_parent (path_parent script), RESULTS_FILE = results_file, BACKENDS = backends,
          VMODES = modes\<rparr>)))))"

section \<open>One backend\<close>

definition q :: "string \<Rightarrow> string" where
  "q value = shlex_quote value"

definition summary_mark :: string where
  "summary_mark = ''SUMMARY_JSON=''"

definition run_backend :: "string \<Rightarrow> vhost_config \<Rightarrow> string \<Rightarrow> (pyval \<times> string \<times> int) prog" where
  "run_backend executable c backend =
     (let vars = [(''DISK_BENCH_BACKEND'', backend), (''DISK_BENCH_SKIP_DOCKER'', ''true''),
                  (''DISK_BENCH_MODES'', join '','' (VMODES c))];
          cmd = [executable, pdiv (pdiv (ROOT c) ''scripts'') ''measure-disk-docker-vs-firecracker.py'']
      in
      bnd time_ns (\<lambda>start.
      bnd (exec_in cmd (ROOT c) vars) (\<lambda>(returncode, output).
      bnd time_ns (\<lambda>t.
      let elapsed_ms = to_ms (t - start) in
      if returncode \<noteq> 0
      then raise (RuntimeError (''backend '' @ backend @ '' failed after '' @ str_int elapsed_ms @ ''ms:'' @ [nl]
             @ last_chars 6000 output))
      else (case search_obj summary_mark output of
              None \<Rightarrow> raise (RuntimeError (''backend '' @ backend @ '' did not print SUMMARY_JSON:'' @ [nl]
                        @ last_chars 6000 output))
            | Some g \<Rightarrow> bnd (loads g) (\<lambda>v. ret (v, output, elapsed_ms)))))))"

definition fmt_num :: "pyval \<Rightarrow> string prog" where
  "fmt_num v =
     bnd (catching (bnd (to_float v) (\<lambda>x. ret (Some x)))
            (\<lambda>e. case e of TypeError s \<Rightarrow> Some (ret None) | ValueError s \<Rightarrow> Some (ret None) | _ \<Rightarrow> None)) (\<lambda>r.
     case r of
       None \<Rightarrow> ret (py_str v)
     | Some as_float \<Rightarrow>
         ret (if f64_ge_int as_float 100 then fmt_fixed 0 as_float
              else if f64_ge_int as_float 10 then fmt_fixed 1 as_float
              else fmt_fixed 2 as_float))"

definition row_for :: "string \<Rightarrow> string \<Rightarrow> pyval \<Rightarrow> (string, string) dict prog" where
  "row_for backend mode result =
     bnd (get_item result mode) (\<lambda>entry.
     bnd (get_item entry ''firecracker'') (\<lambda>fc_val.
     bnd (as_dict fc_val) (\<lambda>fc.
     bnd (fmt_num (dget fc ''mb_per_sec'')) (\<lambda>mb.
     bnd (fmt_num (dget fc ''iops'')) (\<lambda>iops.
     ret [(''backend'', backend), (''mode'', mode), (''mb_per_sec'', mb), (''iops'', iops),
          (''duration_ms'', py_str (dget fc ''duration_ms'')),
          (''wall_ms'', py_str (dget fc ''wall_ms'')),
          (''block_bytes'', py_str (dget fc ''block_bytes'')),
          (''io_depth'', py_str (dget fc ''io_depth'')),
          (''direct'', py_str (dget fc ''direct'')),
          (''read_ahead_kb'', py_str (dget fc ''read_ahead_kb''))])))))"

section \<open>The report\<close>

definition cell :: "(string, string) dict \<Rightarrow> string \<Rightarrow> string" where
  "cell row k = dict_get row k []"

definition row_line :: "(string, string) dict \<Rightarrow> string" where
  "row_line row =
     ''| '' @ cell row ''backend'' @ '' | '' @ cell row ''mode'' @ '' | '' @ cell row ''mb_per_sec'' @ '' MiB/s | ''
       @ cell row ''iops'' @ '' | '' @ cell row ''duration_ms'' @ '' ms | '' @ cell row ''wall_ms'' @ '' ms | ''
       @ cell row ''block_bytes'' @ '' | '' @ cell row ''io_depth'' @ '' | '' @ cell row ''direct'' @ '' | ''
       @ cell row ''read_ahead_kb'' @ '' |''"

definition bquote :: char where
  "bquote = CHR 0x60"

definition report_lines :: "string \<Rightarrow> (string, string) dict list \<Rightarrow> (string \<times> string) list \<Rightarrow> string list" where
  "report_lines stamp rows raw_logs =
     [''# Firecracker vhost-user-blk Benchmark'',
      [],
      ''Generated: '' @ bquote # stamp @ [bquote],
      [],
      ''This compares Firecracker'' @ [squote] @ ''s built-in file-backed '' @ bquote # ''virtio-blk'' @ bquote
        # '' drive with a '' @ bquote # ''vhost-user-blk'' @ bquote # '' drive backed by '' @ bquote
        # ''qemu-storage-daemon'' @ bquote # '' over a Unix socket. It does not start the Orca stack.'',
      [],
      ''| Backend | Mode | Throughput | IOPS | Guest Duration | Wall Time | Block | IO Depth | Direct | Readahead |'',
      ''| --- | --- | ---: | ---: | ---: | ---: | ---: | ---: | --- | ---: |'']
     @ map row_line rows
     @ [[], ''## Raw Logs'', []]
     @ concat (map (\<lambda>(backend, output).
         [''<details>'', ''<summary>'' @ backend @ ''</summary>'', [], [bquote, bquote, bquote] @ ''text'',
          strip output, [bquote, bquote, bquote], [], ''</details>'', []]) raw_logs)"

definition write_markdown :: "vhost_config \<Rightarrow> (string, string) dict list \<Rightarrow> (string \<times> string) list \<Rightarrow> unit prog" where
  "write_markdown c rows raw_logs =
     thn (mkdirs (path_parent (RESULTS_FILE c)))
     (bnd time_ns (\<lambda>t.
      write_text (RESULTS_FILE c) (join [nl] (report_lines (iso_stamp t) rows raw_logs))))"

section \<open>The main program\<close>

definition shutil_which :: "string \<Rightarrow> string option prog" where
  "shutil_which name =
     bnd (env_get ''PATH'' []) (\<lambda>path.
     bnd (for_until (split_on CHR '':'' path) () (\<lambda>directory _.
            let candidate = pdiv (mk_path directory) name in
            bnd (exists_path candidate) (\<lambda>there.
            bnd (if there then can_execute candidate else ret False) (\<lambda>ok.
            ret (if ok then Leave candidate else Continue ()))))) (\<lambda>r.
     ret (case r of Leave p \<Rightarrow> Some p | Continue _ \<Rightarrow> None)))"

definition collect :: "string \<Rightarrow> vhost_config \<Rightarrow> ((string, string) dict list \<times> (string \<times> string) list) prog" where
  "collect executable c =
     for_each (BACKENDS c) ([], []) (\<lambda>backend acc.
       bnd (run_backend executable c backend) (\<lambda>r.
       bnd (for_each (VMODES c) (fst acc) (\<lambda>mode rows.
              bnd (row_for backend mode (fst r)) (\<lambda>row. ret (rows @ [row])))) (\<lambda>rows.
       ret (rows, snd acc @ [(backend, fst (snd r))]))))"

definition main :: "string \<Rightarrow> vhost_config \<Rightarrow> unit prog" where
  "main executable c =
     bnd (asks e_platform) (\<lambda>platform.
     if platform \<noteq> ''linux''
     then raise (SystemExit (PStr (''Firecracker requires Linux/KVM; this host is '' @ platform))) else
     bnd (exists_path ''/dev/kvm'') (\<lambda>kvm.
     if \<not> kvm then raise (SystemExit (PStr ''Firecracker requires /dev/kvm; it is not present on this host'')) else
     bnd (if ''vhost-user-blk'' \<in> set (BACKENDS c) then shutil_which ''qemu-storage-daemon'' else ret (Some [])) (\<lambda>found.
     if found = None
     then raise (SystemExit (PStr ''qemu-storage-daemon is required for vhost-user-blk'')) else
     bnd (collect executable c) (\<lambda>(rows, raw_logs).
     thn (write_markdown c rows raw_logs)
     (thn (print (''wrote '' @ RESULTS_FILE c))
     (bnd (read_text (RESULTS_FILE c)) (\<lambda>text.
      print (rstrip (case cut_at ''## Raw Logs'' text of None \<Rightarrow> text | Some (a, b) \<Rightarrow> a)))))))))"

definition script :: "string \<Rightarrow> unit prog" where
  "script executable = bnd load_config (\<lambda>c. report_errors (main executable c))"


section \<open>The summary crosses the process boundary\<close>

interpretation summary: result_marker summary_mark "''SUMMARY_JSON''"
  by unfold_locales (simp_all add: summary_mark_def)


text \<open>A configuration to run the definitions on.\<close>

definition sample_vhost :: vhost_config where
  "sample_vhost = \<lparr>ROOT = ''/repo'', RESULTS_FILE = ''docs/out.md'', BACKENDS = [''virtio-blk'', ''vhost-user-blk''],
     VMODES = [''random'']\<rparr>"

definition summary_env :: env where
  "summary_env = quiet_env \<lparr>e_exec_in := (\<lambda>h a d v.
     Some (0, ''modes=random'' @ nl # ''SUMMARY_JSON='' @ json_dumps_sorted (PDict [(''random'', PInt 7)]) @ [nl]))\<rparr>"


section \<open>What the report holds\<close>

definition row_key :: "(string, string) dict \<Rightarrow> string \<times> string" where
  "row_key row = (cell row ''backend'', cell row ''mode'')"

lemma steps_fmt_num [steps_intros]: "steps (fmt_num v)"
  unfolding fmt_num_def by (intro steps_intros) (auto split: exn.splits intro: steps_ret)

lemma steps_run_backend [steps_intros]: "steps (run_backend executable c backend)"
  unfolding run_backend_def by (intro steps_intros)

lemma gives_row_for: "gives (\<lambda>row. row_key row = (backend, mode)) (row_for backend mode result)"
  unfolding row_for_def by (intro gives_intros steps_intros) (simp add: row_key_def cell_def dict_get_def)

lemma gives_mode_rows:
  "gives (\<lambda>rows. map row_key rows = map row_key rows0 @ map (Pair backend) modes)
     (for_each modes rows0 (\<lambda>mode rows. bnd (row_for backend mode result) (\<lambda>row. ret (rows @ [row]))))"
  by (rule gives_for_each) (auto intro!: gives_bind [OF gives_row_for] gives_ret)

lemma gives_collect:
  "gives (\<lambda>(rows, logs). map row_key rows = List.product (BACKENDS c) (VMODES c) \<and> map fst logs = BACKENDS c)
     (collect executable c)"
proof -
  let ?I = "\<lambda>bs (rows, logs). map row_key rows = List.product bs (VMODES c) \<and> map fst logs = bs"
  have product_snoc: "List.product (bs @ [b]) ms = List.product bs ms @ map (Pair b) ms" for bs b ms
    by (induction bs) (simp_all add: product_concat_map)
  have "gives (?I (BACKENDS c)) (collect executable c)"
    unfolding collect_def
  proof (rule gives_for_each)
    fix ys b zs and s :: "(string, string) dict list \<times> (string \<times> string) list"
    assume "?I ys s"
    then show "gives (?I (ys @ [b])) (bnd (run_backend executable c b) (\<lambda>r.
       bnd (for_each (VMODES c) (fst s) (\<lambda>mode rows. bnd (row_for b mode (fst r)) (\<lambda>row. ret (rows @ [row])))) (\<lambda>rows.
       ret (rows, snd s @ [(b, fst (snd r))]))))"
      by (intro gives_intros steps_intros gives_bind [OF gives_mode_rows])
        (auto simp: product_snoc)
  qed simp
  then show ?thesis .
qed



end
