(* ===== verification/Traces.thy ===== *)
theory Traces
  imports Waiting
begin

text \<open>
  Which commands a program runs, in order.  \<open>traces sel T m\<close> says: \<open>m\<close> returns, the
  selected events of its run are a prefix of \<open>T\<close>, and all of \<open>T\<close> when it succeeds.
\<close>

definition chosen :: "(event \<Rightarrow> 'b option) \<Rightarrow> event list \<Rightarrow> 'b list" where
  "chosen sel ks = List.map_filter sel (rev ks)"

definition traced :: "(event \<Rightarrow> 'b option) \<Rightarrow> 'b list \<Rightarrow> hist \<Rightarrow> 'a outcome \<Rightarrow> hist \<Rightarrow> bool" where
  "traced sel T h r h' = (\<exists>ks. h' = ks @ h \<and> prefix (chosen sel ks) T
     \<and> ((\<exists>v. r = Ok v) \<longrightarrow> chosen sel ks = T))"

definition traces :: "(event \<Rightarrow> 'b option) \<Rightarrow> 'b list \<Rightarrow> 'a prog \<Rightarrow> bool" where
  "traces sel T m = (\<forall>E h. wp m (traced sel T h) E h)"

named_theorems traces_intros

lemma chosen_Nil [simp]: "chosen sel [] = []"
  by (simp add: chosen_def map_filter_def)

lemma chosen_append [simp]: "chosen sel (ks @ ls) = chosen sel ls @ chosen sel ks"
  by (simp add: chosen_def map_filter_def)

lemma chosen_Cons [simp]: "chosen sel (k # ks) = chosen sel ks @ (case sel k of None \<Rightarrow> [] | Some x \<Rightarrow> [x])"
  by (simp add: chosen_def map_filter_def split: option.split)

lemma chosen_None: "list_all (\<lambda>ev. sel ev = None) ks \<Longrightarrow> chosen sel ks = []"
  by (induction ks) simp_all

lemma traces_quiet:
  assumes "steps m" "emits (\<lambda>ev. sel ev = None) m" shows "traces sel [] m"
  unfolding traces_def
proof (intro allI)
  fix E h
  have "wp m (\<lambda>r h'. suffix h h') E h" using assms(1) by (simp add: steps_def)
  from wp_emits [OF assms(2) this]
  show "wp m (traced sel [] h) E h"
    by (rule wp_mono) (auto simp: traced_def dest: chosen_None)
qed

lemma traced_append:
  "traced sel T h (Ok x) h' \<Longrightarrow> traced sel T' h' r h'' \<Longrightarrow> traced sel (T @ T') h r h''"
proof -
  assume "traced sel T h (Ok x) h'" "traced sel T' h' r h''"
  then obtain ks ls where "h' = ks @ h" "chosen sel ks = T"
    and "h'' = ls @ h'" "prefix (chosen sel ls) T'" "(\<exists>v. r = Ok v) \<longrightarrow> chosen sel ls = T'"
    unfolding traced_def by blast
  then show ?thesis unfolding traced_def by (intro exI [of _ "ls @ ks"]) simp
qed

lemma traced_one: "\<exists>x. h' = ev x # h \<Longrightarrow> (\<And>x. sel (ev x) = Some a) \<Longrightarrow> traced sel [a] h r h'"
proof -
  assume "\<exists>x. h' = ev x # h" "\<And>x. sel (ev x) = Some a"
  then obtain x where "h' = [ev x] @ h" "sel (ev x) = Some a" by auto
  then show ?thesis unfolding traced_def by (intro exI [of _ "[ev x]"]) simp
qed

lemma traced_stop: "traced sel T h (Exc e) h' \<Longrightarrow> traced sel (T @ T') h (Exc e) h'"
  by (auto simp: traced_def)

lemma traces_bnd:
  fixes m :: "'a prog" and f :: "'a \<Rightarrow> 'b prog" and sel :: "event \<Rightarrow> 'c option"
  assumes "traces sel T m" "\<And>x. traces sel T' (f x)" shows "traces sel (T @ T') (bnd m f)"
  unfolding traces_def wp_bnd
proof (intro allI)
  fix E h
  have "wp m (traced sel T h) E h" using assms(1) by (simp add: traces_def)
  then show "wp m (\<lambda>r h'. case r of Ok x \<Rightarrow> wp (f x) (traced sel (T @ T') h) E h'
      | Exc e \<Rightarrow> traced sel (T @ T') h (Exc e) h') E h"
  proof (rule wp_mono)
    fix r :: "'a outcome" and h'
    assume r: "traced sel T h r h'"
    have "wp (f x) (traced sel T' h') E h'" for x using assms(2) by (simp add: traces_def)
    then show "case r of Ok x \<Rightarrow> wp (f x) (traced sel (T @ T') h) E h' | Exc e \<Rightarrow> traced sel (T @ T') h (Exc e) h'"
      using r by (cases r) (auto intro: traced_stop wp_mono traced_append)
  qed
qed

lemma traces_thn: "traces sel T m \<Longrightarrow> traces sel T' k \<Longrightarrow> traces sel (T @ T') (thn m k)"
  by (simp add: thn_def traces_bnd)

lemma traces_bnd_quiet:
  "steps m \<Longrightarrow> emits (\<lambda>ev. sel ev = None) m \<Longrightarrow> (\<And>x. traces sel T (f x)) \<Longrightarrow> traces sel T (bnd m f)"
  using traces_bnd [OF traces_quiet] by fastforce

lemma traces_thn_quiet:
  "steps m \<Longrightarrow> emits (\<lambda>ev. sel ev = None) m \<Longrightarrow> traces sel T k \<Longrightarrow> traces sel T (thn m k)"
  by (simp add: thn_def traces_bnd_quiet)

lemma traces_thn_before:
  assumes "traces sel T m" "steps k" "emits (\<lambda>ev. sel ev = None) k" shows "traces sel T (thn m k)"
  using traces_thn [OF assms(1) traces_quiet [OF assms(2,3)]] by simp

lemma traces_bnd_gives:
  fixes m :: "'a prog" and f :: "'a \<Rightarrow> 'b prog" and sel :: "event \<Rightarrow> 'c option"
  assumes "gives P m" "steps m" "emits (\<lambda>ev. sel ev = None) m" "\<And>x. P x \<Longrightarrow> traces sel T (f x)"
  shows "traces sel T (bnd m f)"
  unfolding traces_def wp_bnd
proof (intro allI)
  fix E h
  have "wp m (\<lambda>r h'. traced sel [] h r h' \<and> (\<forall>v. r = Ok v \<longrightarrow> P v)) E h"
    using traces_quiet [OF assms(2,3)] assms(1) by (simp add: wp_conj traces_def gives_def)
  then show "wp m (\<lambda>r h'. case r of Ok x \<Rightarrow> wp (f x) (traced sel T h) E h' | Exc e \<Rightarrow> traced sel T h (Exc e) h') E h"
  proof (rule wp_mono)
    fix r :: "'a outcome" and h'
    assume r: "traced sel [] h r h' \<and> (\<forall>v. r = Ok v \<longrightarrow> P v)"
    show "case r of Ok x \<Rightarrow> wp (f x) (traced sel T h) E h' | Exc e \<Rightarrow> traced sel T h (Exc e) h'"
    proof (cases r)
      case (Ok x)
      then have "traces sel T (f x)" using r assms(4) by simp
      then have "wp (f x) (traced sel T h') E h'" by (simp add: traces_def)
      then have "wp (f x) (traced sel ([] @ T) h) E h'"
        using r Ok by (blast intro: wp_mono traced_append)
      then show ?thesis by (simp add: Ok)
    qed (use r in \<open>auto simp: traced_def\<close>)
  qed
qed

lemma traces_if: "(b \<Longrightarrow> traces sel T m) \<Longrightarrow> (\<not> b \<Longrightarrow> traces sel T k) \<Longrightarrow> traces sel T (if b then m else k)"
  by simp

lemma traces_for_all:
  "(\<And>x. x \<in> set xs \<Longrightarrow> traces sel (T x) (f x)) \<Longrightarrow> traces sel (concat (map T xs)) (for_all xs f)"
proof (induction xs)
  case Nil
  show ?case by (simp add: for_all_def) (intro traces_quiet steps_ret emits_ret)
next
  case (Cons x xs)
  have "for_all (x # xs) f = bnd (f x) (\<lambda>_. for_all xs f)" by (simp add: for_all_def)
  then show ?case using Cons by (auto intro: traces_bnd)
qed


section \<open>Programs that handle exceptions\<close>

text \<open>All of \<open>T\<close> only when the program succeeds with a value satisfying \<open>P\<close>.\<close>

definition traced_if :: "(event \<Rightarrow> 'b option) \<Rightarrow> 'b list \<Rightarrow> ('a \<Rightarrow> bool) \<Rightarrow> hist \<Rightarrow> 'a outcome \<Rightarrow> hist \<Rightarrow> bool" where
  "traced_if sel T P h r h' = (\<exists>ks. h' = ks @ h \<and> prefix (chosen sel ks) T
     \<and> ((\<exists>v. r = Ok v \<and> P v) \<longrightarrow> chosen sel ks = T))"

definition traces_if :: "(event \<Rightarrow> 'b option) \<Rightarrow> 'b list \<Rightarrow> ('a \<Rightarrow> bool) \<Rightarrow> 'a prog \<Rightarrow> bool" where
  "traces_if sel T P m = (\<forall>E h. wp m (traced_if sel T P h) E h)"

lemma traced_if_extend:
  assumes "traced_if sel T P h r h'" "traced sel [] h' r' h''" "(\<exists>v. r' = Ok v \<and> P' v) \<longrightarrow> (\<exists>v. r = Ok v \<and> P v)"
  shows "traced_if sel T P' h r' h''"
proof -
  obtain ks ls where "h' = ks @ h" "prefix (chosen sel ks) T" "(\<exists>v. r = Ok v \<and> P v) \<longrightarrow> chosen sel ks = T"
    "h'' = ls @ h'" "chosen sel ls = []"
    using assms(1,2) unfolding traced_def traced_if_def by auto
  then show ?thesis using assms(3) unfolding traced_if_def by (intro exI [of _ "ls @ ks"]) auto
qed

lemma traced_if_before: "traced_if sel T P (ev # h) r h' \<Longrightarrow> sel ev = None \<Longrightarrow> traced_if sel T P h r h'"
proof -
  assume "traced_if sel T P (ev # h) r h'" "sel ev = None"
  then obtain ks where "h' = (ks @ [ev]) @ h" "prefix (chosen sel (ks @ [ev])) T"
    "(\<exists>v. r = Ok v \<and> P v) \<longrightarrow> chosen sel (ks @ [ev]) = T" unfolding traced_if_def by auto
  then show ?thesis unfolding traced_if_def by blast
qed

lemma traces_if_catching:
  fixes m :: "'a prog" and sel :: "event \<Rightarrow> 'c option"
  assumes "traces sel T m" "\<And>e k. hnd e = Some k \<Longrightarrow> traces sel [] k \<and> gives (\<lambda>v. \<not> P v) k"
  shows "traces_if sel T P (catching m hnd)"
  unfolding traces_if_def wp_catching
proof (intro allI)
  fix E h
  have "wp m (traced sel T h) E h" using assms(1) by (simp add: traces_def)
  then show "wp m (\<lambda>r h'. case r of Ok x \<Rightarrow> traced_if sel T P h (Ok x) h'
      | Exc e \<Rightarrow> (case hnd e of None \<Rightarrow> traced_if sel T P h (Exc e) h' | Some k \<Rightarrow> wp k (traced_if sel T P h) E h')) E h"
  proof (rule wp_mono)
    fix r :: "'a outcome" and h'
    assume r: "traced sel T h r h'"
    then have i: "traced_if sel T (\<lambda>_. True) h r h'" by (simp add: traced_def traced_if_def)
    have "wp k (traced_if sel T P h) E h'" if "r = Exc e" "hnd e = Some k" for e k
    proof (rule wp_mono)
      show "wp k (\<lambda>r' h''. traced sel [] h' r' h'' \<and> (\<forall>v. r' = Ok v \<longrightarrow> \<not> P v)) E h'"
        using assms(2) [OF that(2)] by (simp add: wp_conj traces_def gives_def)
    qed (auto intro: traced_if_extend [OF i])
    moreover have "traced_if sel T P h r h'" using r by (auto simp: traced_def traced_if_def)
    ultimately show "case r of Ok x \<Rightarrow> traced_if sel T P h (Ok x) h'
      | Exc e \<Rightarrow> (case hnd e of None \<Rightarrow> traced_if sel T P h (Exc e) h' | Some k \<Rightarrow> wp k (traced_if sel T P h) E h')"
      by (auto split: outcome.split option.split)
  qed
qed

lemma traces_if_bnd:
  fixes m :: "'a prog" and f :: "'a \<Rightarrow> 'b prog" and sel :: "event \<Rightarrow> 'c option"
  assumes "traces_if sel T P m" "\<And>x. traces sel [] (f x)" "\<And>x. \<not> P x \<Longrightarrow> gives (\<lambda>v. \<not> P' v) (f x)"
  shows "traces_if sel T P' (bnd m f)"
  unfolding traces_if_def wp_bnd
proof (intro allI)
  fix E h
  have "wp m (traced_if sel T P h) E h" using assms(1) by (simp add: traces_if_def)
  then show "wp m (\<lambda>r h'. case r of Ok x \<Rightarrow> wp (f x) (traced_if sel T P' h) E h'
      | Exc e \<Rightarrow> traced_if sel T P' h (Exc e) h') E h"
  proof (rule wp_mono)
    fix r :: "'a outcome" and h'
    assume r: "traced_if sel T P h r h'"
    have "wp (f x) (traced_if sel T P' h) E h'" if "r = Ok x" for x
    proof (rule wp_mono)
      show "wp (f x) (\<lambda>r' h''. traced sel [] h' r' h'' \<and> (\<forall>v. r' = Ok v \<longrightarrow> \<not> P x \<longrightarrow> \<not> P' v)) E h'"
        using assms(2,3) [of x] by (cases "P x") (simp_all add: wp_conj traces_def gives_def)
    qed (use that in \<open>auto intro: traced_if_extend [OF r]\<close>)
    moreover have "traced_if sel T P' h (Exc e) h'" if "r = Exc e" for e
      using r that by (auto simp: traced_if_def)
    ultimately show "case r of Ok x \<Rightarrow> wp (f x) (traced_if sel T P' h) E h' | Exc e \<Rightarrow> traced_if sel T P' h (Exc e) h'"
      by (auto split: outcome.split)
  qed
qed

lemma traces_if_after:
  fixes m :: "'a prog" and f :: "'a \<Rightarrow> 'b prog" and sel :: "event \<Rightarrow> 'c option"
  assumes "steps m" "emits (\<lambda>ev. sel ev = None) m" "\<And>x. traces_if sel T P (f x)"
  shows "traces_if sel T P (bnd m f)"
  unfolding traces_if_def wp_bnd
proof (intro allI)
  fix E h
  have "wp m (traced sel [] h) E h" using traces_quiet [OF assms(1,2)] by (simp add: traces_def)
  then show "wp m (\<lambda>r h'. case r of Ok x \<Rightarrow> wp (f x) (traced_if sel T P h) E h'
      | Exc e \<Rightarrow> traced_if sel T P h (Exc e) h') E h"
  proof (rule wp_mono)
    fix r :: "'a outcome" and h'
    assume "traced sel [] h r h'"
    then obtain ks where ks: "h' = ks @ h" "chosen sel ks = []" by (auto simp: traced_def)
    have "wp (f x) (traced_if sel T P h) E h'" for x
    proof (rule wp_mono)
      show "wp (f x) (traced_if sel T P h') E h'" using assms(3) by (simp add: traces_if_def)
    next
      fix r' h''
      assume "traced_if sel T P h' r' h''"
      then obtain ls where "h'' = ls @ h'" "prefix (chosen sel ls) T" "(\<exists>v. r' = Ok v \<and> P v) \<longrightarrow> chosen sel ls = T"
        unfolding traced_if_def by blast
      then show "traced_if sel T P h r' h''" using ks unfolding traced_if_def by (intro exI [of _ "ls @ ks"]) simp
    qed
    moreover have "traced_if sel T P h (Exc e) h'" for e using ks by (auto simp: traced_if_def)
    ultimately show "case r of Ok x \<Rightarrow> wp (f x) (traced_if sel T P h) E h' | Exc e \<Rightarrow> traced_if sel T P h (Exc e) h'"
      by (auto split: outcome.split)
  qed
qed

section \<open>What comes before what\<close>

text \<open>Newest first: every event with \<open>P\<close> has an earlier one with \<open>Q\<close>.\<close>

fun preceded :: "(event \<Rightarrow> bool) \<Rightarrow> (event \<Rightarrow> bool) \<Rightarrow> hist \<Rightarrow> bool" where
  "preceded P Q [] = True"
| "preceded P Q (ev # h) = ((P ev \<longrightarrow> list_ex Q h) \<and> preceded P Q h)"

lemma preceded_none: "list_all (\<lambda>ev. \<not> P ev) ks \<Longrightarrow> preceded P Q ks"
  by (induction ks) simp_all

lemma preceded_append: "preceded P Q ks \<Longrightarrow> preceded P Q h \<Longrightarrow> preceded P Q (ks @ h)"
  by (induction ks) auto

lemma preceded_after: "list_ex Q h \<Longrightarrow> preceded P Q h \<Longrightarrow> preceded P Q (ks @ h)"
  by (induction ks) auto

definition ordered :: "env \<Rightarrow> (event \<Rightarrow> bool) \<Rightarrow> (event \<Rightarrow> bool) \<Rightarrow> 'a prog \<Rightarrow> bool" where
  "ordered E P Q m = (\<forall>h. wp m (\<lambda>r h'. \<exists>ks. h' = ks @ h \<and> preceded P Q ks) E h)"

lemma orderedD:
  assumes "ordered E P Q m" "\<exists>ks. h = ks @ h0 \<and> preceded P Q ks"
  shows "wp m (\<lambda>r h'. \<exists>ks. h' = ks @ h0 \<and> preceded P Q ks) E h"
proof -
  obtain ks where ks: "h = ks @ h0" "preceded P Q ks" using assms(2) by blast
  have "wp m (\<lambda>r h'. \<exists>ls. h' = ls @ h \<and> preceded P Q ls) E h" using assms(1) by (simp add: ordered_def)
  then show ?thesis
  proof (rule wp_mono)
    fix r h'
    assume "\<exists>ls. h' = ls @ h \<and> preceded P Q ls"
    then obtain ls where "h' = (ls @ ks) @ h0" "preceded P Q (ls @ ks)" using ks preceded_append by auto
    then show "\<exists>ks. h' = ks @ h0 \<and> preceded P Q ks" by blast
  qed
qed

lemma ordered_emits: "returns E m \<Longrightarrow> emits (\<lambda>ev. \<not> P ev) m \<Longrightarrow> ordered E P Q m"
  unfolding ordered_def returns_wp
  by (blast intro: wp_mono [OF wp_emits] dest: preceded_none [where Q = Q])

lemma ordered_bnd:
  assumes "ordered E P Q m" "\<And>x. ordered E P Q (f x)" shows "ordered E P Q (bnd m f)"
  unfolding ordered_def [of _ _ _ "bnd m f"] wp_bnd
proof
  fix h
  have "wp m (\<lambda>r h'. \<exists>ks. h' = ks @ h \<and> preceded P Q ks) E h" using assms(1) by (simp add: ordered_def)
  then show "wp m (\<lambda>r h'. case r of Ok x \<Rightarrow> wp (f x) (\<lambda>r h'. \<exists>ks. h' = ks @ h \<and> preceded P Q ks) E h'
      | Exc e \<Rightarrow> \<exists>ks. h' = ks @ h \<and> preceded P Q ks) E h"
    by (rule wp_mono) (use orderedD [OF assms(2)] in \<open>simp split: outcome.split\<close>)
qed

lemma ordered_thn: "ordered E P Q m \<Longrightarrow> ordered E P Q k \<Longrightarrow> ordered E P Q (thn m k)"
  by (simp add: thn_def ordered_bnd)

lemma ordered_case_prod: "(\<And>a b. ordered E P Q (f a b)) \<Longrightarrow> ordered E P Q (case p of (a, b) \<Rightarrow> f a b)"
  by (cases p) simp

lemma ordered_finally:
  assumes "ordered E P Q m" "ordered E P Q k" shows "ordered E P Q (finally_do m k)"
  unfolding ordered_def [of _ _ _ "finally_do m k"] wp_finally
proof
  fix h
  have "wp m (\<lambda>r h'. \<exists>ks. h' = ks @ h \<and> preceded P Q ks) E h" using assms(1) by (simp add: ordered_def)
  then show "wp m (\<lambda>r h'. wp k (\<lambda>u h''. case u of Ok _ \<Rightarrow> \<exists>ks. h'' = ks @ h \<and> preceded P Q ks
      | Exc e \<Rightarrow> \<exists>ks. h'' = ks @ h \<and> preceded P Q ks) E h') E h"
    by (rule wp_mono) (use orderedD [OF assms(2)] in simp)
qed

text \<open>After \<open>m\<close> has succeeded there is an event with \<open>Q\<close>, and anything may follow.\<close>

lemma ordered_after:
  assumes "emits (\<lambda>ev. \<not> P ev) m" "extends k" "returns E k"
    and "\<And>h. wp m (\<lambda>r h'. (\<exists>v. r = Ok v) \<longrightarrow> (\<exists>ks. h' = ks @ h \<and> list_ex Q ks)) E h"
  shows "ordered E P Q (thn m k)"
  unfolding ordered_def wp_thn
proof
  fix h
  have k: "wp k (\<lambda>r h'. \<exists>ls. h' = ls @ h1 \<and> list_all (\<lambda>ev. True) ls) E h1" for h1
    using wp_emits [OF assms(2), of "\<lambda>r h'. True" E h1] assms(3) by (simp add: returns_wp)
  show "wp m (\<lambda>r h'. case r of Ok x \<Rightarrow> wp k (\<lambda>r h'. \<exists>ks. h' = ks @ h \<and> preceded P Q ks) E h'
      | Exc e \<Rightarrow> \<exists>ks. h' = ks @ h \<and> preceded P Q ks) E h"
  proof (rule wp_mono [OF wp_emits [OF assms(1,4)]])
    fix r h'
    assume a: "((\<exists>v. r = Ok v) \<longrightarrow> (\<exists>ks. h' = ks @ h \<and> list_ex Q ks)) \<and> (\<exists>ks. h' = ks @ h \<and> list_all (\<lambda>ev. \<not> P ev) ks)"
    then obtain ks where ks: "h' = ks @ h" "preceded P Q ks" "(\<exists>v. r = Ok v) \<longrightarrow> list_ex Q ks"
      using preceded_none [of P _ Q] same_append_eq [of _ h] by (metis append_same_eq)
    have "wp k (\<lambda>r h'. \<exists>ks. h' = ks @ h \<and> preceded P Q ks) E h'" if "list_ex Q ks"
    proof (rule wp_mono [OF k])
      fix h2
      assume "\<exists>ls. h2 = ls @ h' \<and> list_all (\<lambda>ev. True) ls"
      then obtain ls where "h2 = (ls @ ks) @ h" using ks(1) by auto
      then show "\<exists>ks. h2 = ks @ h \<and> preceded P Q ks" using preceded_after [OF that ks(2)] by blast
    qed
    then show "case r of Ok x \<Rightarrow> wp k (\<lambda>r h'. \<exists>ks. h' = ks @ h \<and> preceded P Q ks) E h'
      | Exc e \<Rightarrow> \<exists>ks. h' = ks @ h \<and> preceded P Q ks"
      using ks by (auto split: outcome.split)
  qed
qed

end
