(* ===== verification/Argparse.thy ===== *)
theory Argparse
  imports PyString
begin

text \<open>
  \<open>argparse.ArgumentParser.parse_args\<close> for parsers without positional arguments whose
  options take one value or none.  The first pass classifies every argument
  (exact names, \<open>--name=value\<close>, unambiguous prefixes, negative numbers, \<open>--\<close>), the
  second consumes them from left to right.  Usage errors exit with status 2 and
  \<open>-h\<close>/\<open>--help\<close> with status 0; the messages are not modelled.
\<close>

datatype opt_kind = Store | Store_int | Flag

datatype arg_class = Positional | Opt string "string option" | Unknown | Separator

datatype 'a parsed = Parsed 'a | Exit_status int

definition negative_number :: "string \<Rightarrow> bool" where
  "negative_number s =
     (case s of
        [] \<Rightarrow> False
      | c # r \<Rightarrow> c = CHR ''-''
          \<and> (r \<noteq> [] \<and> list_all is_digit r
             \<or> (case split1 CHR ''.'' r of None \<Rightarrow> False
                | Some (a, b) \<Rightarrow> list_all is_digit a \<and> b \<noteq> [] \<and> list_all is_digit b)))"

definition prefix_matches :: "string list \<Rightarrow> string \<Rightarrow> arg_class list" where
  "prefix_matches names s =
     (if s ! 1 = CHR ''-''
      then (let (p, v) = (case split1 CHR ''='' s of Some (a, b) \<Rightarrow> (a, Some b) | None \<Rightarrow> (s, None))
            in map (\<lambda>n. Opt n v) (filter (\<lambda>n. starts_with n p) names))
      else concat (map (\<lambda>n. if n = take 2 s then [Opt n (Some (drop 2 s))]
                            else if starts_with n s then [Opt n None] else []) names))"

text \<open>\<open>None\<close> is the usage error for an ambiguous prefix.\<close>

definition classify_one :: "string list \<Rightarrow> string \<Rightarrow> arg_class option" where
  "classify_one names s =
     (if s = [] \<or> hd s \<noteq> CHR ''-'' then Some Positional
      else if s \<in> set names then Some (Opt s None)
      else if length s = 1 then Some Positional
      else (case (case split1 CHR ''='' s of None \<Rightarrow> None
                  | Some (n, v) \<Rightarrow> if n \<in> set names then Some (Opt n (Some v)) else None) of
              Some c \<Rightarrow> Some c
            | None \<Rightarrow>
                (case prefix_matches names s of
                   [] \<Rightarrow> Some (if negative_number s \<or> CHR '' '' \<in> set s then Positional else Unknown)
                 | [c] \<Rightarrow> Some c
                 | _ \<Rightarrow> None)))"

fun classify :: "string list \<Rightarrow> string list \<Rightarrow> (string \<times> arg_class) list option" where
  "classify names [] = Some []"
| "classify names (a # rest) =
     (if a = ''--'' then Some ((a, Separator) # map (\<lambda>x. (x, Positional)) rest)
      else (case classify_one names a of
              None \<Rightarrow> None
            | Some c \<Rightarrow> map_option ((#) (a, c)) (classify names rest)))"

text \<open>
  Consuming: \<open>acc\<close> holds the options given so far, \<open>extras\<close> whether an argument was left
  over, which is a usage error at the end.
\<close>

fun consume :: "(string \<times> opt_kind) list \<Rightarrow> (string \<times> arg_class) list \<Rightarrow> (string, string) dict \<Rightarrow> bool
    \<Rightarrow> (string, string) dict parsed" where
  "consume ks [] acc extras = (if extras then Exit_status 2 else Parsed acc)"
| "consume ks ((s, Opt n v) # rest) acc extras =
     (if n = ''-h'' then Exit_status 0
      else if n = ''--help'' then Exit_status (if v = None then 0 else 2)
      else (case map_of ks n of
              None \<Rightarrow> Exit_status 2
            | Some Flag \<Rightarrow> if v = None then consume ks rest (dict_set acc n ''true'') extras else Exit_status 2
            | Some k \<Rightarrow>
                (case v of
                   Some x \<Rightarrow>
                     if k = Store_int \<and> int_of_str x = None then Exit_status 2
                     else consume ks rest (dict_set acc n x) extras
                 | None \<Rightarrow>
                     (case rest of
                        (x, Positional) # rest' \<Rightarrow>
                          if k = Store_int \<and> int_of_str x = None then Exit_status 2
                          else consume ks rest' (dict_set acc n x) extras
                      | _ \<Rightarrow> Exit_status 2))))"
| "consume ks ((s, c) # rest) acc extras = consume ks rest acc True"

definition parse_opts :: "(string \<times> opt_kind) list \<Rightarrow> string list \<Rightarrow> (string, string) dict parsed" where
  "parse_opts ks args =
     (case classify (''-h'' # ''--help'' # map fst ks) args of
        None \<Rightarrow> Exit_status 2
      | Some cs \<Rightarrow> consume ks cs [] False)"

section \<open>Options written out are read back\<close>

text \<open>A name and a value that the parser takes as an option and its argument.\<close>

definition plain_assignment :: "(string \<times> opt_kind) list \<Rightarrow> string \<times> string \<Rightarrow> bool" where
  "plain_assignment ks a =
     (case a of (n, v) \<Rightarrow>
        starts_with n ''--'' \<and> n \<noteq> ''--'' \<and> n \<noteq> ''--help''
        \<and> (map_of ks n = Some Store \<or> map_of ks n = Some Store_int \<and> int_of_str v \<noteq> None)
        \<and> (v = [] \<or> hd v \<noteq> CHR ''-''))"

lemma classify_plain:
  assumes "list_all (plain_assignment ks) asg"
  shows "classify (''-h'' # ''--help'' # map fst ks) (concat (map (\<lambda>(n, v). [n, v]) asg) @ rest)
    = map_option ((@) (concat (map (\<lambda>(n, v). [(n, Opt n None), (v, Positional)]) asg)))
        (classify (''-h'' # ''--help'' # map fst ks) rest)"
  using assms
proof (induction asg)
  case Nil
  then show ?case by (simp add: option.map_id [unfolded id_def])
next
  case (Cons a asg)
  obtain n v where a: "a = (n, v)" by (cases a)
  let ?names = "''-h'' # ''--help'' # map fst ks"
  have pa: "plain_assignment ks (n, v)" using Cons.prems a by simp
  obtain t where t: "n = CHR ''-'' # CHR ''-'' # t" "t \<noteq> []"
    using pa by (auto simp: plain_assignment_def starts_with_iff)
  then obtain c r where n: "n = CHR ''-'' # CHR ''-'' # c # r" by (cases t) auto
  have "n \<in> set ?names" using pa by (auto simp: plain_assignment_def dest: map_of_SomeD intro: rev_image_eqI)
  then have "classify_one ?names n = Some (Opt n None)" using n by (simp add: classify_one_def)
  moreover have "v \<noteq> ''--''" "classify_one ?names v = Some Positional"
    using pa by (auto simp: plain_assignment_def classify_one_def)
  moreover have "n \<noteq> ''--''" using n by simp
  ultimately show ?case
    using Cons a by (cases "classify ?names rest") auto
qed

lemma consume_plain:
  assumes "list_all (plain_assignment ks) asg"
  shows "consume ks (concat (map (\<lambda>(n, v). [(n, Opt n None), (v, Positional)]) asg) @ rest) acc extras
    = consume ks rest (fold (\<lambda>(n, v) d. dict_set d n v) asg acc) extras"
  using assms
proof (induction asg arbitrary: acc)
  case (Cons a asg)
  obtain n v where a: "a = (n, v)" by (cases a)
  have pa: "plain_assignment ks (n, v)" using Cons.prems a by simp
  then have "n \<noteq> ''-h''" "n \<noteq> ''--help''" by (auto simp: plain_assignment_def)
  then show ?case using Cons a pa by (auto simp: plain_assignment_def split: opt_kind.split)
qed simp

lemma parse_plain:
  assumes "list_all (plain_assignment ks) asg"
  shows "parse_opts ks (concat (map (\<lambda>(n, v). [n, v]) asg) @ rest)
    = (case classify (''-h'' # ''--help'' # map fst ks) rest of
         None \<Rightarrow> Exit_status 2
       | Some cs \<Rightarrow> consume ks cs (fold (\<lambda>(n, v) d. dict_set d n v) asg []) False)"
  unfolding parse_opts_def classify_plain [OF assms]
  by (simp add: consume_plain [OF assms] split: option.split)

end
