(* ===== verification/Demo.thy ===== *)
theory Demo
  imports Traces Argparse
begin

text \<open>
  \<open>src/demos/overlaybd-jb-two-node/demo.py\<close>: the two-node OverlayBD demo.  It walks
  through a fixed scenario; every step shows what it will run, asks for confirmation
  and then runs remote scripts over SSH.
\<close>

section \<open>Configuration and steps\<close>

record demo_config =
  master :: string
  slave :: string
  registry :: string
  master_registry :: string
  repo :: string
  base_tag :: string
  run_id :: string
  derived_tag :: string
  project_dir :: string
  timeout_seconds :: int
  yes :: bool
  dry_run :: bool
  show_commands :: bool

definition base_image_master :: "demo_config \<Rightarrow> string" where
  "base_image_master c = master_registry c @ ''/'' @ repo c @ '':'' @ base_tag c"

definition base_image_slave :: "demo_config \<Rightarrow> string" where
  "base_image_slave c = registry c @ ''/'' @ repo c @ '':'' @ base_tag c"

definition derived_image_master :: "demo_config \<Rightarrow> string" where
  "derived_image_master c = master_registry c @ ''/'' @ repo c @ '':'' @ derived_tag c"

definition derived_image_slave :: "demo_config \<Rightarrow> string" where
  "derived_image_slave c = registry c @ ''/'' @ repo c @ '':'' @ derived_tag c"

definition jar_path :: "demo_config \<Rightarrow> string" where
  "jar_path c = project_dir c @ ''/target/spring-petclinic-4.0.0-SNAPSHOT.jar''"

definition tar_path :: "demo_config \<Rightarrow> string" where
  "tar_path c = project_dir c @ ''.tar.gz''"

record remote_step =
  label :: string
  target :: string
  script_name :: string
  extra_env :: "(string, string) dict option"

record scenario_step =
  title :: string
  short_title :: string
  remote_steps :: "remote_step list"

definition DEMO_DIR :: "string prog" where
  "DEMO_DIR = asks (\<lambda>E. path_parent (e_script E))"

definition REMOTE_DIR :: "string prog" where
  "REMOTE_DIR = bnd DEMO_DIR (\<lambda>d. ret (pdiv d ''remote''))"

definition esc :: "string \<Rightarrow> string" where
  "esc s = CHR 0x1B # s"

definition BOLD :: string where
  "BOLD = esc ''[1m''"

definition DIM :: string where
  "DIM = esc ''[2m''"

definition REVERSE :: string where
  "REVERSE = esc ''[7m''"

definition RESET :: string where
  "RESET = esc ''[0m''"

section \<open>Text and environments\<close>

definition sh :: "string \<Rightarrow> string" where
  "sh value = shlex_quote value"

definition utc_stamp :: "string prog" where
  "utc_stamp = bnd time_ns (\<lambda>t. ret (iso_stamp t))"

definition print_config :: "demo_config \<Rightarrow> unit prog" where
  "print_config c =
     print (join [nl]
       [''Demo configuration:'',
        ''  master:             '' @ master c,
        ''  slave:              '' @ slave c,
        ''  registry:           '' @ registry c,
        ''  master registry ref:'' @ master_registry c,
        ''  base master image:  '' @ base_image_master c,
        ''  base slave image:   '' @ base_image_slave c,
        ''  derived master ref: '' @ derived_image_master c,
        ''  derived slave ref:  '' @ derived_image_slave c,
        ''  project dir:        '' @ project_dir c,
        ''  jar path:           '' @ jar_path c,
        ''  tar path:           '' @ tar_path c,
        ''  run id:             '' @ run_id c,
        []])"

definition base_env :: "demo_config \<Rightarrow> (string, string) dict" where
  "base_env c =
     [(''RUN_ID'', run_id c),
      (''REGISTRY_HOST'', registry c),
      (''MASTER_REGISTRY_HOST'', master_registry c),
      (''NODE2_REGISTRY_HOST'', master_registry c),
      (''REPO'', repo c),
      (''BASE_TAG'', base_tag c),
      (''DERIVED_TAG'', derived_tag c),
      (''TOUCH_PATH'', jar_path c),
      (''PROJECT_DIR'', project_dir c),
      (''TAR_PATH'', tar_path c),
      (''TIMEOUT_SECONDS'', str_int (timeout_seconds c))]"

definition load_remote_script :: "string \<Rightarrow> string prog" where
  "load_remote_script name = bnd REMOTE_DIR (\<lambda>d. read_text (pdiv d name))"

definition demo_cmd_mark :: string where
  "demo_cmd_mark = ''# DEMO-CMD:''"

definition extract_demo_commands :: "string \<Rightarrow> string list" where
  "extract_demo_commands script =
     concat (map (\<lambda>line. let stripped = strip line in
         if starts_with stripped demo_cmd_mark
         then [strip (drop (length demo_cmd_mark) stripped)] else []) (splitlines script))"

text \<open>\<open>env[key]\<close>\<close>

definition env_item :: "(string, string) dict \<Rightarrow> string \<Rightarrow> string prog" where
  "env_item env k = or_raise (KeyError k) (map_of env k)"

definition derived_env :: "(string, string) dict \<Rightarrow> (string, string) dict prog" where
  "derived_env env =
     bnd (env_item env ''RUN_ID'') (\<lambda>run.
     bnd (env_item env ''REGISTRY_HOST'') (\<lambda>host.
     bnd (env_item env ''REPO'') (\<lambda>rep.
     bnd (env_item env ''BASE_TAG'') (\<lambda>base.
     bnd (env_item env ''DERIVED_TAG'') (\<lambda>der.
     bnd (env_item env ''TOUCH_PATH'') (\<lambda>touch.
     bnd (env_item env ''PROJECT_DIR'') (\<lambda>proj.
     let work = ''/root/orca-overlaybd-demo-'' @ run;
         derived =
           [(''CTR'', ''/opt/overlaybd/snapshotter/ctr''),
            (''NS'', ''moby''),
            (''SNAPSHOTTER'', ''overlaybd''),
            (''CONFIG'', ''/etc/overlaybd-snapshotter/config.json''),
            (''SNAPSHOT_ROOT'', ''/var/lib/containerd/io.containerd.snapshotter.v1.overlaybd''),
            (''WORK'', work),
            (''COMMIT_DIR'', work @ ''/commit''),
            (''ENV_FILE'', work @ ''/mutable.env''),
            (''DIFF_TAR'', work @ ''/commit/demo-touch-upperdir-diff.tar''),
            (''APPLY_DATA'', work @ ''/commit/demo-touch-writable-data''),
            (''APPLY_INDEX'', work @ ''/commit/demo-touch-writable-index''),
            (''APPLY_CONFIG'', work @ ''/commit/demo-touch-apply-config.v1.json''),
            (''APPLY_RESULT'', work @ ''/commit/demo-touch-apply-result.log''),
            (''COMMIT_OBD'', work @ ''/commit/demo-touch-commit.obd''),
            (''REGISTRY_URL'', ''http://'' @ host),
            (''BASE_REF'', host @ ''/'' @ rep @ '':'' @ base),
            (''DERIVED_REF'', host @ ''/'' @ rep @ '':'' @ der),
            (''TOUCH_DIR'', path_parent (mk_path touch)),
            (''PROJECT_PARENT'', path_parent (mk_path proj)),
            (''PROJECT_NAME'', path_name (mk_path proj)),
            (''JAR_PATH'', proj @ ''/target/spring-petclinic-4.0.0-SNAPSHOT.jar''),
            (''TAR_PATH'', proj @ ''.tar.gz'')]
     in ret (case map_of env ''CONTAINER_NAME'' of
               None \<Rightarrow> derived
             | Some name \<Rightarrow> derived @ [(''NAME'', name), (''fifo'', ''/tmp/'' @ name @ ''.fifo''),
                                      (''LOG'', work @ ''/'' @ name @ ''.log'')]))))))))"

definition replace_var :: "string \<times> string \<Rightarrow> string \<Rightarrow> string" where
  "replace_var kv s =
     (let var = CHR ''$'' # fst kv; value = snd kv in
      replace var value
        (replace (''${'' @ fst kv @ ''}'') value
           (replace (squote # var @ [squote]) (sh value)
              (replace (dquote # var @ [dquote]) (sh value) s))))"

definition by_length :: "(string, string) dict \<Rightarrow> (string, string) dict" where
  "by_length d = sort_key (\<lambda>kv. - int (length (fst kv))) d"

definition interpolate_command :: "string \<Rightarrow> (string, string) dict \<Rightarrow> string prog" where
  "interpolate_command command env =
     bnd (derived_env env) (\<lambda>derived.
     ret (fold replace_var (by_length (dict_update env derived)) command))"

definition render_env :: "(string, string) dict \<Rightarrow> string" where
  "render_env env = join '' '' (map (\<lambda>(key, value). key @ ''='' @ sh value) env)"

definition remote_shell :: "string \<Rightarrow> string \<Rightarrow> string" where
  "remote_shell tgt env_prefix =
     (if starts_with tgt ''root@'' then env_prefix @ '' bash -se''
      else ''sudo env '' @ env_prefix @ '' bash -se'')"

definition remote_env :: "demo_config \<Rightarrow> remote_step \<Rightarrow> (string, string) dict" where
  "remote_env c step =
     (case extra_env step of None \<Rightarrow> base_env c | Some e \<Rightarrow> dict_update (base_env c) e)"

definition build_remote :: "demo_config \<Rightarrow> remote_step \<Rightarrow> ((string, string) dict \<times> string \<times> string) prog" where
  "build_remote c step =
     (let env = remote_env c step; env_prefix = render_env env in
      bnd (load_remote_script (script_name step)) (\<lambda>text.
      ret (env, env_prefix, strip text)))"

section \<open>Running a step\<close>

definition ssh_line :: "string \<Rightarrow> string \<Rightarrow> string \<Rightarrow> string" where
  "ssh_line tgt shell file = ''ssh '' @ tgt @ '' '' @ squote # shell @ squote # '' < '' @ file"

definition preview_remote :: "demo_config \<Rightarrow> remote_step \<Rightarrow> unit prog" where
  "preview_remote c step =
     bnd (build_remote c step) (\<lambda>(env, env_prefix, script).
     let shell = remote_shell (target step) env_prefix in
     thn (print (nl # ''Will run '' @ script_name step @ '' on '' @ label step @ '' ('' @ target step @ '')''))
     (if \<not> show_commands c then skip else
      bnd REMOTE_DIR (\<lambda>d.
      thn (print (''SSH: '' @ ssh_line (target step) shell (pdiv d (script_name step))))
      (let demo_commands = extract_demo_commands script in
       cond_do (demo_commands \<noteq> [])
         (thn (print ''Main commands:'')
            (for_all demo_commands (\<lambda>command.
               bnd (interpolate_command command env) (\<lambda>text.
               print (label step @ ''$ '' @ text)))))))))"

definition execute_remote :: "demo_config \<Rightarrow> remote_step \<Rightarrow> unit prog" where
  "execute_remote c step =
     bnd (build_remote c step) (\<lambda>(env, env_prefix, script).
     let shell = remote_shell (target step) env_prefix in
     bnd REMOTE_DIR (\<lambda>d.
     thn (if show_commands c
          then print (nl # ''Executing '' @ label step @ '': '' @ ssh_line (target step) shell (pdiv d (script_name step)))
          else print (nl # ''Executing '' @ script_name step @ '' on '' @ label step @ '' ('' @ target step @ '')''))
     (thn (print (''Logs follow from the remote command output.'' @ [nl]))
     (if dry_run c then print ''dry-run: skipped''
      else thn (exec_check [''ssh'', ''-o'', ''StrictHostKeyChecking=no'', target step, shell] (script @ [nl])) skip))))"

definition print_step_overview :: "scenario_step list \<Rightarrow> nat \<Rightarrow> unit prog" where
  "print_step_overview scenario current_index =
     thn (print ''Scenario:'')
     (for_all (enumerate 1 scenario) (\<lambda>(index, step).
        if index = current_index
        then print (BOLD @ ''> '' @ str_nat index @ ''. '' @ short_title step @ '' <'' @ RESET)
        else print (DIM @ ''- '' @ str_nat index @ ''. '' @ short_title step @ RESET)))"

definition confirm :: "demo_config \<Rightarrow> unit prog" where
  "confirm c =
     (if yes c then print ''--yes set, continuing''
      else thn (py_input ''Press Enter to execute this step, or Ctrl-C to stop: '') skip)"

definition run_step :: "demo_config \<Rightarrow> scenario_step list \<Rightarrow> nat \<Rightarrow> unit prog" where
  "run_step c scenario current_index =
     (let step_def = scenario ! (current_index - 1);
          message = ''Step '' @ str_nat current_index @ ''/'' @ str_nat (length scenario) @ '': '' @ title step_def
      in
      bnd utc_stamp (\<lambda>stamp.
      thn (print (nl # BOLD @ REVERSE @ ''['' @ stamp @ ''] '' @ message @ RESET))
      (thn (print_step_overview scenario current_index)
      (thn (for_all (remote_steps step_def) (preview_remote c))
      (thn (confirm c)
      (bnd time_ns (\<lambda>start.
       thn (for_all (remote_steps step_def) (execute_remote c))
       (bnd time_ns (\<lambda>t.
        print (nl # DIM @ ''local step wall time, including SSH and remote cleanup: ''
                 @ str_int (to_ms (t - start)) @ '' ms'' @ RESET)))))))))) "

section \<open>The command line\<close>

definition demo_options :: "(string \<times> opt_kind) list" where
  "demo_options =
     [(''--master'', Store), (''--slave'', Store), (''--registry'', Store), (''--master-registry'', Store),
      (''--repo'', Store), (''--base-tag'', Store), (''--run-id'', Store), (''--derived-tag'', Store),
      (''--project-dir'', Store), (''--timeout-seconds'', Store_int), (''--yes'', Flag), (''--dry-run'', Flag),
      (''--show-commands'', Flag)]"

definition config_of_args :: "string \<Rightarrow> (string, string) dict \<Rightarrow> demo_config" where
  "config_of_args stamp args =
     (let id = dict_get args ''--run-id'' stamp;
          tag = dict_get args ''--derived-tag'' []
      in \<lparr>master = dict_get args ''--master'' ''root@178.128.247.74'',
          slave = dict_get args ''--slave'' ''anton.kapeliushok@34.76.115.252'',
          registry = dict_get args ''--registry'' ''178.128.247.74:5000'',
          master_registry = dict_get args ''--master-registry'' ''127.0.0.1:5000'',
          repo = dict_get args ''--repo'' ''orca/overlaybd-jb-real'',
          base_tag = dict_get args ''--base-tag'' ''obd-jb-real-sysbox-20260608T171059Z'',
          run_id = id,
          derived_tag = (if tag \<noteq> [] then tag else ''petclinic-build-'' @ id),
          project_dir = dict_get args ''--project-dir'' ''/home/workspace-agent/spring-petclinic'',
          timeout_seconds = (case map_of args ''--timeout-seconds'' of
             None \<Rightarrow> 900 | Some s \<Rightarrow> (case int_of_str s of None \<Rightarrow> 900 | Some n \<Rightarrow> n)),
          yes = (map_of args ''--yes'' \<noteq> None),
          dry_run = (map_of args ''--dry-run'' \<noteq> None),
          show_commands = (map_of args ''--show-commands'' \<noteq> None)\<rparr>)"

definition parse_args :: "string list \<Rightarrow> demo_config prog" where
  "parse_args argv =
     bnd time_ns (\<lambda>t.
     case parse_opts demo_options argv of
       Exit_status n \<Rightarrow> raise (SystemExit (PInt n))
     | Parsed args \<Rightarrow> ret (config_of_args (compact_stamp t) args))"

section \<open>The scenario and the main program\<close>

definition plain :: "string \<Rightarrow> string \<Rightarrow> string \<Rightarrow> remote_step" where
  "plain lab tgt name = \<lparr>label = lab, target = tgt, script_name = name, extra_env = None\<rparr>"

definition remote :: "string \<Rightarrow> string \<Rightarrow> string \<Rightarrow> (string, string) dict \<Rightarrow> remote_step" where
  "remote lab tgt name env = \<lparr>label = lab, target = tgt, script_name = name, extra_env = Some env\<rparr>"

definition scenario_of :: "string \<Rightarrow> string \<Rightarrow> remote_step list \<Rightarrow> scenario_step" where
  "scenario_of ttl short rs = \<lparr>title = ttl, short_title = short, remote_steps = rs\<rparr>"

definition scenario :: "demo_config \<Rightarrow> scenario_step list" where
  "scenario c =
     [scenario_of ''clean up demo environments on master and slave'' ''cleanup''
        [plain ''master'' (master c) ''cleanup.sh'',
         plain ''slave'' (slave c) ''cleanup.sh''],
      scenario_of ''run JB workspace on master until Join URL'' ''master workspace cold''
        [remote ''master'' (master c) ''run-workspace-until-join.sh''
           [(''IMAGE_REF'', base_image_master c), (''KEEP_AFTER_JOIN'', ''0''), (''CONTAINER_NAME'', ''demo-jb-master-workspace-cold-'' @ run_id c)]],
      scenario_of ''run JB workspace on slave until Join URL'' ''slave workspace cold''
        [remote ''slave'' (slave c) ''run-workspace-until-join.sh''
           [(''IMAGE_REF'', base_image_slave c), (''KEEP_AFTER_JOIN'', ''0''), (''CONTAINER_NAME'', ''demo-jb-slave-workspace-cold-'' @ run_id c)]],
      scenario_of ''warm-run JB workspace on slave until Join URL'' ''slave workspace hot''
        [remote ''slave'' (slave c) ''run-workspace-until-join.sh''
           [(''IMAGE_REF'', base_image_slave c), (''KEEP_AFTER_JOIN'', ''0''), (''CONTAINER_NAME'', ''demo-jb-slave-workspace-hot-'' @ run_id c)]],
      scenario_of ''clone and build Spring Petclinic on slave with warm workspace layers'' ''slave clone+build coldish''
        [remote ''slave'' (slave c) ''petclinic-build-mutable.sh''
           [(''IMAGE_REF'', base_image_slave c), (''CONTAINER_NAME'', ''demo-jb-slave-petclinic-build-'' @ run_id c)]],
      scenario_of ''export slave overlay upperdir and push derived image'' ''commit derived image''
        [plain ''slave'' (slave c) ''commit-snapshot.sh''],
      scenario_of ''run JB workspace on slave from derived image until Join URL'' ''slave derived workspace coldish''
        [remote ''slave'' (slave c) ''run-workspace-until-join.sh''
           [(''IMAGE_REF'', derived_image_slave c), (''KEEP_AFTER_JOIN'', ''0''), (''CONTAINER_NAME'', ''demo-jb-slave-derived-workspace-coldish-'' @ run_id c)]],
      scenario_of ''grep Petclinic state and read tarball on slave from first-use derived image'' ''slave grep+read coldish''
        [remote ''slave'' (slave c) ''petclinic-read-artifact.sh''
           [(''IMAGE_REF'', derived_image_slave c), (''CONTAINER_NAME'', ''demo-jb-slave-petclinic-read-coldish-'' @ run_id c)]],
      scenario_of ''grep Petclinic state and read tarball on master from first-use derived image'' ''master grep+read coldish''
        [remote ''master'' (master c) ''petclinic-read-artifact.sh''
           [(''IMAGE_REF'', derived_image_master c), (''CONTAINER_NAME'', ''demo-jb-master-petclinic-read-coldish-'' @ run_id c)]],
      scenario_of ''warm-run grep Petclinic state and read tarball on master from derived image'' ''master grep+read warm''
        [remote ''master'' (master c) ''petclinic-read-artifact.sh''
           [(''IMAGE_REF'', derived_image_master c), (''CONTAINER_NAME'', ''demo-jb-master-petclinic-read-warm-'' @ run_id c)]]]"

definition run_scenario :: "demo_config \<Rightarrow> unit prog" where
  "run_scenario c = for_all [1..<Suc (length (scenario c))] (run_step c (scenario c))"

text \<open>What \<open>main\<close> does with its configuration.\<close>

definition run_demo :: "demo_config \<Rightarrow> int prog" where
  "run_demo c =
     thn (print_config c)
     (bnd (catching (thn (run_scenario c) (ret None))
             (\<lambda>e. if e = KeyboardInterrupt
                  then Some (thn (print_err (nl # ''Interrupted by user.'')) (ret (Some 130))) else None)) (\<lambda>code.
      case code of
        Some n \<Rightarrow> ret n
      | None \<Rightarrow>
          thn (seq [print (nl # ''Demo complete''),
                    print ''Derived image:'',
                    print (''  master/local: '' @ derived_image_master c),
                    print (''  slave/global: '' @ derived_image_slave c)])
          (ret 0)))"

definition main :: "string list \<Rightarrow> int prog" where
  "main argv = bnd (parse_args argv) run_demo"

definition script :: "string list \<Rightarrow> unit prog" where
  "script argv = bnd (main argv) (\<lambda>n. raise (SystemExit (PInt n)))"

section \<open>What a run does\<close>

definition all_steps :: "demo_config \<Rightarrow> remote_step list" where
  "all_steps c = concat (map remote_steps (scenario c))"

definition step_argv :: "demo_config \<Rightarrow> remote_step \<Rightarrow> string list" where
  "step_argv c step = [''ssh'', ''-o'', ''StrictHostKeyChecking=no'', target step,
     remote_shell (target step) (render_env (remote_env c step))]"

definition executed :: "event \<Rightarrow> string list option" where
  "executed ev = (case ev of Exec argv i x \<Rightarrow> Some argv | _ \<Rightarrow> None)"

text \<open>Events that only read or print.\<close>

definition harmless :: "event \<Rightarrow> bool" where
  "harmless ev = (case ev of Out s \<Rightarrow> True | Err s \<Rightarrow> True | Clock t \<Rightarrow> True | ReadText p x \<Rightarrow> True
     | Input s x \<Rightarrow> True | _ \<Rightarrow> False)"

lemma harmless_simps [simp]:
  "harmless (Out s)" "harmless (Err s)" "harmless (Clock t)" "harmless (ReadText p x)" "harmless (Input s y)"
  by (simp_all add: harmless_def)

lemma harmless_executed: "harmless ev \<Longrightarrow> executed ev = None"
  by (cases ev) (simp_all add: harmless_def executed_def)

lemmas demo_defs = utc_stamp_def print_config_def load_remote_script_def REMOTE_DIR_def DEMO_DIR_def
  env_item_def derived_env_def interpolate_command_def build_remote_def preview_remote_def
  print_step_overview_def confirm_def parse_args_def

lemma steps_demo [steps_intros]:
  "steps utc_stamp" "steps (print_config c)" "steps (build_remote c s)" "steps REMOTE_DIR"
  "steps (preview_remote c s)" "steps (print_step_overview sc i)" "steps (confirm c)" "steps (execute_remote c s)"
  unfolding demo_defs execute_remote_def by (intro steps_intros)+

lemma harmless_demo:
  "emits harmless utc_stamp" "emits harmless (print_config c)" "emits harmless (build_remote c s)"
  "emits harmless REMOTE_DIR" "emits harmless (preview_remote c s)" "emits harmless (print_step_overview sc i)"
  "emits harmless (confirm c)"
  unfolding demo_defs by (intro emits_intros harmless_simps)+

lemma quiet_demo: "emits harmless m \<Longrightarrow> emits (\<lambda>ev. executed ev = None) m"
  by (erule emits_mono) (rule harmless_executed)

lemma gives_build_remote:
  "gives (\<lambda>x. fst (snd x) = render_env (remote_env c s)) (build_remote c s)"
  unfolding build_remote_def load_remote_script_def REMOTE_DIR_def DEMO_DIR_def
  by (intro gives_intros steps_intros) simp

lemma steps_parse_args [steps_intros]: "steps (parse_args argv)"
  unfolding parse_args_def by (intro steps_intros) (simp add: steps_raise steps_ret split: parsed.split)


lemma executed_Exec: "executed (Exec argv i x) = Some argv"
  by (simp add: executed_def)

lemma executed_others: "executed (Out s) = None" "executed (Err s) = None" "executed (Clock t) = None"
  by (simp_all add: executed_def)

lemma traces_exec_check: "traces executed [argv] (exec_check argv i)"
proof -
  have "wp (exec_check argv i) (\<lambda>r h'. \<exists>x. h' = Exec argv i x # h) E h" for E h
    by (auto simp: exec_check_def exec_result_def wp_simps split: option.split)
  then show ?thesis
    unfolding traces_def by (blast intro: wp_mono traced_one [where ev = "Exec argv i" and sel = executed] executed_Exec)
qed

lemma traces_exec_skip: "traces executed [argv] (thn (exec_check argv i) skip)"
  by (intro traces_thn_before traces_exec_check steps_intros emits_intros)

lemma traces_execute_remote:
  assumes "\<not> dry_run c" shows "traces executed [step_argv c s] (execute_remote c s)"
  unfolding execute_remote_def
  by (rule traces_bnd_gives [OF gives_build_remote steps_demo(3) quiet_demo [OF harmless_demo(3)]],
      simp only: case_prod_beta Let_def if_not_P [OF assms] step_argv_def,
      intro traces_exec_skip traces_bnd_quiet traces_thn_quiet steps_intros
        quiet_demo [OF harmless_demo(4)] emits_intros executed_others)

lemma traces_run_step:
  assumes "\<not> dry_run c"
  shows "traces executed (map (step_argv c) (remote_steps (sc ! (i - 1)))) (run_step c sc i)"
proof -
  have "traces executed (concat (map (\<lambda>s. [step_argv c s]) ss)) (for_all ss (execute_remote c))" for ss
    by (rule traces_for_all) (rule traces_execute_remote [OF assms])
  then have ex: "traces executed (map (step_argv c) ss) (for_all ss (execute_remote c))" for ss
    by (simp add: concat_map_singleton)
  have body_first: "traces executed (map (step_argv c) ss) (thn (for_all ss (execute_remote c)) k)"
    if "steps k" "emits (\<lambda>ev. executed ev = None) k" for ss k
    by (rule traces_thn_before [OF ex that])
  show ?thesis
    unfolding run_step_def Let_def
    by (intro body_first traces_bnd_quiet traces_thn_quiet steps_intros emits_intros executed_others
        harmless_demo [THEN quiet_demo])
qed

lemma scenario_indices: "map (\<lambda>i. sc ! (i - 1)) [1..<Suc (length sc)] = sc"
  by (rule nth_equalityI) (simp_all del: upt_Suc)

lemma traces_run_scenario:
  assumes "\<not> dry_run c" shows "traces executed (map (step_argv c) (all_steps c)) (run_scenario c)"
proof -
  have "concat (map (\<lambda>i. map (step_argv c) (remote_steps (scenario c ! (i - 1)))) [1..<Suc (length (scenario c))])
    = map (step_argv c) (all_steps c)"
    using arg_cong [OF scenario_indices [of "scenario c"], of "\<lambda>sc. map (step_argv c) (concat (map remote_steps sc))"]
    by (simp add: all_steps_def map_concat comp_def)
  then show ?thesis
    using traces_for_all [of "[1..<Suc (length (scenario c))]" executed _ "run_step c (scenario c)",
        OF traces_run_step [OF assms]]
    by (simp add: run_scenario_def)
qed

section \<open>Order, consent and dry runs\<close>

definition sample_args :: "string list" where
  "sample_args = [''--yes'', ''--run-id'', ''r1'', ''--master=root@m'']"

lemma run_demo_traces:
  assumes "\<not> dry_run c" shows "traces_if executed (map (step_argv c) (all_steps c)) (\<lambda>n. n = 0) (run_demo c)"
proof -
  let ?T = "map (step_argv c) (all_steps c)"
  have "traces executed (?T @ []) (thn (run_scenario c) (ret (None :: int option)))"
    by (intro traces_thn traces_run_scenario assms traces_quiet steps_ret emits_ret)
  then have run: "traces executed ?T (thn (run_scenario c) (ret (None :: int option)))" by simp
  have interrupted: "traces executed [] k \<and> gives (\<lambda>v. \<not> v \<noteq> Some 130) k"
    if "(if e = KeyboardInterrupt then Some (thn (print_err (nl # ''Interrupted by user.'')) (ret (Some 130))) else None)
      = Some k" for e k
    using that by (auto split: if_splits intro!: traces_quiet steps_intros emits_intros gives_intros simp: executed_others)
  show ?thesis
    unfolding run_demo_def thn_def [of "print_config c"]
    by (rule traces_if_after [OF steps_demo(2) quiet_demo [OF harmless_demo(2)]],
        rule traces_if_bnd [where P = "\<lambda>v. v \<noteq> Some 130"], rule traces_if_catching [OF run interrupted])
      (auto intro!: traces_quiet steps_intros emits_intros gives_intros simp: executed_others
        simp del: seq.simps split: option.split)
qed

text \<open>
  C3: a run without \<open>--dry-run\<close> executes the remote steps of the scenario in order, each once:
  the SSH commands it has run are always a prefix of the scenario's commands, and when the
  demo ends with exit status 0 they are all of them.
\<close>

theorem main_runs_scenario_in_order:
  assumes "parse_opts demo_options argv = Parsed args" "map_of args ''--dry-run'' = None"
  shows "wp (main argv) (\<lambda>r h'. \<exists>ks. h' = ks @ h \<and>
     (let c = config_of_args (compact_stamp (e_clock E h)) args; T = map (step_argv c) (all_steps c) in
      prefix (chosen executed ks) T \<and> (r = Ok 0 \<longrightarrow> chosen executed ks = T))) E h"
proof -
  define c where "c = config_of_args (compact_stamp (e_clock E h)) args"
  have "\<not> dry_run c" using assms(2) by (simp add: c_def config_of_args_def Let_def)
  then have "wp (run_demo c) (traced_if executed (map (step_argv c) (all_steps c)) (\<lambda>n. n = 0) h0) E h0" for h0
    using run_demo_traces by (simp add: traces_if_def)
  then have "wp (run_demo c) (traced_if executed (map (step_argv c) (all_steps c)) (\<lambda>n. n = 0) h) E (Clock (e_clock E h) # h)"
    by (rule wp_mono) (erule traced_if_before, simp add: executed_others)
  then have "wp (run_demo c) (\<lambda>r h'. \<exists>ks. h' = ks @ h \<and> prefix (chosen executed ks) (map (step_argv c) (all_steps c))
      \<and> (r = Ok 0 \<longrightarrow> chosen executed ks = map (step_argv c) (all_steps c))) E (Clock (e_clock E h) # h)"
    by (rule wp_mono) (auto simp: traced_if_def)
  then show ?thesis
    by (simp add: main_def parse_args_def assms(1) time_ns_def wp_simps Let_def flip: c_def)
qed

lemma main_runs_scenario_in_order_witness:
  "parse_opts demo_options sample_args = Parsed [(''--yes'', ''true''), (''--run-id'', ''r1''), (''--master'', ''root@m'')]
   \<and> wp (main sample_args) (\<lambda>r h'. \<exists>ks. h' = ks @ [] \<and>
     (let c = config_of_args (compact_stamp (e_clock (file_env ''#'') []))
                [(''--yes'', ''true''), (''--run-id'', ''r1''), (''--master'', ''root@m'')];
          T = map (step_argv c) (all_steps c) in
      prefix (chosen executed ks) T \<and> (r = Ok 0 \<longrightarrow> chosen executed ks = T))) (file_env ''#'') []"
proof -
  have p: "parse_opts demo_options sample_args
      = Parsed [(''--yes'', ''true''), (''--run-id'', ''r1''), (''--master'', ''root@m'')]"
    by code_simp
  then show ?thesis
    using main_runs_scenario_in_order [OF p, where E = "file_env ''#''" and h = "[]"] by simp
qed

text \<open>
  C14: with \<open>--dry-run\<close> the demo only prints, asks and reads its own scripts: no command is
  run on any host.
\<close>

theorem dry_run_runs_nothing:
  assumes "parse_opts demo_options argv = Parsed args" "map_of args ''--dry-run'' \<noteq> None"
  shows "emits harmless (main argv)"
proof -
  have d: "dry_run (config_of_args t args)" for t
    using assms(2) by (simp add: config_of_args_def Let_def)
  have x: "emits harmless (execute_remote (config_of_args t args) s)" for t s
    unfolding execute_remote_def if_P [OF d] by (intro emits_intros harmless_demo harmless_simps)
  have "emits harmless (run_demo (config_of_args t args))" for t
    unfolding run_demo_def run_scenario_def run_step_def Let_def
    by (intro emits_intros harmless_demo harmless_simps x)
      (auto split: if_splits intro!: emits_intros)
  then show ?thesis
    unfolding main_def parse_args_def assms(1)
    by (auto simp: bnd_assoc bnd_ret intro!: emits_intros)
qed

lemma dry_run_runs_nothing_witness:
  "parse_opts demo_options [''--dry-run'', ''--yes''] = Parsed [(''--dry-run'', ''true''), (''--yes'', ''true'')]
   \<and> emits harmless (main [''--dry-run'', ''--yes''])"
proof -
  have p: "parse_opts demo_options [''--dry-run'', ''--yes''] = Parsed [(''--dry-run'', ''true''), (''--yes'', ''true'')]"
    by code_simp
  then show ?thesis using dry_run_runs_nothing [OF p] by simp
qed

section \<open>Consent\<close>

text \<open>Between \<open>h\<close> and \<open>h'\<close> nothing was executed before a confirmed prompt.\<close>

definition consented :: "hist \<Rightarrow> hist \<Rightarrow> bool" where
  "consented h h' = (\<exists>ks. h' = ks @ h \<and> (chosen executed ks = []
     \<or> (\<exists>later prompt s before. ks = later @ Input prompt (Ok s) # before \<and> chosen executed before = [])))"

lemma consented_after:
  assumes "consented (ks @ h) h'" "chosen executed ks = []" shows "consented h h'"
proof -
  obtain ls where ls: "h' = ls @ ks @ h" "chosen executed ls = []
     \<or> (\<exists>later prompt s before. ls = later @ Input prompt (Ok s) # before \<and> chosen executed before = [])"
    using assms(1) unfolding consented_def by blast
  show ?thesis
  proof (cases "chosen executed ls = []")
    case True
    then show ?thesis using ls assms(2) unfolding consented_def by (intro exI [of _ "ls @ ks"]) simp
  next
    case False
    then obtain later prompt s before where "ls = later @ Input prompt (Ok s) # before" "chosen executed before = []"
      using ls by blast
    then have "h' = (later @ Input prompt (Ok s) # (before @ ks)) @ h \<and> chosen executed (before @ ks) = []"
      using ls assms(2) by simp
    then show ?thesis unfolding consented_def by blast
  qed
qed

lemma wp_quiet_first:
  assumes "steps m" "emits harmless m" "\<And>x h. wp (f x) (\<lambda>r h'. consented h h') E h"
  shows "wp (bnd m f) (\<lambda>r h'. consented h h') E h"
proof -
  have "wp m (\<lambda>r h'. suffix h h' \<and> (\<exists>ks. h' = ks @ h \<and> list_all harmless ks)) E h"
    using assms(1,2) by (intro wp_emits) (simp_all add: steps_def)
  then show ?thesis unfolding wp_bnd
  proof (rule wp_mono)
    fix r h'
    assume "suffix h h' \<and> (\<exists>ks. h' = ks @ h \<and> list_all harmless ks)"
    then obtain ks where ks: "h' = ks @ h" "chosen executed ks = []"
      by (auto intro: chosen_None list.pred_mono_strong harmless_executed)
    have "consented h h'" using ks unfolding consented_def by blast
    moreover have "wp (f x) (\<lambda>r h'. consented h h') E h'" for x
      using consented_after [OF _ ks(2), of h] unfolding ks(1) by (rule wp_mono [OF assms(3)])
    ultimately show "case r of Ok x \<Rightarrow> wp (f x) (\<lambda>r h'. consented h h') E h' | Exc e \<Rightarrow> consented h h'"
      by (simp split: outcome.split)
  qed
qed

text \<open>
  C9: without \<open>--yes\<close>, no step runs a command before its own confirmation prompt has been
  answered: if the user interrupts the prompt, the step has run nothing.
\<close>

theorem step_needs_consent:
  assumes "\<not> yes c" shows "wp (run_step c sc i) (\<lambda>r h'. consented h h') E h"
proof -
  have ask: "wp (thn (confirm c) k) (\<lambda>r h'. consented h h') E h" if "steps k" for k :: "unit prog" and h
  proof -
    let ?p = "''Press Enter to execute this step, or Ctrl-C to stop: ''"
    have "wp k (\<lambda>r h'. consented h h') E (Input ?p (Ok s) # h)" for s
    proof (rule wp_mono)
      show "wp k (\<lambda>r h'. suffix (Input ?p (Ok s) # h) h') E (Input ?p (Ok s) # h)"
        using that by (simp add: steps_def)
    next
      fix h'
      assume "suffix (Input ?p (Ok s) # h) h'"
      then obtain later where "h' = (later @ Input ?p (Ok s) # []) @ h" by (auto simp: suffix_def)
      then show "consented h h'" unfolding consented_def by (metis chosen_Nil)
    qed
    then show ?thesis
      using assms
      by (auto simp: confirm_def py_input_def wp_simps consented_def executed_def
          intro!: exI [of _ "[Input _ _]"] split: outcome.split)
  qed
  show ?thesis
    unfolding run_step_def Let_def thn_def [of "print _"] thn_def [of "print_step_overview _ _"]
      thn_def [of "for_all _ (preview_remote c)"]
    by (intro ask wp_quiet_first steps_intros harmless_demo emits_intros harmless_simps)
qed

lemma step_needs_consent_witness:
  "\<not> yes (config_of_args ''t'' []) \<and>
   wp (run_step (config_of_args ''t'' []) (scenario (config_of_args ''t'' [])) 2) (\<lambda>r h'. consented [] h') (file_env ''#'') []"
  using step_needs_consent [of "config_of_args ''t'' []"] by (simp add: config_of_args_def Let_def)

section \<open>Remote commands\<close>

definition plain_key :: "string \<times> string \<Rightarrow> bool" where
  "plain_key kv = (fst kv \<noteq> [] \<and> list_all sh_safe (fst kv))"

lemma sh_safe_eq: "sh_safe CHR ''=''"
  by (simp add: sh_safe_def)

lemma sh_lex_env:
  assumes "list_all plain_key env" "env \<noteq> []"
  shows "sh_lex Blank (render_env env @ CHR '' '' # s)
    = map_option ((@) (map (\<lambda>(k, v). k @ ''='' @ v) env)) (sh_lex Blank s)"
  using assms
proof (induction env)
  case (Cons kv env)
  obtain k v where kv: "kv = (k, v)" by (cases kv)
  have "list_all sh_safe (k @ ''='')" "k @ ''='' \<noteq> []" using Cons.prems kv by (simp_all add: plain_key_def sh_safe_eq)
  then have first: "sh_lex Blank (k @ CHR ''='' # shlex_quote v @ CHR '' '' # r) = map_option ((#) (k @ CHR ''='' # v)) (sh_lex Blank r)" for r
    using sh_lex_Blank_safe [of "k @ ''=''" "shlex_quote v @ CHR '' '' # r"] by simp
  show ?case
  proof (cases "env = []")
    case True
    then show ?thesis using kv first by (simp add: render_env_def sh_def)
  next
    case False
    then have "render_env (kv # env) = k @ CHR ''='' # shlex_quote v @ CHR '' '' # render_env env"
      using kv by (cases env) (simp_all add: render_env_def sh_def)
    then show ?thesis
      using Cons False first [of "render_env env @ CHR '' '' # s"] kv by (simp add: option.map_comp comp_def)
  qed
qed simp

text \<open>
  C15: whatever characters the configuration values hold, the remote shell reads the command of
  every scenario step as assignments followed by \<open>bash -se\<close>, through \<open>sudo env\<close> unless the
  login is root: no value is split, expanded or interpreted.
\<close>

theorem remote_command_words:
  assumes "step \<in> set (all_steps c)"
  shows "sh_words (remote_shell (target step) (render_env (remote_env c step)))
    = Some ((if starts_with (target step) ''root@'' then [] else [''sudo'', ''env''])
        @ map (\<lambda>(k, v). k @ ''='' @ v) (remote_env c step) @ [''bash'', ''-se''])"
proof -
  have keys: "list_all plain_key (base_env c)" by (simp add: base_env_def plain_key_def sh_safe_def)
  have extra: "list_all plain_key e" if "extra_env step = Some e" for e
    using assms that
    by (auto simp: all_steps_def scenario_def scenario_of_def remote_def plain_def plain_key_def sh_safe_def)
  have key: "list_all plain_key d \<longleftrightarrow> (\<forall>k\<in>fst ` set d. k \<noteq> [] \<and> list_all sh_safe k)" for d
    by (auto simp: list_all_iff [of plain_key] plain_key_def)
  have "list_all plain_key (dict_update d e)" if "list_all plain_key d" "list_all plain_key e" for d e
    using that unfolding key keys_dict_update by blast
  then have "list_all plain_key (remote_env c step)"
    using keys extra by (auto simp: remote_env_def split: option.split)
  moreover have "''RUN_ID'' \<in> fst ` set (remote_env c step)"
    by (cases "extra_env step") (simp_all add: remote_env_def keys_dict_update base_env_def)
  then have "remote_env c step \<noteq> []" by auto
  ultimately show ?thesis
    using sh_lex_env [of "remote_env c step" "''bash -se''"] by (simp add: remote_shell_def sh_eval)
qed

lemma remote_command_words_witness:
  "sh_words (remote_shell ''anton.kapeliushok@34.76.115.252'' (render_env (remote_env (config_of_args ''it's'' []) (plain ''slave'' ''anton.kapeliushok@34.76.115.252'' ''commit-snapshot.sh''))))
    = Some ([''sudo'', ''env''] @ map (\<lambda>(k, v). k @ ''='' @ v) (base_env (config_of_args ''it's'' [])) @ [''bash'', ''-se''])"
proof -
  let ?c = "config_of_args ''it's'' []"
  have "plain ''slave'' ''anton.kapeliushok@34.76.115.252'' ''commit-snapshot.sh'' \<in> set (all_steps ?c)"
    by (simp add: all_steps_def scenario_def scenario_of_def config_of_args_def Let_def dict_get_def)
  from remote_command_words [OF this] show ?thesis
    by (simp add: plain_def remote_env_def remote_shell_def)
qed

section \<open>Hosts and images\<close>

definition image_of :: "remote_step \<Rightarrow> string option" where
  "image_of step = (case extra_env step of None \<Rightarrow> None | Some e \<Rightarrow> map_of e ''IMAGE_REF'')"

definition step_of_host :: "demo_config \<Rightarrow> string \<Rightarrow> string \<Rightarrow> remote_step \<Rightarrow> bool" where
  "step_of_host c img_master img_slave step =
     (label step = ''master'' \<and> target step = master c \<and> image_of step \<in> {None, Some img_master}
      \<or> label step = ''slave'' \<and> target step = slave c \<and> image_of step \<in> {None, Some img_slave})"

text \<open>
  C16: the scenario pairs hosts and images consistently: a step of the master uses the reference
  of the master's registry, a step of the slave that of the slave's; before the commit
  step only base images run, after it only derived images.
\<close>

theorem scenario_images:
  "\<exists>before commit after. all_steps c = before @ commit # after
     \<and> script_name commit = ''commit-snapshot.sh'' \<and> target commit = slave c
     \<and> list_all (step_of_host c (base_image_master c) (base_image_slave c)) before
     \<and> list_all (step_of_host c (derived_image_master c) (derived_image_slave c)) after
     \<and> list_all (\<lambda>s. image_of s \<noteq> None) after \<and> after \<noteq> []"
proof (intro exI conjI)
  show "all_steps c = take 6 (all_steps c) @ all_steps c ! 6 # drop 7 (all_steps c)"
    by (simp add: all_steps_def scenario_def scenario_of_def)
qed (simp_all add: all_steps_def scenario_def scenario_of_def plain_def remote_def step_of_host_def image_of_def)

section \<open>The command line\<close>



end
