(* ===== verification/Base64.thy ===== *)
theory Base64
  imports PyString
begin

text \<open>
  \<open>str.encode\<close> (UTF-8) and \<open>base64.b64encode\<close>, with the decoder and the round trip.
  Characters are code points up to 255.
\<close>

section \<open>UTF-8\<close>

fun utf8 :: "string \<Rightarrow> nat list" where
  "utf8 [] = []"
| "utf8 (c # s) =
     (if code c < 128 then code c # utf8 s
      else (192 + code c div 64) # (128 + code c mod 64) # utf8 s)"

fun utf8_decode :: "nat list \<Rightarrow> string option" where
  "utf8_decode [] = Some []"
| "utf8_decode (a # bs) =
     (if a < 128 then map_option ((#) (char_of a)) (utf8_decode bs)
      else case bs of
        b # cs \<Rightarrow> (if 194 \<le> a \<and> a < 196 \<and> 128 \<le> b \<and> b < 192
                  then map_option ((#) (char_of ((a - 192) * 64 + (b - 128)))) (utf8_decode cs) else None)
      | [] \<Rightarrow> None)"

lemma byte_code: "code c < 256"
  by (rule nat_of_char_less_256)

lemma utf8_byte: "b \<in> set (utf8 s) \<Longrightarrow> b < 256"
proof (induction s)
  case (Cons c s)
  moreover have "code c div 64 < 4" using byte_code [of c] by (simp add: less_mult_imp_div_less)
  moreover have "code c mod 64 < 64" by simp
  ultimately show ?case by (auto split: if_splits)
qed simp

lemma utf8_decode_utf8: "utf8_decode (utf8 s) = Some s"
proof (induction s)
  case (Cons c s)
  have "2 \<le> code c div 64" if "\<not> code c < 128" using that by simp
  moreover have "code c div 64 < 4" using byte_code [of c] by (simp add: less_mult_imp_div_less)
  ultimately show ?case using Cons by (simp add: div_mult_mod_eq)
qed simp

section \<open>Base 64\<close>

definition b64_char :: "nat \<Rightarrow> char" where
  "b64_char n =
     (if n < 26 then char_of (65 + n) else if n < 52 then char_of (71 + n)
      else if n < 62 then char_of (n - 4) else if n = 62 then CHR ''+'' else CHR ''/'')"

fun b64encode :: "nat list \<Rightarrow> string" where
  "b64encode [] = []"
| "b64encode [a] = [b64_char (a div 4), b64_char (a mod 4 * 16), CHR ''='', CHR ''='']"
| "b64encode [a, b] = [b64_char (a div 4), b64_char (a mod 4 * 16 + b div 16), b64_char (b mod 16 * 4), CHR ''='']"
| "b64encode (a # b # c # bs) =
     b64_char (a div 4) # b64_char (a mod 4 * 16 + b div 16) # b64_char (b mod 16 * 4 + c div 64)
       # b64_char (c mod 64) # b64encode bs"

definition b64_val :: "char \<Rightarrow> nat" where
  "b64_val c =
     (let n = code c in
      if 65 \<le> n \<and> n \<le> 90 then n - 65 else if 97 \<le> n \<and> n \<le> 122 then n - 71
      else if 48 \<le> n \<and> n \<le> 57 then n + 4 else if c = CHR ''+'' then 62 else 63)"

fun b64decode :: "string \<Rightarrow> nat list" where
  "b64decode (p # q # r # s # cs) =
     (let a = b64_val p; b = b64_val q; c = b64_val r; d = b64_val s in
      if r = CHR ''='' then [a * 4 + b div 16]
      else if s = CHR ''='' then [a * 4 + b div 16, b mod 16 * 16 + c div 4]
      else (a * 4 + b div 16) # (b mod 16 * 16 + c div 4) # (c mod 4 * 64 + d) # b64decode cs)"
| "b64decode _ = []"

definition b64_plain :: "char \<Rightarrow> bool" where
  "b64_plain c = (is_digit c \<or> 65 \<le> code c \<and> code c \<le> 90 \<or> 97 \<le> code c \<and> code c \<le> 122 \<or> c = CHR ''+'' \<or> c = CHR ''/'')"

lemma b64_char_props:
  assumes "n < 64"
  shows "b64_val (b64_char n) = n" "b64_plain (b64_char n)" "b64_char n \<noteq> CHR ''=''"
proof -
  have "b64_val (b64_char n) = n \<and> b64_plain (b64_char n) \<and> code (b64_char n) \<noteq> 61"
    using assms unfolding b64_char_def b64_val_def b64_plain_def is_digit_def Let_def
    by (cases "n < 26"; cases "n < 52"; cases "n < 62"; cases "n = 62"; simp; arith?)
  then show "b64_val (b64_char n) = n" "b64_plain (b64_char n)" "b64_char n \<noteq> CHR ''=''" by auto
qed

lemma sextets:
  fixes a b c :: nat
  assumes "a < 256" "b < 256" "c < 256"
  shows "a div 4 < 64" "a mod 4 * 16 + b div 16 < 64" "b mod 16 * 4 + c div 64 < 64" "c mod 64 < 64"
    "a mod 4 * 16 < 64" "b mod 16 * 4 < 64"
proof -
  have "a mod 4 < 4" "b div 16 < 16" "b mod 16 < 16" "c div 64 < 4"
    using assms by (simp_all add: less_mult_imp_div_less)
  then show "a mod 4 * 16 + b div 16 < 64" "b mod 16 * 4 + c div 64 < 64" "a mod 4 * 16 < 64" "b mod 16 * 4 < 64"
    by linarith+
  show "a div 4 < 64" "c mod 64 < 64" using assms by (simp_all add: less_mult_imp_div_less)
qed

lemma byte_div:
  fixes b :: nat
  shows "b < 256 \<Longrightarrow> b div 16 mod 16 = b div 16" "b < 256 \<Longrightarrow> b div 64 mod 4 = b div 64"
    "b < 256 \<Longrightarrow> b div 16 div 16 = 0" "b < 256 \<Longrightarrow> b div 64 div 4 = 0"
  by (simp_all add: less_mult_imp_div_less)

lemma b64decode_encode: "list_all (\<lambda>b. b < 256) bs \<Longrightarrow> b64decode (b64encode bs) = bs"
proof (induction bs rule: b64encode.induct)
  case (2 a)
  then show ?case
    using sextets [of a 0 0] by (simp add: b64_char_props Let_def)
next
  case (3 a b)
  then show ?case
    using sextets [of a b 0] byte_div [of b] by (simp add: b64_char_props Let_def)
next
  case (4 a b c bs)
  then show ?case
    using sextets [of a b c] byte_div [of b] byte_div [of c]
    by (simp add: b64_char_props Let_def div_eq_0_iff less_mult_imp_div_less)
qed simp

lemma b64encode_chars:
  "list_all (\<lambda>b. b < 256) bs \<Longrightarrow> list_all (\<lambda>c. b64_plain c \<or> c = CHR ''='') (b64encode bs)"
proof (induction bs rule: b64encode.induct)
  case (2 a)
  then show ?case using sextets [of a 0 0] by (simp add: b64_char_props)
next
  case (3 a b)
  then show ?case using sextets [of a b 0] by (simp add: b64_char_props)
next
  case (4 a b c bs)
  then show ?case using sextets [of a b c] by (simp add: b64_char_props)
qed simp

text \<open>\<open>base64.b64encode(value.encode()).decode()\<close>, and what a reader decodes.\<close>

definition b64_of :: "string \<Rightarrow> string" where
  "b64_of value = b64encode (utf8 value)"

definition b64_text :: "string \<Rightarrow> string option" where
  "b64_text s = utf8_decode (b64decode s)"

lemma b64_text_of: "b64_text (b64_of s) = Some s"
  by (simp add: b64_text_def b64_of_def b64decode_encode utf8_decode_utf8 list_all_iff utf8_byte)

lemma b64_of_no_space: "c \<in> set (b64_of s) \<Longrightarrow> \<not> is_space c"
  using b64encode_chars [of "utf8 s"]
  by (auto simp: b64_of_def list_all_iff utf8_byte b64_plain_def is_digit_def is_space_def)

end
