(* ===== verification/Workspace_Timings.thy ===== *)
theory Workspace_Timings
  imports Traces Base64
begin

text \<open>
  \<open>src/scripts/measure-jetbrains-workspace-timings.py\<close>: the time until a workspace
  prints its join URL, in a Docker container, in a local Firecracker or QEMU machine
  on a cached root file system, and in an Orca session.
\<close>

section \<open>Configuration\<close>

record workspace_config =
  IMAGE :: string
  BASE_IMAGE_ID :: string
  ASSET_DIR :: string
  WORK_PARENT :: string
  ROOTFS_SIZE_MB :: int
  MEM_SIZE_MIB :: int
  VCPU_COUNT :: int
  GUEST_DNS :: string
  DOCKER_RUN_ARGS :: string
  QEMU_KERNEL :: string

definition JOIN_MARKER :: string where
  "JOIN_MARKER = ''Join this workspace using URL:''"

definition ORCA_COMMAND :: string where
  "ORCA_COMMAND =
     ''bash -c '' @ [squote] @ ''$SH_SCRIPT_FOLDER_ENV/start.sh '' @ [dquote] @ ''$@'' @ [dquote] @ [squote]
       @ '' -- '' @ [squote] @ ''-- --auth=accept-everyone --publish --enableSmartMode'' @ [squote]"

definition load_config :: "workspace_config prog" where
  "load_config =
     bnd (env_get ''IMAGE'' ''registry.jetbrains.team/p/fleet/docker-public/air-workspace-linux_x64:261.643'') (\<lambda>image.
     bnd (env_get ''BASE_IMAGE_ID'' ''base-96128f21-2503-45ef-a73d-5ed7b83ce279'') (\<lambda>base_image_id.
     bnd (env_path ''ASSET_DIR'' ''firecracker-assets'') (\<lambda>asset_dir.
     bnd (env_path ''WORK_PARENT'' ''.tmp/jetbrains-workspace-timings'') (\<lambda>work_parent.
     bnd (env_int ''ROOTFS_SIZE_MB'' ''10000'') (\<lambda>rootfs_size_mb.
     bnd (env_int ''MEM_SIZE_MIB'' ''4096'') (\<lambda>mem_size_mib.
     bnd (env_int ''VCPU_COUNT'' ''2'') (\<lambda>vcpu_count.
     bnd (env_get ''GUEST_DNS'' ''1.1.1.1'') (\<lambda>guest_dns.
     bnd (env_get ''DOCKER_RUN_ARGS'' []) (\<lambda>docker_run_args.
     bnd (asks e_uname) (\<lambda>release.
     bnd (env_path ''QEMU_KERNEL'' (''/boot/vmlinuz-'' @ release)) (\<lambda>qemu_kernel.
     ret \<lparr>IMAGE = image, BASE_IMAGE_ID = base_image_id, ASSET_DIR = asset_dir, WORK_PARENT = work_parent,
          ROOTFS_SIZE_MB = rootfs_size_mb, MEM_SIZE_MIB = mem_size_mib, VCPU_COUNT = vcpu_count,
          GUEST_DNS = guest_dns, DOCKER_RUN_ARGS = docker_run_args, QEMU_KERNEL = qemu_kernel\<rparr>)))))))))))"

section \<open>Small operations\<close>

definition now_ms :: "int prog" where
  "now_ms = bnd time_ns (\<lambda>t. ret (t div 1000000))"

definition run :: "string \<Rightarrow> bool \<Rightarrow> string prog" where
  "run cmd check = sh_run cmd check"

definition q :: "string \<Rightarrow> string" where
  "q value = shlex_quote value"

text \<open>A request without a body has no data; the limit is in seconds.\<close>

definition http_json :: "string \<Rightarrow> string \<Rightarrow> pyval option \<Rightarrow> int \<Rightarrow> pyval prog" where
  "http_json meth url body timeout =
     bnd (http_send meth url (case body of None \<Rightarrow> [] | Some b \<Rightarrow> json_dumps b) (sec timeout)) loads"

definition remember_at :: "string list \<Rightarrow> string \<Rightarrow> int \<Rightarrow> pydict \<Rightarrow> pydict" where
  "remember_at markers logs elapsed first_seen =
     fold (\<lambda>marker seen.
       if map_of seen marker = None \<and> contains marker logs
       then dict_set seen marker (PInt elapsed) else seen) markers first_seen"

definition remember_markers :: "pydict \<Rightarrow> string \<Rightarrow> int \<Rightarrow> string list \<Rightarrow> pydict prog" where
  "remember_markers first_seen logs start_ms markers =
     bnd now_ms (\<lambda>t. ret (remember_at markers logs (t - start_ms) first_seen))"

definition server_markers :: "string list" where
  "server_markers =
     [''Dock HTTP Api listening'',
      ''Workspace Server listening'',
      ''Version: 261.643'',
      ''Smart Mode: enabled'',
      ''Published to JetBrains Relay: true'',
      JOIN_MARKER]"

definition machine_markers :: "string list" where
  "machine_markers =
     [''orca-init: build_time_utc'',
      ''orca-init: child reaper ready'',
      ''orca-init: tty ready''] @ server_markers"

definition tini_warning :: "string \<Rightarrow> pyval" where
  "tini_warning logs = PBool (contains ''Tini is not running as PID 1'' logs)"

section \<open>Watching a log\<close>

text \<open>
  The loop that the measurements share: fetch the log (given what the last round read),
  remember the markers in it, finish when the join marker is there, sleep otherwise.
\<close>

definition watch_body ::
  "(string \<Rightarrow> string prog) \<Rightarrow> (string \<Rightarrow> pydict \<Rightarrow> 'r prog) \<Rightarrow> string list \<Rightarrow> int \<Rightarrow> int
     \<Rightarrow> string \<times> pydict \<Rightarrow> (string \<times> pydict, 'r) ctl prog" where
  "watch_body fetch finish markers delay_ms start s =
     bnd (fetch (fst s)) (\<lambda>logs.
     bnd (remember_markers (snd s) logs start markers) (\<lambda>first_seen.
     if contains JOIN_MARKER logs
     then bnd (finish logs first_seen) (\<lambda>result. ret (Leave result))
     else thn (sleep_ms delay_ms) (ret (Continue (logs, first_seen)))))"

section \<open>Docker\<close>

definition docker_logs :: "string \<Rightarrow> string \<Rightarrow> string prog" where
  "docker_logs name logs = run (''docker logs '' @ name @ '' 2>&1'') False"

definition docker_joined :: "string \<Rightarrow> string \<Rightarrow> int \<Rightarrow> string \<Rightarrow> pydict \<Rightarrow> pyval prog" where
  "docker_joined name container_id start logs first_seen =
     bnd now_ms (\<lambda>t.
     ret (PDict [
       (''kind'', PStr ''docker''),
       (''container'', PStr name),
       (''container_id'', PStr container_id),
       (''elapsed_ms'', PInt (t - start)),
       (''first_seen_ms'', PDict first_seen),
       (''tini_warning'', tini_warning logs)]))"

definition docker_rm :: "string \<Rightarrow> unit prog" where
  "docker_rm name = thn (run (''docker rm -f '' @ name @ '' >/dev/null 2>&1 || true'') False) skip"

definition wait_docker :: "string \<Rightarrow> string \<Rightarrow> int \<Rightarrow> int \<Rightarrow> pyval prog" where
  "wait_docker name container_id start timeout_seconds =
     bnd time_ns (\<lambda>t0.
     bnd (while_before (t0 + sec timeout_seconds)
            (watch_body (docker_logs name) (docker_joined name container_id start) server_markers 1000 start) ([], [])) (\<lambda>r.
     case r of
       Leave result \<Rightarrow> ret result
     | Continue s \<Rightarrow>
         bnd now_ms (\<lambda>t.
         ret (PDict [
           (''kind'', PStr ''docker''),
           (''error'', PStr ''timeout''),
           (''elapsed_ms'', PInt (t - start)),
           (''first_seen_ms'', PDict (snd s))]))))"

definition docker_name :: "int \<Rightarrow> string" where
  "docker_name t = ''orca-air-workspace-measure-'' @ str_int (to_ms t)"

definition measure_docker :: "workspace_config \<Rightarrow> int \<Rightarrow> pyval prog" where
  "measure_docker c timeout_seconds =
     bnd time_ns (\<lambda>t.
     let name = docker_name t in
     thn (docker_rm name)
     (bnd now_ms (\<lambda>start.
      let docker_args = (if strip (DOCKER_RUN_ARGS c) \<noteq> [] then strip (DOCKER_RUN_ARGS c) @ '' '' else []) in
      bnd (run (''docker run -d --name '' @ name @ '' '' @ docker_args @ IMAGE c) True) (\<lambda>out.
      finally_do (wait_docker name (strip out) start timeout_seconds) (docker_rm name)))))"

section \<open>The cached root file system\<close>

definition on_process_error :: "'a prog \<Rightarrow> exn \<Rightarrow> 'a prog option" where
  "on_process_error k e = (case e of CalledProcessError rc cmd \<Rightarrow> Some k | _ \<Rightarrow> None)"

definition image_inspect :: "workspace_config \<Rightarrow> (pyval \<times> pyval) prog" where
  "image_inspect c =
     (let inspect = run (''docker image inspect '' @ q (IMAGE c)) True in
      bnd (catching inspect (on_process_error
             (thn (print (''pulling '' @ IMAGE c))
             (thn (run (''docker pull '' @ q (IMAGE c)) True)
             inspect)))) (\<lambda>raw.
      bnd (loads raw) (\<lambda>images.
      bnd (first_item images) (\<lambda>image.
      bnd (get_or image ''Config'' PNone) (\<lambda>cfg.
      let cfg = py_or cfg (PDict []) in
      bnd (get_or cfg ''Env'' PNone) (\<lambda>e.
      bnd (get_or cfg ''User'' PNone) (\<lambda>u.
      bnd (get_or cfg ''WorkingDir'' PNone) (\<lambda>w.
      ret (image, PDict [
        (''env'', py_or e (PList [])),
        (''user'', py_or u (PStr [])),
        (''workdir'', py_or w (PStr []))])))))))))"

definition build_orca_init :: "string \<Rightarrow> unit prog" where
  "build_orca_init init_bin =
     bnd (env_get ''ORCA_INIT_REUSE'' []) (\<lambda>reuse.
     bnd (if is_true_flag reuse then exists_path init_bin else ret False) (\<lambda>present.
     if present then print (''reusing existing orca-init at '' @ init_bin)
     else bnd (run ''command -v go >/dev/null 2>&1'' False) (\<lambda>out.
       if out = []
       then bnd (env_get ''ORCA_INIT_SOURCE_SERVICE'' ''node-1'') (\<lambda>service.
            thn (run (''docker compose cp '' @ q service @ '':/orca-init '' @ q init_bin) True)
            (thn (run (''chmod 0755 '' @ q init_bin) True) skip))
       else bnd time_ns (\<lambda>t.
            thn (run (''CGO_ENABLED=0 GOOS=linux GOARCH=amd64 go build -trimpath -ldflags ''
                   @ q (''-s -w -X main.buildTimeUTC='' @ iso_stamp t) @ '' -o '' @ q init_bin @ '' ./cmd/orca-init'') True)
            skip))))"

text \<open>
  The commands inside the \<open>try\<close> block that fills the file system.  Its \<open>finally\<close>
  clause removes the container if one was created, unmounts if it was mounted and
  removes the mount point; none of these three can raise.
\<close>

definition guest_dirs :: "string list" where
  "guest_dirs = [''dev'', ''proc'', ''sys'', ''run'', ''tmp'', ''etc'', ''orca'']"

definition fill_rootfs :: "workspace_config \<Rightarrow> string \<Rightarrow> string \<Rightarrow> string \<Rightarrow> unit prog" where
  "fill_rootfs c mount_dir inspect_path cid =
     thn (run (''docker export '' @ q cid @ '' | sudo tar --numeric-owner -xf - -C '' @ q mount_dir) True)
     (thn (for_all guest_dirs (\<lambda>d. thn (run (''sudo mkdir -p '' @ q (pdiv mount_dir d)) True) skip))
     (thn (run (''sudo install -m 0644 '' @ q inspect_path @ '' '' @ q (pdiv mount_dir ''etc/orca-image-inspect.json'')) True)
     (thn (run (''printf '' @ q (IMAGE c @ [nl]) @ '' | sudo tee '' @ q (pdiv mount_dir ''etc/orca-image-ref'') @ '' >/dev/null'') True)
     skip)))"

definition in_mount :: "string \<Rightarrow> string \<Rightarrow> unit prog \<Rightarrow> unit prog" where
  "in_mount rootfs mount_dir m =
     finally_do
       (thn (run (''sudo mount -o loop '' @ q rootfs @ '' '' @ q mount_dir) True)
         (finally_do m (thn (run (''sudo umount '' @ q mount_dir) False) skip)))
       (thn (run (''rmdir '' @ q mount_dir @ '' >/dev/null 2>&1 || true'') False) skip)"

definition populate_rootfs :: "workspace_config \<Rightarrow> string \<Rightarrow> string \<Rightarrow> pyval \<Rightarrow> unit prog" where
  "populate_rootfs c rootfs inspect_path img =
     thn (print (''preparing cached local Firecracker rootfs at '' @ rootfs))
     (thn (unlink_ok rootfs)
     (thn (write_text inspect_path (json_dumps_indent 2 (PList [img])))
     (thn (run (''truncate -s '' @ str_int (ROOTFS_SIZE_MB c) @ ''M '' @ q rootfs) True)
     (thn (run (''mkfs.ext4 -F '' @ q rootfs @ '' >/dev/null'') True)
     (bnd (run (''mktemp -d '' @ q (pdiv (WORK_PARENT c) ''mnt.XXXXXX'')) True) (\<lambda>out.
      let mount_dir = mk_path (strip out) in
      in_mount rootfs mount_dir
        (bnd (run (''docker create --entrypoint /bin/sh '' @ q (IMAGE c) @ '' -c true'') True) (\<lambda>out.
         let cid = strip out in
         finally_do (fill_rootfs c mount_dir inspect_path cid)
           (cond_do (cid \<noteq> []) (thn (run (''docker rm -f '' @ q cid @ '' >/dev/null 2>&1 || true'') False) skip))))))))))"

definition prepare_rootfs :: "workspace_config \<Rightarrow> string \<Rightarrow> string \<Rightarrow> string \<Rightarrow> pyval \<Rightarrow> pyval \<Rightarrow> unit prog" where
  "prepare_rootfs c rootfs inspect_path meta_path img desired_meta =
     thn (populate_rootfs c rootfs inspect_path img)
       (write_text meta_path (json_dumps_indent_sorted 2 desired_meta))"

definition read_meta :: "string \<Rightarrow> pyval prog" where
  "read_meta meta_path =
     bnd (exists_path meta_path) (\<lambda>present.
     if present
     then catching (bnd (read_text meta_path) loads)
            (\<lambda>e. if is_exception e then Some (ret (PDict [])) else None)
     else ret (PDict []))"

definition rootfs_meta :: "workspace_config \<Rightarrow> pyval \<Rightarrow> pyval" where
  "rootfs_meta c digest =
     PDict [(''image'', PStr (IMAGE c)),
            (''image_digest'', digest),
            (''rootfs_size_mb'', PInt (ROOTFS_SIZE_MB c))]"

definition rootfs_stale :: "string \<Rightarrow> string \<Rightarrow> pyval \<Rightarrow> bool prog" where
  "rootfs_stale rootfs meta_path desired_meta =
     bnd (read_meta meta_path) (\<lambda>current_meta.
     if \<not> py_eq current_meta desired_meta then ret True
     else bnd (exists_path rootfs) (\<lambda>present. ret (\<not> present)))"

definition ensure_local_rootfs :: "workspace_config \<Rightarrow> (string \<times> pyval \<times> string) prog" where
  "ensure_local_rootfs c =
     (let cache_dir = pdiv (WORK_PARENT c) ''local-firecracker-rootfs'';
          rootfs = pdiv cache_dir ''rootfs.ext4'';
          inspect_path = pdiv cache_dir ''image-inspect.json'';
          meta_path = pdiv cache_dir ''rootfs-meta.json'';
          init_bin = pdiv cache_dir ''orca-init''
      in
      thn (mkdirs (WORK_PARENT c))
      (thn (mkdirs cache_dir)
      (bnd (image_inspect c) (\<lambda>(img, image_cfg).
       bnd (get_or img ''Id'' (PStr [])) (\<lambda>digest.
       let desired_meta = rootfs_meta c digest in
       bnd (rootfs_stale rootfs meta_path desired_meta) (\<lambda>stale.
       thn (if stale then prepare_rootfs c rootfs inspect_path meta_path img desired_meta
            else print (''reusing cached local Firecracker rootfs at '' @ rootfs))
       (thn (build_orca_init init_bin)
       (ret (rootfs, image_cfg, init_bin)))))))))"

definition sideload_orca_init :: "workspace_config \<Rightarrow> string \<Rightarrow> string \<Rightarrow> unit prog" where
  "sideload_orca_init c rootfs init_bin =
     bnd (run (''mktemp -d '' @ q (pdiv (WORK_PARENT c) ''mnt.XXXXXX'')) True) (\<lambda>out.
     let mount_dir = mk_path (strip out) in
     in_mount rootfs mount_dir
       (thn (run (''sudo rm -f '' @ q (pdiv mount_dir ''init'')) True)
       (thn (run (''sudo install -m 0755 '' @ q init_bin @ '' '' @ q (pdiv mount_dir ''init'')) True)
       (thn (run ''sync'' True) skip))))"

section \<open>The guest network\<close>

record tap_net =
  net_tap :: string
  net_host_ip :: string
  net_guest_cidr :: string
  net_guest_mac :: string

definition tap_net_of :: "int \<Rightarrow> int \<Rightarrow> int \<Rightarrow> tap_net" where
  "tap_net_of third tap_no last_byte =
     \<lparr>net_tap = ''tapjb'' @ str_int tap_no,
      net_host_ip = ''172.31.'' @ str_int third @ ''.1'',
      net_guest_cidr = ''172.31.'' @ str_int third @ ''.2'' @ ''/30'',
      net_guest_mac = ''06:00:ac:1f:'' @ hex2 (nat third) @ '':'' @ hex2 (nat last_byte)\<rparr>"

text \<open>The firewall rules of a machine, as \<open>iptables\<close> takes them after \<open>-C\<close>, \<open>-A\<close> or \<open>-D\<close>.\<close>

definition add_rule :: "string \<Rightarrow> string \<Rightarrow> string" where
  "add_rule tbl rule =
     ''sudo iptables '' @ tbl @ ''-C '' @ rule @ '' 2>/dev/null || sudo iptables '' @ tbl @ ''-A '' @ rule"

definition del_rule :: "string \<Rightarrow> string \<Rightarrow> string" where
  "del_rule tbl rule = ''sudo iptables '' @ tbl @ ''-D '' @ rule @ '' >/dev/null 2>&1 || true''"

definition masquerade_rule :: "tap_net \<Rightarrow> string" where
  "masquerade_rule net = ''POSTROUTING -s '' @ q (net_guest_cidr net) @ '' -j MASQUERADE''"

definition forward_out_rule :: "tap_net \<Rightarrow> string" where
  "forward_out_rule net = ''FORWARD -i '' @ q (net_tap net) @ '' -j ACCEPT''"

definition forward_in_rule :: "tap_net \<Rightarrow> string" where
  "forward_in_rule net =
     ''FORWARD -o '' @ q (net_tap net) @ '' -m conntrack --ctstate RELATED,ESTABLISHED -j ACCEPT''"

definition configure_tap :: "tap_net \<Rightarrow> unit prog" where
  "configure_tap net =
     (let tap = net_tap net; host_cidr = net_host_ip net @ ''/30'' in
      thn (run (''sudo ip link del '' @ q tap @ '' >/dev/null 2>&1 || true'') False)
      (thn (run (''sudo ip tuntap add dev '' @ q tap @ '' mode tap'') True)
      (thn (run (''sudo ip addr add '' @ q host_cidr @ '' dev '' @ q tap) True)
      (thn (run (''sudo ip link set dev '' @ q tap @ '' up'') True)
      (thn (run ''sudo sysctl -w net.ipv4.ip_forward=1 >/dev/null'' True)
      (thn (run (add_rule ''-t nat '' (masquerade_rule net)) True)
      (thn (run (add_rule [] (forward_out_rule net)) True)
      (thn (run (add_rule [] (forward_in_rule net)) True)
      skip))))))))"

definition setup_tap :: "tap_net prog" where
  "setup_tap =
     bnd (randint 180 249) (\<lambda>third.
     bnd (randint 1000 9999) (\<lambda>tap_no.
     bnd (randint 2 254) (\<lambda>last_byte.
     let net = tap_net_of third tap_no last_byte in
     thn (configure_tap net) (ret net))))"

definition cleanup_tap :: "tap_net \<Rightarrow> unit prog" where
  "cleanup_tap net =
     thn (run (del_rule ''-t nat '' (masquerade_rule net)) False)
     (thn (run (del_rule [] (forward_out_rule net)) False)
     (thn (run (del_rule [] (forward_in_rule net)) False)
     (thn (run (''sudo ip link del '' @ q (net_tap net) @ '' >/dev/null 2>&1 || true'') False)
     skip)))"

section \<open>The kernel command line\<close>

definition b64 :: "pyval \<Rightarrow> string prog" where
  "b64 value = (case value of PStr s \<Rightarrow> ret (b64_of s) | _ \<Rightarrow> raise (AttributeError (py_repr value)))"

definition image_rootfs_boot_args :: "workspace_config \<Rightarrow> pyval \<Rightarrow> tap_net \<Rightarrow> string \<Rightarrow> string prog" where
  "image_rootfs_boot_args c image_cfg net extra =
     bnd (get_item image_cfg ''workdir'') (\<lambda>workdir.
     bnd (if py_true workdir then bnd (b64 workdir) (\<lambda>w. ret ('' orca.workdir_b64='' @ w)) else ret []) (\<lambda>workdir_arg.
     bnd (b64 (PStr ORCA_COMMAND)) (\<lambda>command.
     bnd (get_item image_cfg ''env'') (\<lambda>e.
     bnd (join_lines e) (\<lambda>env_text.
     bnd (b64 (PStr env_text)) (\<lambda>env_b64.
     bnd (get_item image_cfg ''user'') (\<lambda>u.
     bnd (b64 u) (\<lambda>user.
     ret (''root=/dev/vda rw console=ttyS0 quiet loglevel=0 reboot=k panic=1 init=/init'' @ extra
          @ '' orca.tty=1 orca.command_b64='' @ command @ '' orca.env_b64='' @ env_b64
          @ '' orca.user_b64='' @ user @ workdir_arg
          @ '' orca.net_ip='' @ net_guest_cidr net @ '' orca.net_gateway='' @ net_host_ip net
          @ '' orca.net_dns='' @ GUEST_DNS c)))))))))"

section \<open>Local machines\<close>

definition failed_run :: "string \<Rightarrow> string \<Rightarrow> pyval" where
  "failed_run kind err =
     PDict [(''kind'', PStr kind),
            (''error'', PStr err),
            (''elapsed_ms'', PInt 0),
            (''first_seen_ms'', PDict [])]"

definition machine_config :: "workspace_config \<Rightarrow> string \<Rightarrow> string \<Rightarrow> string \<Rightarrow> tap_net \<Rightarrow> string \<Rightarrow> pyval" where
  "machine_config c kernel_path boot_args rootfs net log_path =
     PDict [(''boot-source'', PDict [
               (''kernel_image_path'', PStr kernel_path),
               (''boot_args'', PStr boot_args)]),
            (''drives'', PList [PDict [
               (''drive_id'', PStr ''rootfs''),
               (''path_on_host'', PStr rootfs),
               (''is_root_device'', PBool True),
               (''is_read_only'', PBool False)]]),
            (''network-interfaces'', PList [PDict [
               (''iface_id'', PStr ''eth0''),
               (''guest_mac'', PStr (net_guest_mac net)),
               (''host_dev_name'', PStr (net_tap net))]]),
            (''machine-config'', PDict [
               (''vcpu_count'', PInt (VCPU_COUNT c)),
               (''mem_size_mib'', PInt (MEM_SIZE_MIB c)),
               (''track_dirty_pages'', PBool False)]),
            (''logger'', PDict [
               (''log_path'', PStr log_path),
               (''level'', PStr ''Info''),
               (''show_level'', PBool True),
               (''show_log_origin'', PBool True)])]"

definition serial_text :: "string \<Rightarrow> string \<Rightarrow> string prog" where
  "serial_text run_dir logs =
     bnd (exists_path (pdiv run_dir ''serial.log'')) (\<lambda>present.
     if present then read_text (pdiv run_dir ''serial.log'') else ret logs)"

definition machine_joined :: "string \<Rightarrow> string \<Rightarrow> int \<Rightarrow> string \<Rightarrow> pydict \<Rightarrow> pyval prog" where
  "machine_joined kind run_dir start logs first_seen =
     bnd now_ms (\<lambda>t.
     ret (PDict [
       (''kind'', PStr kind),
       (''elapsed_ms'', PInt (t - start)),
       (''first_seen_ms'', PDict first_seen),
       (''work_dir'', PStr run_dir),
       (''serial_log'', PStr (pdiv run_dir ''serial.log'')),
       (''tini_warning'', tini_warning logs)]))"

definition wait_machine :: "string \<Rightarrow> string \<Rightarrow> string \<Rightarrow> int \<Rightarrow> int \<Rightarrow> int \<Rightarrow> pyval prog" where
  "wait_machine kind exited run_dir pid start timeout_seconds =
     bnd time_ns (\<lambda>t0.
     bnd (while_running (t0 + sec timeout_seconds) pid
            (watch_body (serial_text run_dir) (machine_joined kind run_dir start) machine_markers 1000 start) ([], [])) (\<lambda>r.
     case r of
       Leave result \<Rightarrow> ret result
     | Continue s \<Rightarrow>
         bnd (serial_text run_dir (fst s)) (\<lambda>logs.
         bnd (poll pid) (\<lambda>st.
         bnd now_ms (\<lambda>t.
         ret (PDict [
           (''kind'', PStr kind),
           (''error'', PStr (if st = None then ''timeout'' else exited)),
           (''elapsed_ms'', PInt (t - start)),
           (''first_seen_ms'', PDict (snd s)),
           (''work_dir'', PStr run_dir),
           (''serial_log'', PStr (pdiv run_dir ''serial.log'')),
           (''tini_warning'', tini_warning logs)]))))))"

text \<open>
  The \<open>finally\<close> clause stops the machine, if one was started, and then removes the
  network; before the start there is only the network to remove.
\<close>

definition stop_machine :: "tap_net \<Rightarrow> int \<Rightarrow> unit prog" where
  "stop_machine net pid = thn (stop_running pid (sec 5)) (cleanup_tap net)"

definition start_firecracker :: "workspace_config \<Rightarrow> string \<Rightarrow> pyval \<Rightarrow> tap_net \<Rightarrow> (int \<times> int) prog" where
  "start_firecracker c run_dir image_cfg net =
     (let rootfs = pdiv run_dir ''rootfs.ext4'';
          serial_log = pdiv run_dir ''serial.log'';
          firecracker_log = pdiv run_dir ''firecracker.log'';
          config_path = pdiv run_dir ''firecracker.json'';
          socket_path = pdiv run_dir ''firecracker.sock''
      in
      bnd (image_rootfs_boot_args c image_cfg net '' pci=off'') (\<lambda>boot_args.
      bnd (resolve_path (pdiv (ASSET_DIR c) ''vmlinux'')) (\<lambda>kernel_path.
      bnd (resolve_path rootfs) (\<lambda>rootfs_path.
      thn (write_text config_path
             (json_dumps_indent 2 (machine_config c kernel_path boot_args rootfs_path net firecracker_log)))
      (thn (open_file serial_log ''wb'')
      (thn (open_file firecracker_log ''ab'')
      (bnd now_ms (\<lambda>start.
       bnd (resolve_path (pdiv (ASSET_DIR c) ''firecracker'')) (\<lambda>fc_path.
       bnd (popen [fc_path, ''--api-sock'', socket_path, ''--config-file'', config_path]) (\<lambda>pid.
       ret (pid, start)))))))))))"

definition run_firecracker :: "workspace_config \<Rightarrow> string \<Rightarrow> pyval \<Rightarrow> int \<Rightarrow> tap_net \<Rightarrow> pyval prog" where
  "run_firecracker c run_dir image_cfg timeout_seconds net =
     bnd (on_error (start_firecracker c run_dir image_cfg net) (cleanup_tap net)) (\<lambda>(pid, start).
     finally_do
       (thn (close_file (pdiv run_dir ''serial.log''))
       (thn (close_file (pdiv run_dir ''firecracker.log''))
       (wait_machine ''firecracker-local'' ''firecracker exited'' run_dir pid start timeout_seconds)))
       (stop_machine net pid))"

definition copy_rootfs :: "workspace_config \<Rightarrow> string \<Rightarrow> string \<Rightarrow> (string \<times> pyval) prog" where
  "copy_rootfs c template msg =
     bnd (ensure_local_rootfs c) (\<lambda>(cached_rootfs, image_cfg, init_bin).
     bnd (run (''mktemp -d '' @ q (pdiv (WORK_PARENT c) template)) True) (\<lambda>out.
     let run_dir = mk_path (strip out); rootfs = pdiv run_dir ''rootfs.ext4'' in
     thn (print msg)
     (thn (run (''cp --sparse=always --reflink=auto '' @ q cached_rootfs @ '' '' @ q rootfs) True)
     (thn (sideload_orca_init c rootfs init_bin)
     (ret (run_dir, image_cfg))))))"

definition measure_firecracker_local :: "workspace_config \<Rightarrow> int \<Rightarrow> pyval prog" where
  "measure_firecracker_local c timeout_seconds =
     bnd (exists_path (pdiv (ASSET_DIR c) ''firecracker'')) (\<lambda>fc.
     bnd (if fc then exists_path (pdiv (ASSET_DIR c) ''vmlinux'') else ret False) (\<lambda>assets.
     if \<not> assets
     then ret (failed_run ''firecracker-local'' (''missing firecracker assets under '' @ ASSET_DIR c))
     else bnd (exists_path ''/dev/kvm'') (\<lambda>kvm.
       if \<not> kvm then ret (failed_run ''firecracker-local'' ''/dev/kvm is missing'')
       else bnd (copy_rootfs c ''run.XXXXXX'' ''copying cached rootfs for local Firecracker run'') (\<lambda>(run_dir, image_cfg).
         bnd setup_tap (run_firecracker c run_dir image_cfg timeout_seconds)))))"

definition qemu_args :: "workspace_config \<Rightarrow> string \<Rightarrow> string \<Rightarrow> tap_net \<Rightarrow> string list" where
  "qemu_args c boot_args rootfs net =
     [''qemu-system-x86_64'',
      ''-enable-kvm'',
      ''-M'',
      ''q35,accel=kvm'',
      ''-cpu'',
      ''host'',
      ''-smp'',
      str_int (VCPU_COUNT c),
      ''-m'',
      str_int (MEM_SIZE_MIB c) @ ''M'',
      ''-nodefaults'',
      ''-no-user-config'',
      ''-nographic'',
      ''-no-reboot'',
      ''-serial'',
      ''stdio'',
      ''-kernel'',
      QEMU_KERNEL c,
      ''-append'',
      boot_args,
      ''-drive'',
      ''file='' @ rootfs @ '',format=raw,if=none,id=rootfs'',
      ''-device'',
      ''virtio-blk-pci,drive=rootfs'',
      ''-netdev'',
      ''tap,id=net0,ifname='' @ net_tap net @ '',script=no,downscript=no'',
      ''-device'',
      ''virtio-net-pci,netdev=net0,mac='' @ net_guest_mac net]"

definition start_qemu :: "workspace_config \<Rightarrow> string \<Rightarrow> pyval \<Rightarrow> tap_net \<Rightarrow> (int \<times> int) prog" where
  "start_qemu c run_dir image_cfg net =
     (let rootfs = pdiv run_dir ''rootfs.ext4''; serial_log = pdiv run_dir ''serial.log'' in
      bnd (image_rootfs_boot_args c image_cfg net []) (\<lambda>boot_args.
      bnd now_ms (\<lambda>start.
      thn (open_file serial_log ''wb'')
      (bnd (on_error (popen (qemu_args c boot_args rootfs net)) (close_file serial_log)) (\<lambda>pid.
       ret (pid, start))))))"

definition run_qemu :: "workspace_config \<Rightarrow> string \<Rightarrow> pyval \<Rightarrow> int \<Rightarrow> tap_net \<Rightarrow> pyval prog" where
  "run_qemu c run_dir image_cfg timeout_seconds net =
     bnd (on_error (start_qemu c run_dir image_cfg net) (cleanup_tap net)) (\<lambda>(pid, start).
     finally_do
       (thn (close_file (pdiv run_dir ''serial.log''))
       (wait_machine ''qemu-q35-local'' ''qemu exited'' run_dir pid start timeout_seconds))
       (stop_machine net pid))"

definition measure_qemu_q35_local :: "workspace_config \<Rightarrow> int \<Rightarrow> pyval prog" where
  "measure_qemu_q35_local c timeout_seconds =
     bnd (exists_path (QEMU_KERNEL c)) (\<lambda>kern.
     if \<not> kern
     then ret (failed_run ''qemu-q35-local'' (''missing QEMU kernel '' @ QEMU_KERNEL c))
     else bnd (exists_path ''/dev/kvm'') (\<lambda>kvm.
       if \<not> kvm then ret (failed_run ''qemu-q35-local'' ''/dev/kvm is missing'')
       else bnd (copy_rootfs c ''qemu.XXXXXX'' ''copying cached rootfs for local QEMU q35 run'') (\<lambda>(run_dir, image_cfg).
         bnd setup_tap (run_qemu c run_dir image_cfg timeout_seconds))))"

section \<open>Orca sessions\<close>

definition tty_output :: "pyval \<Rightarrow> pyval \<Rightarrow> string \<Rightarrow> string prog" where
  "tty_output session_id node_url logs =
     bnd (http_json ''GET'' (py_str node_url @ ''/sessions/'' @ py_str session_id @ ''/tty/output?offset=0'') None 20) (\<lambda>tty.
     bnd (get_or tty ''output'' (PStr [])) as_str)"

definition orca_joined :: "pyval \<Rightarrow> pyval \<Rightarrow> pyval \<Rightarrow> int \<Rightarrow> string \<Rightarrow> pydict \<Rightarrow> pyval prog" where
  "orca_joined start_resp session_id node_url start logs first_seen =
     bnd (get_or start_resp ''env_id'' PNone) (\<lambda>env_id.
     bnd (get_or start_resp ''node_id'' PNone) (\<lambda>node_id.
     bnd now_ms (\<lambda>t.
     bnd (get_or start_resp ''firecracker_timings'' (PStr ''[]'')) (\<lambda>raw.
     bnd (bnd (as_str raw) loads) (\<lambda>timings.
     ret (PDict [
       (''kind'', PStr ''orca''),
       (''env_id'', env_id),
       (''session_id'', session_id),
       (''node_id'', node_id),
       (''node_url'', node_url),
       (''elapsed_ms'', PInt (t - start)),
       (''first_seen_ms'', PDict first_seen),
       (''firecracker_timings'', timings),
       (''tini_warning'', tini_warning logs)]))))))"

definition wait_orca :: "pyval \<Rightarrow> pyval \<Rightarrow> pyval \<Rightarrow> int \<Rightarrow> int \<Rightarrow> pyval prog" where
  "wait_orca start_resp session_id node_url start timeout_seconds =
     bnd time_ns (\<lambda>t0.
     bnd (while_before (t0 + sec timeout_seconds)
            (watch_body (tty_output session_id node_url) (orca_joined start_resp session_id node_url start)
               machine_markers 1000 start) ([], [])) (\<lambda>r.
     case r of
       Leave result \<Rightarrow> ret result
     | Continue s \<Rightarrow>
         bnd now_ms (\<lambda>t.
         ret (PDict [
           (''kind'', PStr ''orca''),
           (''error'', PStr ''timeout''),
           (''elapsed_ms'', PInt (t - start)),
           (''first_seen_ms'', PDict (snd s)),
           (''session_id'', session_id)]))))"

definition stop_session :: "pyval \<Rightarrow> pyval \<Rightarrow> unit prog" where
  "stop_session session_id node_url =
     catching
       (thn (http_json ''POST'' (py_str node_url @ ''/sessions/'' @ py_str session_id @ ''/tty/stop'') (Some (PDict [])) 90) skip)
       (\<lambda>e. if is_exception e then Some skip else None)"

definition measure_orca :: "workspace_config \<Rightarrow> int \<Rightarrow> pyval prog" where
  "measure_orca c timeout_seconds =
     (let payload = PDict [
            (''base_image_id'', PStr (BASE_IMAGE_ID c)),
            (''force_node'', PStr ''node-1''),
            (''cpu_count'', PInt (VCPU_COUNT c)),
            (''memory_mib'', PInt (MEM_SIZE_MIB c)),
            (''tty'', PBool True),
            (''command'', PStr ORCA_COMMAND)]
      in
      bnd now_ms (\<lambda>start.
      bnd (http_json ''POST'' ''http://localhost:18080/startEnv'' (Some payload) 120) (\<lambda>start_resp.
      bnd (get_item start_resp ''session_id'') (\<lambda>session_id.
      bnd (get_item start_resp ''node_url'') (\<lambda>node_url.
      finally_do
        (wait_orca start_resp session_id node_url start timeout_seconds)
        (stop_session session_id node_url))))))"

section \<open>Reports, arguments and the main program\<close>

definition print_step :: "pyval \<Rightarrow> unit prog" where
  "print_step step =
     bnd (get_or step ''name'' PNone) (\<lambda>name.
     bnd (get_or step ''duration_ms'' PNone) (\<lambda>duration.
     bnd (get_or step ''status'' PNone) (\<lambda>status.
     print (''  '' @ ljust 28 (py_str name) @ '' '' @ rjust 7 (py_str duration) @ ''ms '' @ py_str status))))"

definition print_marker :: "string \<times> pyval \<Rightarrow> unit prog" where
  "print_marker kv =
     bnd (as_int (snd kv)) (\<lambda>elapsed.
     print (ljust 40 (fst kv) @ '' '' @ rjust 7 (str_int elapsed) @ ''ms''))"

definition print_result :: "pyval \<Rightarrow> unit prog" where
  "print_result result =
     bnd (get_item result ''kind'') (\<lambda>kind.
     thn (print (nl # ''['' @ py_str kind @ '']''))
     (bnd (get_or result ''error'' PNone) (\<lambda>err.
      thn (if py_true err
           then bnd (get_item result ''elapsed_ms'') (\<lambda>ms.
                print (''error='' @ py_str err @ '' elapsed_ms='' @ py_str ms))
           else bnd (get_item result ''elapsed_ms'') (\<lambda>ms. print (''elapsed_to_join_ms='' @ py_str ms)))
      (bnd (get_or result ''tini_warning'' (PBool False)) (\<lambda>tini.
       thn (print (''tini_warning='' @ py_str tini))
       (bnd (get_or result ''work_dir'' PNone) (\<lambda>work_dir.
        thn (cond_do (py_true work_dir) (print (''work_dir='' @ py_str work_dir)))
        (bnd (get_or result ''serial_log'' PNone) (\<lambda>serial_log.
         thn (cond_do (py_true serial_log) (print (''serial_log='' @ py_str serial_log)))
         (bnd (get_or result ''first_seen_ms'' (PDict [])) (\<lambda>seen.
          bnd (as_obj seen) (\<lambda>items.
          thn (for_all items print_marker)
          (cond_do (py_eq kind (PStr ''orca''))
            (thn (print ''firecracker_steps:'')
            (bnd (get_or result ''firecracker_timings'' (PList [])) (\<lambda>timings.
             bnd (py_iter timings) (\<lambda>steps. for_all steps print_step)))))))))))))))))"

definition usage_text :: string where
  "usage_text = join [nl]
     [''usage: scripts/measure-jetbrains-workspace-timings.py [mode] [timeout_seconds]'',
      [],
      ''modes:'',
      ''  docker             measure docker run on the Linux VM host'',
      ''  firecracker-local  measure Firecracker with a local ext4 rootfs file, no NBD'',
      ''  firecracker        alias for firecracker-local'',
      ''  qemu-q35-local     measure QEMU q35 with a local ext4 rootfs file, no NBD'',
      ''  orca               measure Orca Firecracker session through NBD/storage'',
      ''  all                run docker, firecracker-local, qemu-q35-local, then orca'',
      [],
      ''default: all 240'',
      [],
      ''examples:'',
      ''  scripts/measure-jetbrains-workspace-timings.py docker 120'',
      ''  scripts/measure-jetbrains-workspace-timings.py firecracker-local 180'',
      ''  scripts/measure-jetbrains-workspace-timings.py qemu-q35-local 180'',
      ''  scripts/measure-jetbrains-workspace-timings.py orca 260'',
      []]"

definition usage :: "unit prog" where
  "usage = print usage_text"

definition reject :: "string \<Rightarrow> 'a prog" where
  "reject msg = thn (print_err (msg @ [nl])) (thn usage (raise (SystemExit (PInt 2))))"

definition modes :: "string list" where
  "modes = [''docker'', ''firecracker-local'', ''firecracker'', ''qemu-q35-local'', ''qemu'', ''orca'', ''all'']"

definition canonical_mode :: "string \<Rightarrow> string" where
  "canonical_mode mode =
     (if mode = ''firecracker'' then ''firecracker-local''
      else if mode = ''qemu'' then ''qemu-q35-local'' else mode)"

text \<open>The first argument: the mode or the timeout; the rest is left to the second.\<close>

definition first_arg :: "string list \<Rightarrow> (string \<times> int \<times> string list) prog" where
  "first_arg args =
     (case args of
        [] \<Rightarrow> ret (''all'', 240, [])
      | a # rest \<Rightarrow>
          if a \<in> set modes then ret (a, 240, rest)
          else if isdigit a then bnd (to_int a) (\<lambda>n. ret (''all'', n, rest))
          else reject (''unknown mode '' @ repr_str a))"

definition second_arg :: "int \<Rightarrow> string list \<Rightarrow> (int \<times> string list) prog" where
  "second_arg timeout_seconds args =
     (case args of
        [] \<Rightarrow> ret (timeout_seconds, [])
      | a # rest \<Rightarrow>
          if isdigit a then bnd (to_int a) (\<lambda>n. ret (n, rest))
          else reject (''invalid timeout '' @ repr_str a))"

definition parse_args :: "string list \<Rightarrow> (string \<times> int) prog" where
  "parse_args argv =
     (if argv \<noteq> [] \<and> hd argv \<in> {''-h'', ''--help'', ''help''}
      then thn usage (raise (SystemExit (PInt 0)))
      else bnd (first_arg argv) (\<lambda>(mode, timeout_seconds, args).
           bnd (second_arg timeout_seconds args) (\<lambda>(timeout_seconds, args).
           if args \<noteq> [] then reject (''too many arguments: '' @ join '' '' args)
           else ret (canonical_mode mode, timeout_seconds))))"

text \<open>One of the four measurements, when the mode asks for it.\<close>

definition measure_if :: "bool \<Rightarrow> string \<Rightarrow> pyval prog \<Rightarrow> pyval list \<Rightarrow> pyval list prog" where
  "measure_if wanted title m results =
     (if wanted
      then thn (print (title @ repr_str JOIN_MARKER))
           (bnd m (\<lambda>r. thn (print_result r) (ret (results @ [r]))))
      else ret results)"

definition main :: "workspace_config \<Rightarrow> string list \<Rightarrow> unit prog" where
  "main c argv =
     bnd (parse_args argv) (\<lambda>(mode, timeout_seconds).
     bnd (measure_if (mode = ''docker'' \<or> mode = ''all'') ''measuring docker until ''
            (measure_docker c timeout_seconds) []) (\<lambda>results.
     bnd (measure_if (mode = ''firecracker-local'' \<or> mode = ''all'') (nl # ''measuring local Firecracker until '')
            (measure_firecracker_local c timeout_seconds) results) (\<lambda>results.
     bnd (measure_if (mode = ''qemu-q35-local'' \<or> mode = ''all'') (nl # ''measuring local QEMU q35 until '')
            (measure_qemu_q35_local c timeout_seconds) results) (\<lambda>results.
     bnd (measure_if (mode = ''orca'' \<or> mode = ''all'') (nl # ''measuring orca until '')
            (measure_orca c timeout_seconds) results) (\<lambda>results.
     print (nl # ''SUMMARY_JSON='' @ json_dumps_sorted (PList results)))))))"

definition script :: "string list \<Rightarrow> unit prog" where
  "script argv = bnd load_config (\<lambda>c. main c argv)"

end
