(* ===== verification/Workspace_Reports.thy ===== *)
theory Workspace_Reports
  imports Workspace_Timings
begin

text \<open>
  The reports of \<open>measure-jetbrains-workspace-timings.py\<close> agree with the logs that were
  polled: the markers of a report, its times and its errors, for each measurement and
  for the summary of a whole run.
\<close>

section \<open>Markers\<close>

text \<open>
  What the dictionary of markers should be after polls that saw the given logs at the
  given times: a marker maps to the time of the first poll whose log contains it.
\<close>

definition first_time :: "string \<Rightarrow> (int \<times> string) list \<Rightarrow> int option" where
  "first_time marker polls = map_option fst (find (\<lambda>p. contains marker (snd p)) polls)"

definition matches :: "string list \<Rightarrow> (int \<times> string) list \<Rightarrow> pydict \<Rightarrow> bool" where
  "matches markers polls seen =
     (\<forall>m. map_of seen m = (if m \<in> set markers then map_option PInt (first_time m polls) else None))"

lemma remember_at_lookup:
  "map_of (remember_at ms logs e seen) m =
     (if m \<in> set ms \<and> map_of seen m = None \<and> contains m logs then Some (PInt e) else map_of seen m)"
  unfolding remember_at_def by (induction ms arbitrary: seen) auto

lemma first_time_simps [simp]:
  "first_time m [] = None"
  "first_time m (p # ps) = (if contains m (snd p) then Some (fst p) else first_time m ps)"
  by (simp_all add: first_time_def)

lemma first_time_snoc:
  "first_time m (polls @ [(e, logs)]) =
     (case first_time m polls of Some t \<Rightarrow> Some t | None \<Rightarrow> if contains m logs then Some e else None)"
  by (induction polls) auto

lemma matches_Nil: "matches ms [] []"
  by (simp add: matches_def)

lemma matches_remember:
  "matches ms polls seen \<Longrightarrow> matches ms (polls @ [(e, logs)]) (remember_at ms logs e seen)"
  by (auto simp: matches_def remember_at_lookup first_time_snoc split: option.splits)

lemma first_time_mem: "first_time m polls = Some e \<Longrightarrow> \<exists>l. (e, l) \<in> set polls \<and> contains m l"
  by (induction polls) (auto split: if_splits)

section \<open>Faithful reports\<close>

definition watched ::
  "(string \<Rightarrow> string prog) \<Rightarrow> env \<Rightarrow> int \<Rightarrow> hist \<Rightarrow> (int \<times> string) list \<Rightarrow> bool" where
  "watched fetch E start h polls =
     (sorted (map fst polls) \<and>
      (\<forall>p\<in>set polls. 0 \<le> fst p \<and> start + fst p \<le> e_clock E h div 1000000
         \<and> (\<exists>l h0 h1 t. fetch l E h0 = Some (Ok (snd p), h1) \<and> suffix (Clock t # h1) h
              \<and> fst p = t div 1000000 - start)))"

lemma watched_Nil: "watched fetch E start h []"
  by (simp add: watched_def)

lemma watched_later:
  assumes "clock_law E" "suffix h h'" "watched fetch E start h polls" shows "watched fetch E start h' polls"
proof -
  have "e_clock E h div 1000000 \<le> e_clock E h' div 1000000"
    using clock_suffix [OF assms(1,2)] by (intro zdiv_mono1) simp_all
  with assms(2,3) show ?thesis unfolding watched_def by (meson order_trans suffix_order.trans)
qed

lemma watched_poll:
  assumes "clock_law E" "watched fetch E start h polls" "fetch l E h0 = Some (Ok logs, h1)" "suffix h h1"
    and "start \<le> e_clock E h div 1000000"
  shows "watched fetch E start (Clock (e_clock E h1) # h1) (polls @ [(e_clock E h1 div 1000000 - start, logs)])"
proof -
  let ?t = "e_clock E h1" and ?h = "Clock (e_clock E h1) # h1"
  have mono: "e_clock E h div 1000000 \<le> ?t div 1000000"
    using clock_suffix [OF assms(1,4)] by (intro zdiv_mono1) simp_all
  have step: "?t div 1000000 \<le> e_clock E ?h div 1000000"
    using clock_step [OF assms(1)] by (intro zdiv_mono1) simp_all
  have "watched fetch E start ?h polls"
    by (rule watched_later [OF assms(1) _ assms(2)]) (simp add: assms(4) suffix_Cons)
  moreover have "\<forall>p\<in>set polls. fst p \<le> ?t div 1000000 - start"
    using assms(2) mono by (auto simp: watched_def)
  moreover have "0 \<le> ?t div 1000000 - start" using assms(5) mono by simp
  ultimately show ?thesis
    using step assms(3) by (auto simp: watched_def sorted_append)
qed

locale log_watch =
  fixes fetch :: "string \<Rightarrow> string prog" and finish :: "string \<Rightarrow> pydict \<Rightarrow> 'r prog"
    and markers :: "string list" and delay_ms start :: int
  assumes fetch_steps: "steps (fetch l)"
    and finish_steps: "steps (finish l s)"
    and delay_pos: "0 < delay_ms"
begin

abbreviation body :: "string \<times> pydict \<Rightarrow> (string \<times> pydict, 'r) ctl prog" where
  "body \<equiv> watch_body fetch finish markers delay_ms start"

lemma steps_remember: "steps (remember_markers seen logs start markers)"
  unfolding remember_markers_def now_ms_def by (intro steps_intros)

lemma body_poller: "poller body"
  by unfold_locales
    (unfold watch_body_def, intro pauses_intros steps_intros fetch_steps finish_steps steps_remember delay_pos)

text \<open>The state of the loop between two rounds: what was polled, and no join marker yet.\<close>

definition going :: "env \<Rightarrow> (int \<times> string) list \<Rightarrow> string \<times> pydict \<Rightarrow> hist \<Rightarrow> bool" where
  "going E polls s h =
     (watched fetch E start h polls \<and> matches markers polls (snd s) \<and> start \<le> e_clock E h div 1000000
      \<and> (\<forall>p\<in>set polls. \<not> contains JOIN_MARKER (snd p)))"

definition joined :: "env \<Rightarrow> 'r \<Rightarrow> hist \<Rightarrow> bool" where
  "joined E result h =
     (\<exists>polls e logs seen h1. watched fetch E start h1 (polls @ [(e, logs)])
        \<and> matches markers (polls @ [(e, logs)]) seen
        \<and> (\<forall>p\<in>set polls. \<not> contains JOIN_MARKER (snd p)) \<and> contains JOIN_MARKER logs
        \<and> finish logs seen E h1 = Some (Ok result, h))"

definition waiting :: "env \<Rightarrow> string \<times> pydict \<Rightarrow> hist \<Rightarrow> bool" where
  "waiting E s h = (\<exists>polls. going E polls s h)"

lemma joinedI:
  "watched fetch E start h1 (polls @ [(e, logs)]) \<Longrightarrow> matches markers (polls @ [(e, logs)]) seen \<Longrightarrow>
   \<forall>p\<in>set polls. \<not> contains JOIN_MARKER (snd p) \<Longrightarrow> contains JOIN_MARKER logs \<Longrightarrow>
   finish logs seen E h1 = Some (Ok result, h) \<Longrightarrow> joined E result h"
  unfolding joined_def by blast

lemma going_later: "clock_law E \<Longrightarrow> suffix h h' \<Longrightarrow> going E polls s h \<Longrightarrow> going E polls s h'"
  using watched_later [of E h h' fetch start polls] zdiv_mono1 [of "e_clock E h" "e_clock E h'" 1000000] clock_suffix [of E h h']
  by (auto simp: going_def)

lemma waiting_Cons: "clock_law E \<Longrightarrow> waiting E s h \<Longrightarrow> waiting E s (ev # h)"
  unfolding waiting_def by (blast intro: going_later suffix_ConsI)

lemma wp_body:
  assumes clk: "clock_law E" and wait: "waiting E s h"
  shows "wp (body s) (\<lambda>r h'. case r of Exc e \<Rightarrow> True | Ok (Leave x) \<Rightarrow> joined E x h'
      | Ok (Continue s') \<Rightarrow> waiting E s' h') E h"
  unfolding watch_body_def
proof (rule wp_bnd_steps [OF fetch_steps])
  obtain polls where s: "going E polls s h" using wait by (auto simp: waiting_def)
  fix logs h1
  assume f: "fetch (fst s) E h = Some (Ok logs, h1)" "suffix h h1"
  let ?t = "e_clock E h1" let ?h = "Clock ?t # h1"
  let ?e = "?t div 1000000 - start"
  let ?polls = "polls @ [(?e, logs)]"
  let ?seen = "remember_at markers logs ?e (snd s)"
  have w: "watched fetch E start ?h ?polls"
    by (rule watched_poll [where fetch = fetch, OF clk _ f]) (use s in \<open>simp_all add: going_def\<close>)
  have m: "matches markers ?polls ?seen"
    by (rule matches_remember) (use s in \<open>simp add: going_def\<close>)
  have "wp (if contains JOIN_MARKER logs then bnd (finish logs ?seen) (\<lambda>result. ret (Leave result))
        else thn (sleep_ms delay_ms) (ret (Continue (logs, ?seen))))
      (\<lambda>r h'. case r of Exc e \<Rightarrow> True | Ok (Leave x) \<Rightarrow> joined E x h'
         | Ok (Continue s') \<Rightarrow> waiting E s' h') E ?h"
  proof (rule wp_ifI)
    assume j: "contains JOIN_MARKER logs"
    show "wp (bnd (finish logs ?seen) (\<lambda>result. ret (Leave result)))
      (\<lambda>r h'. case r of Exc e \<Rightarrow> True | Ok (Leave x) \<Rightarrow> joined E x h'
         | Ok (Continue s') \<Rightarrow> waiting E s' h') E ?h"
      by (rule wp_bnd_steps [OF finish_steps])
        (use w m j s in \<open>auto simp: wp_ret going_def intro: joinedI\<close>)
  next
    assume j: "\<not> contains JOIN_MARKER logs"
    have "start \<le> e_clock E ?h div 1000000"
      using w by (simp add: watched_def)
    then have "waiting E (logs, ?seen) ?h"
      using w m j s unfolding waiting_def going_def by (intro exI [of _ ?polls]) simp
    then show "wp (thn (sleep_ms delay_ms) (ret (Continue (logs, ?seen))))
      (\<lambda>r h'. case r of Exc e \<Rightarrow> True | Ok (Leave x) \<Rightarrow> joined E x h'
         | Ok (Continue s') \<Rightarrow> waiting E s' h') E ?h"
      by (simp add: sleep_ms_def tell_def wp_simps waiting_Cons [OF clk])
  qed
  then show "wp (bnd (remember_markers (snd s) logs start markers) (\<lambda>first_seen.
      if contains JOIN_MARKER logs then bnd (finish logs first_seen) (\<lambda>result. ret (Leave result))
      else thn (sleep_ms delay_ms) (ret (Continue (logs, first_seen)))))
      (\<lambda>r h'. case r of Exc e \<Rightarrow> True | Ok (Leave x) \<Rightarrow> joined E x h'
         | Ok (Continue s') \<Rightarrow> waiting E s' h') E h1"
    by (simp add: remember_markers_def now_ms_def time_ns_def bnd_simps wp_bnd wp_answer)
qed simp

lemma waiting_start: "start \<le> e_clock E h div 1000000 \<Longrightarrow> waiting E ([], []) h"
  unfolding waiting_def going_def by (intro exI [of _ "[]"]) (simp add: watched_Nil matches_Nil)

lemma wp_body_post:
  assumes "clock_law E" "waiting E s h"
    and "\<And>e h'. Q (Exc e) h'" "\<And>x h'. joined E x h' \<Longrightarrow> Q (Ok (Leave x)) h'"
  shows "wp (body s) (\<lambda>r h'. case r of Exc e \<Rightarrow> Q (Exc e) h' | Ok (Leave x) \<Rightarrow> Q (Ok (Leave x)) h'
      | Ok (Continue s') \<Rightarrow> waiting E s' h') E h"
  by (rule wp_mono [OF wp_body [OF assms(1,2)]]) (case_tac r rule: ctl_outcome_cases; simp add: assms(3,4))

lemma wp_watch:
  assumes "clock_law E" "start \<le> e_clock E h div 1000000"
  shows "wp (while_before deadline body ([], [])) (\<lambda>r h'. case r of Exc e \<Rightarrow> True
      | Ok (Leave x) \<Rightarrow> joined E x h' | Ok (Continue s) \<Rightarrow> waiting E s h') E h"
  by (rule poller.wp_wait [OF body_poller, where I = "waiting E", OF assms(1) waiting_start [OF assms(2)]])
    (auto intro!: wp_body_post [OF assms(1)] waiting_Cons [OF assms(1)])

lemma wp_watch_running:
  assumes "clock_law E" "start \<le> e_clock E h div 1000000"
  shows "wp (while_running deadline pid body ([], [])) (\<lambda>r h'. case r of Exc e \<Rightarrow> True
      | Ok (Leave x) \<Rightarrow> joined E x h' | Ok (Continue s) \<Rightarrow> waiting E s h') E h"
  by (rule poller.wp_running [OF body_poller, where I = "waiting E", OF assms(1) waiting_start [OF assms(2)]])
    (auto intro!: wp_body_post [OF assms(1)] waiting_Cons [OF assms(1)])

end

text \<open>
  A report agrees with what was polled: its markers have the times of the first polls
  that showed them, within the elapsed time, and it is an error report exactly when no
  poll showed the join marker.
\<close>

definition faithful_report :: "string \<Rightarrow> (string \<Rightarrow> string prog) \<Rightarrow> string list \<Rightarrow> env \<Rightarrow> hist \<Rightarrow> pyval \<Rightarrow> bool" where
  "faithful_report kind fetch markers E h v =
     (\<exists>d polls seen start elapsed. v = PDict d
        \<and> map_of d ''kind'' = Some (PStr kind)
        \<and> map_of d ''elapsed_ms'' = Some (PInt elapsed) \<and> map_of d ''first_seen_ms'' = Some (PDict seen)
        \<and> watched fetch E start h polls \<and> matches markers polls seen
        \<and> (\<forall>p\<in>set polls. fst p \<le> elapsed)
        \<and> (\<forall>p\<in>set (butlast polls). \<not> contains JOIN_MARKER (snd p))
        \<and> (map_of d ''error'' = None \<longleftrightarrow> polls \<noteq> [] \<and> contains JOIN_MARKER (snd (last polls))))"

lemma faithful_reportI:
  "watched fetch E start h polls \<Longrightarrow> matches markers polls seen \<Longrightarrow>
   map_of d ''kind'' = Some (PStr kind) \<Longrightarrow> map_of d ''elapsed_ms'' = Some (PInt elapsed) \<Longrightarrow> map_of d ''first_seen_ms'' = Some (PDict seen) \<Longrightarrow>
   \<forall>p\<in>set polls. fst p \<le> elapsed \<Longrightarrow> \<forall>p\<in>set (butlast polls). \<not> contains JOIN_MARKER (snd p) \<Longrightarrow>
   (map_of d ''error'' = None) = (polls \<noteq> [] \<and> contains JOIN_MARKER (snd (last polls))) \<Longrightarrow>
   faithful_report kind fetch markers E h (PDict d)"
  unfolding faithful_report_def
  by (intro exI [of _ d] exI [of _ polls] exI [of _ seen] exI [of _ start] exI [of _ elapsed]) simp

lemma faithful_report_later:
  "clock_law E \<Longrightarrow> suffix h h' \<Longrightarrow> faithful_report kind fetch markers E h v \<Longrightarrow> faithful_report kind fetch markers E h' v"
  unfolding faithful_report_def by (elim exE conjE, hypsubst, intro exI conjI) (assumption | rule refl watched_later)+

lemma faithful_report_fields:
  assumes "faithful_report kind fetch markers E h (PDict d)"
    and "\<And>k. k \<in> {''kind'', ''elapsed_ms'', ''first_seen_ms'', ''error''} \<Longrightarrow> map_of d' k = map_of d k"
  shows "faithful_report kind fetch markers E h (PDict d')"
  using assms(1) assms(2) [of "''kind''"] assms(2) [of "''elapsed_ms''"] assms(2) [of "''first_seen_ms''"] assms(2) [of "''error''"]
  unfolding faithful_report_def by auto

text \<open>The times in a report lie between zero and the elapsed time.\<close>

lemma faithful_times:
  assumes "faithful_report kind fetch markers E h (PDict d)"
    and "map_of d ''first_seen_ms'' = Some (PDict seen)" "map_of seen m = Some v"
  shows "\<exists>t elapsed. v = PInt t \<and> map_of d ''elapsed_ms'' = Some (PInt elapsed) \<and> 0 \<le> t \<and> t \<le> elapsed"
proof -
  obtain polls start elapsed where e: "map_of d ''elapsed_ms'' = Some (PInt elapsed)"
    "watched fetch E start h polls" "matches markers polls seen" "\<forall>p\<in>set polls. fst p \<le> elapsed"
    using assms(1,2) by (auto simp: faithful_report_def)
  then obtain t where t: "v = PInt t" "first_time m polls = Some t"
    using assms(3) by (auto simp: matches_def split: if_splits)
  then obtain l where "(t, l) \<in> set polls" using first_time_mem by blast
  with e t show ?thesis by (fastforce simp: watched_def)
qed

text \<open>A watcher whose last step reports the markers and the time since the start.\<close>

locale report_watch = log_watch fetch finish markers delay_ms start
  for fetch :: "string \<Rightarrow> string prog" and finish :: "string \<Rightarrow> pydict \<Rightarrow> pyval prog"
    and markers :: "string list" and delay_ms start :: int +
  fixes kind :: string
  assumes finish_report: "finish logs seen E h = Some (Ok v, h') \<Longrightarrow>
      \<exists>d h1. v = PDict d \<and> map_of d ''kind'' = Some (PStr kind) \<and> map_of d ''elapsed_ms'' = Some (PInt (e_clock E h1 div 1000000 - start))
        \<and> map_of d ''first_seen_ms'' = Some (PDict seen) \<and> map_of d ''error'' = None
        \<and> suffix h h1 \<and> suffix h1 h'"
begin

lemma polls_before:
  assumes "clock_law E" "watched fetch E start h polls" "suffix h h1"
  shows "\<forall>p\<in>set polls. fst p \<le> e_clock E h1 div 1000000 - start"
  using watched_later [OF assms(1,3,2)] by (auto simp: watched_def)

lemma joined_faithful:
  assumes "clock_law E" "joined E v h" shows "faithful_report kind fetch markers E h v"
proof -
  obtain polls e logs seen h0 where w: "watched fetch E start h0 (polls @ [(e, logs)])"
    "matches markers (polls @ [(e, logs)]) seen" "\<forall>p\<in>set polls. \<not> contains JOIN_MARKER (snd p)"
    "contains JOIN_MARKER logs" "finish logs seen E h0 = Some (Ok v, h)"
    using assms(2) by (auto simp: joined_def)
  then obtain d h1 where d: "v = PDict d" "map_of d ''kind'' = Some (PStr kind)" "map_of d ''elapsed_ms'' = Some (PInt (e_clock E h1 div 1000000 - start))"
    "map_of d ''first_seen_ms'' = Some (PDict seen)" "map_of d ''error'' = None" "suffix h0 h1" "suffix h1 h"
    using finish_report by blast
  have "watched fetch E start h (polls @ [(e, logs)])"
    by (rule watched_later [OF assms(1) suffix_order.trans [OF d(6,7)] w(1)])
  then show ?thesis unfolding d(1)
    by (rule faithful_reportI [OF _ w(2) d(2,3,4) polls_before [OF assms(1) w(1) d(6)]])
      (use w d in simp_all)
qed

lemma waiting_faithful:
  assumes "clock_law E" "waiting E s h" "suffix h h1" "suffix h1 h'"
    and "map_of d ''kind'' = Some (PStr kind)"
    and "map_of d ''elapsed_ms'' = Some (PInt (e_clock E h1 div 1000000 - start))"
    and "map_of d ''first_seen_ms'' = Some (PDict (snd s))" "map_of d ''error'' \<noteq> None"
  shows "faithful_report kind fetch markers E h' (PDict d)"
proof -
  obtain polls where g: "watched fetch E start h polls" "matches markers polls (snd s)"
    "\<forall>p\<in>set polls. \<not> contains JOIN_MARKER (snd p)"
    using assms(2) by (auto simp: waiting_def going_def)
  have "watched fetch E start h' polls"
    by (rule watched_later [OF assms(1) suffix_order.trans [OF assms(3,4)] g(1)])
  then show ?thesis
    by (rule faithful_reportI [OF _ g(2) assms(5,6,7) polls_before [OF assms(1) g(1) assms(3)]])
      (use g(3) assms(8) in \<open>auto dest: in_set_butlastD\<close>)
qed

definition reports :: "env \<Rightarrow> pyval outcome \<Rightarrow> hist \<Rightarrow> bool" where
  "reports E r h = (\<forall>v. r = Ok v \<longrightarrow> faithful_report kind fetch markers E h v)"

lemma reports_simps [simp]:
  "reports E (Exc e) h" "reports E (Ok v) h = faithful_report kind fetch markers E h v"
  by (simp_all add: reports_def)

lemma wp_report:
  assumes "clock_law E" "start \<le> e_clock E h div 1000000"
    and "\<And>s h1. waiting E s h1 \<Longrightarrow> wp (k s) (reports E) E h1"
  shows "wp (bnd (while_before deadline body ([], [])) (\<lambda>r. case r of Leave x \<Rightarrow> ret x | Continue s \<Rightarrow> k s))
           (reports E) E h"
  unfolding wp_bnd
  by (rule wp_mono [OF wp_watch [OF assms(1,2)]])
    (case_tac r rule: ctl_outcome_cases; simp add: wp_ret joined_faithful [OF assms(1)] assms(3))

lemma wp_report_running:
  assumes "clock_law E" "start \<le> e_clock E h div 1000000"
    and "\<And>s h1. waiting E s h1 \<Longrightarrow> wp (k s) (reports E) E h1"
  shows "wp (bnd (while_running deadline pid body ([], [])) (\<lambda>r. case r of Leave x \<Rightarrow> ret x | Continue s \<Rightarrow> k s))
           (reports E) E h"
  unfolding wp_bnd
  by (rule wp_mono [OF wp_watch_running [OF assms(1,2)]])
    (case_tac r rule: ctl_outcome_cases; simp add: wp_ret joined_faithful [OF assms(1)] assms(3))

lemma wp_timeout_report:
  assumes "clock_law E" "waiting E s h"
    and "\<And>t. map_of (d t) ''kind'' = Some (PStr kind)" "\<And>t. map_of (d t) ''elapsed_ms'' = Some (PInt (t - start))"
    and "\<And>t. map_of (d t) ''first_seen_ms'' = Some (PDict (snd s))" "\<And>t. map_of (d t) ''error'' \<noteq> None"
  shows "wp (bnd now_ms (\<lambda>t. ret (PDict (d t)))) (reports E) E h"
  using waiting_faithful [OF assms(1,2) suffix_order.refl _ assms(3-6), of "Clock (e_clock E h) # h"]
  by (simp add: now_ms_def time_ns_def bnd_simps wp_bnd wp_answer wp_ret suffix_Cons)

lemma waiting_suffix: "clock_law E \<Longrightarrow> suffix h h' \<Longrightarrow> waiting E s h \<Longrightarrow> waiting E s h'"
  unfolding waiting_def by (blast intro: going_later)

lemma wp_bnd_waiting:
  assumes "clock_law E" "waiting E s h" "steps m" "\<And>x h1. waiting E s h1 \<Longrightarrow> wp (f x) (reports E) E h1"
  shows "wp (bnd m f) (reports E) E h"
  by (rule wp_bnd_steps [OF assms(3)]) (use assms(4) waiting_suffix [OF assms(1) _ assms(2)] in simp_all)

end

lemma steps_run [steps_intros]: "steps (run cmd ck)"
  unfolding run_def by (rule steps_intros)

lemma steps_now_ms [steps_intros]: "steps now_ms"
  unfolding now_ms_def by (intro steps_intros)

lemma steps_http_json [steps_intros]: "steps (http_json meth url b d)"
  unfolding http_json_def by (intro steps_intros)

interpretation docker_watch: report_watch "docker_logs name" "docker_joined name cid start" server_markers 1000 start "''docker''"
  for name cid start
proof unfold_locales
  show "steps (docker_logs name l)" "steps (docker_joined name cid start l s)" for l s
    unfolding docker_logs_def docker_joined_def by (intro steps_intros)+
  show "docker_joined name cid start logs seen E h = Some (Ok v, h') \<Longrightarrow>
      \<exists>d h1. v = PDict d \<and> map_of d ''kind'' = Some (PStr ''docker'') \<and> map_of d ''elapsed_ms'' = Some (PInt (e_clock E h1 div 1000000 - start))
        \<and> map_of d ''first_seen_ms'' = Some (PDict seen) \<and> map_of d ''error'' = None
        \<and> suffix h h1 \<and> suffix h1 h'" for logs seen E h v h'
    by (auto simp: docker_joined_def now_ms_def time_ns_def bnd_def answer_def ret_def Let_def suffix_Cons)
qed simp

interpretation machine_watch: report_watch "serial_text dir" "machine_joined kind dir start" machine_markers 1000 start kind
  for dir kind start
proof unfold_locales
  show "steps (serial_text dir l)" "steps (machine_joined kind dir start l s)" for l s
    unfolding serial_text_def machine_joined_def by (intro steps_intros)+
  show "machine_joined kind dir start logs seen E h = Some (Ok v, h') \<Longrightarrow>
      \<exists>d h1. v = PDict d \<and> map_of d ''kind'' = Some (PStr kind) \<and> map_of d ''elapsed_ms'' = Some (PInt (e_clock E h1 div 1000000 - start))
        \<and> map_of d ''first_seen_ms'' = Some (PDict seen) \<and> map_of d ''error'' = None
        \<and> suffix h h1 \<and> suffix h1 h'" for logs seen E h v h'
    by (auto simp: machine_joined_def now_ms_def time_ns_def bnd_def answer_def ret_def Let_def suffix_Cons)
qed simp

interpretation orca_watch: report_watch "tty_output sid url" "orca_joined resp sid url start" machine_markers 1000 start "''orca''"
  for sid url resp start
proof unfold_locales
  show "steps (tty_output sid url l)" "steps (orca_joined resp sid url start l s)" for l s
    unfolding tty_output_def orca_joined_def by (intro steps_intros)+
  show "orca_joined resp sid url start logs seen E h = Some (Ok v, h') \<Longrightarrow>
      \<exists>d h1. v = PDict d \<and> map_of d ''kind'' = Some (PStr ''orca'') \<and> map_of d ''elapsed_ms'' = Some (PInt (e_clock E h1 div 1000000 - start))
        \<and> map_of d ''first_seen_ms'' = Some (PDict seen) \<and> map_of d ''error'' = None
        \<and> suffix h h1 \<and> suffix h1 h'" for logs seen E h v h'
    by (auto simp: orca_joined_def get_or_def as_obj_def as_str_def loads_def or_raise_def raise_def
        now_ms_def time_ns_def bnd_def answer_def ret_def Let_def suffix_Cons
        split: pyval.splits option.splits intro!: exI [of _ h])
qed simp

lemma wp_wait_docker:
  assumes "clock_law E" "start \<le> e_clock E h div 1000000"
  shows "wp (wait_docker name cid start n) (docker_watch.reports name E) E h"
  unfolding wait_docker_def wp_bnd_time
  by (rule docker_watch.wp_report [OF assms(1) order_trans [OF assms(2) clock_div_step [OF assms(1)]]])
    (rule docker_watch.wp_timeout_report [OF assms(1)]; simp)

lemma wp_wait_machine:
  assumes "clock_law E" "start \<le> e_clock E h div 1000000"
  shows "wp (wait_machine kind exited dir pid start n) (machine_watch.reports dir kind E) E h"
  unfolding wait_machine_def wp_bnd_time
proof (rule machine_watch.wp_report_running [OF assms(1) order_trans [OF assms(2) clock_div_step [OF assms(1)]]])
  fix s h1
  assume w: "machine_watch.waiting dir start E s h1"
  show "wp (bnd (serial_text dir (fst s)) (\<lambda>logs. bnd (poll pid) (\<lambda>st. bnd now_ms (\<lambda>t.
         ret (PDict [
           (''kind'', PStr kind),
           (''error'', PStr (if st = None then ''timeout'' else exited)),
           (''elapsed_ms'', PInt (t - start)),
           (''first_seen_ms'', PDict (snd s)),
           (''work_dir'', PStr dir),
           (''serial_log'', PStr (pdiv dir ''serial.log'')),
           (''tini_warning'', tini_warning logs)]))))) (machine_watch.reports dir kind E) E h1"
    by (rule machine_watch.wp_bnd_waiting [OF assms(1) w machine_watch.fetch_steps],
        rule machine_watch.wp_bnd_waiting [OF assms(1)], assumption, intro steps_intros,
        rule machine_watch.wp_timeout_report [OF assms(1)]; simp)
qed

lemma wp_wait_orca:
  assumes "clock_law E" "start \<le> e_clock E h div 1000000"
  shows "wp (wait_orca resp sid url start n) (orca_watch.reports sid url E) E h"
  unfolding wait_orca_def wp_bnd_time
  by (rule orca_watch.wp_report [OF assms(1) order_trans [OF assms(2) clock_div_step [OF assms(1)]]])
    (rule orca_watch.wp_timeout_report [OF assms(1)]; simp)

lemma steps_small [steps_intros]:
  "steps (docker_rm name)" "steps (image_inspect c)" "steps (build_orca_init p)"
  "steps (fill_rootfs c dir insp cid)" "steps (read_meta p)" "steps (configure_tap net)" "steps setup_tap" "steps (cleanup_tap net)"
  "steps (print_step v)" "steps (print_marker kv)" "steps usage" "steps (reject msg)"
  unfolding docker_rm_def image_inspect_def build_orca_init_def fill_rootfs_def read_meta_def setup_tap_def configure_tap_def
    cleanup_tap_def print_step_def print_marker_def usage_def reject_def
  by (intro steps_intros; auto simp: on_process_error_def intro!: steps_intros split: exn.splits if_splits)+

lemma steps_b64 [steps_intros]: "steps (b64 v)"
  by (simp add: b64_def steps_raise steps_ret split: pyval.split)

lemma steps_in_mount [steps_intros]: "steps m \<Longrightarrow> steps (in_mount r d m)"
  unfolding in_mount_def by (intro steps_intros)

lemma steps_rootfs [steps_intros]:
  "steps (populate_rootfs c r i v)" "steps (prepare_rootfs c r i m v w)" "steps (rootfs_stale r m w)" "steps (sideload_orca_init c r i)"
  unfolding prepare_rootfs_def populate_rootfs_def rootfs_stale_def sideload_orca_init_def by (intro steps_intros)+

lemma steps_machine [steps_intros]:
  "steps (ensure_local_rootfs c)" "steps (image_rootfs_boot_args c v net extra)" "steps (print_result v)"
  unfolding ensure_local_rootfs_def image_rootfs_boot_args_def print_result_def by (intro steps_intros)+

lemma steps_start [steps_intros]:
  "steps (copy_rootfs c templ msg)" "steps (start_firecracker c dir cfg net)" "steps (start_qemu c dir cfg net)"
  unfolding copy_rootfs_def start_firecracker_def start_qemu_def by (intro steps_intros)+

lemma steps_stop [steps_intros]: "steps (stop_machine net pid)" "steps (stop_session sid url)"
  unfolding stop_machine_def stop_session_def by (intro steps_intros; auto intro!: steps_intros split: if_splits)+

lemma steps_args [steps_intros]: "steps (parse_args argv)"
  unfolding parse_args_def first_arg_def second_arg_def
  by (intro steps_intros; auto intro!: steps_intros split: list.splits)

text \<open>What the summary holds for each kind of measurement.\<close>

definition sound_result :: "env \<Rightarrow> hist \<Rightarrow> string \<Rightarrow> pyval \<Rightarrow> bool" where
  "sound_result E h kind v =
     (if kind = ''docker'' then \<exists>name. faithful_report kind (docker_logs name) server_markers E h v
      else if kind = ''orca'' then \<exists>sid url. faithful_report kind (tty_output sid url) machine_markers E h v
      else (\<exists>dir. faithful_report kind (serial_text dir) machine_markers E h v) \<or> (\<exists>err. v = failed_run kind err))"

lemma sound_result_later:
  "clock_law E \<Longrightarrow> suffix h h' \<Longrightarrow> sound_result E h kind v \<Longrightarrow> sound_result E h' kind v"
  using faithful_report_later [of E h h'] unfolding sound_result_def by (simp split: if_splits) blast+

definition result_ok :: "env \<Rightarrow> string \<Rightarrow> pyval outcome \<Rightarrow> hist \<Rightarrow> bool" where
  "result_ok E kind r h = (\<forall>v. r = Ok v \<longrightarrow> sound_result E h kind v)"

lemma result_ok_simps [simp]:
  "result_ok E kind (Exc e) h" "result_ok E kind (Ok v) h = sound_result E h kind v"
  by (simp_all add: result_ok_def)

lemma result_ok_later: "clock_law E \<Longrightarrow> result_ok E kind r h \<Longrightarrow> suffix h h' \<Longrightarrow> result_ok E kind r h'"
  by (auto simp: result_ok_def intro: sound_result_later)

lemma wp_measure_docker:
  assumes "clock_law E" shows "wp (measure_docker c n) (result_ok E ''docker'') E h"
  unfolding measure_docker_def wp_bnd_time Let_def
proof (rule wp_thn_later)
  let ?name = "docker_name (e_clock E h)"
  fix h1
  show "wp (bnd now_ms (\<lambda>start. bnd (run (''docker run -d --name '' @ ?name @ '' '' @
      (if strip (DOCKER_RUN_ARGS c) \<noteq> [] then strip (DOCKER_RUN_ARGS c) @ '' '' else []) @ IMAGE c) True) (\<lambda>out.
      finally_do (wait_docker ?name (strip out) start n) (docker_rm ?name)))) (result_ok E ''docker'') E h1"
    unfolding now_ms_def bnd_assoc bnd_ret wp_bnd_time
  proof (rule wp_bnd_later)
    fix out h2
    assume s: "suffix (Clock (e_clock E h1) # h1) h2"
    have "wp (wait_docker ?name (strip out) (e_clock E h1 div 1000000) n) (result_ok E ''docker'') E h2"
      using order_trans [OF clock_div_step [OF assms] clock_div_suffix [OF assms s]]
      by (intro wp_mono [OF wp_wait_docker [OF assms]]) (auto simp: docker_watch.reports_def result_ok_def sound_result_def)
    then show "wp (finally_do (wait_docker ?name (strip out) (e_clock E h1 div 1000000) n) (docker_rm ?name))
      (result_ok E ''docker'') E h2"
      by (rule wp_finally_later) (intro steps_intros, erule (1) result_ok_later [OF assms], rule result_ok_simps)
  qed (intro steps_intros, rule result_ok_simps)
qed (intro steps_intros, rule result_ok_simps)

text \<open>The start time that a program gives with the process is in the past.\<close>

definition started :: "env \<Rightarrow> int \<times> int \<Rightarrow> hist \<Rightarrow> bool" where
  "started E p h = (snd p \<le> e_clock E h div 1000000)"

definition starts :: "env \<Rightarrow> (int \<times> int) prog \<Rightarrow> bool" where
  "starts E m = (\<forall>h. wp m (\<lambda>r h'. \<forall>p. r = Ok p \<longrightarrow> started E p h') E h)"

lemma startsD: "starts E m \<Longrightarrow> wp m (\<lambda>r h'. \<forall>p. r = Ok p \<longrightarrow> started E p h') E h"
  by (simp add: starts_def)

lemma starts_bnd: "steps m \<Longrightarrow> (\<And>x. starts E (f x)) \<Longrightarrow> starts E (bnd m f)"
  unfolding starts_def by (auto intro: wp_bnd_later)

lemma starts_thn: "steps m \<Longrightarrow> starts E k \<Longrightarrow> starts E (thn m k)"
  by (simp add: thn_def starts_bnd)

lemma starts_on_error: assumes "starts E m" "steps k" shows "starts E (on_error m k)"
  unfolding starts_def wp_on_error
proof
  fix h
  have "wp m (\<lambda>r h'. \<forall>p. r = Ok p \<longrightarrow> started E p h') E h" using assms(1) by (simp add: starts_def)
  then show "wp m (\<lambda>r h'. case r of Ok x \<Rightarrow> \<forall>p. Ok x = Ok p \<longrightarrow> started E p h'
      | Exc e \<Rightarrow> wp k (\<lambda>u h''. case u of Ok _ \<Rightarrow> \<forall>p. Exc e = Ok p \<longrightarrow> started E p h''
          | Exc e' \<Rightarrow> \<forall>p. Exc e' = Ok p \<longrightarrow> started E p h'') E h') E h"
    by (rule wp_mono) (use steps_returns [OF assms(2), of E] in \<open>auto simp: returns_wp split: outcome.split\<close>)
qed

lemma starts_now:
  assumes "clock_law E" "\<And>t. steps (k t)" "\<And>t. gives (\<lambda>p. snd p = t) (k t)"
  shows "starts E (bnd now_ms k)"
  unfolding starts_def now_ms_def bnd_assoc bnd_ret wp_bnd_time
proof
  fix h
  let ?t = "e_clock E h div 1000000" and ?h = "Clock (e_clock E h) # h"
  have "wp (k ?t) (\<lambda>r h'. suffix ?h h' \<and> (\<forall>p. r = Ok p \<longrightarrow> snd p = ?t)) E ?h"
    using assms(2,3) by (simp add: steps_def gives_def wp_conj)
  then show "wp (k ?t) (\<lambda>r h'. \<forall>p. r = Ok p \<longrightarrow> started E p h') E ?h"
    by (rule wp_mono)
      (use order_trans [OF clock_div_step [OF assms(1)] clock_div_suffix [OF assms(1)]] in \<open>auto simp: started_def\<close>)
qed

lemma starts_machines:
  assumes "clock_law E"
  shows "starts E (start_firecracker c dir cfg net)" "starts E (start_qemu c dir cfg net)"
  unfolding start_firecracker_def start_qemu_def Let_def
  by (intro starts_now assms starts_thn starts_bnd gives_bnd gives_thn gives_ret steps_intros; simp)+

lemma wp_run_machine:
  assumes "clock_law E" "starts E m" "\<And>pid start h. start \<le> e_clock E h div 1000000 \<Longrightarrow> wp (w pid start) (result_ok E kind) E h"
    "\<And>pid. steps (k pid)"
  shows "wp (bnd m (\<lambda>(pid, start). finally_do (w pid start) (k pid))) (result_ok E kind) E h"
  unfolding wp_bnd
proof (rule wp_mono [OF startsD [OF assms(2)]])
  fix r h'
  assume r: "\<forall>p. r = Ok p \<longrightarrow> started E p h'"
  have "wp (finally_do (w pid start) (k pid)) (result_ok E kind) E h'" if "r = Ok (pid, start)" for pid start
  proof (rule wp_finally_later)
    show "wp (w pid start) (result_ok E kind) E h'" using r that by (intro assms(3)) (simp add: started_def)
  qed (intro assms(4), erule (1) result_ok_later [OF assms(1)], rule result_ok_simps)
  then show "case r of Ok x \<Rightarrow> wp (case x of (pid, start) \<Rightarrow> finally_do (w pid start) (k pid)) (result_ok E kind) E h'
      | Exc e \<Rightarrow> result_ok E kind (Exc e) h'"
    by (auto split: outcome.split)
qed

lemma wp_machine_ok:
  assumes "clock_law E" "start \<le> e_clock E h div 1000000" "kind \<noteq> ''docker''" "kind \<noteq> ''orca''"
  shows "wp (wait_machine kind ex dir pid start n) (result_ok E kind) E h"
  using assms(3,4)
  by (intro wp_mono [OF wp_wait_machine [OF assms(1,2)]])
    (auto simp: machine_watch.reports_def result_ok_def sound_result_def)

lemma wp_run_firecracker:
  assumes "clock_law E"
  shows "wp (run_firecracker c dir cfg n net) (result_ok E ''firecracker-local'') E h"
  unfolding run_firecracker_def
proof (rule wp_run_machine [OF assms starts_on_error [OF starts_machines(1) [OF assms]]])
  fix pid start h
  assume s: "start \<le> e_clock E h div 1000000"
  show "wp (thn (close_file (pdiv dir ''serial.log'')) (thn (close_file (pdiv dir ''firecracker.log''))
      (wait_machine ''firecracker-local'' ''firecracker exited'' dir pid start n))) (result_ok E ''firecracker-local'') E h"
    by (intro wp_thn_later steps_intros wp_machine_ok [OF assms] result_ok_simps)
      (auto intro: order_trans [OF s order_trans [OF clock_div_suffix [OF assms] clock_div_suffix [OF assms]]])
qed (intro steps_intros)+

lemma wp_run_qemu:
  assumes "clock_law E"
  shows "wp (run_qemu c dir cfg n net) (result_ok E ''qemu-q35-local'') E h"
  unfolding run_qemu_def
proof (rule wp_run_machine [OF assms starts_on_error [OF starts_machines(2) [OF assms]]])
  fix pid start h
  assume s: "start \<le> e_clock E h div 1000000"
  show "wp (thn (close_file (pdiv dir ''serial.log''))
      (wait_machine ''qemu-q35-local'' ''qemu exited'' dir pid start n)) (result_ok E ''qemu-q35-local'') E h"
    by (intro wp_thn_later steps_intros wp_machine_ok [OF assms] result_ok_simps)
      (auto intro: order_trans [OF s clock_div_suffix [OF assms]])
qed (intro steps_intros)+

definition sounds :: "env \<Rightarrow> string \<Rightarrow> pyval prog \<Rightarrow> bool" where
  "sounds E kind m = (\<forall>h. wp m (result_ok E kind) E h)"

lemma sounds_bnd: "steps m \<Longrightarrow> (\<And>x. sounds E kind (f x)) \<Longrightarrow> sounds E kind (bnd m f)"
  unfolding sounds_def by (auto intro: wp_bnd_later)

lemma sounds_if: "(b \<Longrightarrow> sounds E kind m) \<Longrightarrow> (\<not> b \<Longrightarrow> sounds E kind k) \<Longrightarrow> sounds E kind (if b then m else k)"
  by simp

lemma sounds_pair: "(\<And>x y. sounds E kind (f x y)) \<Longrightarrow> sounds E kind (case p of (x, y) \<Rightarrow> f x y)"
  by (cases p) simp

lemma sounds_failed: "kind \<noteq> ''docker'' \<Longrightarrow> kind \<noteq> ''orca'' \<Longrightarrow> sounds E kind (ret (failed_run kind err))"
  by (auto simp: sounds_def wp_ret sound_result_def)

lemma sounds_machines:
  assumes "clock_law E"
  shows "sounds E ''firecracker-local'' (measure_firecracker_local c n)"
    "sounds E ''qemu-q35-local'' (measure_qemu_q35_local c n)"
proof -
  have "sounds E ''firecracker-local'' (run_firecracker c dir cfg n net)"
    "sounds E ''qemu-q35-local'' (run_qemu c dir cfg n net)" for dir cfg net
    using wp_run_firecracker [OF assms] wp_run_qemu [OF assms] by (simp_all add: sounds_def)
  then show "sounds E ''firecracker-local'' (measure_firecracker_local c n)"
    "sounds E ''qemu-q35-local'' (measure_qemu_q35_local c n)"
    unfolding measure_firecracker_local_def measure_qemu_q35_local_def
    by (intro sounds_failed sounds_bnd sounds_if sounds_pair steps_intros; simp)+
qed

lemma sounds_orca:
  assumes "clock_law E" shows "sounds E ''orca'' (measure_orca c n)"
  unfolding sounds_def measure_orca_def Let_def now_ms_def bnd_assoc bnd_ret wp_bnd_time
proof
  fix h
  let ?t = "e_clock E h div 1000000"
  have "wp (finally_do (wait_orca resp sid url ?t n) (stop_session sid url)) (result_ok E ''orca'') E h'"
    if s: "suffix (Clock (e_clock E h) # h) h'" for resp sid url h'
  proof (rule wp_finally_later)
    show "wp (wait_orca resp sid url ?t n) (result_ok E ''orca'') E h'"
      using order_trans [OF clock_div_step [OF assms] clock_div_suffix [OF assms s]]
      by (intro wp_mono [OF wp_wait_orca [OF assms]]) (auto simp: orca_watch.reports_def result_ok_def sound_result_def)
  qed (intro steps_intros, erule (1) result_ok_later [OF assms], rule result_ok_simps)
  then show "wp (bnd (http_json ''POST'' ''http://localhost:18080/startEnv'' (Some (PDict [
            (''base_image_id'', PStr (BASE_IMAGE_ID c)),
            (''force_node'', PStr ''node-1''),
            (''cpu_count'', PInt (VCPU_COUNT c)),
            (''memory_mib'', PInt (MEM_SIZE_MIB c)),
            (''tty'', PBool True),
            (''command'', PStr ORCA_COMMAND)])) 120) (\<lambda>start_resp.
      bnd (get_item start_resp ''session_id'') (\<lambda>session_id.
      bnd (get_item start_resp ''node_url'') (\<lambda>node_url.
      finally_do (wait_orca start_resp session_id node_url ?t n) (stop_session session_id node_url)))))
      (result_ok E ''orca'') E (Clock (e_clock E h) # h)"
    by (intro wp_bnd_later steps_intros result_ok_simps) (meson suffix_order.trans)
qed

lemma sounds_docker: "clock_law E \<Longrightarrow> sounds E ''docker'' (measure_docker c n)"
  by (simp add: sounds_def wp_measure_docker)

section \<open>The summary\<close>

definition wanted :: "string \<Rightarrow> string list" where
  "wanted mode = filter (\<lambda>k. mode = k \<or> mode = ''all'') [''docker'', ''firecracker-local'', ''qemu-q35-local'', ''orca'']"

definition summed :: "env \<Rightarrow> string list \<Rightarrow> pyval list outcome \<Rightarrow> hist \<Rightarrow> bool" where
  "summed E kinds r h = (\<forall>vs. r = Ok vs \<longrightarrow> list_all2 (sound_result E h) kinds vs)"

lemma list_all2_sound_later:
  "clock_law E \<Longrightarrow> suffix h h' \<Longrightarrow> list_all2 (sound_result E h) ks vs \<Longrightarrow> list_all2 (sound_result E h') ks vs"
  by (erule list_all2_mono) (rule sound_result_later)

lemma extends_measures:
  "extends (measure_docker c n)" "extends (measure_firecracker_local c n)"
  "extends (measure_qemu_q35_local c n)" "extends (measure_orca c n)"
proof -
  have b: "extends (watch_body (docker_logs name) (docker_joined name cid start) ms d start s)"
    "extends (watch_body (serial_text dir) (machine_joined kind dir start) ms d start s)"
    "extends (watch_body (tty_output sid url) (orca_joined resp sid url start) ms d start s)"
    for name cid start ms d s dir kind sid url resp
    unfolding watch_body_def remember_markers_def
    by (intro emits_intros steps_extends [OF docker_watch.fetch_steps] steps_extends [OF docker_watch.finish_steps]
        steps_extends [OF machine_watch.fetch_steps] steps_extends [OF machine_watch.finish_steps]
        steps_extends [OF orca_watch.fetch_steps] steps_extends [OF orca_watch.finish_steps]
        steps_extends [OF steps_now_ms]; simp)+
  have w: "extends (wait_docker name cid start n)" "extends (wait_machine kind ex dir pid start n)"
    "extends (wait_orca resp sid url start n)" for name cid start kind ex dir pid resp sid url
    unfolding wait_docker_def wait_machine_def wait_orca_def
    by (intro extends_while b emits_bnd emits_ret emits_case_ctl steps_extends [OF steps_now_ms]
        steps_extends [OF machine_watch.fetch_steps] emits_prims TrueI)+
  show "extends (measure_docker c n)" "extends (measure_orca c n)"
    unfolding measure_docker_def measure_orca_def Let_def
    by (intro emits_finally w emits_bnd emits_thn; intro steps_extends steps_intros)+
  have r: "extends (run_firecracker c dir cfg n net)" "extends (run_qemu c dir cfg n net)" for dir cfg net
    unfolding run_firecracker_def run_qemu_def
    by (intro emits_finally w emits_case_prod emits_bnd emits_thn; intro steps_extends steps_intros)+
  show "extends (measure_firecracker_local c n)" "extends (measure_qemu_q35_local c n)"
    unfolding measure_firecracker_local_def measure_qemu_q35_local_def
    by (intro r emits_if emits_case_prod emits_bnd emits_ret; intro steps_extends steps_intros)+
qed

lemma wp_measure_if:
  assumes "clock_law E" "sounds E kind m" "extends m" "list_all2 (sound_result E h) ks results"
  shows "wp (measure_if b title m results) (summed E (ks @ (if b then [kind] else []))) E h"
proof (cases b)
  case True
  have print: "wp (thn (print_result v) (ret (results @ [v]))) (summed E (ks @ [kind])) E h2"
    if "suffix h h2" "sound_result E h2 kind v" for v h2
    using that list_all2_sound_later [OF assms(1) _ assms(4)] sound_result_later [OF assms(1)]
    by (intro wp_thn_later steps_intros)
      (auto simp: wp_ret summed_def intro!: list_all2_appendI intro: suffix_order.trans)
  have "wp (bnd m (\<lambda>r. thn (print_result r) (ret (results @ [r])))) (summed E (ks @ [kind])) E h1"
    if h1: "suffix h h1" for h1
  proof -
    have "wp m (\<lambda>r h'. result_ok E kind r h' \<and> suffix h1 h') E h1"
      using assms(2) by (intro extends_suffix [OF assms(3)]) (simp add: sounds_def)
    then show ?thesis
      unfolding wp_bnd
      by (rule wp_mono) (use h1 print in \<open>auto simp: summed_def intro: suffix_order.trans split: outcome.split\<close>)
  qed
  then show ?thesis
    using True by (simp add: measure_if_def) (intro wp_thn_later steps_intros, simp_all add: summed_def)
qed (simp add: measure_if_def wp_ret summed_def assms(4))

lemma wanted_parts:
  "((([] @ (if mode = ''docker'' \<or> mode = ''all'' then [''docker''] else []))
      @ (if mode = ''firecracker-local'' \<or> mode = ''all'' then [''firecracker-local''] else []))
      @ (if mode = ''qemu-q35-local'' \<or> mode = ''all'' then [''qemu-q35-local''] else []))
      @ (if mode = ''orca'' \<or> mode = ''all'' then [''orca''] else []) = wanted mode"
  by (auto simp: wanted_def)


end
