(* ===== verification/Workspace_Resources.thy ===== *)
theory Workspace_Resources
  imports Workspace_Reports
begin

text \<open>
  What \<open>measure-jetbrains-workspace-timings.py\<close> leaves behind: no child process, no
  container, no network of a machine it ran; when the cached root file system is
  reused; the addresses, kernel arguments and command line arguments it works with.
\<close>

text \<open>A configuration to run the definitions on.\<close>

definition sample_config :: workspace_config where
  "sample_config = \<lparr>IMAGE = ''img:1'', BASE_IMAGE_ID = ''base-1'', ASSET_DIR = ''assets'', WORK_PARENT = ''/w'',
     ROOTFS_SIZE_MB = 100, MEM_SIZE_MIB = 4096, VCPU_COUNT = 2, GUEST_DNS = ''1.1.1.1'', DOCKER_RUN_ARGS = [],
     QEMU_KERNEL = ''/boot/vmlinuz''\<rparr>"


section \<open>Children\<close>

lemma emits_pieces [emits_intros]:
  "(\<And>rc out. A (Shell cmd rc out)) \<Longrightarrow> emits A (run cmd ck)"
  "(\<And>t. A (Clock t)) \<Longrightarrow> emits A now_ms"
  "(\<And>m u b d x. A (Http m u b d x)) \<Longrightarrow> emits A (http_json meth url body limit)"
  unfolding run_def now_ms_def http_json_def by (intro emits_intros; simp)+

lemma keeps_run [keeps_intros]: "keeps E (run cmd ck)" "keeps E now_ms" "keeps E (http_json meth url body limit)"
  by (intro keeps_steps steps_intros emits_intros; simp add: spawn_free_def)+

lemma keeps_workspace [keeps_intros]:
  "keeps E (docker_rm name)" "keeps E (image_inspect c)" "keeps E (build_orca_init p)"
  "keeps E (fill_rootfs c dir insp cid)" "keeps E (read_meta p)" "keeps E setup_tap" "keeps E (cleanup_tap net)"
  "keeps E (print_step v)" "keeps E (print_marker kv)" "keeps E usage" "keeps E (reject msg)"
  unfolding docker_rm_def image_inspect_def build_orca_init_def fill_rootfs_def read_meta_def setup_tap_def configure_tap_def
    cleanup_tap_def print_step_def print_marker_def usage_def reject_def
  by (intro keeps_intros; auto simp: on_process_error_def intro!: keeps_intros split: exn.splits if_splits)+

lemma keeps_b64 [keeps_intros]: "keeps E (b64 v)"
  by (simp add: b64_def keeps_raise keeps_ret split: pyval.split)

lemma keeps_in_mount [keeps_intros]: "keeps E m \<Longrightarrow> keeps E (in_mount r d m)"
  unfolding in_mount_def by (intro keeps_intros)

lemma keeps_rootfs [keeps_intros]:
  "keeps E (prepare_rootfs c r i m v w)" "keeps E (rootfs_stale r m w)" "keeps E (sideload_orca_init c r i)"
  unfolding prepare_rootfs_def populate_rootfs_def rootfs_stale_def sideload_orca_init_def by (intro keeps_intros)+

lemma keeps_machine [keeps_intros]:
  "keeps E (ensure_local_rootfs c)" "keeps E (image_rootfs_boot_args c v net extra)" "keeps E (print_result v)"
  unfolding ensure_local_rootfs_def image_rootfs_boot_args_def print_result_def by (intro keeps_intros)+

lemma keeps_copy [keeps_intros]:
  "keeps E (copy_rootfs c templ msg)" "keeps E (stop_session sid url)" "keeps E (parse_args argv)"
  unfolding copy_rootfs_def stop_session_def parse_args_def first_arg_def second_arg_def
  by (intro keeps_intros; auto intro!: keeps_intros split: if_splits list.splits)+

lemma spawns_start:
  "spawns E fst (start_firecracker c dir cfg net)" "spawns E fst (start_qemu c dir cfg net)"
  unfolding start_firecracker_def start_qemu_def Let_def
  by (intro spawns_ret [OF spawns_popen] spawns_ret [OF spawns_on_error [OF spawns_popen]]
      spawns_bnd spawns_thn keeps_intros; simp)+

context log_watch
begin

lemma spawn_free_body:
  assumes "\<And>l. emits spawn_free (fetch l)" "\<And>l s. emits spawn_free (finish l s)"
  shows "emits spawn_free (body s)"
  unfolding watch_body_def remember_markers_def
  by (intro emits_intros assms; simp add: spawn_free_def)

lemma keeps_watch:
  assumes "clock_law E" "\<And>l. emits spawn_free (fetch l)" "\<And>l s. emits spawn_free (finish l s)"
  shows "keeps E (while_before deadline body s)" "keeps E (while_running deadline pid body s)"
  by (intro poller.keeps_wait [OF body_poller] poller.keeps_running [OF body_poller] spawn_free_body assms)+

end

lemma spawn_free_pieces:
  "emits spawn_free (docker_logs name l)" "emits spawn_free (docker_joined name cid start l s)"
  "emits spawn_free (serial_text dir l)" "emits spawn_free (machine_joined kind dir start l s)"
  "emits spawn_free (tty_output sid url l)" "emits spawn_free (orca_joined resp sid url start l s)"
  unfolding docker_logs_def docker_joined_def serial_text_def machine_joined_def tty_output_def orca_joined_def
  by (intro emits_intros; simp add: spawn_free_def)+

lemma keeps_workspace_waits:
  assumes "clock_law E"
  shows "keeps E (wait_docker name cid start n)" "keeps E (wait_machine kind ex dir pid start n)"
    "keeps E (wait_orca resp sid url start n)"
  unfolding wait_docker_def wait_machine_def wait_orca_def
  by (intro docker_watch.keeps_watch machine_watch.keeps_watch orca_watch.keeps_watch keeps_intros assms
      spawn_free_pieces keeps_steps [OF machine_watch.fetch_steps])+

lemma keeps_run_machine:
  assumes "clock_law E" "kill_law E"
  shows "keeps E (run_firecracker c dir cfg n net)" "keeps E (run_qemu c dir cfg n net)"
  unfolding run_firecracker_def run_qemu_def split_beta stop_machine_def
  by (rule keeps_spawns [OF spawns_on_error [OF spawns_start(1)]] keeps_spawns [OF spawns_on_error [OF spawns_start(2)]],
      rule keeps_intros, intro reaps_finally reaps_thn reaps_stop_running keeps_intros keeps_workspace_waits assms)+

lemma keeps_measures:
  assumes "clock_law E" "kill_law E"
  shows "keeps E (measure_docker c n)" "keeps E (measure_firecracker_local c n)"
    "keeps E (measure_qemu_q35_local c n)" "keeps E (measure_orca c n)"
  unfolding measure_docker_def measure_firecracker_local_def measure_qemu_q35_local_def measure_orca_def
  by (intro keeps_intros keeps_workspace_waits keeps_run_machine assms)+

text \<open>
  C18: whatever the commands, servers and machines do, as long as the clock runs and a
  killed child ends, a run of the script ends and leaves no machine running.
\<close>

theorem workspace_main_children:
  assumes "clock_law E" "kill_law E"
  shows "wp (main c argv) (\<lambda>r h'. live h' \<subseteq> live h) E h"
proof -
  have "keeps E (main c argv)"
    unfolding main_def measure_if_def by (intro keeps_intros keeps_measures assms)
  then show ?thesis by (simp add: keeps_def)
qed

lemma workspace_main_children_witness:
  "clock_law quiet_env \<and> kill_law quiet_env \<and>
   wp (main sample_config [''firecracker-local'', ''5'']) (\<lambda>r h'. live h' \<subseteq> live []) quiet_env []"
  using workspace_main_children [OF quiet_laws, of sample_config "[''firecracker-local'', ''5'']" "[]"] quiet_laws by blast

section \<open>Containers\<close>

text \<open>The container is there: its \<open>docker run\<close> succeeded and no \<open>docker rm -f\<close> followed.\<close>

fun container_up :: "string \<Rightarrow> hist \<Rightarrow> bool" where
  "container_up name [] = False"
| "container_up name (Shell cmd rc out # h) =
     (if cmd = ''docker rm -f '' @ name @ '' >/dev/null 2>&1 || true'' then False
      else if rc = 0 \<and> starts_with cmd (''docker run -d --name '' @ name @ '' '') then True
      else container_up name h)"
| "container_up name (_ # h) = container_up name h"

lemma wp_docker_rm: "wp (docker_rm name) (\<lambda>r h'. r = Ok () \<and> \<not> container_up name h') E h"
  by (simp add: docker_rm_def run_def sh_run_def sh_result_def wp_simps split: prod.split)

lemma wp_finally_rm:
  assumes "returns E m" shows "wp (finally_do m (docker_rm name)) (\<lambda>r h'. \<not> container_up name h') E h"
  unfolding wp_finally
proof (rule wp_mono)
  show "wp m (\<lambda>r h'. True) E h" using assms by (simp add: returns_wp)
  show "wp (docker_rm name) (\<lambda>u h''. case u of Ok x \<Rightarrow> \<not> container_up name h'' | Exc e \<Rightarrow> \<not> container_up name h'') E h'" for h'
    by (rule wp_mono [OF wp_docker_rm]) simp
qed

text \<open>
  C20: \<open>measure_docker\<close> returns, and on every path (join marker seen, timeout, failed
  \<open>docker run\<close>) the container that it started has been removed.
\<close>

theorem measure_docker_removes_container:
  assumes "clock_law E"
  shows "wp (measure_docker c n) (\<lambda>r h'. \<not> container_up (docker_name (e_clock E h)) h') E h"
  unfolding measure_docker_def wp_bnd_time Let_def wp_thn
proof (rule wp_mono [OF wp_docker_rm])
  let ?name = "docker_name (e_clock E h)"
  let ?run = "''docker run -d --name '' @ ?name @ '' '' @
      (if strip (DOCKER_RUN_ARGS c) \<noteq> [] then strip (DOCKER_RUN_ARGS c) @ '' '' else []) @ IMAGE c"
  fix r h1
  assume h1: "r = Ok () \<and> \<not> container_up ?name h1"
  have fin: "wp (finally_do (wait_docker ?name cid start n) (docker_rm ?name)) (\<lambda>r h'. \<not> container_up ?name h') E h2"
    for cid start h2
    by (rule wp_finally_rm [OF keeps_returns [OF keeps_workspace_waits(1) [OF assms]]])
  have "wp (bnd (run ?run True) (\<lambda>out. finally_do (wait_docker ?name (strip out) start n) (docker_rm ?name)))
      (\<lambda>r h'. \<not> container_up ?name h') E (Clock t # h1)" for t start
    using h1 unfolding run_def wp_bnd wp_sh_run by (simp add: fin split: prod.split)
  then show "case r of Ok x \<Rightarrow> wp (bnd now_ms (\<lambda>start. bnd (run ?run True) (\<lambda>out.
      finally_do (wait_docker ?name (strip out) start n) (docker_rm ?name)))) (\<lambda>r h'. \<not> container_up ?name h') E h1
    | Exc e \<Rightarrow> \<not> container_up ?name h1"
    using h1 unfolding now_ms_def bnd_assoc bnd_ret wp_bnd_time by simp
qed

lemma measure_docker_removes_container_witness:
  "clock_law quiet_env \<and>
   wp (measure_docker sample_config 5) (\<lambda>r h'. \<not> container_up (docker_name (e_clock quiet_env [])) h') quiet_env []"
  using measure_docker_removes_container [OF quiet_clock, of sample_config 5 "[]"] quiet_clock by blast

section \<open>The network of a machine\<close>

fun installed :: "string \<Rightarrow> string \<Rightarrow> hist \<Rightarrow> bool" where
  "installed tbl rule [] = False"
| "installed tbl rule (Shell cmd rc out # h) =
     (if cmd = add_rule tbl rule \<and> rc = 0 then True
      else if cmd = del_rule tbl rule then False else installed tbl rule h)"
| "installed tbl rule (_ # h) = installed tbl rule h"

fun link_up :: "string \<Rightarrow> hist \<Rightarrow> bool" where
  "link_up tap [] = False"
| "link_up tap (Shell cmd rc out # h) =
     (if cmd = ''sudo ip tuntap add dev '' @ q tap @ '' mode tap'' \<and> rc = 0 then True
      else if cmd = ''sudo ip link del '' @ q tap @ '' >/dev/null 2>&1 || true'' then False else link_up tap h)"
| "link_up tap (_ # h) = link_up tap h"

definition net_rules :: "tap_net \<Rightarrow> (string \<times> string) list" where
  "net_rules net = [(''-t nat '', masquerade_rule net), ([], forward_out_rule net), ([], forward_in_rule net)]"

definition net_gone :: "tap_net \<Rightarrow> hist \<Rightarrow> bool" where
  "net_gone net h =
     (\<not> link_up (net_tap net) h \<and> list_all (\<lambda>(tbl, rule). \<not> installed tbl rule h) (net_rules net))"

lemma wp_cleanup_tap: "wp (cleanup_tap net) (\<lambda>r h'. r = Ok () \<and> net_gone net h') E h"
  by (simp add: cleanup_tap_def run_def sh_run_def sh_result_def wp_simps net_gone_def net_rules_def
      add_rule_def del_rule_def masquerade_rule_def forward_out_rule_def forward_in_rule_def split: prod.split)

lemma wp_after_cleanup:
  "wp (cleanup_tap net) (\<lambda>u h'. case u of Ok x \<Rightarrow> net_gone net h' | Exc e \<Rightarrow> net_gone net h') E h"
  by (rule wp_mono [OF wp_cleanup_tap]) simp

lemma wp_stop_machine:
  assumes "kill_law E"
  shows "wp (stop_machine net pid) (\<lambda>u h'. case u of Ok x \<Rightarrow> net_gone net h' | Exc e \<Rightarrow> net_gone net h') E h"
  unfolding stop_machine_def wp_thn
  by (rule wp_mono [OF wp_stop_running_killed [OF assms]]) (auto intro: wp_mono [OF wp_cleanup_tap])

lemma wp_machine_network:
  assumes "kill_law E" "steps m" "\<And>p. returns E (w p)"
  shows "wp (bnd (on_error m (cleanup_tap net)) (\<lambda>p. finally_do (w p) (stop_machine net (f p))))
           (\<lambda>r h'. net_gone net h') E h"
  unfolding wp_bnd wp_on_error
proof (rule wp_mono)
  show "wp m (\<lambda>r h'. True) E h" using steps_returns [OF assms(2)] by (simp add: returns_wp)
  have "wp (finally_do (w p) (stop_machine net (f p))) (\<lambda>r h'. net_gone net h') E h'" for p h'
    unfolding wp_finally
    by (rule wp_mono [where Q = "\<lambda>r h'. True"]) (use assms(3) wp_stop_machine [OF assms(1)] in \<open>auto simp: returns_wp\<close>)
  then show "case r of
      Ok x \<Rightarrow> (case Ok x of Ok x \<Rightarrow> wp (finally_do (w x) (stop_machine net (f x))) (\<lambda>r h'. net_gone net h') E h'
        | Exc e \<Rightarrow> net_gone net h')
    | Exc e \<Rightarrow> wp (cleanup_tap net) (\<lambda>u h''. case u of
        Ok _ \<Rightarrow> (case Exc e of Ok x \<Rightarrow> wp (finally_do (w x) (stop_machine net (f x))) (\<lambda>r h'. net_gone net h') E h''
          | Exc e \<Rightarrow> net_gone net h'')
      | Exc e' \<Rightarrow> (case Exc e' of Ok x \<Rightarrow> wp (finally_do (w x) (stop_machine net (f x))) (\<lambda>r h'. net_gone net h') E h''
          | Exc e \<Rightarrow> net_gone net h'')) E h'" for r h'
    by (cases r) (auto intro!: wp_mono [OF wp_cleanup_tap] split: outcome.split)
qed

text \<open>
  C19: once the network of a local machine is set up, the interface and the three
  firewall rules are gone when the run ends, whether the machine could not be started,
  printed the join URL, timed out or exited, for Firecracker and for QEMU.
\<close>

theorem machine_network_removed:
  assumes "clock_law E" "kill_law E"
  shows "wp (run_firecracker c run_dir image_cfg n net) (\<lambda>r h'. net_gone net h') E h
    \<and> wp (run_qemu c run_dir image_cfg n net) (\<lambda>r h'. net_gone net h') E h"
  unfolding run_firecracker_def run_qemu_def split_beta
  by (intro conjI wp_machine_network assms steps_intros keeps_returns keeps_intros keeps_workspace_waits)+

lemma machine_network_removed_witness:
  "clock_law quiet_env \<and> kill_law quiet_env \<and>
   wp (run_firecracker sample_config ''/w/run'' PNone 5 (tap_net_of 180 1000 2))
     (\<lambda>r h'. net_gone (tap_net_of 180 1000 2) h') quiet_env []"
  using machine_network_removed [OF quiet_laws, of sample_config "''/w/run''" PNone 5 "tap_net_of 180 1000 2" "[]"] quiet_laws
  by blast

text \<open>
  The network is set up before the \<open>try\<close> block: when the last firewall command fails,
  the interface and two rules stay.
\<close>

definition full_table_env :: env where
  "full_table_env = quiet_env \<lparr>e_shell := (\<lambda>h c. (if contains ''--ctstate'' c then 4 else 0, []))\<rparr>"

lemma setup_tap_leaks_network:
  "wp setup_tap (\<lambda>r h'. (case r of Ok net \<Rightarrow> False | Exc e \<Rightarrow> True) \<and>
      link_up ''tapjb1000'' h' \<and> installed [] (forward_out_rule (tap_net_of 180 1000 2)) h') full_table_env []"
  by code_simp

section \<open>Addresses\<close>

text \<open>\<open>random.randint(a, b)\<close> gives a number from \<open>a\<close> to \<open>b\<close>.\<close>

definition rand_law :: "env \<Rightarrow> bool" where
  "rand_law E = (\<forall>h a b. a \<le> b \<longrightarrow> a \<le> e_rand E h a b \<and> e_rand E h a b \<le> b)"

text \<open>
  C24: \<open>setup_tap\<close> gives the guest the second address of a /30 network whose first
  address is the host's, in 172.31.180.0 to 172.31.249.255; the interface name has nine
  characters (the kernel allows 15) that the shell does not interpret, the MAC address 17.
\<close>

theorem tap_addresses:
  assumes "rand_law E"
  shows "wp setup_tap (\<lambda>r h'. \<forall>net. r = Ok net \<longrightarrow> (\<exists>third. 180 \<le> third \<and> third \<le> 249
      \<and> net_host_ip net = ''172.31.'' @ str_int third @ ''.1''
      \<and> net_guest_cidr net = ''172.31.'' @ str_int third @ ''.2/30'')
      \<and> length (net_tap net) = 9 \<and> q (net_tap net) = net_tap net \<and> length (net_guest_mac net) = 17) E h"
proof -
  have rand: "wp (bnd (randint a b) f) Q E h = wp (f (e_rand E h a b)) Q E (Rand a b (e_rand E h a b) # h)" for a b f Q h
    by (simp add: randint_def wp_bnd wp_answer)
  have law: "a \<le> b \<Longrightarrow> a \<le> e_rand E h a b \<and> e_rand E h a b \<le> b" for h a b
    using assms by (simp add: rand_law_def)
  have tap: "length (net_tap (tap_net_of third n m)) = 9" "q (net_tap (tap_net_of third n m)) = net_tap (tap_net_of third n m)"
    if "1000 \<le> n" "n \<le> 9999" for third n m
    using that length_str_int_4 [of n] sh_safe_str_int [of n]
    by (simp_all add: tap_net_of_def q_def shlex_quote_def sh_safe_def)
  show ?thesis
    unfolding setup_tap_def rand Let_def
  proof (rule wp_thn_later)
    fix h1
    show "wp (ret (tap_net_of (e_rand E h 180 249) (e_rand E (Rand 180 249 (e_rand E h 180 249) # h) 1000 9999)
           (e_rand E (Rand 1000 9999 (e_rand E (Rand 180 249 (e_rand E h 180 249) # h) 1000 9999) #
              Rand 180 249 (e_rand E h 180 249) # h) 2 254)))
      (\<lambda>r h'. \<forall>net. r = Ok net \<longrightarrow> (\<exists>third. 180 \<le> third \<and> third \<le> 249
      \<and> net_host_ip net = ''172.31.'' @ str_int third @ ''.1''
      \<and> net_guest_cidr net = ''172.31.'' @ str_int third @ ''.2/30'')
      \<and> length (net_tap net) = 9 \<and> q (net_tap net) = net_tap net \<and> length (net_guest_mac net) = 17) E h1"
      unfolding wp_ret
      by (auto simp: tap law, auto simp: tap_net_of_def hex2_def law intro!: exI [of _ "e_rand E h 180 249"])
  qed (intro steps_intros, simp)
qed

lemma rand_quiet: "rand_law quiet_env"
  by (simp add: rand_law_def quiet_env_def)

lemma tap_addresses_witness:
  "rand_law quiet_env \<and> wp setup_tap (\<lambda>r h'. \<forall>net. r = Ok net \<longrightarrow> (\<exists>third. 180 \<le> third \<and> third \<le> 249
      \<and> net_host_ip net = ''172.31.'' @ str_int third @ ''.1''
      \<and> net_guest_cidr net = ''172.31.'' @ str_int third @ ''.2/30'')
      \<and> length (net_tap net) = 9 \<and> q (net_tap net) = net_tap net \<and> length (net_guest_mac net) = 17) quiet_env []"
  using tap_addresses [OF rand_quiet, of "[]"] rand_quiet by blast

section \<open>The kernel command line\<close>

text \<open>The value of an argument, as a reader of the kernel command line finds it.\<close>

fun arg_value :: "string \<Rightarrow> string list \<Rightarrow> string option" where
  "arg_value key [] = None"
| "arg_value key (w # ws) = (if starts_with w (key @ ''='') then Some (drop (length key + 1) w) else arg_value key ws)"

definition cmdline_value :: "string \<Rightarrow> string \<Rightarrow> string option" where
  "cmdline_value key args = arg_value key (words args)"

definition text_config :: "string list \<Rightarrow> string \<Rightarrow> string \<Rightarrow> pyval" where
  "text_config env_items user workdir =
     PDict [(''env'', PList (map PStr env_items)), (''user'', PStr user), (''workdir'', PStr workdir)]"

lemma for_each_as_str:
  "for_each (map PStr xs) ls (\<lambda>x ls. bnd (as_str x) (\<lambda>s. ret (ls @ [s]))) = ret (ls @ xs)"
  by (induction xs arbitrary: ls) (simp_all add: as_str_def bnd_ret)

lemma join_lines_text: "join_lines (PList (map PStr xs)) = ret (join [nl] xs)"
  by (simp add: join_lines_def py_iter_def bnd_ret for_each_as_str)

lemma b64_no_space [simp]: "unspaced (b64_of s)"
  by (auto simp: unspaced_def list_all_iff dest: b64_of_no_space)

definition boot_words :: "workspace_config \<Rightarrow> string list \<Rightarrow> string \<Rightarrow> string \<Rightarrow> tap_net \<Rightarrow> string list \<Rightarrow> string list" where
  "boot_words c env_items user workdir net extra =
     [''root=/dev/vda'', ''rw'', ''console=ttyS0'', ''quiet'', ''loglevel=0'', ''reboot=k'', ''panic=1'', ''init=/init'']
     @ extra @
     [''orca.tty=1'', ''orca.command_b64='' @ b64_of ORCA_COMMAND,
      ''orca.env_b64='' @ b64_of (join [nl] env_items), ''orca.user_b64='' @ b64_of user]
     @ (if workdir = [] then [] else [''orca.workdir_b64='' @ b64_of workdir]) @
     [''orca.net_ip='' @ net_guest_cidr net, ''orca.net_gateway='' @ net_host_ip net, ''orca.net_dns='' @ GUEST_DNS c]"

lemma boot_args_join:
  "image_rootfs_boot_args c (text_config env_items user workdir) net [] = ret (join '' '' (boot_words c env_items user workdir net []))"
  "image_rootfs_boot_args c (text_config env_items user workdir) net '' pci=off''
     = ret (join '' '' (boot_words c env_items user workdir net [''pci=off'']))"
  by (auto simp: image_rootfs_boot_args_def text_config_def get_item_def as_dict_def or_raise_def bnd_ret py_true_def
      b64_def join_lines_text boot_words_def)

text \<open>
  C23: a reader of the kernel command line that \<open>image_rootfs_boot_args\<close> builds finds the
  command, the environment, the user and the working directory of the image by decoding
  the base64 arguments, whatever characters they hold, and the addresses of the network.
\<close>

theorem boot_args_decode:
  assumes "unspaced (GUEST_DNS c)"
  shows "\<exists>args. image_rootfs_boot_args c (text_config env_items user workdir) (tap_net_of third tap_no last_byte) '' pci=off'' = ret args
     \<and> map_option b64_text (cmdline_value ''orca.command_b64'' args) = Some (Some ORCA_COMMAND)
     \<and> map_option b64_text (cmdline_value ''orca.env_b64'' args) = Some (Some (join [nl] env_items))
     \<and> map_option b64_text (cmdline_value ''orca.user_b64'' args) = Some (Some user)
     \<and> map_option b64_text (cmdline_value ''orca.workdir_b64'' args) = (if workdir = [] then None else Some (Some workdir))
     \<and> cmdline_value ''orca.net_ip'' args = Some (net_guest_cidr (tap_net_of third tap_no last_byte))
     \<and> cmdline_value ''orca.net_gateway'' args = Some (net_host_ip (tap_net_of third tap_no last_byte))
     \<and> cmdline_value ''orca.net_dns'' args = Some (GUEST_DNS c)"
proof -
  let ?net = "tap_net_of third tap_no last_byte"
  let ?ws = "boot_words c env_items user workdir ?net [''pci=off'']"
  have "list_all (\<lambda>w. w \<noteq> [] \<and> unspaced w) ?ws"
    using assms by (simp add: boot_words_def tap_net_of_def is_space_def)
  then have "words (join '' '' ?ws) = ?ws" by (rule words_join)
  then show ?thesis
    by (intro exI [of _ "join '' '' ?ws"]) (simp add: boot_args_join cmdline_value_def boot_words_def b64_text_of)
qed

lemma boot_args_decode_witness:
  "\<exists>args. image_rootfs_boot_args sample_config (text_config [''A=x y''] ''root'' []) (tap_net_of 180 1000 2) '' pci=off'' = ret args
     \<and> map_option b64_text (cmdline_value ''orca.env_b64'' args) = Some (Some ''A=x y'')
     \<and> cmdline_value ''orca.net_dns'' args = Some ''1.1.1.1''"
  using boot_args_decode [of sample_config "[''A=x y'']" "''root''" "[]" 180 1000 2]
  by (auto simp: sample_config_def is_space_def)

section \<open>Command line arguments\<close>

lemma digits_not_mode: "0 \<le> i \<Longrightarrow> str_int i \<notin> set modes \<and> str_int i \<notin> {''-h'', ''--help'', ''help''}"
  using isdigit_str_int [of i] by (auto simp: modes_def isdigit_def is_digit_def)



definition args_outcome :: "string list \<Rightarrow> hist \<Rightarrow> (string \<times> int) outcome \<Rightarrow> hist \<Rightarrow> bool" where
  "args_outcome argv h r h' =
     (case r of
        Ok (mode, n) \<Rightarrow> mode \<in> {''docker'', ''firecracker-local'', ''qemu-q35-local'', ''orca'', ''all''} \<and> 0 \<le> n \<and> h' = h
      | Exc (SystemExit v) \<Rightarrow>
          (v = PInt 0 \<and> argv \<noteq> [] \<and> hd argv \<in> {''-h'', ''--help'', ''help''} \<or> v = PInt 2) \<and> h' \<noteq> [] \<and> hd h' = Out usage_text
      | Exc (ValueError s) \<Rightarrow> s \<in> set argv \<and> isdigit s \<and> int_of_str s = None
      | _ \<Rightarrow> False)"

lemma bnd_reject [simp]: "bnd (reject msg) f = reject msg"
  by (simp add: reject_def bnd_simps)

lemma wp_reject: "wp (reject msg) (args_outcome argv h0) E h"
  by (simp add: reject_def usage_def print_err_def print_def tell_def wp_simps args_outcome_def)

lemma canonical_known:
  "m \<in> set modes \<Longrightarrow> canonical_mode m \<in> {''docker'', ''firecracker-local'', ''qemu-q35-local'', ''orca'', ''all''}"
  by (auto simp: modes_def canonical_mode_def)

lemma wp_second_arg:
  assumes "set args \<subseteq> set argv" "mode \<in> set modes" "0 \<le> n"
  shows "wp (bnd (second_arg n args) (\<lambda>(n, args). if args \<noteq> [] then reject (''too many arguments: '' @ join '' '' args)
           else ret (canonical_mode mode, n))) (args_outcome argv h) E h"
proof (cases args)
  case Nil
  then show ?thesis
    using canonical_known [OF assms(2)] assms(3) by (simp add: second_arg_def bnd_ret wp_ret args_outcome_def)
next
  case (Cons a rest)
  have "wp (reject msg) (args_outcome argv h) E h" for msg by (rule wp_reject)
  moreover have "args_outcome argv h (Ok (canonical_mode mode, m)) h" if "0 \<le> m" for m
    using canonical_known [OF assms(2)] that by (simp add: args_outcome_def)
  moreover have "args_outcome argv h (Exc (ValueError a)) h" if "isdigit a" "int_of_str a = None"
    using that assms(1) Cons by (simp add: args_outcome_def)
  ultimately show ?thesis
    using isdigit_nonneg [of a]
    by (auto simp: Cons second_arg_def to_int_def or_raise_def bnd_simps wp_ret wp_raise split: option.split)
qed

text \<open>
  C25: for any arguments \<open>parse_args\<close> gives a mode that \<open>main\<close> knows and a non-negative
  timeout; or it exits with status 0 (help) or 2 after printing the usage text; or it
  raises \<open>ValueError\<close>, for an argument that \<open>isdigit\<close> accepts and \<open>int\<close> does not.
\<close>

theorem parse_args_outcomes: "wp (parse_args argv) (args_outcome argv h) E h"
proof (cases argv)
  case Nil
  then show ?thesis
    using wp_second_arg [of "[]" argv "''all''" 240 h E] by (simp add: parse_args_def first_arg_def bnd_ret modes_def)
next
  case (Cons a rest)
  consider "a \<in> {''-h'', ''--help'', ''help''}" | "a \<notin> {''-h'', ''--help'', ''help''}" "a \<in> set modes"
    | "a \<notin> {''-h'', ''--help'', ''help''}" "a \<notin> set modes" "isdigit a"
    | "a \<notin> {''-h'', ''--help'', ''help''}" "a \<notin> set modes" "\<not> isdigit a" by blast
  then show ?thesis
  proof cases
    case 1
    then show ?thesis
      by (simp add: Cons parse_args_def usage_def print_def tell_def wp_simps args_outcome_def)
  next
    case 2
    then show ?thesis
      using wp_second_arg [of rest argv a 240 h E] Cons
      by (simp add: parse_args_def first_arg_def bnd_ret subset_insertI)
  next
    case 3
    then have "wp (bnd (to_int a) (\<lambda>n. bnd (second_arg n rest) (\<lambda>(n, args).
        if args \<noteq> [] then reject (''too many arguments: '' @ join '' '' args) else ret (canonical_mode ''all'', n))))
        (args_outcome argv h) E h"
      using wp_second_arg [of rest argv "''all''" _ h E] isdigit_nonneg [of a] Cons
      by (auto simp: to_int_def or_raise_def bnd_simps wp_raise args_outcome_def modes_def split: option.split)
    with 3 Cons show ?thesis by (simp add: parse_args_def first_arg_def bnd_assoc bnd_ret)
  next
    case 4
    with Cons show ?thesis
      using wp_reject [of "''unknown mode '' @ repr_str a" argv h E h]
      by (simp add: parse_args_def first_arg_def)
  qed
qed

section \<open>The cache of the root file system\<close>

lemma sorted_meta: "sort_keys (rootfs_meta c (PStr digest)) = rootfs_meta c (PStr digest)"
proof -
  have "''image'' \<le> ''image_digest''" "''image'' \<le> ''rootfs_size_mb''" "''image_digest'' \<le> ''rootfs_size_mb''"
    by code_simp+
  then show ?thesis by (simp add: rootfs_meta_def del: Cons_le_Cons)
qed

lemma meta_reads_back:
  "json_loads (json_dumps_indent_sorted 2 (rootfs_meta c (PStr digest))) = Some (rootfs_meta c (PStr digest))"
  using loads_dumps(4) [of "rootfs_meta c (PStr digest)" 2] by (simp add: sorted_meta) (simp add: rootfs_meta_def)

lemma meta_eq: "py_eq (rootfs_meta c (PStr digest)) (rootfs_meta c (PStr digest))"
  by (simp add: rootfs_meta_def num_eq_def num_of_def)

text \<open>The root file system is only taken as complete after every command succeeded.\<close>

definition writes_to :: "string \<Rightarrow> event \<Rightarrow> bool" where
  "writes_to p ev = (case ev of WriteText f s b \<Rightarrow> f = p | _ \<Rightarrow> False)"

definition all_ok :: "event \<Rightarrow> bool" where
  "all_ok ev =
     (case ev of
        Shell cmd rc out \<Rightarrow> rc = 0 \<or> starts_with cmd ''docker rm -f '' \<or> starts_with cmd ''sudo umount '' \<or> starts_with cmd ''rmdir ''
      | _ \<Rightarrow> True)"

lemma emits_ok_run: "(\<And>out. A (Shell cmd 0 out)) \<Longrightarrow> emits_ok A (run cmd True)"
  unfolding emits_ok_def
proof (intro allI impI)
  fix E h v h'
  assume A: "\<And>out. A (Shell cmd 0 out)" and r: "run cmd True E h = Some (Ok v, h')"
  obtain rc out where e: "e_shell E h cmd = (rc, out)" by (cases "e_shell E h cmd")
  have "h' = [Shell cmd 0 v] @ h"
    using r e by (auto simp: run_def sh_run_def sh_result_def bnd_def answer_def ret_def raise_def Let_def split: if_splits)
  then show "\<exists>ks. h' = ks @ h \<and> list_all A ks" using A by (intro exI [of _ "[Shell cmd 0 v]"]) simp
qed

lemma populate_all_ok: "emits_ok all_ok (populate_rootfs c rootfs inspect_path img)"
  unfolding populate_rootfs_def in_mount_def fill_rootfs_def
  by (intro emits_ok_thn emits_ok_bnd emits_ok_finally emits_ok_let emits_ok_cond emits_ok_for_all emits_ok_run;
      (intro emits_ok_emits emits_intros)?; simp add: all_ok_def)

lemma populate_no_meta:
  assumes "inspect_path \<noteq> meta_path"
  shows "emits (\<lambda>ev. \<not> writes_to meta_path ev) (populate_rootfs c rootfs inspect_path img)"
  unfolding populate_rootfs_def in_mount_def fill_rootfs_def
  by (intro emits_intros; simp add: writes_to_def assms)

text \<open>
  C21: \<open>prepare_rootfs\<close> writes the file that marks the cached root file system as complete
  as its last step, after every command that fills the file system has succeeded; a
  preparation that fails writes no such file.
\<close>

theorem meta_written_last:
  assumes "inspect_path \<noteq> meta_path"
  shows "wp (prepare_rootfs c rootfs inspect_path meta_path img desired_meta) (\<lambda>r h'.
      \<exists>ks. h' = ks @ h \<and>
        (list_all (\<lambda>ev. \<not> writes_to meta_path ev) ks \<and> (\<exists>e. r = Exc e) \<or>
         (\<exists>b ks'. ks = WriteText meta_path (json_dumps_indent_sorted 2 desired_meta) b # ks'
            \<and> list_all (\<lambda>ev. \<not> writes_to meta_path ev \<and> all_ok ev) ks' \<and> (r = Ok () \<longleftrightarrow> b)))) E h"
proof -
  obtain r1 h1 where p: "populate_rootfs c rootfs inspect_path img E h = Some (r1, h1)"
    using steps_returns [OF steps_rootfs(1)] unfolding returns_def by (metis not_None_eq surj_pair)
  obtain ks where ks: "h1 = ks @ h" "list_all (\<lambda>ev. \<not> writes_to meta_path ev) ks"
    using emitsD [OF populate_no_meta [OF assms] p] by blast
  show ?thesis
  proof (cases r1)
    case (Exc e)
    with p ks show ?thesis by (simp add: prepare_rootfs_def wp_thn) (simp add: wp_def)
  next
    case (Ok u)
    then obtain ks1 where "h1 = ks1 @ h" "list_all all_ok ks1"
      using emits_okD [OF populate_all_ok] p by blast
    then have "list_all (\<lambda>ev. \<not> writes_to meta_path ev \<and> all_ok ev) ks"
      using ks by (simp add: list_all_iff)
    then show ?thesis
      using p Ok ks by (simp add: prepare_rootfs_def wp_thn) (simp add: wp_def write_text_def bnd_def answer_def check_ok_def skip_def ret_def raise_def Let_def)
  qed
qed

lemma meta_written_last_witness:
  "(''inspect.json'' \<noteq> ''meta.json'') \<and>
     wp (prepare_rootfs sample_config ''rootfs'' ''inspect.json'' ''meta.json'' PNone PNone) (\<lambda>r h'.
      \<exists>ks. h' = ks @ [] \<and>
        (list_all (\<lambda>ev. \<not> writes_to ''meta.json'' ev) ks \<and> (\<exists>e. r = Exc e) \<or>
         (\<exists>b ks'. ks = WriteText ''meta.json'' (json_dumps_indent_sorted 2 PNone) b # ks'
            \<and> list_all (\<lambda>ev. \<not> writes_to ''meta.json'' ev \<and> all_ok ev) ks' \<and> (r = Ok () \<longleftrightarrow> b)))) quiet_env []"
  using meta_written_last [of "''inspect.json''" "''meta.json''" sample_config "''rootfs''" PNone PNone "[]" quiet_env] by simp

text \<open>
  C22: after a preparation that succeeded, the next check of the cache finds the root file
  system up to date: the metadata written as JSON reads back equal.  The hypotheses say
  that the file just written reads back and that the root file system is still there.
\<close>

theorem prepared_rootfs_reused:
  assumes "\<And>h s. e_exists E (WriteText meta_path s True # h) meta_path"
    and "\<And>h s b. e_read E (Exists meta_path b # WriteText meta_path s True # h) meta_path = Some s"
    and "\<And>h. e_exists E h rootfs"
  shows "wp (thn (prepare_rootfs c rootfs inspect_path meta_path img (rootfs_meta c (PStr digest)))
           (rootfs_stale rootfs meta_path (rootfs_meta c (PStr digest)))) (\<lambda>r h'. \<forall>v. r = Ok v \<longrightarrow> v = False) E h"
  unfolding prepare_rootfs_def thn_def bnd_assoc
  by (rule wp_bnd_later [OF steps_rootfs(1)])
    (simp_all add: write_text_def bnd_assoc wp_simps rootfs_stale_def read_meta_def exists_path_def read_text_def loads_def
       assms meta_reads_back meta_eq)

text \<open>An environment whose files hold what was written last.\<close>

fun last_written :: "string \<Rightarrow> hist \<Rightarrow> string option" where
  "last_written p [] = None"
| "last_written p (WriteText f s b # h) = (if f = p \<and> b then Some s else last_written p h)"
| "last_written p (_ # h) = last_written p h"

definition store_env :: env where
  "store_env = quiet_env \<lparr>e_exists := (\<lambda>h p. True), e_read := (\<lambda>h p. last_written p h)\<rparr>"

lemma prepared_rootfs_reused_witness:
  "wp (thn (prepare_rootfs sample_config ''rootfs'' ''inspect.json'' ''meta.json'' PNone (rootfs_meta sample_config (PStr ''id'')))
           (rootfs_stale ''rootfs'' ''meta.json'' (rootfs_meta sample_config (PStr ''id''))))
     (\<lambda>r h'. \<forall>v. r = Ok v \<longrightarrow> v = False) store_env []"
  by (rule prepared_rootfs_reused) (simp_all add: store_env_def)

definition sample_meta :: pyval where
  "sample_meta = rootfs_meta sample_config (PStr ''sha256:1'')"

definition broken_export_env :: env where
  "broken_export_env = quiet_env \<lparr>
     e_exists := (\<lambda>h p. p = ''/w/meta.json'' \<or> list_ex (\<lambda>ev. case ev of Shell c rc out \<Rightarrow> starts_with c ''truncate '' | _ \<Rightarrow> False) h),
     e_read := (\<lambda>h p. Some (json_dumps_indent_sorted 2 sample_meta)),
     e_shell := (\<lambda>h c. (if starts_with c ''docker export '' then 1 else 0, []))\<rparr>"

text \<open>
  The metadata of an earlier preparation is not removed before a new one.  Here the file
  system was deleted, its metadata was not: the rebuild fails at \<open>docker export\<close>, and the
  next check takes the empty file system for the finished one.
\<close>

lemma interrupted_rebuild_reused:
  "wp (rootfs_stale ''/w/rootfs.ext4'' ''/w/meta.json'' sample_meta) (\<lambda>r h. case r of Ok b \<Rightarrow> b | Exc e \<Rightarrow> False) broken_export_env [] \<and>
   wp (prepare_rootfs sample_config ''/w/rootfs.ext4'' ''/w/inspect.json'' ''/w/meta.json'' PNone sample_meta) (\<lambda>r h.
      (case r of Ok u \<Rightarrow> False | Exc e \<Rightarrow> True) \<and>
      wp (rootfs_stale ''/w/rootfs.ext4'' ''/w/meta.json'' sample_meta) (\<lambda>r h. case r of Ok b \<Rightarrow> \<not> b | Exc e \<Rightarrow> False)
        broken_export_env h) broken_export_env []"
  by code_simp

section \<open>The guest's init program\<close>

definition go_build :: "event \<Rightarrow> bool" where
  "go_build ev = (case ev of Shell cmd rc out \<Rightarrow> starts_with cmd ''CGO_ENABLED=0 '' | _ \<Rightarrow> False)"

lemma no_go_build:
  assumes "steps m" "emits (\<lambda>ev. \<not> go_build ev) m" "filter go_build h = filter go_build h0"
  shows "wp m (\<lambda>r h'. filter go_build h' = filter go_build h0) E h"
proof -
  have "wp m (\<lambda>r h'. suffix h h') E h" using assms(1) by (simp add: steps_def)
  from wp_emits [OF assms(2) this] show ?thesis
    by (rule wp_mono) (auto simp: assms(3) list_all_iff filter_empty_conv)
qed

text \<open>
  C27: \<open>build_orca_init\<close> never runs \<open>go build\<close>: it tests the output of a command whose
  output is redirected, which is empty whether \<open>go\<close> is installed or not.  The hypothesis
  is that such a command prints nothing.
\<close>

theorem orca_init_never_built:
  assumes "\<And>h. snd (e_shell E h ''command -v go >/dev/null 2>&1'') = []"
  shows "wp (build_orca_init init_bin) (\<lambda>r h'. filter go_build h' = filter go_build h) E h"
proof -
  have probe: "wp (bnd (run ''command -v go >/dev/null 2>&1'' False) f) (\<lambda>r h'. filter go_build h' = filter go_build h) E h1"
    if "\<And>h2. filter go_build h2 = filter go_build h \<Longrightarrow> wp (f []) (\<lambda>r h'. filter go_build h' = filter go_build h) E h2"
      "filter go_build h1 = filter go_build h" for f :: "string \<Rightarrow> unit prog" and h1
    using that assms [of h1] by (cases "e_shell E h1 ''command -v go >/dev/null 2>&1''") (simp add: run_def wp_bnd wp_sh_run go_build_def)
  show ?thesis
    unfolding build_orca_init_def
    by (intro wp_bnd_inv wp_ifI probe no_go_build steps_intros emits_intros refl; simp add: go_build_def)
qed

lemma orca_init_never_built_witness:
  "wp (build_orca_init ''/w/orca-init'') (\<lambda>r h'. filter go_build h' = filter go_build []) quiet_env []"
  by (rule orca_init_never_built) (simp add: quiet_env_def)

end
