(* ===== verification/Hotpool.thy ===== *)
theory Hotpool
  imports Workspace_Resources Traces
begin

text \<open>
  \<open>src/scripts/measure-jetbrains-hotpool-commands.py\<close>: a Firecracker machine is booted
  first, on a pseudo terminal; the workspace command is typed into it once its console
  is ready, and the time from there to the join URL is measured.  The script loads
  \<open>measure-jetbrains-workspace-timings.py\<close> as a module and uses its functions.
\<close>

definition WORKSPACE_MARKERS :: "string list" where
  "WORKSPACE_MARKERS =
     [''Dock HTTP Api listening'',
      ''Workspace Server listening'',
      ''Version: 261.643'',
      ''Smart Mode: enabled'',
      ''Published to JetBrains Relay: true'',
      JOIN_MARKER]"

definition now_ms :: "int prog" where
  "now_ms = bnd time_ns (\<lambda>t. ret (t div 1000000))"

definition read_nonblocking :: "int \<Rightarrow> string prog" where
  "read_nonblocking fd =
     bnd (fd_read fd) (\<lambda>a.
     case a of FdText raw \<Rightarrow> ret raw | FdAgain \<Rightarrow> ret [] | FdFail e \<Rightarrow> raise (OSError e))"

definition collect_output :: "int \<Rightarrow> string \<Rightarrow> unit prog" where
  "collect_output master_fd serial_log =
     bnd (read_nonblocking master_fd) (\<lambda>chunk. cond_do (chunk \<noteq> []) (append_text serial_log chunk))"

text \<open>One look at the log: collect what the console has printed, then read the file.\<close>

definition console_text :: "int \<Rightarrow> string \<Rightarrow> string prog" where
  "console_text master_fd serial_log =
     thn (collect_output master_fd serial_log)
     (bnd (exists_path serial_log) (\<lambda>present. if present then read_text serial_log else ret []))"

definition wait_body :: "int \<Rightarrow> string \<Rightarrow> string \<Rightarrow> unit \<Rightarrow> (unit, string) ctl prog" where
  "wait_body master_fd serial_log marker s =
     bnd (console_text master_fd serial_log) (\<lambda>logs.
     if contains marker logs then ret (Leave logs) else thn (sleep_ms 50) (ret (Continue ())))"

definition wait_for :: "int \<Rightarrow> string \<Rightarrow> string \<Rightarrow> int \<Rightarrow> string prog" where
  "wait_for master_fd serial_log marker timeout_seconds =
     bnd time_ns (\<lambda>t.
     bnd (while_before (t + sec timeout_seconds) (wait_body master_fd serial_log marker) ()) (\<lambda>r.
     case r of
       Leave logs \<Rightarrow> ret logs
     | Continue _ \<Rightarrow> raise (TimeoutError (''timed out waiting for '' @ repr_str marker))))"

definition wait_for_workspace :: "int \<Rightarrow> string \<Rightarrow> int \<Rightarrow> int \<Rightarrow> (string \<times> pydict) prog" where
  "wait_for_workspace master_fd serial_log timeout_seconds start_ms =
     bnd time_ns (\<lambda>t.
     bnd (while_before (t + sec timeout_seconds)
            (watch_body (\<lambda>logs. console_text master_fd serial_log) (\<lambda>logs first_seen. ret (logs, first_seen))
               WORKSPACE_MARKERS 50 start_ms) ([], [])) (\<lambda>r.
     case r of
       Leave result \<Rightarrow> ret result
     | Continue _ \<Rightarrow> raise (TimeoutError (''timed out waiting for '' @ repr_str JOIN_MARKER))))"

definition hotpool_boot_args :: "workspace_config \<Rightarrow> pyval \<Rightarrow> tap_net \<Rightarrow> string prog" where
  "hotpool_boot_args c image_cfg net =
     bnd (get_item image_cfg ''workdir'') (\<lambda>workdir.
     bnd (if py_true workdir then bnd (b64 workdir) (\<lambda>w. ret ('' orca.workdir_b64='' @ w)) else ret []) (\<lambda>workdir_arg.
     bnd (get_item image_cfg ''env'') (\<lambda>e.
     bnd (join_lines e) (\<lambda>env_text.
     bnd (b64 (PStr env_text)) (\<lambda>env_b64.
     bnd (get_item image_cfg ''user'') (\<lambda>u.
     bnd (b64 u) (\<lambda>user.
     ret (''root=/dev/vda rw console=ttyS0 quiet loglevel=0 reboot=k panic=1 pci=off init=/init ''
          @ ''orca.tty=1 orca.env_b64='' @ env_b64 @ '' orca.user_b64='' @ user @ workdir_arg
          @ '' orca.net_ip='' @ net_guest_cidr net @ '' orca.net_gateway='' @ net_host_ip net
          @ '' orca.net_dns='' @ GUEST_DNS c))))))))"

definition build_firecracker_config ::
  "workspace_config \<Rightarrow> string \<Rightarrow> string \<Rightarrow> pyval \<Rightarrow> tap_net \<Rightarrow> (string \<times> string \<times> string) prog" where
  "build_firecracker_config c rootfs run_dir image_cfg net =
     (let firecracker = pdiv (ASSET_DIR c) ''firecracker'';
          socket_path = pdiv run_dir ''firecracker.sock'';
          firecracker_log = pdiv run_dir ''firecracker.log'';
          config_path = pdiv run_dir ''firecracker.json''
      in
      bnd (hotpool_boot_args c image_cfg net) (\<lambda>boot_args.
      bnd (resolve_path (pdiv (ASSET_DIR c) ''vmlinux'')) (\<lambda>kernel_path.
      bnd (resolve_path rootfs) (\<lambda>rootfs_path.
      thn (write_text config_path
             (json_dumps_indent 2 (machine_config c kernel_path boot_args rootfs_path net firecracker_log)))
      (ret (firecracker, socket_path, config_path))))))"

section \<open>The session\<close>

definition hangup :: "int \<Rightarrow> unit prog" where
  "hangup master_fd =
     catching (fd_write master_fd (''sync'' @ [nl] @ ''exit'' @ [nl]))
       (\<lambda>e. case e of OSError s \<Rightarrow> Some skip | _ \<Rightarrow> None)"

definition close_pty :: "int \<Rightarrow> unit prog" where
  "close_pty master_fd =
     catching (fd_close master_fd) (\<lambda>e. case e of OSError s \<Rightarrow> Some skip | _ \<Rightarrow> None)"

definition start_hotpool :: "string \<Rightarrow> string \<Rightarrow> string \<Rightarrow> (int \<times> int) prog" where
  "start_hotpool firecracker socket_path config_path =
     bnd now_ms (\<lambda>start.
     bnd (resolve_path firecracker) (\<lambda>fc_path.
     bnd (popen [fc_path, ''--api-sock'', socket_path, ''--config-file'', config_path]) (\<lambda>pid.
     ret (pid, start))))"

definition hotpool_report ::
  "workspace_config \<Rightarrow> string \<Rightarrow> string \<Rightarrow> int \<Rightarrow> int \<Rightarrow> string \<Rightarrow> pydict \<Rightarrow> unit prog" where
  "hotpool_report c run_dir command ready_ms elapsed_ms logs first_seen =
     (let serial_log = pdiv run_dir ''serial.log'' in
      thn (print (nl # ''[firecracker-hotpool-local]''))
      (thn (print (''work_dir='' @ run_dir))
      (thn (print (''serial_log='' @ serial_log))
      (thn (print (''ready_ms='' @ str_int ready_ms))
      (thn (print (''workspace_start_to_join_ms='' @ str_int elapsed_ms))
      (thn (print (''tini_warning='' @ py_str (tini_warning logs)))
      (thn (for_all first_seen print_marker)
      (print (''SUMMARY_JSON='' @ json_dumps_sorted (PDict [
         (''kind'', PStr ''firecracker-hotpool-local''),
         (''ready_ms'', PInt ready_ms),
         (''workspace_start_to_join_ms'', PInt elapsed_ms),
         (''first_seen_ms'', PDict first_seen),
         (''command'', PStr command),
         (''tini_warning'', tini_warning logs),
         (''work_dir'', PStr run_dir),
         (''serial_log'', PStr serial_log),
         (''vcpu_count'', PInt (VCPU_COUNT c)),
         (''mem_size_mib'', PInt (MEM_SIZE_MIB c))]))))))))))"

definition type_command ::
  "workspace_config \<Rightarrow> string \<Rightarrow> string \<Rightarrow> int \<Rightarrow> int \<Rightarrow> int \<Rightarrow> unit prog" where
  "type_command c run_dir command timeout_seconds master_fd start =
     bnd now_ms (\<lambda>ready.
     bnd now_ms (\<lambda>start_workspace.
     thn (fd_write master_fd (command @ [nl]))
     (bnd (wait_for_workspace master_fd (pdiv run_dir ''serial.log'') timeout_seconds start_workspace) (\<lambda>(logs, first_seen).
      bnd now_ms (\<lambda>t.
      hotpool_report c run_dir command (ready - start) (t - start_workspace) logs first_seen)))))"

definition hotpool_session ::
  "workspace_config \<Rightarrow> string \<Rightarrow> string \<Rightarrow> int \<Rightarrow> int \<Rightarrow> int \<Rightarrow> unit prog" where
  "hotpool_session c run_dir command timeout_seconds master_fd start =
     thn (wait_for master_fd (pdiv run_dir ''serial.log'') ''orca-init: tty ready'' timeout_seconds)
       (type_command c run_dir command timeout_seconds master_fd start)"

text \<open>
  The \<open>try\<close> block of \<open>main\<close>.  What its \<open>finally\<close> clause does depends on how far the block
  came: the terminal may not be open yet, the machine not started yet.
\<close>

definition run_hotpool :: "workspace_config \<Rightarrow> string \<Rightarrow> pyval \<Rightarrow> string \<Rightarrow> int \<Rightarrow> tap_net \<Rightarrow> unit prog" where
  "run_hotpool c run_dir image_cfg command timeout_seconds net =
     bnd (on_error
            (bnd (build_firecracker_config c (pdiv run_dir ''rootfs.ext4'') run_dir image_cfg net) (\<lambda>paths.
             bnd openpty (\<lambda>fds. ret (paths, fds))))
            (cleanup_tap net)) (\<lambda>((firecracker, socket_path, config_path), (master_fd, slave_fd)).
     bnd (on_error
            (start_hotpool firecracker socket_path config_path)
            (thn (hangup master_fd) (thn (close_pty master_fd) (cleanup_tap net)))) (\<lambda>(pid, start).
     finally_do
       (thn (fd_close slave_fd) (hotpool_session c run_dir command timeout_seconds master_fd start))
       (thn (hangup master_fd)
       (thn (stop_running pid (sec 5))
       (thn (close_pty master_fd) (cleanup_tap net))))))"

definition main :: "workspace_config \<Rightarrow> string list \<Rightarrow> unit prog" where
  "main c argv =
     bnd (case argv of [] \<Rightarrow> ret 180 | a # _ \<Rightarrow> to_int a) (\<lambda>timeout_seconds.
     let command = (if length argv > 1 then join '' '' (tl argv) else ORCA_COMMAND) in
     bnd (copy_rootfs c ''hotpool.XXXXXX'' ''copying cached rootfs for hotpool run'') (\<lambda>(run_dir, image_cfg).
     bnd setup_tap (run_hotpool c run_dir image_cfg command timeout_seconds)))"

definition script :: "string list \<Rightarrow> unit prog" where
  "script argv = bnd load_config (\<lambda>c. main c argv)"

section \<open>The session ends and leaves nothing behind\<close>

lemma steps_hotpool [steps_intros]:
  "steps now_ms" "steps (read_nonblocking fd)" "steps (collect_output fd log)" "steps (console_text fd log)"
  "steps (hotpool_boot_args c v net)" "steps (build_firecracker_config c fs dir v net)"
  "steps (start_hotpool fc sock cfg)" "steps (hotpool_report c dir cmd ms ms' logs seen)"
  unfolding now_ms_def read_nonblocking_def collect_output_def console_text_def hotpool_boot_args_def
    build_firecracker_config_def start_hotpool_def hotpool_report_def
  by (intro steps_intros)+

lemma steps_hangup [steps_intros]: "steps (hangup fd)" "steps (close_pty fd)"
  unfolding hangup_def close_pty_def
  by (intro steps_intros; auto intro!: steps_intros split: exn.splits)+

interpretation ready_wait: poller "wait_body fd log marker" for fd log marker
  by unfold_locales (unfold wait_body_def, intro pauses_intros steps_intros, simp)

interpretation hotpool_watch: log_watch "\<lambda>logs. console_text fd log" "\<lambda>logs first_seen. ret (logs, first_seen)"
    WORKSPACE_MARKERS 50 start for fd log start
  by unfold_locales (intro steps_intros | simp)+

lemma keeps_hotpool [keeps_intros]:
  "keeps E now_ms" "keeps E (read_nonblocking fd)" "keeps E (collect_output fd log)" "keeps E (console_text fd log)"
  "keeps E (hotpool_boot_args c v net)" "keeps E (build_firecracker_config c fs dir v net)"
  "keeps E (hotpool_report c dir cmd ms ms' logs seen)"
  unfolding now_ms_def read_nonblocking_def collect_output_def console_text_def hotpool_boot_args_def
    build_firecracker_config_def hotpool_report_def
  by (intro keeps_intros)+

lemma keeps_hangup [keeps_intros]: "keeps E (hangup fd)" "keeps E (close_pty fd)"
  unfolding hangup_def close_pty_def
  by (intro keeps_intros; auto intro!: keeps_intros split: exn.splits)+

lemma wp_hangup: "wp (hangup fd) (\<lambda>r h'. r = Ok () \<and> (\<exists>b. h' = WriteFd fd (''sync'' @ [nl] @ ''exit'' @ [nl]) b # h)) E h"
  by (auto simp: hangup_def fd_write_def wp_simps)

lemma wp_close_pty: "wp (close_pty fd) (\<lambda>r h'. r = Ok () \<and> (\<exists>b. h' = CloseFd fd b # h)) E h"
  by (auto simp: close_pty_def fd_close_def wp_simps)

lemma wp_hangup_ok: "wp (hangup fd) (\<lambda>r h'. (\<exists>v. r = Ok v) \<and> live h' \<subseteq> live h) E h"
  by (rule wp_mono [OF wp_hangup]) auto

lemma console_spawn_free: "emits spawn_free (console_text fd log)"
  unfolding console_text_def collect_output_def read_nonblocking_def by (intro emits_intros; simp add: spawn_free_def)

lemma keeps_hotpool_waits:
  assumes "clock_law E"
  shows "keeps E (wait_for fd log marker n)" "keeps E (wait_for_workspace fd log n start)"
proof -
  have "emits spawn_free (wait_body fd log marker s)" for s
    unfolding wait_body_def by (intro emits_intros console_spawn_free; simp add: spawn_free_def)
  then show "keeps E (wait_for fd log marker n)"
    unfolding wait_for_def by (intro keeps_intros ready_wait.keeps_wait assms)
  show "keeps E (wait_for_workspace fd log n start)"
    unfolding wait_for_workspace_def
    by (intro keeps_intros hotpool_watch.keeps_watch assms console_spawn_free emits_ret)
qed

lemma keeps_session:
  assumes "clock_law E"
  shows "keeps E (type_command c dir cmd n fd start)" "keeps E (hotpool_session c dir cmd n fd start)"
  unfolding hotpool_session_def type_command_def by (intro keeps_intros keeps_hotpool_waits assms)+

lemma spawns_hotpool: "spawns E fst (start_hotpool fc sock cfg)"
  unfolding start_hotpool_def by (intro spawns_ret [OF spawns_popen] spawns_bnd keeps_intros; simp)

text \<open>
  C29: the script always ends, whatever its arguments, and every child it started, the
  Firecracker machine, has been waited for, provided the clock advances while waiting and
  a killed process ends.
\<close>

theorem hotpool_children:
  assumes "clock_law E" "kill_law E"
  shows "wp (main c argv) (\<lambda>r h'. live h' \<subseteq> live h) E h"
proof -
  have "reaps E (fst p) (finally_do (thn (fd_close slave) (hotpool_session c dir cmd n fd (snd p)))
       (thn (hangup fd) (thn (stop_running (fst p) (sec 5)) (thn (close_pty fd) (cleanup_tap net)))))" for p slave dir cmd n fd net
    by (intro reaps_finally reaps_thn_ok [OF wp_hangup_ok] reaps_thn reaps_stop_running keeps_intros keeps_session assms)
  then have "keeps E (run_hotpool c dir cfg cmd n net)" for dir cfg cmd n net
    unfolding run_hotpool_def split_beta
    by (intro keeps_spawns [OF spawns_on_error [OF spawns_hotpool]] keeps_intros)
  then have "keeps E (main c argv)"
    unfolding main_def to_int_def by (intro keeps_intros; cases argv; simp; intro keeps_intros)
  then show ?thesis by (simp add: keeps_def)
qed

lemma hotpool_children_witness:
  "clock_law quiet_env \<and> kill_law quiet_env \<and>
   wp (main sample_config [''5'']) (\<lambda>r h'. live h' \<subseteq> live []) quiet_env []"
  using hotpool_children [OF quiet_laws, of sample_config "[''5'']" "[]"] quiet_laws by blast

text \<open>
  C28: however the measured session ends (an error before the terminal is open, before the
  machine is started, or during the session), the tap interface and all three firewall
  rules have been removed.
\<close>

theorem hotpool_network_removed:
  assumes "clock_law E" "kill_law E"
  shows "wp (run_hotpool c run_dir image_cfg command n net) (\<lambda>r h'. net_gone net h') E h"
proof -
  have clean: "wp (thn (close_pty fd) (cleanup_tap net)) (\<lambda>u h'. net_gone net h') E h" for fd h
    unfolding wp_thn by (rule wp_mono [OF wp_close_pty]) (auto intro: wp_mono [OF wp_cleanup_tap])
  have unwind: "wp (thn (hangup fd) (thn (close_pty fd) (cleanup_tap net))) (\<lambda>u h'. net_gone net h') E h" for fd h
    unfolding wp_thn [of "hangup fd"] by (rule wp_mono [OF wp_hangup]) (auto intro: clean)
  have stop: "wp (thn (hangup fd) (thn (stop_running pid (sec 5)) (thn (close_pty fd) (cleanup_tap net))))
      (\<lambda>u h'. net_gone net h') E h" for fd pid h
    unfolding wp_thn [of "hangup fd"] wp_thn [of "stop_running pid (sec 5)"]
    by (rule wp_mono [OF wp_hangup]) (auto intro!: wp_mono [OF wp_stop_running_killed [OF assms(2)]] clean)
  have session: "wp (finally_do (thn (fd_close slave) (hotpool_session c run_dir command n fd start))
       (thn (hangup fd) (thn (stop_running pid (sec 5)) (thn (close_pty fd) (cleanup_tap net)))))
      (\<lambda>r h'. net_gone net h') E h" for slave fd start pid h
    by (intro wp_finally_released stop keeps_returns keeps_intros keeps_session assms)
  have net: "wp (cleanup_tap net) (\<lambda>u h'. net_gone net h') E h" for h
    by (rule wp_mono [OF wp_cleanup_tap]) simp
  show ?thesis
    unfolding run_hotpool_def split_beta
    by (intro wp_released net unwind session steps_intros)
qed

lemma hotpool_network_removed_witness:
  "clock_law quiet_env \<and> kill_law quiet_env \<and>
   wp (run_hotpool sample_config ''/w/run'' PNone ''true'' 5 (tap_net_of 180 1000 2))
     (\<lambda>r h'. net_gone (tap_net_of 180 1000 2) h') quiet_env []"
  using hotpool_network_removed [OF quiet_laws, of sample_config "''/w/run''" PNone "''true''" 5 "tap_net_of 180 1000 2" "[]"] quiet_laws
  by blast

section \<open>The command is typed at a console that is ready\<close>

text \<open>Something other than the farewell is typed into the terminal.\<close>

definition types :: "event \<Rightarrow> bool" where
  "types ev = (case ev of WriteFd fd s b \<Rightarrow> s \<noteq> ''sync'' @ [nl] @ ''exit'' @ [nl] | _ \<Rightarrow> False)"

definition reads :: "string \<Rightarrow> string \<Rightarrow> event \<Rightarrow> bool" where
  "reads log marker ev = (case ev of ReadText p (Some l) \<Rightarrow> p = log \<and> contains marker l | _ \<Rightarrow> False)"

lemma quiet_pieces:
  "emits (\<lambda>ev. \<not> types ev) (console_text fd log)" "emits (\<lambda>ev. \<not> types ev) (hangup fd)"
  "emits (\<lambda>ev. \<not> types ev) (close_pty fd)" "emits (\<lambda>ev. \<not> types ev) (cleanup_tap net)"
  "emits (\<lambda>ev. \<not> types ev) (stop_running pid d)" "emits (\<lambda>ev. \<not> types ev) now_ms"
  "emits (\<lambda>ev. \<not> types ev) (start_hotpool fc sock cfg)"
  "emits (\<lambda>ev. \<not> types ev) (build_firecracker_config c fs dir v net)"
proof -
  show n: "emits (\<lambda>ev. \<not> types ev) now_ms" unfolding now_ms_def by (intro emits_intros; simp add: types_def)
  show "emits (\<lambda>ev. \<not> types ev) (console_text fd log)"
    unfolding console_text_def collect_output_def read_nonblocking_def by (intro emits_intros; simp add: types_def)
  show "emits (\<lambda>ev. \<not> types ev) (hangup fd)" "emits (\<lambda>ev. \<not> types ev) (close_pty fd)"
    unfolding hangup_def close_pty_def
    by (intro emits_intros; auto simp: types_def intro!: emits_intros split: exn.splits)+
  show "emits (\<lambda>ev. \<not> types ev) (cleanup_tap net)"
    unfolding cleanup_tap_def by (intro emits_intros; simp add: types_def)
  show "emits (\<lambda>ev. \<not> types ev) (stop_running pid d)"
    unfolding stop_running_def stop_within_def terminate_or_kill_def
    by (intro emits_intros; auto simp: types_def on_timeout_def intro!: emits_intros split: exn.splits)
  show "emits (\<lambda>ev. \<not> types ev) (start_hotpool fc sock cfg)"
    unfolding start_hotpool_def by (intro emits_intros n; simp add: types_def)
  show "emits (\<lambda>ev. \<not> types ev) (build_firecracker_config c fs dir v net)"
    unfolding build_firecracker_config_def hotpool_boot_args_def join_lines_def b64_def
    by (intro emits_intros; simp add: types_def emits_ret emits_raise split: pyval.split)
qed

lemma wp_console_text:
  "wp (console_text fd log) (\<lambda>r h'. \<forall>l. r = Ok l \<longrightarrow> l = [] \<or> (\<exists>h1. h' = ReadText log (Some l) # h1)) E h"
  unfolding console_text_def
  by (rule wp_thn_later [OF steps_hotpool(3)])
    (auto simp: exists_path_def read_text_def wp_simps split: option.split)

lemma wp_wait_for:
  assumes "clock_law E" "marker \<noteq> []"
  shows "wp (wait_for fd log marker n) (\<lambda>r h'. (\<exists>v. r = Ok v) \<longrightarrow> (\<exists>ks. h' = ks @ h \<and> list_ex (reads log marker) ks)) E h"
proof -
  let ?Q = "\<lambda>r h'. case r of Ok (Leave v) \<Rightarrow> \<exists>ks. h' = ks @ h \<and> list_ex (reads log marker) ks | _ \<Rightarrow> True"
  have "wp (while_before (e_clock E h + sec n) (wait_body fd log marker) ()) ?Q E (Clock (e_clock E h) # h)"
  proof (rule ready_wait.wp_wait [where I = "\<lambda>s h1. suffix h h1", OF assms(1)])
    fix s h1 t
    assume "suffix h h1"
    then have s: "suffix h (Clock t # h1)" by (simp add: suffix_Cons)
    have "wp (console_text fd log) (\<lambda>r h'. (\<forall>l. r = Ok l \<longrightarrow> l = [] \<or> (\<exists>h1. h' = ReadText log (Some l) # h1))
        \<and> suffix (Clock t # h1) h') E (Clock t # h1)"
      using steps_hotpool(4) [of fd log] wp_console_text [of fd log] by (simp add: wp_conj steps_def)
    then show "wp (wait_body fd log marker s) (\<lambda>r h'. case r of Exc e \<Rightarrow> ?Q (Exc e) h' | Ok (Leave x) \<Rightarrow> ?Q (Ok (Leave x)) h'
        | Ok (Continue s') \<Rightarrow> suffix h h') E (Clock t # h1)"
      unfolding wait_body_def wp_bnd
    proof (rule wp_mono)
      fix r h'
      assume a: "(\<forall>l. r = Ok l \<longrightarrow> l = [] \<or> (\<exists>h1. h' = ReadText log (Some l) # h1)) \<and> suffix (Clock t # h1) h'"
      have h': "suffix h h'" using a s suffix_order.trans by blast
      then obtain ks where ks: "h' = ks @ h" by (auto simp: suffix_def)
      have "\<exists>ks. h' = ks @ h \<and> list_ex (reads log marker) ks" if l: "r = Ok l" "contains marker l" for l
      proof -
        have "l \<noteq> []" using l(2) assms(2) by (cases marker) auto
        then obtain h2 where h2: "h' = ReadText log (Some l) # h2" using a l(1) by blast
        have "length h < length h'"
          using a \<open>suffix h h1\<close> by (auto dest!: suffix_length_le)
        then obtain ks' where "ks = ReadText log (Some l) # ks'" using ks h2 by (cases ks) auto
        then show ?thesis using ks l(2) by (intro exI [of _ ks]) (simp add: reads_def)
      qed
      then show "case r of
          Ok x \<Rightarrow> wp (if contains marker x then ret (Leave x) else thn (sleep_ms 50) (ret (Continue ())))
             (\<lambda>r h'. case r of Exc e \<Rightarrow> ?Q (Exc e) h' | Ok (Leave x) \<Rightarrow> ?Q (Ok (Leave x)) h' | Ok (Continue s') \<Rightarrow> suffix h h') E h'
        | Exc e \<Rightarrow> (case Exc e of Exc e \<Rightarrow> ?Q (Exc e) h' | Ok (Leave x) \<Rightarrow> ?Q (Ok (Leave x)) h' | Ok (Continue s') \<Rightarrow> suffix h h')"
        using h' by (auto simp: wp_ret wp_thn sleep_ms_def tell_def wp_answer suffix_Cons split: outcome.split)
    qed
  qed (simp_all add: suffix_Cons)
  then show ?thesis
    unfolding wait_for_def wp_bnd_time unfolding wp_bnd
    by (rule wp_mono) (case_tac r rule: ctl_outcome_cases; simp add: wp_ret wp_raise)
qed


lemma extends_type_command: "extends (type_command c dir cmd n fd start)"
proof -
  have "extends (wait_for_workspace fd log n s)" for log s
    unfolding wait_for_workspace_def watch_body_def
    by (intro extends_while emits_bnd emits_case_ctl emits_raise emits_ret emits_if emits_thn emits_prims TrueI
        steps_extends [OF steps_hotpool(4)] steps_extends [OF hotpool_watch.steps_remember])
  then show ?thesis
    unfolding type_command_def
    by (intro emits_bnd emits_thn emits_case_prod emits_prims TrueI steps_extends [OF steps_hotpool(1)]
        steps_extends [OF steps_hotpool(8)])
qed

text \<open>
  C10: nothing but the farewell is typed into the terminal before the serial log has been
  read with the line that says the guest's console is ready.
\<close>

theorem command_typed_when_ready:
  assumes "clock_law E"
  shows "ordered E types (reads (pdiv run_dir ''serial.log'') ''orca-init: tty ready'')
           (run_hotpool c run_dir image_cfg command n net)"
proof -
  let ?R = "reads (pdiv run_dir ''serial.log'') ''orca-init: tty ready''"
  have quiet: "ordered E types ?R m" if "steps m" "emits (\<lambda>ev. \<not> types ev) m" for m :: "'b prog"
    by (rule ordered_emits [OF steps_returns [OF that(1)] that(2)])
  have w: "emits (\<lambda>ev. \<not> types ev) (wait_for fd log marker n)" for fd log marker
    unfolding wait_for_def wait_body_def
    by (intro emits_while_before emits_intros quiet_pieces; simp add: types_def)
  have session: "ordered E types ?R (hotpool_session c run_dir command n fd start)" for fd start
    unfolding hotpool_session_def
    by (rule ordered_after [OF w extends_type_command keeps_returns [OF keeps_session(1) [OF assms]] wp_wait_for [OF assms]]) simp
  show ?thesis
    unfolding run_hotpool_def split_beta
    by (intro ordered_bnd ordered_thn ordered_finally session quiet steps_intros emits_on_error emits_bnd emits_thn emits_ret
        quiet_pieces emits_prims; simp add: types_def)
qed

lemma command_typed_when_ready_witness:
  "clock_law quiet_env \<and>
   ordered quiet_env types (reads (pdiv ''/w/run'' ''serial.log'') ''orca-init: tty ready'')
     (run_hotpool sample_config ''/w/run'' PNone ''true'' 5 (tap_net_of 180 1000 2))"
  using command_typed_when_ready [OF quiet_clock, of "''/w/run''" sample_config PNone "''true''" 5 "tap_net_of 180 1000 2"] quiet_clock
  by blast

end
