(* ===== verification/Docker_Nbd.thy ===== *)
theory Docker_Nbd
  imports Workspace_Resources
begin

text \<open>
  \<open>src/scripts/measure-jetbrains-docker-nbd.py\<close>: a temporary \<open>dockerd\<close> and \<open>containerd\<close>
  keep their data on a file system on a network block device, served by
  \<open>local-nbd-file-server\<close>; the time until the workspace prints its join URL is
  measured in a container of that \<open>dockerd\<close>.
\<close>

section \<open>Configuration\<close>

record nbd_config =
  IMAGE :: string
  WORK_PARENT :: string
  NBD_SERVER_BIN :: string
  NBD_SIZE_MB :: int
  NBD_MODE :: string
  NBD_PORT :: int
  TIMEOUT_SECONDS :: int
  DOCKERD_WAIT_SECONDS :: int

definition load_config :: "nbd_config prog" where
  "load_config =
     bnd (env_get ''IMAGE'' ''registry.jetbrains.team/p/fleet/docker-public/air-workspace-linux_x64:261.643'') (\<lambda>image.
     bnd (env_path ''WORK_PARENT'' ''.tmp/jetbrains-docker-nbd-timings'') (\<lambda>work_parent.
     bnd (env_path ''NBD_SERVER_BIN'' ''.tmp/firecracker-file-vs-nbd/local-nbd-file-server'') (\<lambda>server_bin.
     bnd (env_int ''NBD_SIZE_MB'' ''16384'') (\<lambda>size_mb.
     bnd (env_get ''NBD_MODE'' ''range'') (\<lambda>mode.
     bnd (env_int ''NBD_PORT'' ''12191'') (\<lambda>port.
     bnd (env_int ''TIMEOUT_SECONDS'' ''260'') (\<lambda>timeout.
     bnd (env_int ''DOCKERD_WAIT_SECONDS'' ''40'') (\<lambda>dockerd_wait.
     ret \<lparr>IMAGE = image, WORK_PARENT = work_parent, NBD_SERVER_BIN = server_bin, NBD_SIZE_MB = size_mb,
          NBD_MODE = mode, NBD_PORT = port, TIMEOUT_SECONDS = timeout, DOCKERD_WAIT_SECONDS = dockerd_wait\<rparr>))))))))"

section \<open>Small operations\<close>

definition q :: "string \<Rightarrow> string" where
  "q value = shlex_quote value"

definition now_ms :: "int prog" where
  "now_ms = bnd time_ns (\<lambda>t. ret (t div 1000000))"

definition run :: "string \<Rightarrow> bool \<Rightarrow> string prog" where
  "run cmd check = logged_run cmd check"

definition ensure_nbd_server :: "nbd_config \<Rightarrow> unit prog" where
  "ensure_nbd_server c =
     (let bin = NBD_SERVER_BIN c;
          build = thn (run (''CGO_ENABLED=0 GOOS=linux GOARCH=amd64 go build -trimpath -ldflags ''
                    @ [squote] @ ''-s -w'' @ [squote] @ '' -o '' @ q bin @ '' ./cmd/local-nbd-file-server'') True) skip
      in
      bnd (exists_path bin) (\<lambda>present.
      if present
      then bnd (run (q bin @ '' -h 2>&1 || true'') False) (\<lambda>help_text.
           if contains ''-stats'' help_text then skip
           else thn (print ''rebuilding stale local-nbd-file-server without -stats support'') build)
      else thn (mkdirs (path_parent bin)) build))"

text \<open>\<open>sorted(paths, key=lambda p: int(p.name[3:]))\<close>: the keys first, then a stable sort.\<close>

definition numbered :: "string list \<Rightarrow> (int \<times> string) list prog" where
  "numbered paths =
     for_each paths [] (\<lambda>p keyed. bnd (to_int (drop 3 (path_name p))) (\<lambda>n. ret (keyed @ [(n, p)])))"

definition first_free :: "string list \<Rightarrow> string prog" where
  "first_free paths =
     bnd (for_until paths () (\<lambda>p _.
            bnd (exists_path (pdiv p ''pid'')) (\<lambda>busy.
            ret (if busy then Continue () else Leave (''/dev/'' @ path_name p))))) (\<lambda>r.
     case r of
       Leave device \<Rightarrow> ret device
     | Continue _ \<Rightarrow> raise (RuntimeError ''no free /dev/nbdX device found''))"

definition find_free_nbd :: "string prog" where
  "find_free_nbd =
     bnd (env_opt ''NBD_DEVICE'') (\<lambda>explicit.
     if explicit \<noteq> None \<and> the explicit \<noteq> [] then ret (the explicit)
     else bnd (glob_paths ''/sys/block/nbd*'') (\<lambda>paths.
          bnd (numbered paths) (\<lambda>keyed. first_free (map snd (sort_key fst keyed)))))"

definition dockerd_body :: "string \<Rightarrow> string \<Rightarrow> (string, unit) ctl prog" where
  "dockerd_body sock last_out =
     bnd (run (''docker -H unix://'' @ q sock @ '' info >/dev/null 2>&1 && echo ok || true'') False) (\<lambda>raw.
     let out = strip raw in
     if out = ''ok'' then ret (Leave ()) else thn (sleep_ms 1000) (ret (Continue out)))"

definition wait_for_dockerd :: "nbd_config \<Rightarrow> string \<Rightarrow> unit prog" where
  "wait_for_dockerd c sock =
     bnd time_ns (\<lambda>t.
     bnd (while_before (t + sec (DOCKERD_WAIT_SECONDS c)) (dockerd_body sock) []) (\<lambda>r.
     case r of
       Leave _ \<Rightarrow> skip
     | Continue last_out \<Rightarrow> raise (RuntimeError (''temporary dockerd did not become ready: '' @ last_out))))"

section \<open>The measurement\<close>

definition markers :: "string list" where
  "markers =
     [''Dock HTTP Api listening'',
      ''Workspace Server listening'',
      ''Version: 261.643'',
      ''Smart Mode: enabled'',
      ''Published to JetBrains Relay: true'',
      JOIN_MARKER]"

definition remember_markers :: "pydict \<Rightarrow> string \<Rightarrow> int \<Rightarrow> pydict prog" where
  "remember_markers first_seen logs start_ms =
     bnd now_ms (\<lambda>t.
     let elapsed = t - start_ms in
     ret (fold (\<lambda>marker seen.
            if map_of seen marker = None \<and> contains marker logs
            then dict_set seen marker (PInt elapsed) else seen) markers first_seen))"

definition container_logs :: "string \<Rightarrow> string \<Rightarrow> string \<Rightarrow> string prog" where
  "container_logs sock name logs = run (''docker -H unix://'' @ q sock @ '' logs '' @ q name @ '' 2>&1'') False"

definition container_joined :: "string \<Rightarrow> string \<Rightarrow> int \<Rightarrow> string \<Rightarrow> pydict \<Rightarrow> pyval prog" where
  "container_joined name cid start logs first_seen =
     bnd now_ms (\<lambda>t.
     ret (PDict [
       (''kind'', PStr ''docker-nbd''),
       (''container'', PStr name),
       (''container_id'', PStr cid),
       (''elapsed_ms'', PInt (t - start)),
       (''first_seen_ms'', PDict first_seen),
       (''tini_warning'', tini_warning logs)]))"

definition container_rm :: "string \<Rightarrow> string \<Rightarrow> unit prog" where
  "container_rm sock name =
     thn (run (''docker -H unix://'' @ q sock @ '' rm -f '' @ q name @ '' >/dev/null 2>&1 || true'') False) skip"

definition container_body ::
  "string \<Rightarrow> string \<Rightarrow> string \<Rightarrow> int \<Rightarrow> string \<times> pydict \<Rightarrow> (string \<times> pydict, pyval) ctl prog" where
  "container_body sock name cid start s =
     bnd (container_logs sock name (fst s)) (\<lambda>logs.
     bnd (remember_markers (snd s) logs start) (\<lambda>first_seen.
     if contains JOIN_MARKER logs
     then bnd (container_joined name cid start logs first_seen) (\<lambda>result. ret (Leave result))
     else thn (sleep_ms 1000) (ret (Continue (logs, first_seen)))))"

definition wait_container :: "nbd_config \<Rightarrow> string \<Rightarrow> string \<Rightarrow> string \<Rightarrow> int \<Rightarrow> pyval prog" where
  "wait_container c sock name cid start =
     bnd time_ns (\<lambda>t0.
     bnd (while_before (t0 + sec (TIMEOUT_SECONDS c))
            (container_body sock name cid start) ([], [])) (\<lambda>r.
     case r of
       Leave result \<Rightarrow> ret result
     | Continue s \<Rightarrow>
         bnd now_ms (\<lambda>t.
         ret (PDict [
           (''kind'', PStr ''docker-nbd''),
           (''error'', PStr ''timeout''),
           (''elapsed_ms'', PInt (t - start)),
           (''first_seen_ms'', PDict (snd s))]))))"

definition measure_container :: "nbd_config \<Rightarrow> string \<Rightarrow> pyval prog" where
  "measure_container c sock =
     bnd time_ns (\<lambda>t.
     let name = ''orca-air-workspace-nbd-'' @ str_int (to_ms t) in
     bnd now_ms (\<lambda>start.
     thn (container_rm sock name)
     (bnd (run (''docker -H unix://'' @ q sock @ '' run -d --network host --name '' @ q name @ '' '' @ q (IMAGE c)) True) (\<lambda>out.
      finally_do (wait_container c sock name (strip out) start) (container_rm sock name)))))"

definition print_result :: "pyval \<Rightarrow> unit prog" where
  "print_result result =
     bnd (get_item result ''kind'') (\<lambda>kind.
     thn (print (nl # ''['' @ py_str kind @ '']''))
     (bnd (get_or result ''error'' PNone) (\<lambda>err.
      thn (if py_true err
           then bnd (get_item result ''elapsed_ms'') (\<lambda>ms.
                print (''error='' @ py_str err @ '' elapsed_ms='' @ py_str ms))
           else bnd (get_item result ''elapsed_ms'') (\<lambda>ms.
                thn (print (''elapsed_to_join_ms='' @ py_str ms))
                (bnd (get_or result ''tini_warning'' PNone) (\<lambda>tini. print (''tini_warning='' @ py_str tini)))))
      (bnd (get_or result ''first_seen_ms'' (PDict [])) (\<lambda>seen.
       bnd (as_obj seen) (\<lambda>items. for_all items print_marker))))))"

section \<open>The rig\<close>

text \<open>The \<open>try\<close> block of \<open>main\<close>, cut where a resource that its \<open>finally\<close> clause undoes is acquired.\<close>

definition backing :: "string \<Rightarrow> string" where
  "backing work = pdiv work ''docker-data-root.img''"

definition server_argv :: "nbd_config \<Rightarrow> string \<Rightarrow> string list" where
  "server_argv c work =
     [NBD_SERVER_BIN c,
      ''-addr'', ''127.0.0.1:'' @ str_int (NBD_PORT c),
      ''-file'', backing work,
      ''-export'', ''docker-data-root'',
      ''-mode'', NBD_MODE c,
      ''-stats'', pdiv work ''nbd-stats.json'']"

definition start_server :: "nbd_config \<Rightarrow> string \<Rightarrow> int prog" where
  "start_server c work =
     thn (run (''truncate -s '' @ str_int (NBD_SIZE_MB c) @ ''M '' @ q (backing work)) True)
     (popen (server_argv c work))"

definition attach_cmd :: "nbd_config \<Rightarrow> string \<Rightarrow> string" where
  "attach_cmd c device = ''nbd-client 127.0.0.1 '' @ str_int (NBD_PORT c) @ '' '' @ q device @ '' -N docker-data-root''"

definition attach_device :: "nbd_config \<Rightarrow> string \<Rightarrow> unit prog" where
  "attach_device c device = thn (sleep_ms 1000) (thn (run (attach_cmd c device) True) skip)"

definition mount_dir :: "string \<Rightarrow> string" where
  "mount_dir work = pdiv work ''mnt''"

definition mount_cmd :: "string \<Rightarrow> string \<Rightarrow> string" where
  "mount_cmd work device = ''mount '' @ q device @ '' '' @ q (mount_dir work)"

definition mount_device :: "string \<Rightarrow> string \<Rightarrow> unit prog" where
  "mount_device work device =
     thn (run (''mkfs.ext4 -q -F '' @ q device) True)
     (thn (mkdirs (mount_dir work))
     (thn (run (mount_cmd work device) True) skip))"

definition data_root :: "string \<Rightarrow> string" where
  "data_root work = pdiv (mount_dir work) ''data-root''"

definition containerd_root :: "string \<Rightarrow> string" where
  "containerd_root work = pdiv (mount_dir work) ''containerd-root''"

definition exec_root :: "string \<Rightarrow> string" where
  "exec_root work = pdiv work ''exec-root''"

definition containerd_state :: "string \<Rightarrow> string" where
  "containerd_state work = pdiv work ''containerd-state''"

definition containerd_sock :: "string \<Rightarrow> string" where
  "containerd_sock work = pdiv work ''containerd.sock''"

definition containerd_cmd :: "string \<Rightarrow> string list" where
  "containerd_cmd work =
     [''containerd'',
      ''--address'', containerd_sock work,
      ''--root'', containerd_root work,
      ''--state'', containerd_state work,
      ''--log-level'', ''warn'']"

definition start_containerd :: "string \<Rightarrow> int prog" where
  "start_containerd work =
     thn (mkdirs (data_root work))
     (thn (mkdirs (containerd_root work))
     (thn (mkdirs (exec_root work))
     (thn (mkdirs (containerd_state work))
     (popen (containerd_cmd work)))))"

definition wait_containerd :: "nbd_config \<Rightarrow> string \<Rightarrow> unit prog" where
  "wait_containerd c sock =
     thn (for_until [0..<nat (DOCKERD_WAIT_SECONDS c)] () (\<lambda>_ _.
            bnd (exists_path sock) (\<lambda>present.
            if present then ret (Leave ()) else thn (sleep_ms 1000) (ret (Continue ())))))
     (bnd (exists_path sock) (\<lambda>present.
      if present then skip else raise (RuntimeError ''temporary containerd socket did not appear'')))"

definition dockerd_cmd :: "string \<Rightarrow> string \<Rightarrow> string list" where
  "dockerd_cmd work started_at =
     [''dockerd'',
      ''--host'', ''unix://'' @ pdiv work ''docker.sock'',
      ''--data-root'', data_root work,
      ''--exec-root'', exec_root work,
      ''--pidfile'', pdiv work ''dockerd.pid'',
      ''--containerd'', containerd_sock work,
      ''--containerd-namespace'', ''orca-docker-nbd-'' @ started_at,
      ''--bridge'', ''none'',
      ''--iptables=false'',
      ''--ip-masq=false'']"

definition start_dockerd :: "nbd_config \<Rightarrow> string \<Rightarrow> string \<Rightarrow> int prog" where
  "start_dockerd c work started_at =
     thn (wait_containerd c (containerd_sock work)) (popen (dockerd_cmd work started_at))"

definition with_run_info :: "nbd_config \<Rightarrow> string \<Rightarrow> string \<Rightarrow> pyval \<Rightarrow> pyval prog" where
  "with_run_info c work device result =
     bnd (as_dict result) (\<lambda>d.
     ret (PDict (dict_update d [
       (''image'', PStr (IMAGE c)),
       (''nbd_device'', PStr device),
       (''nbd_mode'', PStr (NBD_MODE c)),
       (''nbd_size_mb'', PInt (NBD_SIZE_MB c)),
       (''work_dir'', PStr work)])))"

definition load_and_measure :: "nbd_config \<Rightarrow> string \<Rightarrow> string \<Rightarrow> unit prog" where
  "load_and_measure c work device =
     (let sock = pdiv work ''docker.sock'' in
      thn (wait_for_dockerd c sock)
      (thn (print ''loading image into temporary NBD-backed dockerd'')
      (thn (run (''docker image inspect '' @ q (IMAGE c) @ '' >/dev/null'') True)
      (thn (run (''docker save '' @ q (IMAGE c) @ '' | docker -H unix://'' @ q sock @ '' load'') True)
      (thn (print (''measuring docker on NBD-backed data-root until '' @ repr_str JOIN_MARKER))
      (bnd (measure_container c sock) (\<lambda>measured.
       bnd (with_run_info c work device measured) (\<lambda>result.
       thn (print_result result)
       (let raw = json_dumps_sorted result in
        thn (write_text (pdiv work ''result.json'') (raw @ [nl]))
        (thn (print (nl # ''SUMMARY_JSON='' @ raw))
        (print (''work_dir='' @ work))))))))))))"

definition umount_cmd :: "string \<Rightarrow> string" where
  "umount_cmd work = ''umount '' @ q (mount_dir work)"

definition detach_cmd :: "string \<Rightarrow> string" where
  "detach_cmd device = ''nbd-client -d '' @ q device"

definition stop_daemon :: "int option \<Rightarrow> int \<Rightarrow> int \<Rightarrow> unit prog" where
  "stop_daemon proc limit kill_limit =
     (case proc of None \<Rightarrow> skip | Some pid \<Rightarrow> stop_within pid (sec limit) (sec kill_limit))"

definition tidy ::
  "string \<Rightarrow> string \<Rightarrow> int option \<Rightarrow> int option \<Rightarrow> bool \<Rightarrow> bool \<Rightarrow> int option \<Rightarrow> unit prog" where
  "tidy work device dockerd_proc containerd_proc mounted attached nbd_proc =
     thn (stop_daemon dockerd_proc 15 10)
     (thn (stop_daemon containerd_proc 15 10)
     (thn (cond_do mounted (thn (run (umount_cmd work) False) skip))
     (thn (cond_do attached (thn (run (detach_cmd device) False) skip))
     (thn (stop_daemon nbd_proc 10 5)
     (thn (close_file (pdiv work ''nbd-server.log''))
     (thn (close_file (pdiv work ''containerd.log''))
     (close_file (pdiv work ''dockerd.log''))))))))"

definition run_rig :: "nbd_config \<Rightarrow> string \<Rightarrow> string \<Rightarrow> string \<Rightarrow> unit prog" where
  "run_rig c work started_at device =
     bnd (on_error (start_server c work) (tidy work device None None False False None)) (\<lambda>nbd.
     thn (on_error (attach_device c device) (tidy work device None None False False (Some nbd)))
     (thn (on_error (mount_device work device) (tidy work device None None False True (Some nbd)))
     (bnd (on_error (start_containerd work) (tidy work device None None True True (Some nbd))) (\<lambda>containerd.
      bnd (on_error (start_dockerd c work started_at) (tidy work device None (Some containerd) True True (Some nbd))) (\<lambda>dockerd.
      finally_do
        (load_and_measure c work device)
        (tidy work device (Some dockerd) (Some containerd) True True (Some nbd)))))))"

definition main :: "nbd_config \<Rightarrow> unit prog" where
  "main c =
     bnd geteuid (\<lambda>uid.
     if uid \<noteq> 0 then raise (SystemExit (PStr ''run as root; this script mounts NBD and starts a temporary dockerd''))
     else thn (ensure_nbd_server c)
     (bnd time_ns (\<lambda>t.
      let started_at = compact_stamp t in
      bnd (resolve_path (pdiv (WORK_PARENT c) started_at)) (\<lambda>work.
      thn (mkdirs work)
      (thn (open_file (pdiv work ''nbd-server.log'') ''w'')
      (thn (open_file (pdiv work ''containerd.log'') ''w'')
      (thn (open_file (pdiv work ''dockerd.log'') ''w'')
      (bnd find_free_nbd (\<lambda>device.
       run_rig c work started_at device)))))))))"

definition script :: "unit prog" where
  "script = bnd load_config main"

section \<open>Pieces that always return\<close>

lemma steps_numbered [steps_intros]: "steps (numbered paths)" "steps (first_free paths)" "steps find_free_nbd"
  unfolding find_free_nbd_def env_opt_def numbered_def first_free_def to_int_def by (intro steps_intros)+

lemma steps_nbd [steps_intros]:
  "steps now_ms" "steps (run cmd ck)" "steps (ensure_nbd_server c)" "steps (dockerd_body sock out)"
  "steps (container_logs sock name l)" "steps (container_joined name cid start l seen)" "steps (container_rm sock name)"
  "steps (print_result v)" "steps (attach_device c device)" "steps (mount_device work device)"
  "steps (wait_containerd c sock)" "steps (with_run_info c work device v)" "steps (stop_daemon proc a b)"
  unfolding now_ms_def run_def ensure_nbd_server_def Let_def dockerd_body_def container_logs_def container_joined_def
    container_rm_def print_result_def
    attach_device_def mount_device_def wait_containerd_def with_run_info_def stop_daemon_def
  by (intro steps_intros)+

lemma steps_rig [steps_intros]:
  "steps (start_server c work)" "steps (start_containerd work)" "steps (start_dockerd c work started_at)"
  "steps (tidy work device dockerd ctrd m a nbd)"
  unfolding start_server_def start_containerd_def start_dockerd_def tidy_def by (intro steps_intros)+

lemma remember_markers_watch:
  "remember_markers seen logs start = Workspace_Timings.remember_markers seen logs start server_markers"
  unfolding remember_markers_def Workspace_Timings.remember_markers_def remember_at_def markers_def server_markers_def
    now_ms_def Workspace_Timings.now_ms_def Let_def ..

lemma loop_watch:
  "container_body sock name cid start =
     watch_body (container_logs sock name) (container_joined name cid start) server_markers 1000 start"
  by (rule ext) (simp only: container_body_def watch_body_def remember_markers_watch)


interpretation dockerd_wait: poller "dockerd_body sock" for sock
  by unfold_locales (unfold dockerd_body_def run_def Let_def, intro pauses_intros steps_intros, simp)

interpretation container_watch: report_watch "container_logs sock name" "container_joined name cid start" server_markers 1000 start "''docker-nbd''"
  for sock name cid start
proof unfold_locales
  show "steps (container_logs sock name l)" "steps (container_joined name cid start l s)" for l s
    by (intro steps_intros)+
  show "container_joined name cid start logs seen E h = Some (Ok v, h') \<Longrightarrow>
      \<exists>d h1. v = PDict d \<and> map_of d ''kind'' = Some (PStr ''docker-nbd'') \<and> map_of d ''elapsed_ms'' = Some (PInt (e_clock E h1 div 1000000 - start))
        \<and> map_of d ''first_seen_ms'' = Some (PDict seen) \<and> map_of d ''error'' = None
        \<and> suffix h h1 \<and> suffix h1 h'" for logs seen E h v h'
    by (auto simp: container_joined_def now_ms_def time_ns_def bnd_def answer_def ret_def Let_def suffix_Cons)
qed simp

section \<open>Children\<close>

lemma keeps_nbd [keeps_intros]:
  "keeps E now_ms" "keeps E (run cmd ck)" "keeps E (ensure_nbd_server c)" "keeps E (numbered paths)" "keeps E (first_free paths)"
  "keeps E find_free_nbd" "keeps E (container_rm sock name)" "keeps E (print_result v)"
  "keeps E (attach_device c device)" "keeps E (mount_device work device)" "keeps E (wait_containerd c sock)"
  "keeps E (with_run_info c work device v)"
  unfolding now_ms_def run_def ensure_nbd_server_def Let_def find_free_nbd_def env_opt_def numbered_def first_free_def to_int_def
    container_rm_def print_result_def attach_device_def mount_device_def wait_containerd_def with_run_info_def
  by (intro keeps_intros)+

lemma keeps_nbd_waits:
  assumes "clock_law E"
  shows "keeps E (wait_for_dockerd c sock)" "keeps E (wait_container c sock name cid start)"
proof -
  have "emits spawn_free (dockerd_body sock s)" for s
    unfolding dockerd_body_def run_def Let_def by (intro emits_intros; simp add: spawn_free_def)
  then show "keeps E (wait_for_dockerd c sock)"
    unfolding wait_for_dockerd_def by (intro keeps_intros dockerd_wait.keeps_wait assms)
  have "emits spawn_free (container_logs sock name l)" "emits spawn_free (container_joined name cid start l seen)" for l seen
    unfolding container_logs_def container_joined_def run_def now_ms_def by (intro emits_intros; simp add: spawn_free_def)+
  then show "keeps E (wait_container c sock name cid start)"
    unfolding wait_container_def loop_watch by (intro keeps_intros container_watch.keeps_watch assms)
qed

lemma keeps_load_and_measure: "clock_law E \<Longrightarrow> keeps E (load_and_measure c work device)"
  unfolding load_and_measure_def measure_container_def Let_def by (intro keeps_intros keeps_nbd_waits)

lemma wp_stop_daemon_ok:
  assumes "kill_law E"
  shows "wp (stop_daemon proc a b) (\<lambda>r h'. (\<exists>v. r = Ok v) \<and> live h' \<subseteq> live h) E h"
proof (cases proc)
  case (Some pid)
  have "wp (stop_within pid (sec a) (sec b)) (\<lambda>r h'. (r = Ok () \<and> reaped pid h' \<and> suffix h h') \<and> live h' \<subseteq> live h - {pid}) E h"
    by (rule iffD2 [OF wp_conj conjI [OF wp_stop_within_killed [OF assms] reapsD [OF reaps_stop_within [OF assms] order_refl]]])
  then show ?thesis unfolding Some stop_daemon_def option.case by (rule wp_mono) auto
qed (simp add: stop_daemon_def wp_skip)

lemma reaps_stop_daemon: "kill_law E \<Longrightarrow> reaps E p (stop_daemon (Some p) a b)"
  by (simp add: stop_daemon_def reaps_stop_within)

lemma keeps_stop_daemon: "kill_law E \<Longrightarrow> keeps E (stop_daemon proc a b)"
  unfolding keeps_def by (blast intro: wp_mono [OF wp_stop_daemon_ok])

lemma wp_run_unchecked: "wp (cond_do m (thn (run cmd False) skip)) (\<lambda>r h'. (\<exists>v. r = Ok v) \<and> live h' \<subseteq> live h) E h"
  by (simp add: run_def wp_logged_run wp_simps)

lemma keeps_tidy: "kill_law E \<Longrightarrow> keeps E (tidy work device dockerd ctrd m a nbd)"
  unfolding tidy_def by (intro keeps_intros keeps_stop_daemon)

lemma reaps_tidy:
  assumes "kill_law E"
  shows "reaps E p (tidy work device (Some p) ctrd m a nbd)" "reaps E p (tidy work device dockerd (Some p) m a nbd)"
    "reaps E p (tidy work device dockerd ctrd m a (Some p))"
proof -
  note ok = reaps_thn_ok [OF wp_stop_daemon_ok [OF assms]] reaps_thn_ok [OF wp_run_unchecked]
  note rest = keeps_intros keeps_stop_daemon [OF assms] reaps_stop_daemon [OF assms]
  show "reaps E p (tidy work device (Some p) ctrd m a nbd)"
    unfolding tidy_def by (rule reaps_thn; intro rest)
  show "reaps E p (tidy work device dockerd (Some p) m a nbd)"
    unfolding tidy_def by (rule ok, rule reaps_thn; intro rest)
  show "reaps E p (tidy work device dockerd ctrd m a (Some p))"
    unfolding tidy_def by (rule ok, rule ok, rule ok, rule ok, rule reaps_thn; intro rest)
qed

lemma spawns_rig:
  "spawns E (\<lambda>p. p) (start_server c work)" "spawns E (\<lambda>p. p) (start_containerd work)"
  "spawns E (\<lambda>p. p) (start_dockerd c work started_at)"
  unfolding start_server_def start_containerd_def start_dockerd_def
  by (intro spawns_thn spawns_popen keeps_intros)+

lemma keeps_run_rig:
  assumes "clock_law E" "kill_law E"
  shows "keeps E (run_rig c work started_at device)"
proof -
  note tidy = reaps_tidy [OF assms(2)]
  have fin: "reaps E p (finally_do (load_and_measure c work device) (tidy work device (Some d) (Some ctrd) True True (Some nbd)))"
    if "p \<in> {d, ctrd, nbd}" for p d ctrd nbd
    using that tidy by (intro reaps_finally keeps_load_and_measure assms) auto
  have docker: "reaps E p (bnd (on_error (start_dockerd c work started_at) (tidy work device None (Some ctrd) True True (Some nbd))) (\<lambda>d.
      finally_do (load_and_measure c work device) (tidy work device (Some d) (Some ctrd) True True (Some nbd))))"
    if "p \<in> {ctrd, nbd}" for p ctrd nbd
    by (rule reaps_stage_spawns [OF spawns_rig(3)]) (use that tidy in \<open>auto intro: fin\<close>)
  show ?thesis
    unfolding run_rig_def thn_def [of "on_error _ _"]
    by (intro keeps_spawns [OF spawns_on_error [OF spawns_rig(1) keeps_tidy [OF assms(2)]]]
        reaps_stage reaps_stage_spawns [OF spawns_rig(2)] tidy docker keeps_intros; simp)
qed

text \<open>
  C33: the script always ends, and the block device server, \<open>containerd\<close> and \<open>dockerd\<close>, as
  far as they were started, have been waited for, provided the clock advances while
  waiting and a killed process ends.
\<close>

theorem nbd_children:
  assumes "clock_law E" "kill_law E"
  shows "wp (main c) (\<lambda>r h'. live h' \<subseteq> live h) E h"
proof -
  have "keeps E (main c)"
    unfolding main_def Let_def by (intro keeps_intros keeps_run_rig assms)
  then show ?thesis by (simp add: keeps_def)
qed

section \<open>The rig is taken down in order\<close>

text \<open>
  What a history has set up and not yet undone, and whether it was undone in order: the
  file system is unmounted after both daemons that use it have ended, the device is
  detached after that, and the server is signalled last.  An \<open>umount\<close> or a detach
  counts when it is attempted; the script does not look at its status.
\<close>

record rig =
  servers :: "int set"
  containerds :: "int set"
  dockerds :: "int set"
  attached :: bool
  mounted :: bool
  orderly :: bool

definition idle :: rig where
  "idle = \<lparr>servers = {}, containerds = {}, dockerds = {}, attached = False, mounted = False, orderly = True\<rparr>"

definition rig_spawned :: "nbd_config \<Rightarrow> string \<Rightarrow> string list \<Rightarrow> int \<Rightarrow> rig \<Rightarrow> rig" where
  "rig_spawned c work argv p s =
     (if argv = server_argv c work then s\<lparr>servers := insert p (servers s)\<rparr>
      else if argv = containerd_cmd work then s\<lparr>containerds := insert p (containerds s)\<rparr>
      else if hd argv = ''dockerd'' then s\<lparr>dockerds := insert p (dockerds s)\<rparr> else s)"

definition rig_reaped :: "int \<Rightarrow> rig \<Rightarrow> rig" where
  "rig_reaped p s =
     s\<lparr>servers := servers s - {p}, containerds := containerds s - {p}, dockerds := dockerds s - {p}\<rparr>"

definition rig_signalled :: "int \<Rightarrow> rig \<Rightarrow> rig" where
  "rig_signalled p s = s\<lparr>orderly := orderly s \<and> (p \<in> servers s \<longrightarrow> \<not> attached s)\<rparr>"

definition rig_shell :: "nbd_config \<Rightarrow> string \<Rightarrow> string \<Rightarrow> string \<Rightarrow> int \<Rightarrow> rig \<Rightarrow> rig" where
  "rig_shell c work device cmd rc s =
     (if cmd = attach_cmd c device \<and> rc = 0 then s\<lparr>attached := True\<rparr>
      else if cmd = mount_cmd work device \<and> rc = 0 then s\<lparr>mounted := True\<rparr>
      else if cmd = umount_cmd work
        then s\<lparr>mounted := False, orderly := orderly s \<and> containerds s = {} \<and> dockerds s = {}\<rparr>
      else if cmd = detach_cmd device
        then s\<lparr>attached := False, orderly := orderly s \<and> \<not> mounted s\<rparr>
      else s)"

definition rig_step :: "nbd_config \<Rightarrow> string \<Rightarrow> string \<Rightarrow> event \<Rightarrow> rig \<Rightarrow> rig" where
  "rig_step c work device ev s =
     (case ev of
        Spawn argv (Some p) \<Rightarrow> rig_spawned c work argv p s
      | Poll p (Some st) \<Rightarrow> rig_reaped p s
      | Wait p d (Some st) \<Rightarrow> rig_reaped p s
      | Term p \<Rightarrow> rig_signalled p s
      | Kill p \<Rightarrow> rig_signalled p s
      | Shell cmd rc out \<Rightarrow> rig_shell c work device cmd rc s
      | _ \<Rightarrow> s)"

definition rig_of :: "nbd_config \<Rightarrow> string \<Rightarrow> string \<Rightarrow> hist \<Rightarrow> rig" where
  "rig_of c work device h = foldr (rig_step c work device) h idle"

lemma rig_of_simps [simp]:
  "rig_of c work device [] = idle"
  "rig_of c work device (ev # h) = rig_step c work device ev (rig_of c work device h)"
  by (simp_all add: rig_of_def)

lemma rig_step_simps [simp]:
  "rig_step c work device (Spawn argv x) s = (case x of None \<Rightarrow> s | Some p \<Rightarrow> rig_spawned c work argv p s)"
  "rig_step c work device (Poll p st) s = (if st = None then s else rig_reaped p s)"
  "rig_step c work device (Wait p d st) s = (if st = None then s else rig_reaped p s)"
  "rig_step c work device (Term p) s = rig_signalled p s"
  "rig_step c work device (Kill p) s = rig_signalled p s"
  "rig_step c work device (Shell cmd rc out) s = rig_shell c work device cmd rc s"
  by (simp_all add: rig_step_def split: option.split)

definition neutral :: "nbd_config \<Rightarrow> string \<Rightarrow> string \<Rightarrow> event \<Rightarrow> bool" where
  "neutral c work device ev = (\<forall>s. rig_step c work device ev s = s)"

lemma rig_neutral: "list_all (neutral c work device) ks \<Longrightarrow> rig_of c work device (ks @ h) = rig_of c work device h"
  by (induction ks) (auto simp: neutral_def)

lemma rig_live:
  "servers (rig_of c work device h) \<union> containerds (rig_of c work device h) \<union> dockerds (rig_of c work device h) \<subseteq> live h"
proof (induction h)
  case (Cons ev h)
  then show ?case
    by (cases ev) (auto simp: rig_step_def rig_spawned_def rig_reaped_def rig_signalled_def rig_shell_def split: option.splits if_splits)
qed (simp add: idle_def)

lemma spawn_ids:
  assumes "spawn_law E" "e_spawn E h argv = Some p"
  shows "p \<notin> servers (rig_of c work device h)" "p \<notin> containerds (rig_of c work device h)" "p \<notin> dockerds (rig_of c work device h)"
  using assms rig_live [of c work device h] unfolding spawn_law_def by blast+

lemma wp_rig:
  "returns E m \<Longrightarrow> emits (neutral c work device) m \<Longrightarrow> wp m (\<lambda>r h'. rig_of c work device h' = rig_of c work device h) E h"
  using wp_emits [of "neutral c work device" m "\<lambda>r h'. True" E h]
  by (auto simp: returns_wp elim!: wp_mono dest: rig_neutral)

lemma wp_neutral:
  "steps m \<Longrightarrow> emits (neutral c work device) m \<Longrightarrow> wp m (\<lambda>r h'. rig_of c work device h' = rig_of c work device h) E h"
  by (rule wp_rig [OF steps_returns])

lemma wp_thn_rig:
  assumes "steps m" "emits (neutral c work device) m"
    and "\<And>h1. rig_of c work device h1 = rig_of c work device h \<Longrightarrow> wp k Q E h1"
    and "\<And>e h1. rig_of c work device h1 = rig_of c work device h \<Longrightarrow> Q (Exc e) h1"
  shows "wp (thn m k) Q E h"
  unfolding wp_thn
  by (rule wp_mono [OF wp_neutral [OF assms(1,2)]]) (use assms(3,4) in \<open>simp split: outcome.split\<close>)

lemma neutral_events [simp]:
  "neutral c work device (Out s)" "neutral c work device (Clock t)" "neutral c work device (Sleep t)"
  "neutral c work device (Mkdir p b)" "neutral c work device (Exists p b)" "neutral c work device (WriteText p s b)"
  "neutral c work device (CloseFile p)"
  "neutral c work device (Shell (CHR ''d'' # s) rc out)" "neutral c work device (Shell (CHR ''t'' # s) rc out)"
  "neutral c work device (Shell (CHR ''m'' # CHR ''k'' # s) rc out)"
  by (simp_all add: neutral_def rig_step_def rig_shell_def attach_cmd_def mount_cmd_def umount_cmd_def detach_cmd_def)

lemma wp_popen_rig:
  assumes "spawn_law E"
  shows "wp (popen argv) (\<lambda>r h'. case r of
      Ok p \<Rightarrow> rig_of c work device h' = rig_spawned c work argv p (rig_of c work device h)
         \<and> p \<notin> servers (rig_of c work device h) \<union> containerds (rig_of c work device h) \<union> dockerds (rig_of c work device h)
    | Exc e \<Rightarrow> rig_of c work device h' = rig_of c work device h) E h"
  using spawn_ids [OF assms] by (auto simp: popen_def wp_simps split: option.split)

lemma wp_stop_rig:
  assumes "kill_law E" "pid \<in> servers (rig_of c work device h) \<Longrightarrow> \<not> attached (rig_of c work device h)"
  shows "wp (stop_within pid a b) (\<lambda>r h'. r = Ok () \<and> rig_of c work device h' = rig_reaped pid (rig_of c work device h)) E h"
proof -
  have "rig_signalled pid (rig_of c work device h) = rig_of c work device h"
    using assms(2) by (cases "rig_of c work device h") (auto simp: rig_signalled_def)
  moreover have "\<exists>st. e_wait E (Kill pid # h1) pid b = Some st" for h1
    using assms(1) unfolding kill_law_def killed_def by (metis list.set_intros(1) not_None_eq)
  ultimately show ?thesis
    unfolding stop_within_def terminate_or_kill_def on_timeout_def prim_defs
    by (auto simp: wp_simps split: option.splits) (metis option.distinct(1))+
qed

lemma wp_stop_daemon_rig:
  assumes "kill_law E" "\<And>pid. proc = Some pid \<Longrightarrow> pid \<in> servers (rig_of c work device h) \<Longrightarrow> \<not> attached (rig_of c work device h)"
  shows "wp (stop_daemon proc a b) (\<lambda>r h'. r = Ok () \<and> rig_of c work device h' =
     (case proc of None \<Rightarrow> rig_of c work device h | Some pid \<Rightarrow> rig_reaped pid (rig_of c work device h))) E h"
  using assms(2) by (cases proc) (auto simp: stop_daemon_def wp_skip intro: wp_stop_rig [OF assms(1)])

lemma wp_undo_rig:
  "wp (cond_do b (thn (run cmd False) skip)) (\<lambda>r h'. r = Ok () \<and> rig_of c work device h' =
     (if b then rig_shell c work device cmd (fst (e_shell E (Out (''$ '' @ cmd) # h) cmd)) (rig_of c work device h)
      else rig_of c work device h)) E h"
  by (simp add: run_def wp_logged_run wp_simps rig_step_def)

definition standing :: "int option \<Rightarrow> int option \<Rightarrow> int option \<Rightarrow> bool \<Rightarrow> bool \<Rightarrow> rig" where
  "standing nbd ctrd dockerd a m =
     \<lparr>servers = set_option nbd, containerds = set_option ctrd, dockerds = set_option dockerd, attached = a, mounted = m, orderly = True\<rparr>"

lemma wp_tidy:
  assumes "kill_law E" "rig_of c work device h = standing nbd ctrd dockerd a m"
    and "\<And>p. nbd = Some p \<Longrightarrow> ctrd \<noteq> Some p \<and> dockerd \<noteq> Some p"
  shows "wp (tidy work device dockerd ctrd m a nbd) (\<lambda>r h'. r = Ok () \<and> rig_of c work device h' = idle) E h"
  unfolding tidy_def
proof (rule wp_thn_ok [OF wp_stop_daemon_rig [OF assms(1)]])
  show "\<not> attached (rig_of c work device h)" if "dockerd = Some p" "p \<in> servers (rig_of c work device h)" for p
    using that assms(2,3) by (auto simp: standing_def)
  fix h1
  let ?r = "rig_of c work device"
  assume "?r h1 = (case dockerd of None \<Rightarrow> ?r h | Some pid \<Rightarrow> rig_reaped pid (?r h))"
  then have h1: "?r h1 = \<lparr>servers = set_option nbd, containerds = set_option ctrd - set_option dockerd, dockerds = {}, attached = a, mounted = m, orderly = True\<rparr>"
    using assms(2,3) by (auto simp: standing_def rig_reaped_def split: option.splits)
  show "wp (thn (stop_daemon ctrd 15 10) (thn (cond_do m (thn (run (umount_cmd work) False) skip))
     (thn (cond_do a (thn (run (detach_cmd device) False) skip)) (thn (stop_daemon nbd 10 5)
     (thn (close_file (pdiv work ''nbd-server.log'')) (thn (close_file (pdiv work ''containerd.log'')) (close_file (pdiv work ''dockerd.log'')))))))) 
     (\<lambda>r h'. r = Ok () \<and> ?r h' = idle) E h1"
  proof (rule wp_thn_ok [OF wp_stop_daemon_rig [OF assms(1)]])
    show "\<not> attached (?r h1)" if "ctrd = Some p" "p \<in> servers (?r h1)" for p
      using that h1 assms(3) by auto
    fix h2
    assume "?r h2 = (case ctrd of None \<Rightarrow> ?r h1 | Some pid \<Rightarrow> rig_reaped pid (?r h1))"
    then have h2: "?r h2 = \<lparr>servers = set_option nbd, containerds = {}, dockerds = {}, attached = a, mounted = m, orderly = True\<rparr>"
      using h1 assms(3) by (auto simp: rig_reaped_def split: option.splits)
    show "wp (thn (cond_do m (thn (run (umount_cmd work) False) skip))
     (thn (cond_do a (thn (run (detach_cmd device) False) skip)) (thn (stop_daemon nbd 10 5)
     (thn (close_file (pdiv work ''nbd-server.log'')) (thn (close_file (pdiv work ''containerd.log'')) (close_file (pdiv work ''dockerd.log'')))))))
     (\<lambda>r h'. r = Ok () \<and> ?r h' = idle) E h2"
      apply (rule wp_thn_ok [OF wp_undo_rig [where c = c and work = work and device = device]])
      apply (rule wp_thn_ok [OF wp_undo_rig [where c = c and work = work and device = device]])
      apply (rule wp_thn_ok [OF wp_stop_daemon_rig [OF assms(1), where c = c and work = work and device = device]])
      using h2
       apply (auto simp: rig_shell_def attach_cmd_def mount_cmd_def umount_cmd_def detach_cmd_def close_file_def tell_def wp_simps rig_step_def rig_reaped_def idle_def
          split: if_splits option.splits)
      done
  qed
qed

lemma emits_nbd_pieces:
  "(\<And>s. A (Out s)) \<Longrightarrow> (\<And>rc out. A (Shell cmd rc out)) \<Longrightarrow> emits A (run cmd ck)"
  "(\<And>t. A (Clock t)) \<Longrightarrow> emits A now_ms"
  unfolding run_def now_ms_def by (intro emits_intros; simp)+

lemma emits_print_marker: "(\<And>s. A (Out s)) \<Longrightarrow> emits A (print_marker kv)"
  unfolding print_marker_def by (intro emits_intros; simp)

lemma neutral_measure:
  "emits (neutral c work device) (wait_for_dockerd c' sock)"
  "emits (neutral c work device) (measure_container c' sock)"
  "emits (neutral c work device) (with_run_info c' w d v)"
  "emits (neutral c work device) (print_result v)"
proof -
  show "emits (neutral c work device) (wait_for_dockerd c' sock)"
    unfolding wait_for_dockerd_def dockerd_body_def Let_def
    by (intro emits_while_before emits_intros emits_nbd_pieces; simp)
  have "emits (neutral c work device) (watch_body (container_logs sock name) (container_joined name cid start) server_markers 1000 start s)"
    for name cid start s
    unfolding watch_body_def Workspace_Timings.remember_markers_def Workspace_Timings.now_ms_def container_logs_def container_joined_def
    by (intro emits_intros emits_nbd_pieces; simp)
  then show "emits (neutral c work device) (measure_container c' sock)"
    unfolding measure_container_def wait_container_def loop_watch container_rm_def Let_def
    by (intro emits_while_before emits_intros emits_nbd_pieces; simp)
  show "emits (neutral c work device) (with_run_info c' w d v)" "emits (neutral c work device) (print_result v)"
    unfolding with_run_info_def print_result_def by (intro emits_intros emits_print_marker; simp)+
qed

lemma neutral_load_and_measure: "emits (neutral c work device) (load_and_measure c' w d)"
  unfolding load_and_measure_def Let_def
  by (intro emits_intros emits_nbd_pieces neutral_measure; simp)

section \<open>The stages\<close>

lemma argv_distinct:
  "server_argv c work \<noteq> containerd_cmd work" "containerd_cmd work \<noteq> server_argv c work"
  "dockerd_cmd work s \<noteq> server_argv c work" "dockerd_cmd work s \<noteq> containerd_cmd work" "hd (dockerd_cmd work s) = ''dockerd''"
  by (simp_all add: server_argv_def containerd_cmd_def dockerd_cmd_def)

lemma wp_stages:
  assumes "spawn_law E"
  shows "wp (start_server c work) (\<lambda>r h'. rig_of c work device h' = (case r of
          Ok p \<Rightarrow> (rig_of c work device h)\<lparr>servers := insert p (servers (rig_of c work device h))\<rparr> | Exc e \<Rightarrow> rig_of c work device h)) E h"
    and "wp (attach_device c device) (\<lambda>r h'. rig_of c work device h' = (case r of
          Ok u \<Rightarrow> (rig_of c work device h)\<lparr>attached := True\<rparr> | Exc e \<Rightarrow> rig_of c work device h)) E h"
    and "wp (mount_device work device) (\<lambda>r h'. rig_of c work device h' = (case r of
          Ok u \<Rightarrow> (rig_of c work device h)\<lparr>mounted := True\<rparr> | Exc e \<Rightarrow> rig_of c work device h)) E h"
    and "wp (start_containerd work) (\<lambda>r h'. rig_of c work device h' = (case r of
          Ok p \<Rightarrow> (rig_of c work device h)\<lparr>containerds := insert p (containerds (rig_of c work device h))\<rparr> | Exc e \<Rightarrow> rig_of c work device h)
          \<and> (\<forall>p. r = Ok p \<longrightarrow> p \<notin> servers (rig_of c work device h))) E h"
    and "wp (start_dockerd c work started_at) (\<lambda>r h'. rig_of c work device h' = (case r of
          Ok p \<Rightarrow> (rig_of c work device h)\<lparr>dockerds := insert p (dockerds (rig_of c work device h))\<rparr> | Exc e \<Rightarrow> rig_of c work device h)
          \<and> (\<forall>p. r = Ok p \<longrightarrow> p \<notin> servers (rig_of c work device h))) E h"
proof -
  let ?r = "rig_of c work device"
  note popen = wp_popen_rig [OF assms, where c = c and work = work and device = device]
  note thn = wp_thn_rig [where c = c and work = work and device = device]
  have failed: "rig_shell c work device cmd rc s = s"
    if "cmd \<in> {attach_cmd c device, mount_cmd work device}" "rc \<noteq> 0" for cmd rc s
    using that by (auto simp: rig_shell_def attach_cmd_def mount_cmd_def umount_cmd_def detach_cmd_def)
  have cmd: "wp (thn (run cmd True) skip) (\<lambda>r h'. ?r h' = (case r of Ok u \<Rightarrow> rig_shell c work device cmd 0 (?r h) | Exc e \<Rightarrow> ?r h)) E h"
    if "cmd \<in> {attach_cmd c device, mount_cmd work device}" for cmd h
    unfolding run_def logged_run_def checked_def print_def tell_def sh_result_def
    by (simp add: wp_thn wp_bnd wp_answer wp_if wp_cond_do wp_raise wp_ret wp_skip rig_step_def failed [OF that] split: prod.split)
  have mount: "rig_shell c work device (mount_cmd work device) 0 s = s\<lparr>mounted := True\<rparr>" for s
    by (simp add: rig_shell_def mount_cmd_def attach_cmd_def)
  show "wp (start_server c work) (\<lambda>r h'. ?r h' = (case r of
          Ok p \<Rightarrow> (?r h)\<lparr>servers := insert p (servers (?r h))\<rparr> | Exc e \<Rightarrow> ?r h)) E h"
    unfolding start_server_def
    by (rule thn, (intro steps_intros)[1], (intro emits_nbd_pieces; simp)[1], rule wp_mono [OF popen])
      (simp_all add: rig_spawned_def split: outcome.splits)
  show "wp (attach_device c device) (\<lambda>r h'. ?r h' = (case r of Ok u \<Rightarrow> (?r h)\<lparr>attached := True\<rparr> | Exc e \<Rightarrow> ?r h)) E h"
    unfolding attach_device_def
    by (rule thn, (intro steps_intros)[1], (intro emits_intros; simp)[1], rule wp_mono [OF cmd])
      (simp_all add: rig_shell_def split: outcome.splits)
  show "wp (mount_device work device) (\<lambda>r h'. ?r h' = (case r of Ok u \<Rightarrow> (?r h)\<lparr>mounted := True\<rparr> | Exc e \<Rightarrow> ?r h)) E h"
    unfolding mount_device_def
    by (rule thn, (intro steps_intros)[1], (intro emits_nbd_pieces; simp)[1],
        rule thn, (intro steps_intros)[1], (intro emits_intros; simp)[1], rule wp_mono [OF cmd])
      (simp_all add: mount split: outcome.splits)
  show "wp (start_containerd work) (\<lambda>r h'. ?r h' = (case r of
          Ok p \<Rightarrow> (?r h)\<lparr>containerds := insert p (containerds (?r h))\<rparr> | Exc e \<Rightarrow> ?r h) \<and> (\<forall>p. r = Ok p \<longrightarrow> p \<notin> servers (?r h))) E h"
    unfolding start_containerd_def
    by ((rule thn, (intro steps_intros)[1], (intro emits_intros; simp)[1])+, rule wp_mono [OF popen])
      (simp_all add: rig_spawned_def argv_distinct split: outcome.splits)
  show "wp (start_dockerd c work started_at) (\<lambda>r h'. ?r h' = (case r of
          Ok p \<Rightarrow> (?r h)\<lparr>dockerds := insert p (dockerds (?r h))\<rparr> | Exc e \<Rightarrow> ?r h) \<and> (\<forall>p. r = Ok p \<longrightarrow> p \<notin> servers (?r h))) E h"
    unfolding start_dockerd_def
    by (rule thn, (intro steps_intros)[1], (unfold wait_containerd_def, intro emits_intros; simp)[1], rule wp_mono [OF popen])
      (simp_all add: rig_spawned_def argv_distinct split: outcome.splits)
qed

text \<open>
  C2: however the run of the rig ends, what it set up has been undone and in the right
  order: \<open>umount\<close> after \<open>dockerd\<close> and \<open>containerd\<close> have ended, detaching the device after
  \<open>umount\<close>, signalling the server after detaching.
\<close>

theorem rig_torn_down:
  assumes "clock_law E" "kill_law E" "spawn_law E" "rig_of c work device h = idle"
  shows "wp (run_rig c work started_at device) (\<lambda>r h'. rig_of c work device h' = idle) E h"
proof -
  let ?r = "rig_of c work device" and ?P = "\<lambda>h'. rig_of c work device h' = idle"
  note stages = wp_stages [OF assms(3), where c = c and work = work and device = device]
  have tidy: "wp (tidy work device dockerd ctrd m a nbd) (\<lambda>u h'. ?P h') E h'"
    if "?r h' = standing nbd ctrd dockerd a m" "\<And>p. nbd = Some p \<Longrightarrow> ctrd \<noteq> Some p \<and> dockerd \<noteq> Some p" for dockerd ctrd m a nbd h'
    by (rule wp_mono [OF wp_tidy [OF assms(2) that]]) auto
  have fin: "wp (finally_do (load_and_measure c work device) (tidy work device (Some d) (Some ctrd) True True (Some nbd))) (\<lambda>r h'. ?P h') E h'"
    if "?r h' = standing (Some nbd) (Some ctrd) (Some d) True True" "ctrd \<noteq> nbd" "d \<noteq> nbd" for d ctrd nbd h'
    unfolding wp_finally
    by (rule wp_mono [OF wp_rig [OF keeps_returns [OF keeps_load_and_measure [OF assms(1)]] neutral_load_and_measure [of c work device]]])
      (use that in \<open>auto intro!: tidy\<close>)
  have docker: "wp (bnd (on_error (start_dockerd c work started_at) (tidy work device None (Some ctrd) True True (Some nbd))) (\<lambda>d.
      finally_do (load_and_measure c work device) (tidy work device (Some d) (Some ctrd) True True (Some nbd)))) (\<lambda>r h'. ?P h') E h'"
    if "?r h' = standing (Some nbd) (Some ctrd) None True True" "ctrd \<noteq> nbd" for ctrd nbd h'
    by (rule wp_stage [where A = "\<lambda>d h'. ?r h' = standing (Some nbd) (Some ctrd) (Some d) True True \<and> d \<noteq> nbd" and B = "\<lambda>h'. ?r h' = standing (Some nbd) (Some ctrd) None True True",
          OF wp_mono [OF stages(5)]])
      (use that in \<open>auto intro!: fin tidy simp: standing_def split: outcome.splits\<close>)
  have containerd: "wp (bnd (on_error (start_containerd work) (tidy work device None None True True (Some nbd))) (\<lambda>ctrd.
      bnd (on_error (start_dockerd c work started_at) (tidy work device None (Some ctrd) True True (Some nbd))) (\<lambda>d.
      finally_do (load_and_measure c work device) (tidy work device (Some d) (Some ctrd) True True (Some nbd))))) (\<lambda>r h'. ?P h') E h'"
    if "?r h' = standing (Some nbd) None None True True" for nbd h'
    by (rule wp_stage [where A = "\<lambda>ctrd h'. ?r h' = standing (Some nbd) (Some ctrd) None True True \<and> ctrd \<noteq> nbd" and B = "\<lambda>h'. ?r h' = standing (Some nbd) None None True True",
          OF wp_mono [OF stages(4)]])
      (use that in \<open>auto intro!: docker tidy simp: standing_def split: outcome.splits\<close>)
  have mount: "wp (bnd (on_error (mount_device work device) (tidy work device None None False True (Some nbd))) (\<lambda>u. k)) (\<lambda>r h'. ?P h') E h'"
    if "?r h' = standing (Some nbd) None None True False" "\<And>h1. ?r h1 = standing (Some nbd) None None True True \<Longrightarrow> wp k (\<lambda>r h'. ?P h') E h1"
    for nbd h' and k :: "unit prog"
    by (rule wp_stage [where A = "\<lambda>u h'. ?r h' = standing (Some nbd) None None True True" and B = "\<lambda>h'. ?r h' = standing (Some nbd) None None True False",
          OF wp_mono [OF stages(3)]])
      (use that in \<open>auto intro!: tidy simp: standing_def split: outcome.splits\<close>)
  have attach: "wp (bnd (on_error (attach_device c device) (tidy work device None None False False (Some nbd))) (\<lambda>u. k)) (\<lambda>r h'. ?P h') E h'"
    if "?r h' = standing (Some nbd) None None False False" "\<And>h1. ?r h1 = standing (Some nbd) None None True False \<Longrightarrow> wp k (\<lambda>r h'. ?P h') E h1"
    for nbd h' and k :: "unit prog"
    by (rule wp_stage [where A = "\<lambda>u h'. ?r h' = standing (Some nbd) None None True False" and B = "\<lambda>h'. ?r h' = standing (Some nbd) None None False False",
          OF wp_mono [OF stages(2)]])
      (use that in \<open>auto intro!: tidy simp: standing_def split: outcome.splits\<close>)
  have start: "?r h = standing None None None False False"
    by (simp add: assms(4) standing_def idle_def)
  show ?thesis
    unfolding run_rig_def thn_def [of "on_error _ _"]
  proof (rule wp_stage [where A = "\<lambda>nbd h'. ?r h' = standing (Some nbd) None None False False" and B = "\<lambda>h'. ?r h' = standing None None None False False"])
    show "wp (start_server c work) (\<lambda>r h'. case r of Ok nbd \<Rightarrow> ?r h' = standing (Some nbd) None None False False
        | Exc e \<Rightarrow> ?r h' = standing None None None False False) E h"
      by (rule wp_mono [OF stages(1)]) (use start in \<open>auto simp: standing_def split: outcome.splits\<close>)
  qed (auto intro!: attach mount containerd tidy)
qed

section \<open>The report\<close>

lemma now_ms_workspace: "now_ms = Workspace_Timings.now_ms"
  by (simp add: now_ms_def Workspace_Timings.now_ms_def)

lemma wp_wait_container:
  assumes "clock_law E" "start \<le> e_clock E h div 1000000"
  shows "wp (wait_container c sock name cid start) (container_watch.reports sock name E) E h"
  unfolding wait_container_def loop_watch wp_bnd_time now_ms_workspace
  by (rule container_watch.wp_report [OF assms(1) order_trans [OF assms(2) clock_div_step [OF assms(1)]]])
    (rule container_watch.wp_timeout_report [OF assms(1)]; simp)

definition measured :: "string \<Rightarrow> env \<Rightarrow> pyval outcome \<Rightarrow> hist \<Rightarrow> bool" where
  "measured sock E r h =
     (\<forall>v. r = Ok v \<longrightarrow> (\<exists>name. faithful_report ''docker-nbd'' (container_logs sock name) server_markers E h v))"

lemma measured_Exc [simp]: "measured sock E (Exc e) h"
  by (simp add: measured_def)

lemma measured_later: "clock_law E \<Longrightarrow> measured sock E r h \<Longrightarrow> suffix h h' \<Longrightarrow> measured sock E r h'"
  unfolding measured_def by (blast intro: faithful_report_later)

lemma wp_measure_container:
  assumes "clock_law E" shows "wp (measure_container c sock) (measured sock E) E h"
proof -
  have wait: "wp (finally_do (wait_container c sock name (strip out) start) (container_rm sock name)) (measured sock E) E h"
    if "start \<le> e_clock E h div 1000000" for name out start h
  proof (rule wp_finally_later)
    show "wp (wait_container c sock name (strip out) start) (measured sock E) E h"
      by (rule wp_mono [OF wp_wait_container [OF assms that]]) (auto simp: container_watch.reports_def measured_def)
  qed (intro steps_intros, erule (1) measured_later [OF assms], rule measured_Exc)
  show ?thesis
    unfolding measure_container_def wp_bnd_time Let_def unfolding now_ms_def bnd_assoc bnd_ret wp_bnd_time
  proof (rule wp_thn_later)
    let ?h = "Clock (e_clock E h) # h"
    let ?start = "e_clock E ?h div 1000000"
    fix h1
    assume s: "suffix (Clock (e_clock E ?h) # ?h) h1"
    show "wp (bnd (run (''docker -H unix://'' @ q sock @ '' run -d --network host --name ''
        @ q (''orca-air-workspace-nbd-'' @ str_int (to_ms (e_clock E h))) @ '' '' @ q (IMAGE c)) True) (\<lambda>out.
      finally_do (wait_container c sock (''orca-air-workspace-nbd-'' @ str_int (to_ms (e_clock E h))) (strip out) ?start)
        (container_rm sock (''orca-air-workspace-nbd-'' @ str_int (to_ms (e_clock E h)))))) (measured sock E) E h1"
    proof (rule wp_bnd_later)
      fix out h2
      assume "suffix h1 h2"
      then have "?start \<le> e_clock E h2 div 1000000"
        using order_trans [OF clock_div_step [OF assms] clock_div_suffix [OF assms suffix_order.trans [OF s]]] by simp
      then show "wp (finally_do (wait_container c sock (''orca-air-workspace-nbd-'' @ str_int (to_ms (e_clock E h))) (strip out) ?start)
        (container_rm sock (''orca-air-workspace-nbd-'' @ str_int (to_ms (e_clock E h))))) (measured sock E) E h2"
        by (rule wait)
    qed (intro steps_intros, rule measured_Exc)
  qed (intro steps_intros, rule measured_Exc)
qed

definition recorded :: "nbd_config \<Rightarrow> string \<Rightarrow> string \<Rightarrow> env \<Rightarrow> hist \<Rightarrow> pydict \<Rightarrow> bool" where
  "recorded c work device E h d =
     (map_of d ''image'' = Some (PStr (IMAGE c)) \<and> map_of d ''nbd_device'' = Some (PStr device)
      \<and> (\<exists>name. faithful_report ''docker-nbd'' (container_logs (pdiv work ''docker.sock'') name) server_markers E h (PDict d)))"

lemma recorded_later: "clock_law E \<Longrightarrow> recorded c work device E h d \<Longrightarrow> suffix h h' \<Longrightarrow> recorded c work device E h' d"
  unfolding recorded_def by (blast intro: faithful_report_later)

lemma wp_with_run_info:
  assumes "measured (pdiv work ''docker.sock'') E (Ok v) h"
  shows "wp (with_run_info c work device v) (\<lambda>r h'. h' = h \<and> (\<exists>d. r = Ok (PDict d) \<and> recorded c work device E h d)) E h"
proof -
  obtain name where f: "faithful_report ''docker-nbd'' (container_logs (pdiv work ''docker.sock'') name) server_markers E h v"
    using assms by (auto simp: measured_def)
  then obtain d where v: "v = PDict d" by (auto simp: faithful_report_def)
  let ?d = "dict_update d [(''image'', PStr (IMAGE c)), (''nbd_device'', PStr device), (''nbd_mode'', PStr (NBD_MODE c)),
       (''nbd_size_mb'', PInt (NBD_SIZE_MB c)), (''work_dir'', PStr work)]"
  have "faithful_report ''docker-nbd'' (container_logs (pdiv work ''docker.sock'') name) server_markers E h (PDict ?d)"
    by (rule faithful_report_fields [OF f [unfolded v]]) (auto simp: map_add_def)
  then have "recorded c work device E h ?d" by (auto simp: recorded_def map_add_def)
  then show ?thesis by (auto simp: with_run_info_def as_dict_def v wp_simps)
qed


section \<open>The device\<close>

definition nbd_number :: "string \<Rightarrow> int option" where
  "nbd_number p = int_of_str (drop 3 (path_name p))"

lemma wp_numbered:
  "wp (numbered paths) (\<lambda>r h'. h' = h \<and> (\<forall>keyed. r = Ok keyed \<longrightarrow>
      map snd keyed = paths \<and> (\<forall>(n, p)\<in>set keyed. nbd_number p = Some n))) E h"
proof -
  have "wp (for_each ps keyed (\<lambda>p keyed. bnd (to_int (drop 3 (path_name p))) (\<lambda>n. ret (keyed @ [(n, p)])))) (\<lambda>r h'. h' = h \<and>
      (\<forall>keyed'. r = Ok keyed' \<longrightarrow> map snd keyed' = map snd keyed @ ps \<and> (\<forall>(n, p)\<in>set keyed'. nbd_number p = Some n))) E h"
    if "\<forall>(n, p)\<in>set keyed. nbd_number p = Some n" for ps keyed
    using that
  proof (induction ps arbitrary: keyed)
    case (Cons p ps)
    show ?case
    proof (cases "nbd_number p")
      case (Some n)
      then show ?thesis
        using Cons.prems Cons.IH [of "keyed @ [(n, p)]"] by (simp add: to_int_def or_raise_def nbd_number_def wp_simps split_beta)
    qed (simp add: to_int_def or_raise_def nbd_number_def wp_simps)
  qed (simp add: wp_simps)
  from this [of "[]" paths] show ?thesis by (simp add: numbered_def)
qed

definition probed :: "string \<Rightarrow> bool \<Rightarrow> event" where
  "probed p busy = Exists (pdiv p ''pid'') busy"

lemma wp_first_free:
  "wp (first_free ps) (\<lambda>r h'. \<exists>ks. h' = ks @ h \<and> (\<forall>d. r = Ok d \<longrightarrow> (\<exists>pre p post. ps = pre @ p # post
      \<and> d = ''/dev/'' @ path_name p \<and> probed p False \<in> set ks \<and> (\<forall>p'\<in>set pre. probed p' True \<in> set ks)))) E h"
proof (induction ps arbitrary: h)
  case (Cons p ps)
  let ?h = "Exists (pdiv p ''pid'') (e_exists E h (pdiv p ''pid'')) # h"
  let ?Q = "\<lambda>r h'. \<exists>ks. h' = ks @ h \<and> (\<forall>d. r = Ok d \<longrightarrow> (\<exists>pre p' post. p # ps = pre @ p' # post
      \<and> d = ''/dev/'' @ path_name p' \<and> probed p' False \<in> set ks \<and> (\<forall>p'\<in>set pre. probed p' True \<in> set ks)))"
  show ?case
  proof (cases "e_exists E h (pdiv p ''pid'')")
    case True
    have "wp (first_free ps) ?Q E ?h"
    proof (rule wp_mono [OF Cons.IH])
      fix r h'
      assume "\<exists>ks. h' = ks @ ?h \<and> (\<forall>d. r = Ok d \<longrightarrow> (\<exists>pre p post. ps = pre @ p # post
        \<and> d = ''/dev/'' @ path_name p \<and> probed p False \<in> set ks \<and> (\<forall>p'\<in>set pre. probed p' True \<in> set ks)))"
      then obtain ks where ks: "h' = ks @ ?h" "\<And>d. r = Ok d \<Longrightarrow> \<exists>pre p post. ps = pre @ p # post
        \<and> d = ''/dev/'' @ path_name p \<and> probed p False \<in> set ks \<and> (\<forall>p'\<in>set pre. probed p' True \<in> set ks)" by auto
      have "\<exists>pre p' post. p # ps = pre @ p' # post \<and> d = ''/dev/'' @ path_name p' \<and> probed p' False \<in> set (ks @ [probed p True])
          \<and> (\<forall>p'\<in>set pre. probed p' True \<in> set (ks @ [probed p True]))" if r: "r = Ok d" for d
      proof -
        obtain pre p' post where "ps = pre @ p' # post" "d = ''/dev/'' @ path_name p'" "probed p' False \<in> set ks"
          "\<forall>p'\<in>set pre. probed p' True \<in> set ks" using ks(2) [OF r] by blast
        then show ?thesis by (intro exI [of _ "p # pre"] exI [of _ p'] exI [of _ post]) auto
      qed
      then show "?Q r h'" using ks(1) True by (intro exI [of _ "ks @ [probed p True]"]) (auto simp: probed_def)
    qed
    then show ?thesis using True by (simp add: first_free_def exists_path_def wp_simps)
  next
    case False
    then show ?thesis
      by (auto simp: first_free_def exists_path_def wp_simps probed_def intro!: exI [of _ "[]"])
  qed
qed (simp add: first_free_def wp_simps)

lemma sorted_before:
  assumes "sort_key fst keyed = xs @ (n, p) # ys" "(m, p') \<in> set keyed" "m < n" shows "(m, p') \<in> set xs"
proof -
  have "sorted (map fst (xs @ (n, p) # ys))" unfolding assms(1) [symmetric] by (rule sorted_sort_key)
  moreover have "(m, p') \<in> set (xs @ (n, p) # ys)" unfolding assms(1) [symmetric] using assms(2) by simp
  ultimately show ?thesis using assms(3) by (auto simp: sorted_append)
qed

text \<open>
  C32: the device chosen is the one the environment names, or the free one of least number:
  its \<open>pid\<close> file was absent, and the \<open>pid\<close> files of all listed devices with a smaller
  number were present, whatever the order of the listing.
\<close>

theorem find_free_nbd_least:
  "wp find_free_nbd (\<lambda>r h'. \<forall>device. r = Ok device \<longrightarrow>
      e_environ E ''NBD_DEVICE'' = Some device \<or>
      (\<exists>ks paths p n. h' = ks @ h \<and> Glob ''/sys/block/nbd*'' paths \<in> set ks \<and> p \<in> set paths
         \<and> device = ''/dev/'' @ path_name p \<and> nbd_number p = Some n \<and> probed p False \<in> set ks
         \<and> (\<forall>p'\<in>set paths. \<forall>m. nbd_number p' = Some m \<and> m < n \<longrightarrow> probed p' True \<in> set ks))) E h"
proof -
  let ?paths = "e_glob E h ''/sys/block/nbd*''"
  let ?h = "Glob ''/sys/block/nbd*'' ?paths # h"
  let ?Q = "\<lambda>r h'. \<forall>device. r = Ok device \<longrightarrow> (\<exists>ks paths p n. h' = ks @ h \<and> Glob ''/sys/block/nbd*'' paths \<in> set ks \<and> p \<in> set paths
         \<and> device = ''/dev/'' @ path_name p \<and> nbd_number p = Some n \<and> probed p False \<in> set ks
         \<and> (\<forall>p'\<in>set paths. \<forall>m. nbd_number p' = Some m \<and> m < n \<longrightarrow> probed p' True \<in> set ks))"
  have free: "wp (first_free (map snd (sort_key fst keyed))) ?Q E ?h"
    if k: "map snd keyed = ?paths" "\<forall>(n, p)\<in>set keyed. nbd_number p = Some n" for keyed
  proof (rule wp_mono [OF wp_first_free], intro allI impI)
    fix r h' device
    assume "\<exists>ks. h' = ks @ ?h \<and> (\<forall>d. r = Ok d \<longrightarrow> (\<exists>pre p post. map snd (sort_key fst keyed) = pre @ p # post
      \<and> d = ''/dev/'' @ path_name p \<and> probed p False \<in> set ks \<and> (\<forall>p'\<in>set pre. probed p' True \<in> set ks)))" "r = Ok device"
    then obtain ks pre p post where o: "map snd (sort_key fst keyed) = pre @ p # post" "probed p False \<in> set ks"
      "\<forall>p'\<in>set pre. probed p' True \<in> set ks" "h' = ks @ ?h" "device = ''/dev/'' @ path_name p" by blast
    from o(1) obtain xs n ys where x: "sort_key fst keyed = xs @ (n, p) # ys" "map snd xs = pre"
      by (auto simp: map_eq_append_conv map_eq_Cons_conv)
    have "(n, p) \<in> set (sort_key fst keyed)" using x(1) by simp
    then have p: "(n, p) \<in> set keyed" by simp
    have "p \<in> set (map snd keyed)" using p by force
    then have pp: "p \<in> set ?paths" unfolding k(1) .
    have n: "nbd_number p = Some n" using p k(2) by auto
    have before: "probed p' True \<in> set ks" if "p' \<in> set ?paths" "nbd_number p' = Some m" "m < n" for p' m
    proof -
      have "p' \<in> set (map snd keyed)" using that(1) k(1) by simp
      then obtain m' where "(m', p') \<in> set keyed" by auto
      then have "(m, p') \<in> set keyed" using k(2) that(2) by fastforce
      then have "(m, p') \<in> set xs" by (rule sorted_before [OF x(1) _ that(3)])
      then show ?thesis using o(3) x(2) by force
    qed
    show "\<exists>ks paths p n. h' = ks @ h \<and> Glob ''/sys/block/nbd*'' paths \<in> set ks \<and> p \<in> set paths
         \<and> device = ''/dev/'' @ path_name p \<and> nbd_number p = Some n \<and> probed p False \<in> set ks
         \<and> (\<forall>p'\<in>set paths. \<forall>m. nbd_number p' = Some m \<and> m < n \<longrightarrow> probed p' True \<in> set ks)"
      using pp n o(2,4,5) before
      by (intro exI [of _ "ks @ [Glob ''/sys/block/nbd*'' ?paths]"] exI [of _ ?paths] exI [of _ p] exI [of _ n]) simp
  qed
  have "wp (bnd (numbered ?paths) (\<lambda>keyed. first_free (map snd (sort_key fst keyed)))) ?Q E ?h"
    unfolding wp_bnd
    by (rule wp_mono [OF wp_numbered], case_tac r; hypsubst; unfold outcome.case) (elim conjE, hypsubst, rule free, simp_all)
  then have "wp (bnd (glob_paths ''/sys/block/nbd*'') (\<lambda>paths. bnd (numbered paths) (\<lambda>keyed. first_free (map snd (sort_key fst keyed))))) ?Q E h"
    unfolding glob_paths_def wp_bnd [of "answer _ _"] wp_answer outcome.case .
  then show ?thesis
    unfolding find_free_nbd_def env_opt_def wp_bnd [of "asks _"] wp_asks outcome.case wp_if
    by (auto simp del: append.simps simp: wp_ret intro: wp_mono)
qed

section \<open>Witnesses\<close>

definition sample_nbd :: nbd_config where
  "sample_nbd = \<lparr>IMAGE = ''workspace:1'', WORK_PARENT = ''/w'', NBD_SERVER_BIN = ''/bin/nbd-server'', NBD_SIZE_MB = 64,
     NBD_MODE = ''range'', NBD_PORT = 12191, TIMEOUT_SECONDS = 5, DOCKERD_WAIT_SECONDS = 3\<rparr>"

lemma nbd_children_witness:
  "clock_law fresh_env \<and> kill_law fresh_env \<and> wp (main sample_nbd) (\<lambda>r h'. live h' \<subseteq> live []) fresh_env []"
  using nbd_children [OF fresh_laws(1,2), of sample_nbd "[]"] fresh_laws by blast

lemma rig_torn_down_witness:
  "clock_law fresh_env \<and> kill_law fresh_env \<and> spawn_law fresh_env \<and> rig_of sample_nbd ''/w/1'' ''/dev/nbd0'' [] = idle \<and>
   wp (run_rig sample_nbd ''/w/1'' ''1'' ''/dev/nbd0'') (\<lambda>r h'. rig_of sample_nbd ''/w/1'' ''/dev/nbd0'' h' = idle) fresh_env []"
  using rig_torn_down [OF fresh_laws, of sample_nbd "''/w/1''" "''/dev/nbd0''" "[]" "''1''"] fresh_laws by simp


definition busy_env :: env where
  "busy_env = quiet_env \<lparr>
     e_glob := (\<lambda>h p. [''/sys/block/nbd10'', ''/sys/block/nbd2'', ''/sys/block/nbd1'']),
     e_exists := (\<lambda>h p. p = ''/sys/block/nbd1/pid'')\<rparr>"

lemma find_free_nbd_least_witness:
  "map_option fst (find_free_nbd busy_env []) = Some (Ok ''/dev/nbd2'') \<and>
   (\<exists>ks paths p n. snd (the (find_free_nbd busy_env [])) = ks @ [] \<and> Glob ''/sys/block/nbd*'' paths \<in> set ks \<and> p \<in> set paths
         \<and> ''/dev/nbd2'' = ''/dev/'' @ path_name p \<and> nbd_number p = Some n \<and> probed p False \<in> set ks
         \<and> (\<forall>p'\<in>set paths. \<forall>m. nbd_number p' = Some m \<and> m < n \<longrightarrow> probed p' True \<in> set ks))"
proof -
  have r: "map_option fst (find_free_nbd busy_env []) = Some (Ok ''/dev/nbd2'')" by code_simp
  then obtain h' where h': "find_free_nbd busy_env [] = Some (Ok ''/dev/nbd2'', h')" by force
  have "e_environ busy_env ''NBD_DEVICE'' = None" by (simp add: busy_env_def quiet_env_def)
  then show ?thesis using find_free_nbd_least [of busy_env "[]"] r h' unfolding wp_run by auto
qed

end
