(* ===== verification/Vmm_Matrix.thy ===== *)
theory Vmm_Matrix
  imports Waiting
begin

text \<open>
  \<open>src/scripts/measure-vmm-block-matrix.py\<close>: the disk benchmark for every runtime
  (Docker, Firecracker, QEMU q35, Cloud Hypervisor), every target (a file or a network
  block device) and every mode, one row of a table for each.
\<close>

section \<open>Configuration\<close>

record matrix_config =
  WORK_DIR :: string
  RESULTS_FILE :: string
  DATA_FILE :: string
  DISK_BENCH_BIN :: string
  NBD_SERVER_BIN :: string
  FIRECRACKER_BIN :: string
  FIRECRACKER_KERNEL :: string
  QEMU_KERNEL :: string
  CLOUD_HYPERVISOR_BIN :: string
  DOCKER_IMAGE :: string
  RUNTIMES :: "string list"
  TARGETS :: "string list"
  MODES :: "string list"
  SIZE_BYTES :: int
  RANDOM_OPS :: int
  VCPU_COUNT :: int
  MEM_SIZE_MIB :: int
  TIMEOUT_SECONDS :: int
  NBD_ADDR :: string
  NBD_EXPORT :: string

definition load_config :: "matrix_config prog" where
  "load_config =
     bnd (env_path ''VMM_MATRIX_WORK_DIR'' ''.tmp/vmm-block-matrix'') (\<lambda>work_dir.
     bnd (env_path ''VMM_MATRIX_RESULTS_FILE'' ''docs/benchmarks/vmm-block-matrix-results.txt'') (\<lambda>results_file.
     bnd (env_path ''VMM_MATRIX_DATA_FILE'' ''.tmp/firecracker-file-vs-nbd/bench.dat'') (\<lambda>data_file.
     bnd (env_path ''VMM_MATRIX_DISK_BENCH_BIN'' ''.tmp/firecracker-file-vs-nbd/disk-bench'') (\<lambda>disk_bench_bin.
     bnd (env_path ''VMM_MATRIX_NBD_SERVER_BIN'' ''.tmp/firecracker-file-vs-nbd/local-nbd-file-server'') (\<lambda>nbd_server_bin.
     bnd (env_path ''FIRECRACKER_BIN'' ''firecracker-assets/firecracker'') (\<lambda>firecracker_bin.
     bnd (env_path ''FIRECRACKER_KERNEL'' ''firecracker-assets/vmlinux'') (\<lambda>firecracker_kernel.
     bnd (asks e_uname) (\<lambda>release.
     bnd (env_path ''QEMU_KERNEL'' (''/boot/vmlinuz-'' @ release)) (\<lambda>qemu_kernel.
     bnd (env_path ''CLOUD_HYPERVISOR_BIN'' ''/root/orca-bench/bin/cloud-hypervisor'') (\<lambda>cloud_hypervisor_bin.
     bnd (env_get ''VMM_MATRIX_DOCKER_IMAGE'' ''alpine:3.22'') (\<lambda>docker_image.
     bnd (env_list ''VMM_MATRIX_RUNTIMES'' ''docker,firecracker,cloud-hypervisor,qemu-q35'') (\<lambda>runtimes.
     bnd (env_list ''VMM_MATRIX_TARGETS'' ''file,nbd'') (\<lambda>targets.
     bnd (env_list ''VMM_MATRIX_MODES'' ''sequential,random'') (\<lambda>modes.
     bnd (env_int ''VMM_MATRIX_SIZE_BYTES'' (str_int (256 * 1024 * 1024))) (\<lambda>size_bytes.
     bnd (env_int ''VMM_MATRIX_RANDOM_OPS'' ''4096'') (\<lambda>random_ops.
     bnd (env_int ''VCPU_COUNT'' ''1'') (\<lambda>vcpu_count.
     bnd (env_int ''MEM_SIZE_MIB'' ''256'') (\<lambda>mem_size_mib.
     bnd (env_int ''VMM_MATRIX_TIMEOUT_SECONDS'' ''90'') (\<lambda>timeout_seconds.
     bnd (env_get ''VMM_MATRIX_NBD_ADDR'' ''127.0.0.1:10940'') (\<lambda>nbd_addr.
     bnd (env_get ''VMM_MATRIX_NBD_EXPORT'' ''bench'') (\<lambda>nbd_export.
     ret \<lparr>WORK_DIR = work_dir, RESULTS_FILE = results_file, DATA_FILE = data_file, DISK_BENCH_BIN = disk_bench_bin,
          NBD_SERVER_BIN = nbd_server_bin, FIRECRACKER_BIN = firecracker_bin, FIRECRACKER_KERNEL = firecracker_kernel,
          QEMU_KERNEL = qemu_kernel, CLOUD_HYPERVISOR_BIN = cloud_hypervisor_bin, DOCKER_IMAGE = docker_image,
          RUNTIMES = runtimes, TARGETS = targets, MODES = modes, SIZE_BYTES = size_bytes, RANDOM_OPS = random_ops,
          VCPU_COUNT = vcpu_count, MEM_SIZE_MIB = mem_size_mib, TIMEOUT_SECONDS = timeout_seconds,
          NBD_ADDR = nbd_addr, NBD_EXPORT = nbd_export\<rparr>)))))))))))))))))))))"

section \<open>Small operations\<close>

definition run :: "string \<Rightarrow> bool \<Rightarrow> string prog" where
  "run cmd check = thn (print (''$ '' @ cmd)) (sh_run cmd check)"

definition q :: "string \<Rightarrow> string" where
  "q value = shlex_quote value"

definition now_ms :: "int prog" where
  "now_ms = bnd time_ns (\<lambda>t. ret (t div 1000000))"

definition require :: "string \<Rightarrow> string \<Rightarrow> unit prog" where
  "require path label =
     bnd (exists_path path) (\<lambda>present.
     if present then skip else raise (RuntimeError (''missing '' @ label @ '': '' @ path)))"

definition block_bytes :: "string \<Rightarrow> int" where
  "block_bytes mode = (if mode = ''sequential'' then 1024 * 1024 else 4096)"

definition result_mark :: string where
  "result_mark = ''DISK_BENCH_RESULT=''"

definition extract_result :: "string \<Rightarrow> pyval prog" where
  "extract_result output =
     (case search_obj result_mark output of
        None \<Rightarrow> raise (RuntimeError (''DISK_BENCH_RESULT marker not found:'' @ [nl] @ last_chars 4000 output))
      | Some g \<Rightarrow> loads g)"

definition result_body :: "int \<Rightarrow> string \<Rightarrow> int \<Rightarrow> string \<Rightarrow> (string, pyval) ctl prog" where
  "result_body proc log_path start_ms output =
     bnd (exists_path log_path) (\<lambda>present.
     bnd (if present then read_text log_path else ret output) (\<lambda>output.
     if search_obj result_mark output \<noteq> None
     then bnd (extract_result output) (\<lambda>result.
          bnd now_ms (\<lambda>t.
          bnd (set_item result ''wall_ms'' (PInt (t - start_ms))) (\<lambda>result.
          ret (Leave result))))
     else bnd (poll proc) (\<lambda>st.
          if st \<noteq> None
          then raise (RuntimeError (''process exited before result:'' @ [nl] @ last_chars 4000 output))
          else thn (sleep_ms 50) (ret (Continue output)))))"

definition wait_result_from_file :: "matrix_config \<Rightarrow> int \<Rightarrow> string \<Rightarrow> int \<Rightarrow> pyval prog" where
  "wait_result_from_file c proc log_path start_ms =
     bnd time_ns (\<lambda>t.
     bnd (while_before (t + sec (TIMEOUT_SECONDS c)) (result_body proc log_path start_ms) []) (\<lambda>r.
     case r of
       Leave result \<Rightarrow> ret result
     | Continue _ \<Rightarrow> raise (TimeoutError (''timed out waiting for DISK_BENCH_RESULT in '' @ log_path))))"

text \<open>\<open>except Exception\<close> around a signal to the process group: signal the process itself.\<close>

definition signal_process :: "int \<Rightarrow> string \<Rightarrow> unit prog \<Rightarrow> unit prog" where
  "signal_process proc sig fallback =
     catching (kill_group proc sig) (\<lambda>e. if is_exception e then Some fallback else None)"

definition stop_process :: "int \<Rightarrow> unit prog" where
  "stop_process proc =
     bnd (poll proc) (\<lambda>st.
     if st \<noteq> None then skip
     else thn (signal_process proc ''SIGTERM'' (terminate proc))
          (catching (thn (wait_limit proc (sec 5)) skip)
             (on_timeout
                (thn (signal_process proc ''SIGKILL'' (kill proc))
                (thn (wait_limit proc (sec 5)) skip)))))"

definition build_initramfs :: "matrix_config \<Rightarrow> string prog" where
  "build_initramfs c =
     (let initramfs = pdiv (WORK_DIR c) ''disk-bench-initramfs.cpio.gz'' in
      bnd (run (''mktemp -d '' @ q (pdiv (WORK_DIR c) ''initramfs.XXXXXX'')) True) (\<lambda>out.
      let root = mk_path (strip out) in
      finally_do
        (thn (run (''install -m 0755 '' @ q (DISK_BENCH_BIN c) @ '' '' @ q (pdiv root ''init'')) True)
        (bnd (resolve_path initramfs) (\<lambda>target.
         thn (run (''cd '' @ q root @ '' && find . -print0 | cpio --null -ov --format=newc 2>/dev/null | gzip -9 > ''
                @ q target) True)
         (ret initramfs))))
        (thn (run (''rm -rf '' @ q root) False) skip)))"

definition drop_caches :: "unit prog" where
  "drop_caches =
     thn (run ''sync'' False)
     (thn (run (''sh -c '' @ [squote] @ ''echo 3 > /proc/sys/vm/drop_caches'' @ [squote]) False) skip)"

definition device_body :: "int \<Rightarrow> unit \<Rightarrow> (unit, string) ctl prog" where
  "device_body i s =
     (let dev = ''/dev/nbd'' @ str_int i; pid = ''/sys/block/nbd'' @ str_int i @ ''/pid'' in
      bnd (exists_path dev) (\<lambda>present.
      bnd (if present then bnd (exists_path pid) (\<lambda>busy. ret (\<not> busy)) else ret False) (\<lambda>free.
      ret (if free then Leave dev else Continue ()))))"

definition find_free_nbd :: "string prog" where
  "find_free_nbd =
     bnd (env_get ''VMM_MATRIX_NBD_DEVICE'' []) (\<lambda>v.
     let preferred = strip v in
     if preferred \<noteq> [] then ret preferred
     else bnd (for_until [0..31] () device_body) (\<lambda>r.
          case r of
            Leave dev \<Rightarrow> ret dev
          | Continue _ \<Rightarrow> raise (RuntimeError ''no free /dev/nbdX device found'')))"

section \<open>The network block device\<close>

definition host_port :: "matrix_config \<Rightarrow> (string \<times> string) prog" where
  "host_port c = or_raise (ValueError (NBD_ADDR c)) (rsplit1 CHR '':'' (NBD_ADDR c))"

definition server_body :: "int \<Rightarrow> string \<Rightarrow> string \<Rightarrow> unit \<Rightarrow> (unit, unit) ctl prog" where
  "server_body proc host port s =
     bnd (poll proc) (\<lambda>st.
     if st \<noteq> None then raise (RuntimeError ''NBD server exited early'')
     else bnd (run (''timeout 1 bash -lc '' @ [squote] @ ''</dev/tcp/'' @ q host @ ''/'' @ q port @ [squote]
                 @ '' >/dev/null 2>&1; echo $?'') False) (\<lambda>raw.
          if ends_with (strip raw) ''0'' then ret (Leave ())
          else thn (sleep_ms 100) (ret (Continue ()))))"

definition wait_for_nbd_server :: "matrix_config \<Rightarrow> int \<Rightarrow> unit prog" where
  "wait_for_nbd_server c proc =
     bnd (host_port c) (\<lambda>(host, port).
     bnd time_ns (\<lambda>t.
     bnd (while_before (t + sec 10) (server_body proc host port) ()) (\<lambda>r.
     case r of
       Leave _ \<Rightarrow> skip
     | Continue _ \<Rightarrow> raise (TimeoutError ''timed out waiting for NBD server''))))"

definition detach_nbd :: "string \<Rightarrow> unit prog" where
  "detach_nbd device = thn (run (''nbd-client -d '' @ q device) False) skip"

definition attach_nbd :: "matrix_config \<Rightarrow> string \<Rightarrow> unit prog" where
  "attach_nbd c device =
     bnd (host_port c) (\<lambda>(host, port).
     thn (run (''nbd-client '' @ q host @ '' '' @ q port @ '' '' @ q device @ '' -N '' @ q (NBD_EXPORT c)) True) skip)"

definition start_nbd :: "matrix_config \<Rightarrow> string \<Rightarrow> int prog" where
  "start_nbd c device =
     thn (detach_nbd device)
     (bnd (popen [NBD_SERVER_BIN c,
             ''-addr'', NBD_ADDR c,
             ''-file'', DATA_FILE c,
             ''-export'', NBD_EXPORT c,
             ''-mode'', ''range'',
             ''-chunk-size'', str_int (4 * 1024 * 1024)]) (\<lambda>proc.
      thn (wait_for_nbd_server c proc)
      (thn (attach_nbd c device)
      (ret proc))))"

section \<open>The measurements\<close>

definition bench_args :: "matrix_config \<Rightarrow> string \<Rightarrow> string \<Rightarrow> string \<Rightarrow> string \<Rightarrow> string list" where
  "bench_args c runtime target mode path =
     [''-kind'', runtime @ ''-'' @ target @ ''-'' @ mode,
      ''-mode'', mode,
      ''-path'', path,
      ''-size-bytes'', str_int (SIZE_BYTES c),
      ''-block-bytes'', str_int (block_bytes mode),
      ''-random-ops'', str_int (RANDOM_OPS c),
      ''-io-depth'', ''1'']
     @ (if runtime \<noteq> ''docker'' then [''-hang-after-result''] else [])"

definition measure_docker :: "matrix_config \<Rightarrow> string \<Rightarrow> string \<Rightarrow> string \<Rightarrow> pyval prog" where
  "measure_docker c target mode path =
     (let log_path = pdiv (WORK_DIR c) (''docker-'' @ target @ ''-'' @ mode @ ''.log'') in
      bnd (resolve_path (DISK_BENCH_BIN c)) (\<lambda>bin.
      bnd (if target = ''file''
           then bnd (resolve_path (DATA_FILE c)) (\<lambda>data. ret [''-v'', data @ '':/bench.dat:ro''])
           else ret [''--device'', path @ '':/bench.dat'']) (\<lambda>volume.
      let args = [''docker'', ''run'', ''--rm'', ''--entrypoint'', ''/disk-bench'', ''-v'', bin @ '':/disk-bench:ro'']
                   @ volume @ [DOCKER_IMAGE c] @ bench_args c ''docker'' target mode ''/bench.dat''
      in
      thn drop_caches
      (bnd now_ms (\<lambda>start.
       bnd (exec_result args []) (\<lambda>(rc, out).
       thn (write_text log_path out)
       (bnd (extract_result out) (\<lambda>result.
        bnd now_ms (\<lambda>t.
        set_item result ''wall_ms'' (PInt (t - start)))))))))))"

definition watch_process :: "matrix_config \<Rightarrow> string \<Rightarrow> int \<Rightarrow> int \<Rightarrow> pyval prog" where
  "watch_process c log_path start proc =
     finally_do (wait_result_from_file c proc log_path start) (stop_process proc)"

definition firecracker_config ::
  "matrix_config \<Rightarrow> string \<Rightarrow> string \<Rightarrow> string list \<Rightarrow> string \<Rightarrow> string \<Rightarrow> pyval" where
  "firecracker_config c kernel_path initrd args drive fc_log =
     PDict [
       (''boot-source'', PDict [
          (''kernel_image_path'', PStr kernel_path),
          (''initrd_path'', PStr initrd),
          (''boot_args'', PStr (''console=ttyS0 reboot=k panic=1 pci=off init=/init '' @ join '' '' args))]),
       (''drives'', PList [PDict [
          (''drive_id'', PStr ''bench''),
          (''path_on_host'', PStr drive),
          (''is_root_device'', PBool False),
          (''is_read_only'', PBool True)]]),
       (''machine-config'', PDict [
          (''vcpu_count'', PInt (VCPU_COUNT c)),
          (''mem_size_mib'', PInt (MEM_SIZE_MIB c)),
          (''track_dirty_pages'', PBool False)]),
       (''logger'', PDict [
          (''log_path'', PStr fc_log),
          (''level'', PStr ''Info''),
          (''show_level'', PBool True),
          (''show_log_origin'', PBool True)])]"

definition measure_firecracker :: "matrix_config \<Rightarrow> string \<Rightarrow> string \<Rightarrow> string \<Rightarrow> string \<Rightarrow> pyval prog" where
  "measure_firecracker c target mode path initramfs =
     thn (require (FIRECRACKER_BIN c) ''Firecracker binary'')
     (thn (require (FIRECRACKER_KERNEL c) ''Firecracker kernel'')
     (bnd (run (''mktemp -d '' @ q (pdiv (WORK_DIR c) ''firecracker.XXXXXX'')) True) (\<lambda>out.
      let run_dir = mk_path (strip out);
          serial_log = pdiv run_dir ''serial.log'';
          fc_log = pdiv run_dir ''firecracker.log'';
          socket_path = pdiv run_dir ''firecracker.sock'';
          config_path = pdiv run_dir ''firecracker.json''
      in
      bnd (resolve_path (FIRECRACKER_KERNEL c)) (\<lambda>kernel_path.
      bnd (resolve_path initramfs) (\<lambda>initrd.
      bnd (if starts_with path ''/dev/'' then ret path else resolve_path (mk_path path)) (\<lambda>drive.
      thn (write_text config_path (json_dumps_indent 2
             (firecracker_config c kernel_path initrd (bench_args c ''firecracker'' target mode ''/dev/vda'') drive fc_log)))
      (thn drop_caches
      (bnd now_ms (\<lambda>start.
       bnd (with_open serial_log ''wb'' (with_open fc_log ''ab''
              (bnd (resolve_path (FIRECRACKER_BIN c)) (\<lambda>fc_path.
               popen [fc_path, ''--api-sock'', socket_path, ''--config-file'', config_path]))))
         (watch_process c serial_log start))))))))))"

definition qemu_args :: "matrix_config \<Rightarrow> string \<Rightarrow> string \<Rightarrow> string \<Rightarrow> string \<Rightarrow> string list" where
  "qemu_args c target mode path initramfs =
     [''qemu-system-x86_64'', ''-enable-kvm'', ''-M'', ''q35,accel=kvm'', ''-cpu'', ''host'',
      ''-smp'', str_int (VCPU_COUNT c), ''-m'', str_int (MEM_SIZE_MIB c) @ ''M'',
      ''-nodefaults'', ''-no-user-config'', ''-nographic'', ''-no-reboot'', ''-serial'', ''stdio'',
      ''-kernel'', QEMU_KERNEL c, ''-initrd'', initramfs,
      ''-append'', ''console=ttyS0 quiet loglevel=0 reboot=t panic=-1 init=/init ''
         @ join '' '' (bench_args c ''qemu-q35'' target mode ''/dev/vda''),
      ''-drive'', ''file='' @ path @ '',format=raw,if=none,id=bench,readonly=on'',
      ''-device'', ''virtio-blk-pci,drive=bench'']"

definition measure_qemu_q35 :: "matrix_config \<Rightarrow> string \<Rightarrow> string \<Rightarrow> string \<Rightarrow> string \<Rightarrow> pyval prog" where
  "measure_qemu_q35 c target mode path initramfs =
     (let log_path = pdiv (WORK_DIR c) (''qemu-q35-'' @ target @ ''-'' @ mode @ ''.log'') in
      thn drop_caches
      (bnd now_ms (\<lambda>start.
       bnd (with_open log_path ''wb'' (popen (qemu_args c target mode path initramfs)))
         (watch_process c log_path start))))"

definition cloud_args :: "matrix_config \<Rightarrow> string \<Rightarrow> string \<Rightarrow> string \<Rightarrow> string \<Rightarrow> string list" where
  "cloud_args c target mode path initramfs =
     [CLOUD_HYPERVISOR_BIN c,
      ''--kernel'', FIRECRACKER_KERNEL c,
      ''--initramfs'', initramfs,
      ''--cmdline'', ''console=hvc0 reboot=k panic=1 init=/init ''
         @ join '' '' (bench_args c ''cloud-hypervisor'' target mode ''/dev/vda''),
      ''--disk'', ''path='' @ path @ '',readonly=on,image_type=raw'',
      ''--cpus'', ''boot='' @ str_int (VCPU_COUNT c),
      ''--memory'', ''size='' @ str_int (MEM_SIZE_MIB c) @ ''M'',
      ''--console'', ''tty'',
      ''--serial'', ''off'']"

definition measure_cloud :: "matrix_config \<Rightarrow> string \<Rightarrow> string \<Rightarrow> string \<Rightarrow> string \<Rightarrow> pyval prog" where
  "measure_cloud c target mode path initramfs =
     (let log_path = pdiv (WORK_DIR c) (''cloud-hypervisor-'' @ target @ ''-'' @ mode @ ''.log'') in
      thn (require (CLOUD_HYPERVISOR_BIN c) ''Cloud Hypervisor binary'')
      (thn drop_caches
      (bnd now_ms (\<lambda>start.
       bnd (with_open log_path ''wb'' (popen (cloud_args c target mode path initramfs)))
         (watch_process c log_path start)))))"

definition measure :: "matrix_config \<Rightarrow> string \<Rightarrow> string \<Rightarrow> string \<Rightarrow> string \<Rightarrow> string \<Rightarrow> pyval prog" where
  "measure c runtime target mode path initramfs =
     thn (print (''measuring runtime='' @ runtime @ '' target='' @ target @ '' mode='' @ mode))
     (if runtime = ''docker'' then measure_docker c target mode path
      else if runtime = ''firecracker'' then measure_firecracker c target mode path initramfs
      else if runtime = ''qemu-q35'' then measure_qemu_q35 c target mode path initramfs
      else if runtime = ''cloud-hypervisor'' then measure_cloud c target mode path initramfs
      else raise (RuntimeError (''unsupported runtime '' @ runtime)))"

section \<open>The table and the main program\<close>

definition tab :: char where
  "tab = CHR 0x09"

definition columns :: "string list" where
  "columns = [''runtime'', ''target'', ''mode'', ''mb_per_sec'', ''iops'', ''duration_ms'', ''wall_ms'',
     ''block_bytes'', ''ops'', ''bytes_read'']"

definition table_line :: "pyval \<Rightarrow> string prog" where
  "table_line row = fmt_fields (zip ([] # replicate 9 [tab]) columns) row"

definition heading :: "matrix_config \<Rightarrow> string \<Rightarrow> string \<Rightarrow> string list" where
  "heading c date host =
     [''VMM Block Matrix Results'',
      ''date='' @ date,
      ''host='' @ host,
      ''data_file='' @ DATA_FILE c,
      ''size_bytes='' @ str_int (SIZE_BYTES c),
      ''random_ops='' @ str_int (RANDOM_OPS c),
      ''seq_block_bytes=1048576'',
      ''random_block_bytes=4096'',
      ''vcpus='' @ str_int (VCPU_COUNT c) @ '' memory_mib='' @ str_int (MEM_SIZE_MIB c),
      [],
      join [tab] columns]"

definition write_results :: "matrix_config \<Rightarrow> pyval list \<Rightarrow> unit prog" where
  "write_results c rows =
     thn (mkdirs (path_parent (RESULTS_FILE c)))
     (bnd time_ns (\<lambda>t.
      bnd (run ''hostname'' False) (\<lambda>host.
      bnd (for_each rows (heading c (iso_stamp t) (strip host)) (\<lambda>row lines.
             bnd (table_line row) (\<lambda>line. ret (lines @ [line])))) (\<lambda>lines.
      thn (write_text (RESULTS_FILE c) (join [nl] lines @ [nl]))
      (print (''wrote '' @ RESULTS_FILE c))))))"

definition undo_nbd :: "string \<Rightarrow> int option \<Rightarrow> unit prog" where
  "undo_nbd device nbd_proc =
     (case nbd_proc of None \<Rightarrow> skip | Some proc \<Rightarrow> thn (detach_nbd device) (stop_process proc))"

text \<open>
  One round of the loops.  \<open>nbd_proc\<close> is set when \<open>start_nbd\<close> has returned: the
  \<open>finally\<close> clause has nothing to undo when it raises.
\<close>

definition measure_row :: "matrix_config \<Rightarrow> string \<Rightarrow> string \<Rightarrow> string \<Rightarrow> string \<Rightarrow> string \<Rightarrow> pyval list \<Rightarrow> pyval list prog" where
  "measure_row c initramfs nbd_device runtime target mode rows =
     bnd (if target = ''nbd'' then bnd (start_nbd c nbd_device) (\<lambda>proc. ret (Some proc, nbd_device))
          else ret (None, DATA_FILE c)) (\<lambda>(nbd_proc, path).
     finally_do
       (bnd (measure c runtime target mode path initramfs) (\<lambda>row.
        bnd (set_item row ''runtime'' (PStr runtime)) (\<lambda>row.
        bnd (set_item row ''target'' (PStr target)) (\<lambda>row.
        thn (print (json_dumps_sorted row))
        (ret (rows @ [row]))))))
       (undo_nbd nbd_device nbd_proc))"

definition measure_all :: "matrix_config \<Rightarrow> string \<Rightarrow> string \<Rightarrow> pyval list prog" where
  "measure_all c initramfs nbd_device =
     for_each (RUNTIMES c) [] (\<lambda>runtime rows.
     for_each (TARGETS c) rows (\<lambda>target rows.
     for_each (MODES c) rows (\<lambda>mode rows.
     measure_row c initramfs nbd_device runtime target mode rows)))"

definition main :: "matrix_config \<Rightarrow> unit prog" where
  "main c =
     thn (mkdirs (WORK_DIR c))
     (thn (require (DATA_FILE c) ''data file'')
     (thn (require (DISK_BENCH_BIN c) ''disk-bench binary'')
     (thn (require (NBD_SERVER_BIN c) ''local NBD file server'')
     (bnd (build_initramfs c) (\<lambda>initramfs.
      bnd find_free_nbd (\<lambda>nbd_device.
      bnd (measure_all c initramfs nbd_device) (\<lambda>rows.
      write_results c rows)))))))"

definition script :: "unit prog" where
  "script = bnd load_config (\<lambda>c. report_errors (main c))"

section \<open>Pieces\<close>

lemma steps_matrix [steps_intros]:
  "steps (run cmd ck)" "steps now_ms" "steps (require path label)" "steps (extract_result out)" "steps (build_initramfs c)"
  "steps drop_caches" "steps (device_body i u)" "steps find_free_nbd" "steps (host_port c)" "steps (detach_nbd device)"
  "steps (attach_nbd c device)" "steps (measure_docker c target mode path)" "steps (table_line row)" "steps (write_results c rows)"
  unfolding run_def now_ms_def require_def extract_result_def build_initramfs_def Let_def drop_caches_def device_body_def
    find_free_nbd_def env_get_def host_port_def detach_nbd_def attach_nbd_def measure_docker_def table_line_def write_results_def
  by (intro steps_intros)+

lemma steps_signal [steps_intros]: "steps fb \<Longrightarrow> steps (signal_process proc sig fb)"
  unfolding signal_process_def by (intro steps_intros) (auto split: if_splits)

lemma steps_stop_process [steps_intros]: "steps (stop_process proc)"
  unfolding stop_process_def
  by (intro steps_intros; auto simp: on_timeout_def intro!: steps_intros split: exn.splits)

interpretation result_wait: poller "result_body proc log start" for proc log start
  by unfold_locales (unfold result_body_def, intro pauses_intros steps_intros, simp)

interpretation server_wait: poller "server_body proc host port" for proc host port
  by unfold_locales (unfold server_body_def, intro pauses_intros steps_intros, simp)

lemma keeps_matrix [keeps_intros]:
  "keeps E (run cmd ck)" "keeps E now_ms" "keeps E (require path label)" "keeps E (extract_result out)" "keeps E (build_initramfs c)"
  "keeps E drop_caches" "keeps E (device_body i u)" "keeps E find_free_nbd" "keeps E (host_port c)" "keeps E (detach_nbd device)"
  "keeps E (attach_nbd c device)" "keeps E (measure_docker c target mode path)" "keeps E (table_line row)" "keeps E (write_results c rows)"
  unfolding run_def now_ms_def require_def extract_result_def build_initramfs_def Let_def drop_caches_def device_body_def
    find_free_nbd_def env_get_def host_port_def detach_nbd_def attach_nbd_def measure_docker_def table_line_def write_results_def
  by (intro keeps_intros)+

lemma matrix_spawn_free:
  "emits spawn_free (result_body proc log start out)" "emits spawn_free (server_body proc host port u)"
  unfolding result_body_def server_body_def extract_result_def now_ms_def run_def
  by (intro emits_intros; simp add: spawn_free_def)+

lemma keeps_matrix_waits:
  assumes "clock_law E"
  shows "keeps E (wait_result_from_file c proc log start)" "keeps E (wait_for_nbd_server c proc)"
  unfolding wait_result_from_file_def wait_for_nbd_server_def
  by (intro keeps_intros result_wait.keeps_wait server_wait.keeps_wait assms matrix_spawn_free)+

lemma wp_signal:
  "wp (signal_process p ''SIGTERM'' (terminate p)) (\<lambda>r h'. r = Ok () \<and> live h' = live h) E h"
  "wp (signal_process p ''SIGKILL'' (kill p)) (\<lambda>r h'. r = Ok () \<and> live h' = live h \<and> killed p h') E h"
  by (simp_all add: signal_process_def kill_group_def terminate_def kill_def tell_def check_ok_def wp_simps killed_def)

lemma wp_stop_process:
  assumes "kill_law E" shows "wp (stop_process p) (\<lambda>r h'. r = Ok () \<and> live h' = live h - {p}) E h"
proof -
  have kill: "wp (thn (signal_process p ''SIGKILL'' (kill p)) (thn (wait_limit p (sec 5)) skip))
      (\<lambda>r h'. r = Ok () \<and> live h' = live h - {p}) E h1" if "live h1 = live h" for h1
    by (rule wp_thn_ok [OF wp_signal(2)]) (use that in \<open>auto intro: wp_mono [OF wp_wait_killed [OF assms]]\<close>)
  have stop: "wp (catching (thn (wait_limit p (sec 5)) skip)
       (on_timeout (thn (signal_process p ''SIGKILL'' (kill p)) (thn (wait_limit p (sec 5)) skip))))
      (\<lambda>r h'. r = Ok () \<and> live h' = live h - {p}) E h1" if "live h1 = live h" for h1
    using that kill by (simp add: wp_catching wait_limit_def wp_thn wp_bnd wp_answer wp_or_raise wp_skip on_timeout_def split: option.split)
  have "wp (thn (signal_process p ''SIGTERM'' (terminate p)) (catching (thn (wait_limit p (sec 5)) skip)
       (on_timeout (thn (signal_process p ''SIGKILL'' (kill p)) (thn (wait_limit p (sec 5)) skip)))))
      (\<lambda>r h'. r = Ok () \<and> live h' = live h - {p}) E (Poll p None # h)"
    by (rule wp_thn_ok [OF wp_signal(1)]) (simp add: stop)
  then show ?thesis by (simp add: stop_process_def poll_def wp_bnd wp_answer wp_if wp_skip)
qed

lemma reaps_stop_process: "kill_law E \<Longrightarrow> reaps E p (stop_process p)"
  unfolding reaps_def by (blast intro: wp_mono [OF wp_stop_process])

section \<open>Children\<close>

lemma reaps_watch_process:
  assumes "clock_law E" "kill_law E" shows "reaps E p (watch_process c log start p)"
  unfolding watch_process_def by (intro reaps_finally reaps_stop_process keeps_matrix_waits assms)

lemma keeps_measure:
  assumes "clock_law E" "kill_law E" shows "keeps E (measure c runtime target mode path initramfs)"
proof -
  note child = keeps_spawns [OF spawns_with_open [OF spawns_popen] reaps_watch_process [OF assms]]
  have fc: "spawns E (\<lambda>p. p) (with_open a ma (with_open b mb (bnd (resolve_path x) (\<lambda>y. popen (f y)))))" for a ma b mb x f
    by (intro spawns_with_open spawns_bnd spawns_popen keeps_intros)
  have "keeps E (measure_firecracker c target mode path initramfs)"
    unfolding measure_firecracker_def Let_def
    by (intro keeps_spawns [OF fc reaps_watch_process [OF assms]] keeps_intros)
  moreover have "keeps E (measure_qemu_q35 c target mode path initramfs)" "keeps E (measure_cloud c target mode path initramfs)"
    unfolding measure_qemu_q35_def measure_cloud_def Let_def by (intro child keeps_intros)+
  ultimately show ?thesis unfolding measure_def by (intro keeps_intros)
qed

lemma wp_start_nbd:
  assumes "clock_law E"
  shows "wp (start_nbd c device) (\<lambda>r h'. \<forall>p. r = Ok p \<longrightarrow> live h' \<subseteq> insert p (live h)) E h"
proof -
  have rest: "wp (thn (wait_for_nbd_server c p) (thn (attach_nbd c device) (ret p)))
      (\<lambda>r h'. (\<forall>p'. r = Ok p' \<longrightarrow> live h' \<subseteq> insert p' (live h))) E h1" if "live h1 \<subseteq> insert p (live h)" for p h1
  proof -
    have "wp (thn (wait_for_nbd_server c p) (thn (attach_nbd c device) (ret p)))
      (\<lambda>r h'. live h' \<subseteq> insert p (live h) \<and> (\<forall>p'. r = Ok p' \<longrightarrow> p' = p)) E h1"
      unfolding wp_conj
    proof
      show "wp (thn (wait_for_nbd_server c p) (thn (attach_nbd c device) (ret p))) (\<lambda>r h'. live h' \<subseteq> insert p (live h)) E h1"
        by (rule keepsD [OF _ that]) (intro keeps_intros keeps_matrix_waits assms)
      have "yields E (\<lambda>p'. p' = p) (thn (wait_for_nbd_server c p) (thn (attach_nbd c device) (ret p)))"
        by (intro yields_thn yields_ret keeps_returns keeps_intros keeps_matrix_waits assms refl)
      then show "wp (thn (wait_for_nbd_server c p) (thn (attach_nbd c device) (ret p))) (\<lambda>r h'. \<forall>p'. r = Ok p' \<longrightarrow> p' = p) E h1"
        by (simp add: yields_def)
    qed
    then show ?thesis by (rule wp_mono) auto
  qed
  have "wp (bnd (popen argv) (\<lambda>p. thn (wait_for_nbd_server c p) (thn (attach_nbd c device) (ret p))))
      (\<lambda>r h'. (\<forall>p'. r = Ok p' \<longrightarrow> live h' \<subseteq> insert p' (live h))) E h1" if "live h1 \<subseteq> live h" for argv h1
    using that by (auto simp: popen_def wp_bnd wp_answer wp_or_raise intro!: rest split: option.split)
  then show ?thesis
    unfolding start_nbd_def wp_thn [of "detach_nbd device"]
    by (intro wp_mono [OF keepsD [OF keeps_matrix(10) order_refl]]) (simp split: outcome.split)
qed

lemma keeps_row:
  assumes "clock_law E" "kill_law E"
  shows "target \<noteq> ''nbd'' \<Longrightarrow> keeps E (measure_row c initramfs device runtime target mode rows)"
    and "keeps_ok E (measure_row c initramfs device runtime target mode rows)"
proof -
  have work: "keeps E (bnd (measure c runtime target mode path initramfs) (\<lambda>row.
        bnd (set_item row ''runtime'' (PStr runtime)) (\<lambda>row. bnd (set_item row ''target'' (PStr target)) (\<lambda>row.
        thn (print (json_dumps_sorted row)) (ret (rows @ [row]))))))" for path
    by (intro keeps_intros keeps_measure assms)
  show on_file: "keeps E (measure_row c initramfs device runtime target mode rows)" if "target \<noteq> ''nbd''"
  proof -
    have "keeps E (undo_nbd device None)" by (simp add: undo_nbd_def keeps_skip)
    then show ?thesis unfolding measure_row_def using that by (auto simp: bnd_ret intro!: keeps_finally work)
  qed
  show "keeps_ok E (measure_row c initramfs device runtime target mode rows)"
  proof (cases "target = ''nbd''")
    case True
    have "reaps E p (undo_nbd device (Some p))" for p
      unfolding undo_nbd_def option.case
      by (rule reaps_thn_ok, unfold detach_nbd_def run_def)
        (auto simp: sh_run_def sh_result_def print_def tell_def wp_simps intro: reaps_stop_process [OF assms(2)] split: prod.split)
    then have "keeps_ok E (bnd (start_nbd c device) (\<lambda>p. finally_do (bnd (measure c runtime target mode device initramfs) (\<lambda>row.
        bnd (set_item row ''runtime'' (PStr runtime)) (\<lambda>row. bnd (set_item row ''target'' (PStr target)) (\<lambda>row.
        thn (print (json_dumps_sorted row)) (ret (rows @ [row])))))) (undo_nbd device (Some p))))"
      by (intro keeps_ok_spawns [OF wp_start_nbd [OF assms(1)]] reaps_finally work)
    then show ?thesis using True by (simp add: measure_row_def bnd_assoc bnd_ret)
  qed (simp add: on_file keeps_ok_keeps)
qed

text \<open>
  C34: when the run ends normally, every machine and every block-device server it started
  has been waited for; and when no target is \<open>nbd\<close> this also holds when the run ends
  with an exception.
\<close>

theorem matrix_children:
  assumes "clock_law E" "kill_law E"
  shows "wp (main c) (\<lambda>r h'. r = Ok () \<or> ''nbd'' \<notin> set (TARGETS c) \<longrightarrow> live h' \<subseteq> live h) E h"
proof (cases "''nbd'' \<in> set (TARGETS c)")
  case True
  have "keeps_ok E (main c)"
    unfolding main_def measure_all_def thn_def
    by (intro keeps_ok_bnd keeps_ok_bind [OF keeps_ok_for_each] keeps_ok_for_each keeps_row assms keeps_intros keeps_ok_keeps)
  then show ?thesis using True by (auto simp: keeps_ok_def intro: wp_mono)
next
  case False
  have "keeps E (main c)"
    unfolding main_def measure_all_def by (intro keeps_intros keeps_row assms) (use False in auto)
  then show ?thesis by (auto simp: keeps_def intro: wp_mono)
qed

text \<open>A small matrix.\<close>

definition sample_matrix :: matrix_config where
  "sample_matrix = \<lparr>WORK_DIR = ''/w'', RESULTS_FILE = ''/w/results.txt'', DATA_FILE = ''/w/bench.dat'', DISK_BENCH_BIN = ''/w/disk-bench'',
     NBD_SERVER_BIN = ''/w/nbd-server'', FIRECRACKER_BIN = ''/w/firecracker'', FIRECRACKER_KERNEL = ''/w/vmlinux'', QEMU_KERNEL = ''/boot/vmlinuz'',
     CLOUD_HYPERVISOR_BIN = ''/w/cloud-hypervisor'', DOCKER_IMAGE = ''alpine'', RUNTIMES = [''docker'', ''qemu-q35''], TARGETS = [''file'', ''nbd''],
     MODES = [''random''], SIZE_BYTES = 4096, RANDOM_OPS = 1, VCPU_COUNT = 1, MEM_SIZE_MIB = 256, TIMEOUT_SECONDS = 5,
     NBD_ADDR = ''127.0.0.1:10940'', NBD_EXPORT = ''bench''\<rparr>"

text \<open>A run of one cell, in which the benchmark prints its result.\<close>

interpretation matrix_mark: result_marker result_mark "''DISK_BENCH_RESULT''"
  by unfold_locales (simp_all add: result_mark_def)

definition bench_fields :: pydict where
  "bench_fields = map (\<lambda>k. (k, PInt 1))
     [''mode'', ''mb_per_sec'', ''iops'', ''duration_ms'', ''block_bytes'', ''ops'', ''bytes_read'']"

definition bench_env :: env where
  "bench_env = quiet_env \<lparr>
     e_environ := [''VMM_MATRIX_NBD_DEVICE'' \<mapsto> ''/dev/nbd0''],
     e_exists := (\<lambda>h p. True),
     e_exec := (\<lambda>h argv i. Some (0, result_mark @ json_dumps (PDict bench_fields)))\<rparr>"

definition small_matrix :: matrix_config where
  "small_matrix = sample_matrix \<lparr>RUNTIMES := [''docker''], TARGETS := [''file''], MODES := [''random'']\<rparr>"

lemma bench_result: "extract_result (result_mark @ json_dumps (PDict bench_fields)) = ret (PDict bench_fields)"
proof -
  have "json_ok (PDict bench_fields)" "\<not> contains result_mark []" by code_simp+
  from matrix_mark.search_dumps [OF this, of "[]"] loads_dumps(1) [OF this(1)]
  show ?thesis by (simp add: extract_result_def loads_def or_raise_def)
qed

lemma bench_lookup:
  "map_of bench_fields ''mode'' = Some (PInt 1)" "map_of bench_fields ''mb_per_sec'' = Some (PInt 1)" "map_of bench_fields ''iops'' = Some (PInt 1)"
  "map_of bench_fields ''duration_ms'' = Some (PInt 1)" "map_of bench_fields ''block_bytes'' = Some (PInt 1)"
  "map_of bench_fields ''ops'' = Some (PInt 1)" "map_of bench_fields ''bytes_read'' = Some (PInt 1)"
  by (simp_all add: bench_fields_def)

lemma small_ends: "wp (main small_matrix) (\<lambda>r h'. r = Ok ()) bench_env []"
proof -
  have "strip ''/dev/nbd0'' = ''/dev/nbd0''" by code_simp
  then show ?thesis
    by (simp add: main_def small_matrix_def sample_matrix_def require_def build_initramfs_def Let_def
        run_def find_free_nbd_def env_get_def measure_all_def measure_row_def measure_def measure_docker_def
        drop_caches_def now_ms_def undo_nbd_def write_results_def table_line_def columns_def fmt_fields_def
        bench_env_def quiet_env_def prim_defs wp_simps bench_result bench_lookup set_item_def get_item_def as_dict_def numeral_eq_Suc)
qed

lemma bench_laws: "clock_law bench_env" "kill_law bench_env"
  by (simp_all add: clock_law_def kill_law_def bench_env_def quiet_env_def)

lemma matrix_children_witness:
  "clock_law bench_env \<and> kill_law bench_env \<and> wp (main small_matrix) (\<lambda>r h'. r = Ok () \<and> live h' \<subseteq> live []) bench_env []"
proof -
  have "''nbd'' \<notin> set (TARGETS small_matrix)" by (simp add: small_matrix_def)
  then show ?thesis
    using matrix_children [OF bench_laws, of small_matrix "[]"] bench_laws by (simp add: wp_conj small_ends)
qed

section \<open>The table covers the matrix\<close>

definition row_text :: "pyval \<Rightarrow> string" where
  "row_text row = join [tab] (map (\<lambda>k. py_str (the (field row k))) columns)"

lemma yields_table_line: "yields E (\<lambda>line. line = row_text row) (table_line row)"
proof -
  have "concat (map (\<lambda>f. fst f @ py_str (the (field row (snd f)))) (zip ([] # replicate 9 [tab]) columns)) = row_text row"
    by (simp add: row_text_def columns_def numeral_eq_Suc)
  then show ?thesis using yields_fmt_fields [of E row "zip ([] # replicate 9 [tab]) columns"] by (simp add: table_line_def)
qed

lemma extends_matrix:
  "extends (measure c runtime target mode path initramfs)" "extends (start_nbd c device)" "extends (undo_nbd device p)"
  unfolding measure_def measure_firecracker_def measure_qemu_q35_def measure_cloud_def watch_process_def wait_result_from_file_def result_body_def
    start_nbd_def wait_for_nbd_server_def server_body_def with_open_def undo_nbd_def Let_def
  by (intro emits_intros steps_extends [OF steps_matrix(1)] steps_extends [OF steps_matrix(2)] steps_extends [OF steps_matrix(3)]
      steps_extends [OF steps_matrix(4)] steps_extends [OF steps_matrix(6)] steps_extends [OF steps_matrix(9)] steps_extends [OF steps_matrix(10)]
      steps_extends [OF steps_matrix(11)] steps_extends [OF steps_matrix(12)] steps_extends [OF steps_stop_process] TrueI)+

text \<open>
  A row is what \<open>measure\<close> returned for its runtime, target and mode, on the data file or
  the block device, with the names of the runtime and the target added.
\<close>

type_synonym matrix_cell = "string \<times> string \<times> string"

definition row_measured :: "matrix_config \<Rightarrow> string \<Rightarrow> string \<Rightarrow> env \<Rightarrow> hist \<Rightarrow> matrix_cell \<Rightarrow> pyval \<Rightarrow> bool" where
  "row_measured c initramfs device E h = (\<lambda>(runtime, target, mode) row.
     \<exists>v. came_from E (measure c runtime target mode (if target = ''nbd'' then device else DATA_FILE c) initramfs) v h
       \<and> field row = (field v)(''runtime'' \<mapsto> PStr runtime, ''target'' \<mapsto> PStr target))"

definition matrix_cells :: "matrix_config \<Rightarrow> matrix_cell list" where
  "matrix_cells c = List.product (RUNTIMES c) (List.product (TARGETS c) (MODES c))"

lemma lasting_measured: "lasting (\<lambda>h. list_all2 (row_measured c initramfs device E h) ks rows)"
proof -
  have "row_measured c initramfs device E h k row \<Longrightarrow> suffix h h' \<Longrightarrow> row_measured c initramfs device E h' k row" for h h' k row
    unfolding row_measured_def split_beta by (blast intro: lastingD [OF lasting_came_from])
  then show ?thesis unfolding lasting_def by (auto elim: list_all2_mono)
qed

lemma ends_row:
  assumes "clock_law E" "kill_law E"
  shows "ends E (\<lambda>h. list_all2 (row_measured c initramfs device E h) ks rows)
     (\<lambda>rows' h. list_all2 (row_measured c initramfs device E h) (ks @ [(runtime, target, mode)]) rows')
     (measure_row c initramfs device runtime target mode rows)"
proof -
  let ?A = "\<lambda>h. list_all2 (row_measured c initramfs device E h) ks rows"
  let ?P = "\<lambda>rows' h. list_all2 (row_measured c initramfs device E h) (ks @ [(runtime, target, mode)]) rows'"
  let ?path = "if target = ''nbd'' then device else DATA_FILE c"
  let ?m = "measure c runtime target mode ?path initramfs"
  note closed = lasting_conj [OF lasting_conj [OF lasting_measured lasting_came_from] lasting_const]
  have set: "extends (set_item v k x)" for v k x unfolding set_item_def as_dict_def by (cases v) (simp_all add: emits_raise emits_bnd emits_ret)
  have work: "ends E ?A ?P (bnd ?m (\<lambda>row.
        bnd (set_item row ''runtime'' (PStr runtime)) (\<lambda>row. bnd (set_item row ''target'' (PStr target)) (\<lambda>row.
        thn (print (json_dumps_sorted row)) (ret (rows @ [row]))))))"
    by (rule ends_bind [OF ends_came_from [OF keeps_returns [OF keeps_measure [OF assms]] extends_matrix(1) lasting_measured]],
        rule ends_bind [OF ends_yields [OF yields_set_item set lasting_conj [OF lasting_measured lasting_came_from]]],
        rule ends_bind [OF ends_yields [OF yields_set_item set closed]],
        rule ends_thn, intro steps_returns steps_intros, intro emits_intros TrueI,
        intro lasting_conj lasting_measured lasting_came_from lasting_const,
        rule ends_ret) (auto simp: row_measured_def intro!: list_all2_appendI)
  have start: "returns E (start_nbd c device)"
    using wp_start_nbd [OF assms(1)] unfolding returns_wp by (blast intro: wp_mono)
  have undo: "returns E (undo_nbd device p)" for p
    unfolding undo_nbd_def by (intro steps_returns steps_intros)
  have body: "ends E ?A ?P (finally_do (bnd ?m (\<lambda>row.
        bnd (set_item row ''runtime'' (PStr runtime)) (\<lambda>row. bnd (set_item row ''target'' (PStr target)) (\<lambda>row.
        thn (print (json_dumps_sorted row)) (ret (rows @ [row])))))) (undo_nbd device p))" for p
    by (rule ends_finally [OF work undo extends_matrix(3) lasting_measured])
  show ?thesis
  proof (cases "target = ''nbd''")
    case True
    then show ?thesis
      using ends_bnd [OF start extends_matrix(2) lasting_measured body [of "Some _"]] by (simp add: measure_row_def bnd_assoc bnd_ret)
  next
    case False
    then show ?thesis using body [of None] by (simp add: measure_row_def bnd_ret)
  qed
qed

lemma product_snoc: "List.product (xs @ [x]) ys = List.product xs ys @ map (Pair x) ys"
  by (induction xs) simp_all

lemma ends_measure_all:
  assumes "clock_law E" "kill_law E"
  shows "ends E (\<lambda>h. True) (\<lambda>rows h. list_all2 (row_measured c initramfs device E h) (matrix_cells c) rows) (measure_all c initramfs device)"
proof -
  let ?L = "\<lambda>ks rows h. list_all2 (row_measured c initramfs device E h) ks rows"
  have modes: "ends E (?L ks rows) (?L (ks @ map (\<lambda>m. (runtime, target, m)) ms))
      (for_each ms rows (\<lambda>mode rows. measure_row c initramfs device runtime target mode rows))" for ks rows runtime target ms
    by (rule ends_for_each [where I = "\<lambda>ys. ?L (ks @ map (\<lambda>m. (runtime, target, m)) ys)"])
      (use ends_row [OF assms, of c initramfs device "ks @ map (\<lambda>m. (runtime, target, m)) _"] in simp_all)
  have targets: "ends E (?L ks rows) (?L (ks @ map (Pair runtime) (List.product ts (MODES c))))
      (for_each ts rows (\<lambda>target rows. for_each (MODES c) rows (\<lambda>mode rows. measure_row c initramfs device runtime target mode rows)))"
    for ks rows runtime ts
    by (rule ends_for_each [where I = "\<lambda>ys. ?L (ks @ map (Pair runtime) (List.product ys (MODES c)))"])
      (use modes [of "ks @ map (Pair runtime) (List.product _ (MODES c))"] in \<open>simp_all add: product_snoc o_def\<close>)
  show ?thesis
    unfolding measure_all_def matrix_cells_def
    by (rule ends_for_each [where I = "\<lambda>ys. ?L (List.product ys (List.product (TARGETS c) (MODES c)))"])
      (use targets in \<open>simp_all add: product_snoc\<close>)
qed


definition written :: "matrix_config \<Rightarrow> pyval list \<Rightarrow> hist \<Rightarrow> bool" where
  "written c rows h = (\<exists>date host.
     WriteText (RESULTS_FILE c) (join [nl] (heading c date host @ map row_text rows) @ [nl]) True \<in> set h)"

lemma ends_write_results:
  assumes "lasting A" shows "ends E A (\<lambda>u h. written c rows h \<and> A h) (write_results c rows)"
proof -
  have lines: "yields E (\<lambda>ls. ls = heading c date host @ map row_text rows)
      (for_each rows (heading c date host) (\<lambda>row lines. bnd (table_line row) (\<lambda>line. ret (lines @ [line]))))" for date host
    by (rule yields_for_each) (auto intro!: yields_bind [OF yields_table_line] yields_ret)
  have save: "ends E (\<lambda>h. A h \<and> ls = heading c date host @ map row_text rows) (\<lambda>u h. written c rows h \<and> A h)
      (thn (write_text (RESULTS_FILE c) (join [nl] ls @ [nl])) (print (''wrote '' @ RESULTS_FILE c)))" for ls date host
    using lastingD [OF assms] by (auto simp: ends_def written_def prim_defs wp_simps suffix_Cons)
  show ?thesis
    unfolding write_results_def
    by (rule ends_then, (intro steps_intros)[1], rule assms, rule ends_next, (intro steps_intros)[1], rule assms,
        rule ends_next, (intro steps_intros)[1], rule assms, rule ends_bind [OF ends_yields [OF lines _ assms] save],
        intro steps_extends steps_intros)
qed

lemma returns_measure_all:
  assumes "clock_law E" "kill_law E" shows "returns E (measure_all c initramfs device)"
  unfolding returns_wp by (rule allI, rule wp_mono [OF endsD [OF ends_measure_all [OF assms] TrueI]]) simp

lemma extends_measure_all: "extends (measure_all c initramfs device)"
  unfolding measure_all_def measure_row_def
  by (intro emits_intros extends_matrix steps_extends [OF steps_values(3)] TrueI)

text \<open>
  C: a run that ends normally has written the table, with exactly one line for every
  runtime, target and mode, in the order of the configuration.  The columns of a line are
  the fields of the row that the measurement of that runtime, target and mode returned in
  this run.
\<close>

theorem table_covers_matrix:
  assumes "clock_law E" "kill_law E"
  shows "wp (main c) (\<lambda>r h'. r = Ok () \<longrightarrow> (\<exists>initramfs device rows. written c rows h'
      \<and> came_from E (build_initramfs c) initramfs h' \<and> came_from E find_free_nbd device h'
      \<and> list_all2 (row_measured c initramfs device E h') (matrix_cells c) rows)) E h"
proof -
  let ?B = "\<lambda>initramfs device h'. came_from E (build_initramfs c) initramfs h' \<and> came_from E find_free_nbd device h'"
  let ?M = "\<lambda>initramfs device rows h'. ?B initramfs device h' \<and> list_all2 (row_measured c initramfs device E h') (matrix_cells c) rows"
  have last: "lasting (?M initramfs device rows)" for initramfs device rows
    by (intro lasting_conj lasting_came_from lasting_measured)
  have rows: "ends E (?B initramfs device) (?M initramfs device) (measure_all c initramfs device)" for initramfs device
    by (rule ends_conj [OF ends_pass [OF returns_measure_all [OF assms] extends_measure_all] ends_mono [OF ends_measure_all [OF assms]]])
      (auto intro: lasting_conj)
  have main: "ends E (\<lambda>h. True) (\<lambda>u h. \<exists>initramfs device rows. written c rows h \<and> ?M initramfs device rows h) (main c)"
    unfolding main_def
    by ((rule ends_then, (intro steps_intros)[1], (rule lasting_const)[1])+,
        rule ends_bind [OF ends_came_from], intro steps_returns steps_intros, intro steps_extends steps_intros, rule lasting_const,
        rule ends_bind [OF ends_came_from], intro steps_returns steps_intros, intro steps_extends steps_intros,
        intro lasting_conj lasting_const lasting_came_from,
        rule ends_bind [OF ends_mono [OF rows]], simp, assumption,
        rule ends_mono [OF ends_write_results [OF last]], assumption, blast)
  show ?thesis
    by (rule wp_mono [OF endsD [OF main TrueI]]) blast
qed

lemma table_covers_matrix_witness:
  "clock_law bench_env \<and> kill_law bench_env \<and>
   wp (main small_matrix) (\<lambda>r h'. r = Ok () \<and> (\<exists>initramfs device rows. written small_matrix rows h'
      \<and> came_from bench_env (build_initramfs small_matrix) initramfs h' \<and> came_from bench_env find_free_nbd device h'
      \<and> list_all2 (row_measured small_matrix initramfs device bench_env h') [(''docker'', ''file'', ''random'')] rows)) bench_env []"
proof -
  have cells: "matrix_cells small_matrix = [(''docker'', ''file'', ''random'')]"
    by (simp add: matrix_cells_def small_matrix_def sample_matrix_def)
  from wp_returns [OF small_ends table_covers_matrix [OF bench_laws, of small_matrix "[]", unfolded cells]] bench_laws
  show ?thesis by blast
qed

section \<open>Two defects\<close>

text \<open>
  The result of a process that prints it and exits between the read of the log and the
  \<open>poll\<close> is lost: the log is not read again.
\<close>

definition late_env :: env where
  "late_env = quiet_env \<lparr>
     e_exists := (\<lambda>h p. True),
     e_read := (\<lambda>h p. Some (if list_ex (is_reap 1) h then ''DISK_BENCH_RESULT={}'' else ''booting'')),
     e_poll := (\<lambda>h p. Some 0)\<rparr>"

lemma late_result_lost:
  "case result_body 1 ''log'' 0 [] late_env [] of
     Some (Exc (RuntimeError s), h) \<Rightarrow> e_read late_env h ''log'' = Some ''DISK_BENCH_RESULT={}''
   | _ \<Rightarrow> False"
  by code_simp

text \<open>The server of \<open>start_nbd\<close> is left running when attaching the device fails.\<close>

definition refused_env :: env where
  "refused_env = quiet_env \<lparr>
     e_shell := (\<lambda>h cmd. if starts_with cmd ''timeout'' then (0, ''0'') else (1, ''refused'')),
     e_poll := (\<lambda>h p. None)\<rparr>"

lemma refused_host_port: "host_port sample_matrix = ret (''127.0.0.1'', ''10940'')"
proof -
  have "rsplit1 CHR '':'' (NBD_ADDR sample_matrix) = Some (''127.0.0.1'', ''10940'')" by code_simp
  then show ?thesis by (simp add: host_port_def or_raise_def)
qed

lemma refused_server_answers: "ends_with (strip ''0'') ''0''"
  by code_simp

lemma start_nbd_leaks_server:
  "wp (start_nbd sample_matrix ''/dev/nbd0'')
     (\<lambda>r h'. (\<exists>rc out. r = Exc (CalledProcessError rc out)) \<and> 100 \<in> live h') refused_env []"
  by (simp add: start_nbd_def detach_nbd_def attach_nbd_def run_def wait_for_nbd_server_def refused_host_port
      wp_while_before_step server_body_def prim_defs wp_simps sec_def refused_env_def quiet_env_def
      refused_server_answers)

end
