(* ===== verification/Failures.thy ===== *)
theory Failures
  imports Waiting
begin

text \<open>
  Programs whose exceptions are all caught by \<open>except Exception\<close> and have a message:
  what a script that records \<open>str(err)\<close> for each failed measurement relies on.
\<close>

definition plain_exn :: "exn \<Rightarrow> bool" where
  "plain_exn e = (is_exception e \<and> exn_str e \<noteq> [])"

definition tame :: "'a prog \<Rightarrow> bool" where
  "tame m = (\<forall>E h e h'. m E h = Some (Exc e, h') \<longrightarrow> plain_exn e)"

named_theorems tame_intros

lemma tameI: "(\<And>E h e h'. m E h = Some (Exc e, h') \<Longrightarrow> plain_exn e) \<Longrightarrow> tame m"
  by (simp add: tame_def)

lemma tameD: "tame m \<Longrightarrow> m E h = Some (Exc e, h') \<Longrightarrow> plain_exn e"
  unfolding tame_def by blast

lemma repr_str_nonempty [simp]: "repr_str s \<noteq> []"
  by (simp add: repr_str_def Let_def)

lemma plain_exn_simps [simp]:
  "plain_exn (RuntimeError s) = (s \<noteq> [])" "plain_exn (TimeoutError s) = (s \<noteq> [])" "plain_exn (CalledProcessError rc c)"
  "plain_exn (TimeoutExpired s)" "plain_exn (ValueError s)" "plain_exn (KeyError s)" "plain_exn IndexError" "plain_exn (TypeError s)"
  "plain_exn (AttributeError s)" "plain_exn (OSError s)" "plain_exn (JSONDecodeError s)" "plain_exn (OverflowError s)"
  by (simp_all add: plain_exn_def)

lemma tame_ret [tame_intros]: "tame (ret x)"
  by (simp add: tame_def ret_def)

lemma tame_skip [tame_intros]: "tame skip"
  by (simp add: skip_def tame_ret)

lemma tame_raise [tame_intros]: "plain_exn e \<Longrightarrow> tame (raise e)"
  by (simp add: tame_def raise_def)

lemma tame_asks [tame_intros]: "tame (asks f)"
  by (simp add: tame_def asks_def)

lemma tame_answer [tame_intros]: "tame (answer f ev)"
  by (simp add: tame_def answer_def Let_def)

lemma tame_bnd [tame_intros]: "tame m \<Longrightarrow> (\<And>x. tame (f x)) \<Longrightarrow> tame (bnd m f)"
  unfolding tame_def by (auto simp: bnd_def split: option.splits outcome.splits)

lemma tame_thn [tame_intros]: "tame m \<Longrightarrow> tame k \<Longrightarrow> tame (thn m k)"
  by (simp add: thn_def tame_bnd)

lemma tame_if [tame_intros]: "(b \<Longrightarrow> tame m) \<Longrightarrow> (\<not> b \<Longrightarrow> tame k) \<Longrightarrow> tame (if b then m else k)"
  by simp

lemma tame_cond_do [tame_intros]: "(b \<Longrightarrow> tame m) \<Longrightarrow> tame (cond_do b m)"
  by (simp add: cond_do_def tame_skip)

lemma tame_let [tame_intros]: "(\<And>x. x = a \<Longrightarrow> tame (f x)) \<Longrightarrow> tame (let x = a in f x)"
  by simp

lemma tame_case_option [tame_intros]:
  "(x = None \<Longrightarrow> tame m) \<Longrightarrow> (\<And>y. x = Some y \<Longrightarrow> tame (f y)) \<Longrightarrow> tame (case x of None \<Rightarrow> m | Some y \<Rightarrow> f y)"
  by (cases x) simp_all

lemma tame_case_prod [tame_intros]: "(\<And>a b. p = (a, b) \<Longrightarrow> tame (f a b)) \<Longrightarrow> tame (case p of (a, b) \<Rightarrow> f a b)"
  by (cases p) simp

lemma tame_case_ctl [tame_intros]:
  "(\<And>s. c = Continue s \<Longrightarrow> tame (f s)) \<Longrightarrow> (\<And>r. c = Leave r \<Longrightarrow> tame (g r)) \<Longrightarrow>
     tame (case c of Continue s \<Rightarrow> f s | Leave r \<Rightarrow> g r)"
  by (cases c) simp_all

lemma tame_or_raise [tame_intros]: "plain_exn e \<Longrightarrow> tame (or_raise e x)"
  by (simp add: or_raise_def tame_raise tame_ret split: option.split)

lemma tame_check_ok [tame_intros]: "plain_exn e \<Longrightarrow> tame (check_ok e b)"
  by (simp add: check_ok_def tame_raise tame_skip)

lemma tame_catching [tame_intros]:
  "tame m \<Longrightarrow> (\<And>e k. hnd e = Some k \<Longrightarrow> tame k) \<Longrightarrow> tame (catching m hnd)"
  unfolding tame_def by (auto simp: catching_def split: option.splits outcome.splits prod.splits)

lemma tame_finally [tame_intros]: "tame m \<Longrightarrow> tame k \<Longrightarrow> tame (finally_do m k)"
  unfolding tame_def by (fastforce simp: finally_do_def split: option.splits outcome.splits prod.splits)

lemma tame_for_each [tame_intros]: "(\<And>x s. x \<in> set xs \<Longrightarrow> tame (f x s)) \<Longrightarrow> tame (for_each xs s f)"
  by (induction xs arbitrary: s) (auto intro: tame_ret tame_bnd)

lemma tame_loop [tame_intros]:
  assumes "\<And>s. tame (body s)" shows "tame (py_loop body s)"
proof (rule tameI)
  fix E h e h'
  assume "py_loop body s E h = Some (Exc e, h')"
  moreover have "py_loop bd s E h = Some x \<Longrightarrow> bd = body \<longrightarrow> (\<forall>e. fst x = Exc e \<longrightarrow> plain_exn e)"
    for bd :: "'a \<Rightarrow> ('a, 'b) ctl prog" and s E h x
  proof (erule py_loop.raw_induct [rotated], intro impI)
    fix loop bd and s :: 'a and E h x
    assume ih: "\<And>(bd :: 'a \<Rightarrow> ('a, 'b) ctl prog) s E h y. loop bd s E h = Some y \<Longrightarrow>
        bd = body \<longrightarrow> (\<forall>e. fst y = Exc e \<longrightarrow> plain_exn e)"
      and step: "(case bd s E h of None \<Rightarrow> None | Some (Ok (Continue s'), h') \<Rightarrow> loop bd s' E h'
        | Some (Ok (Leave r), h') \<Rightarrow> Some (Ok r, h') | Some (Exc e, h') \<Rightarrow> Some (Exc e, h')) = Some x"
      and "bd = body"
    then obtain r1 h1 where b: "bd s E h = Some (r1, h1)" by (auto split: option.splits)
    show "\<forall>e. fst x = Exc e \<longrightarrow> plain_exn e"
      using step b ih [of bd _ E h1 x] \<open>bd = body\<close> tameD [OF assms]
      by (cases r1 rule: ctl_outcome_cases) auto
  qed
  ultimately show "plain_exn e" by fastforce
qed

lemma tame_while_before [tame_intros]: "(\<And>s. tame (body s)) \<Longrightarrow> tame (while_before deadline body s)"
  unfolding while_before_def time_ns_def by (intro tame_intros)

lemma tame_prims [tame_intros]:
  "tame (print s)" "tame time_ns" "tame (sleep_ms d)" "tame (exists_path p)" "tame (stat_size p)" "tame (stat_mtime_ns p)"
  "tame (read_text p)" "tame (write_text p s)" "tame (mkdirs p)" "tame (unlink_ok p)" "tame (open_file p md)" "tame (close_file p)"
  "tame (resolve_path p)" "tame (sh_result cmd)" "tame (sh_run cmd ck)" "tame (popen argv)" "tame (poll pid)" "tame (wait_limit pid d)"
  "tame (terminate pid)" "tame (kill pid)" "tame (copy_file a b)"
  unfolding prim_defs by (intro tame_intros; simp)+

lemma tame_script [tame_intros]:
  "tame (loads s)" "tame (as_dict v)" "tame (as_obj v)" "tame (as_str v)" "tame (py_iter v)" "tame (first_item v)" "tame (get_item v k)"
  "tame (get_or v k d)" "tame (join_lines v)"
  unfolding loads_def as_dict_def as_obj_def as_str_def py_iter_def first_item_def get_item_def get_or_def join_lines_def
  by (cases v; auto intro!: tame_intros split: list.split pyval.split)+

lemma tame_with_open [tame_intros]: "tame m \<Longrightarrow> tame (with_open path md m)"
  unfolding with_open_def by (intro tame_intros)

lemma tame_stop_running [tame_intros]: "tame (stop_running pid limit)"
  unfolding stop_running_def stop_within_def terminate_or_kill_def
  by (intro tame_intros; auto simp: on_timeout_def intro!: tame_intros split: exn.splits)

end
