(* ===== verification/Vmm_Startup.thy ===== *)
theory Vmm_Startup
  imports Failures Base64
begin

text \<open>
  \<open>src/scripts/measure-vmm-startup.py\<close>: the time from the start of a container or a
  virtual machine to the first appearance of a marker in its output, for every runtime
  in turn.
\<close>

section \<open>Configuration\<close>

record startup_config =
  IMAGE :: string
  COMMAND :: string
  MARKER :: string
  WORK_PARENT :: string
  ASSET_DIR :: string
  ROOTFS_SIZE_MB :: int
  MEM_SIZE_MIB :: int
  VCPU_COUNT :: int
  TIMEOUT_SECONDS :: int
  RUNTIMES :: "string list"
  ORCA_INIT_BIN :: string
  FIRECRACKER_BIN :: string
  FIRECRACKER_KERNEL :: string
  QEMU_KERNEL :: string
  CLOUD_HYPERVISOR_BIN :: string
  FORCE_ROOTFS :: bool

definition load_config :: "startup_config prog" where
  "load_config =
     bnd (env_get ''STARTUP_IMAGE'' ''alpine:3.22'') (\<lambda>img.
     bnd (env_get ''STARTUP_COMMAND'' ''echo ORCA_STARTUP_MARKER'') (\<lambda>command.
     bnd (env_get ''STARTUP_MARKER'' ''ORCA_STARTUP_MARKER'') (\<lambda>marker.
     bnd (env_path ''WORK_PARENT'' ''.tmp/vmm-startup'') (\<lambda>work_parent.
     bnd (env_path ''ASSET_DIR'' ''firecracker-assets'') (\<lambda>asset_dir.
     bnd (env_int ''ROOTFS_SIZE_MB'' ''512'') (\<lambda>rootfs_size_mb.
     bnd (env_int ''MEM_SIZE_MIB'' ''256'') (\<lambda>mem_size_mib.
     bnd (env_int ''VCPU_COUNT'' ''1'') (\<lambda>vcpu_count.
     bnd (env_int ''STARTUP_TIMEOUT_SECONDS'' ''30'') (\<lambda>timeout_seconds.
     bnd (env_list ''STARTUP_RUNTIMES'' ''docker,firecracker,qemu-microvm,qemu-q35,cloud-hypervisor'') (\<lambda>runtimes.
     bnd (env_path ''ORCA_INIT_BIN'' ''bin/orca-init'') (\<lambda>orca_init_bin.
     bnd (env_path ''FIRECRACKER_BIN'' (pdiv asset_dir ''firecracker'')) (\<lambda>firecracker_bin.
     bnd (env_path ''FIRECRACKER_KERNEL'' (pdiv asset_dir ''vmlinux'')) (\<lambda>firecracker_kernel.
     bnd (asks e_uname) (\<lambda>release.
     bnd (env_path ''QEMU_KERNEL'' (''/boot/vmlinuz-'' @ release)) (\<lambda>qemu_kernel.
     bnd (env_path ''CLOUD_HYPERVISOR_BIN'' ''bin/cloud-hypervisor'') (\<lambda>cloud_hypervisor_bin.
     bnd (env_flag ''FORCE_ROOTFS'' ''false'') (\<lambda>force_rootfs.
     ret \<lparr>IMAGE = img, COMMAND = command, MARKER = marker, WORK_PARENT = work_parent, ASSET_DIR = asset_dir,
          ROOTFS_SIZE_MB = rootfs_size_mb, MEM_SIZE_MIB = mem_size_mib, VCPU_COUNT = vcpu_count,
          TIMEOUT_SECONDS = timeout_seconds, RUNTIMES = runtimes, ORCA_INIT_BIN = orca_init_bin,
          FIRECRACKER_BIN = firecracker_bin, FIRECRACKER_KERNEL = firecracker_kernel, QEMU_KERNEL = qemu_kernel,
          CLOUD_HYPERVISOR_BIN = cloud_hypervisor_bin, FORCE_ROOTFS = force_rootfs\<rparr>)))))))))))))))))"

section \<open>Small operations\<close>

definition now_ms :: "int prog" where
  "now_ms = bnd time_ns (\<lambda>t. ret (t div 1000000))"

definition run :: "string \<Rightarrow> bool \<Rightarrow> string prog" where
  "run cmd check = sh_run cmd check"

definition q :: "string \<Rightarrow> string" where
  "q value = shlex_quote value"

definition b64 :: "pyval \<Rightarrow> string prog" where
  "b64 value = (case value of PStr s \<Rightarrow> ret (b64_of s) | _ \<Rightarrow> raise (AttributeError (py_repr value)))"

text \<open>The class \<open>[A-Za-z0-9._-]\<close>, and \<open>re.sub\<close> of every maximal run outside it by a dash.\<close>

definition name_char :: "char \<Rightarrow> bool" where
  "name_char c =
     (CHR ''A'' \<le> c \<and> c \<le> CHR ''Z'' \<or> CHR ''a'' \<le> c \<and> c \<le> CHR ''z'' \<or> is_digit c
      \<or> c = CHR ''.'' \<or> c = CHR ''_'' \<or> c = CHR ''-'')"

function dash_runs :: "string \<Rightarrow> string" where
  "dash_runs [] = []"
| "dash_runs (c # s) =
     (if name_char c then c # dash_runs s
      else CHR ''-'' # dash_runs (dropWhile (\<lambda>c. \<not> name_char c) s))"
  by pat_completeness auto
termination by (relation "measure length") (simp_all add: le_imp_less_Suc length_dropWhile_le)

definition safe_name :: "string \<Rightarrow> string" where
  "safe_name value =
     strip_by (\<lambda>c. c = CHR ''-'') (dash_runs (replace '':'' ''-'' (replace ''/'' ''-'' value)))"

definition require :: "string \<Rightarrow> string \<Rightarrow> unit prog" where
  "require path label =
     bnd (exists_path path) (\<lambda>present.
     if present then skip else raise (RuntimeError (''missing '' @ label @ '': '' @ path)))"

section \<open>The root file system\<close>

definition image_inspect :: "startup_config \<Rightarrow> (pyval \<times> string) prog" where
  "image_inspect c =
     thn (run (''docker pull '' @ q (IMAGE c)) True)
     (bnd (run (''docker image inspect '' @ q (IMAGE c)) True) (\<lambda>raw.
      bnd (loads raw) (\<lambda>v.
      bnd (first_item v) (\<lambda>img.
      bnd (get_or img ''Config'' PNone) (\<lambda>config.
      let cfg = py_or config (PDict []) in
      bnd (get_or img ''Id'' (PStr [])) (\<lambda>ident.
      bnd (get_or cfg ''Env'' PNone) (\<lambda>e.
      bnd (get_or cfg ''User'' PNone) (\<lambda>user.
      bnd (get_or cfg ''WorkingDir'' PNone) (\<lambda>workdir.
      ret (PDict [(''id'', ident),
                  (''env'', py_or e (PList [])),
                  (''user'', py_or user (PStr [])),
                  (''workdir'', py_or workdir (PStr []))], raw))))))))))"

definition rootfs_meta_path :: "string \<Rightarrow> string" where
  "rootfs_meta_path cache_dir = pdiv cache_dir ''meta.json''"

definition desired_meta :: "startup_config \<Rightarrow> pyval \<Rightarrow> pyval prog" where
  "desired_meta c image_cfg =
     bnd (get_item image_cfg ''id'') (\<lambda>ident.
     bnd (stat_size (ORCA_INIT_BIN c)) (\<lambda>size.
     bnd (stat_mtime_ns (ORCA_INIT_BIN c)) (\<lambda>mtime.
     ret (PDict [(''image'', PStr (IMAGE c)),
                 (''image_id'', ident),
                 (''rootfs_size_mb'', PInt (ROOTFS_SIZE_MB c)),
                 (''orca_init_size'', PInt size),
                 (''orca_init_mtime_ns'', PInt mtime)]))))"

definition rootfs_current :: "startup_config \<Rightarrow> string \<Rightarrow> string \<Rightarrow> pyval \<Rightarrow> bool prog" where
  "rootfs_current c rootfs meta_path desired =
     (if FORCE_ROOTFS c then ret False
      else bnd (exists_path rootfs) (\<lambda>present.
           if \<not> present then ret False
           else bnd (exists_path meta_path) (\<lambda>present.
                if \<not> present then ret False
                else catching (bnd (read_text meta_path) (\<lambda>s. bnd (loads s) (\<lambda>meta. ret (py_eq meta desired))))
                       (\<lambda>e. if is_exception e then Some (ret False) else None))))"

text \<open>The commands run while the file system is mounted.\<close>

definition fill_rootfs :: "startup_config \<Rightarrow> string \<Rightarrow> string \<Rightarrow> string \<Rightarrow> string \<Rightarrow> unit prog" where
  "fill_rootfs c tmp mount_dir tar_path inspect_raw =
     thn (run (''tar --numeric-owner -xf '' @ q tar_path @ '' -C '' @ q mount_dir) True)
     (thn (run (''mkdir -p '' @ q (pdiv mount_dir ''etc'')) True)
     (thn (write_text (pdiv tmp ''image-inspect.json'') inspect_raw)
     (thn (run (''install -m 0644 '' @ q (pdiv tmp ''image-inspect.json'') @ '' ''
             @ q (pdiv mount_dir ''etc/orca-image-inspect.json'')) True)
     (thn (run (''printf '' @ q (IMAGE c @ [nl]) @ '' > '' @ q (pdiv mount_dir ''etc/orca-image-ref'')) True)
     (thn (run (''mkdir -p '' @ q (pdiv mount_dir ''dev'')) True)
     (thn (run (''mkdir -p '' @ q (pdiv mount_dir ''proc'')) True)
     (thn (run (''mkdir -p '' @ q (pdiv mount_dir ''sys'')) True)
     (thn (run (''mkdir -p '' @ q (pdiv mount_dir ''run'')) True)
     (thn (run (''mkdir -p '' @ q (pdiv mount_dir ''tmp'')) True)
     (thn (run (''chmod 1777 '' @ q (pdiv mount_dir ''tmp'')) True)
     (thn (run (''install -m 0755 '' @ q (ORCA_INIT_BIN c) @ '' '' @ q (pdiv mount_dir ''init'')) True)
     (thn (run ''sync'' True)
     skip))))))))))))"

definition make_rootfs :: "startup_config \<Rightarrow> string \<Rightarrow> string \<Rightarrow> string \<Rightarrow> string \<Rightarrow> string \<Rightarrow> unit prog" where
  "make_rootfs c rootfs tmp mount_dir tar_path inspect_raw =
     thn (unlink_ok rootfs)
     (thn (run (''truncate -s '' @ str_int (ROOTFS_SIZE_MB c) @ ''M '' @ q rootfs) True)
     (thn (run (''mkfs.ext4 -F '' @ q rootfs @ '' >/dev/null'') True)
     (thn (mkdirs mount_dir)
     (thn (run (''mount -o loop '' @ q rootfs @ '' '' @ q mount_dir) True)
     (finally_do (fill_rootfs c tmp mount_dir tar_path inspect_raw)
        (thn (run (''umount '' @ q mount_dir) False) skip))))))"

definition remove_container :: "string \<Rightarrow> unit prog" where
  "remove_container cid = thn (run (''docker rm -f '' @ q cid @ '' >/dev/null'') False) skip"

text \<open>
  The body of the outer \<open>try\<close>.  The container is removed by its \<open>finally\<close> clause only
  when \<open>docker export\<close> fails: after that \<open>cid\<close> is empty again.
\<close>

definition export_image :: "startup_config \<Rightarrow> string \<Rightarrow> unit prog" where
  "export_image c tar_path =
     bnd (run (''docker create --entrypoint /bin/sh '' @ q (IMAGE c) @ '' -c true'') True) (\<lambda>out.
     let cid = strip out in
     thn (on_error (thn (run (''docker export '' @ q cid @ '' > '' @ q tar_path) True) skip)
            (cond_do (cid \<noteq> []) (remove_container cid)))
     (remove_container cid))"

definition build_rootfs :: "startup_config \<Rightarrow> string \<Rightarrow> string \<Rightarrow> pyval \<Rightarrow> string \<Rightarrow> unit prog" where
  "build_rootfs c rootfs meta_path desired inspect_raw =
     bnd (run (''mktemp -d '' @ q (pdiv (WORK_PARENT c) ''rootfs-build.XXXXXX'')) True) (\<lambda>out.
     let tmp = mk_path (strip out);
         mount_dir = pdiv tmp ''mnt'';
         tar_path = pdiv tmp ''rootfs.tar''
     in
     finally_do
       (thn (export_image c tar_path)
       (thn (make_rootfs c rootfs tmp mount_dir tar_path inspect_raw)
       (write_text meta_path (json_dumps_indent_sorted 2 desired))))
       (bnd (exists_path mount_dir) (\<lambda>present.
        thn (cond_do present (thn (run (''umount '' @ q mount_dir) False) skip))
        (thn (run (''rm -rf '' @ q tmp) False) skip))))"

definition ensure_rootfs :: "startup_config \<Rightarrow> pyval \<Rightarrow> string \<Rightarrow> (string \<times> string) prog" where
  "ensure_rootfs c image_cfg inspect_raw =
     (let cache_dir = pdiv (pdiv (WORK_PARENT c) ''rootfs-cache'') (safe_name (IMAGE c));
          rootfs = pdiv cache_dir ''rootfs.ext4'';
          meta_path = rootfs_meta_path cache_dir
      in
      thn (mkdirs cache_dir)
      (bnd (desired_meta c image_cfg) (\<lambda>desired.
       bnd (rootfs_current c rootfs meta_path desired) (\<lambda>current.
       if current
       then thn (print (''reusing rootfs '' @ rootfs)) (ret (rootfs, cache_dir))
       else thn (print (''building rootfs for '' @ IMAGE c @ '' at '' @ rootfs))
            (thn (build_rootfs c rootfs meta_path desired inspect_raw)
            (ret (rootfs, cache_dir)))))))"

definition copy_rootfs :: "string \<Rightarrow> string \<Rightarrow> string prog" where
  "copy_rootfs src run_dir =
     (let dst = pdiv run_dir ''rootfs.ext4'' in
      thn (catching (thn (run (''cp --sparse=always --reflink=auto '' @ q src @ '' '' @ q dst) True) skip)
             (\<lambda>e. case e of CalledProcessError rc s \<Rightarrow> Some (copy_file src dst) | _ \<Rightarrow> None))
      (ret dst))"

definition boot_args :: "startup_config \<Rightarrow> string \<Rightarrow> pyval \<Rightarrow> string \<Rightarrow> string prog" where
  "boot_args c console image_cfg extra =
     bnd (get_item image_cfg ''env'') (\<lambda>e.
     bnd (join_lines e) (\<lambda>env_text.
     bnd (b64 (PStr env_text)) (\<lambda>env_arg.
     bnd (get_item image_cfg ''user'') (\<lambda>u.
     bnd (b64 u) (\<lambda>user_arg.
     bnd (get_item image_cfg ''workdir'') (\<lambda>w.
     bnd (if py_true w then bnd (b64 w) (\<lambda>s. ret ('' orca.workdir_b64='' @ s)) else ret []) (\<lambda>workdir.
     bnd (b64 (PStr (COMMAND c))) (\<lambda>command.
     ret (''root=/dev/vda rw rootwait console='' @ console @ '' quiet loglevel=0 reboot=t panic=-1 init=/init ''
          @ ''orca.command_b64='' @ command @ '' orca.env_b64='' @ env_arg @ '' orca.user_b64='' @ user_arg
          @ workdir @ extra)))))))))"

section \<open>Waiting for the marker\<close>

definition log_text :: "string \<Rightarrow> string prog" where
  "log_text log_path =
     bnd (exists_path log_path) (\<lambda>present. if present then read_text log_path else ret [])"

definition marker_body ::
  "startup_config \<Rightarrow> int \<Rightarrow> string \<Rightarrow> int \<Rightarrow> int option \<Rightarrow> (int option, string \<times> int \<times> int option) ctl prog" where
  "marker_body c process log_path start_ms first_output_ms =
     bnd (log_text log_path) (\<lambda>logs.
     bnd (if first_output_ms = None \<and> (contains ''orca-stdout:'' logs \<or> contains (MARKER c) logs)
          then bnd now_ms (\<lambda>t. ret (Some (t - start_ms)))
          else ret first_output_ms) (\<lambda>first_output_ms.
     if contains (MARKER c) logs
     then bnd now_ms (\<lambda>t. ret (Leave (logs, t - start_ms, first_output_ms)))
     else bnd (poll process) (\<lambda>st.
          if st \<noteq> None
          then bnd (log_text log_path) (\<lambda>logs.
               if contains (MARKER c) logs
               then bnd now_ms (\<lambda>t. ret (Leave (logs, t - start_ms, first_output_ms)))
               else raise (RuntimeError (''process exited before marker:'' @ [nl] @ last_chars 4000 logs)))
          else thn (sleep_ms 10) (ret (Continue first_output_ms)))))"

definition wait_for_marker :: "startup_config \<Rightarrow> int \<Rightarrow> string \<Rightarrow> int \<Rightarrow> int \<Rightarrow> (string \<times> int \<times> int option) prog" where
  "wait_for_marker c process log_path start_ms timeout_seconds =
     bnd time_ns (\<lambda>t.
     bnd (while_before (t + sec timeout_seconds) (marker_body c process log_path start_ms) None) (\<lambda>r.
     case r of
       Leave found \<Rightarrow> ret found
     | Continue _ \<Rightarrow> raise (TimeoutError (''timed out waiting for '' @ MARKER c @ ''; log='' @ log_path))))"

definition stop_process :: "int \<Rightarrow> unit prog" where
  "stop_process process = stop_running process (sec 3)"

section \<open>The measurements\<close>

definition result :: "startup_config \<Rightarrow> string \<Rightarrow> int \<Rightarrow> int option \<Rightarrow> string \<Rightarrow> string \<Rightarrow> pyval" where
  "result c kind elapsed_ms first_output_ms log_path logs =
     (let lines = filter (contains ''orca-'') (splitlines logs) in
      PDict [(''kind'', PStr kind),
             (''elapsed_to_marker_ms'', PInt elapsed_ms),
             (''first_output_ms'', case first_output_ms of None \<Rightarrow> PNone | Some ms \<Rightarrow> PInt ms),
             (''log_path'', PStr log_path),
             (''marker'', PStr (MARKER c)),
             (''last_orca_lines'', PList (map PStr (drop (length lines - 12) lines)))])"

definition measure_docker :: "startup_config \<Rightarrow> string \<Rightarrow> pyval prog" where
  "measure_docker c out_dir =
     (let log_path = pdiv out_dir ''docker.log'' in
      bnd now_ms (\<lambda>start.
      bnd (with_open log_path ''wb''
             (popen [''docker'', ''run'', ''--rm'', ''--entrypoint'', ''/bin/sh'', IMAGE c, ''-lc'', COMMAND c])) (\<lambda>process.
      finally_do
        (bnd (wait_for_marker c process log_path start (TIMEOUT_SECONDS c)) (\<lambda>(logs, elapsed, first_output).
         thn (wait_limit process (sec 5))
         (ret (result c ''docker'' elapsed first_output log_path logs))))
        (stop_process process))))"

text \<open>The same for a machine, which is stopped while it runs.\<close>

definition watch_machine :: "startup_config \<Rightarrow> string \<Rightarrow> string \<Rightarrow> int \<Rightarrow> int \<Rightarrow> pyval prog" where
  "watch_machine c kind log_path start process =
     finally_do
       (bnd (wait_for_marker c process log_path start (TIMEOUT_SECONDS c)) (\<lambda>(logs, elapsed, first_output).
        ret (result c kind elapsed first_output log_path logs)))
       (stop_process process)"

definition firecracker_config :: "startup_config \<Rightarrow> string \<Rightarrow> string \<Rightarrow> string \<Rightarrow> string \<Rightarrow> pyval" where
  "firecracker_config c kernel_path args drive fc_log =
     PDict [
       (''boot-source'', PDict [
          (''kernel_image_path'', PStr kernel_path),
          (''boot_args'', PStr args)]),
       (''drives'', PList [PDict [
          (''drive_id'', PStr ''rootfs''),
          (''path_on_host'', PStr drive),
          (''is_root_device'', PBool True),
          (''is_read_only'', PBool False)]]),
       (''machine-config'', PDict [
          (''vcpu_count'', PInt (VCPU_COUNT c)),
          (''mem_size_mib'', PInt (MEM_SIZE_MIB c)),
          (''track_dirty_pages'', PBool False)]),
       (''logger'', PDict [
          (''log_path'', PStr fc_log),
          (''level'', PStr ''Info''),
          (''show_level'', PBool True),
          (''show_log_origin'', PBool True)])]"

definition measure_firecracker :: "startup_config \<Rightarrow> string \<Rightarrow> pyval \<Rightarrow> string \<Rightarrow> pyval prog" where
  "measure_firecracker c rootfs_src image_cfg out_dir =
     (let run_dir = pdiv out_dir ''firecracker'';
          serial_log = pdiv run_dir ''serial.log'';
          fc_log = pdiv run_dir ''firecracker.log'';
          config_path = pdiv run_dir ''firecracker.json'';
          socket_path = pdiv run_dir ''firecracker.sock''
      in
      thn (require (FIRECRACKER_BIN c) ''Firecracker binary'')
      (thn (require (FIRECRACKER_KERNEL c) ''Firecracker kernel'')
      (thn (mkdirs run_dir)
      (bnd (copy_rootfs rootfs_src run_dir) (\<lambda>rootfs.
       bnd (resolve_path (FIRECRACKER_KERNEL c)) (\<lambda>kernel_path.
       bnd (boot_args c ''ttyS0'' image_cfg '' pci=off'') (\<lambda>args.
       bnd (resolve_path rootfs) (\<lambda>drive.
       thn (write_text config_path (json_dumps_indent 2 (firecracker_config c kernel_path args drive fc_log)))
       (bnd now_ms (\<lambda>start.
        bnd (with_open serial_log ''wb'' (with_open fc_log ''ab''
               (bnd (resolve_path (FIRECRACKER_BIN c)) (\<lambda>fc_path.
                popen [fc_path, ''--api-sock'', socket_path, ''--config-file'', config_path]))))
          (watch_machine c ''firecracker'' serial_log start)))))))))))"

definition machine_args :: "string \<Rightarrow> (string list \<times> string list) prog" where
  "machine_args machine =
     (if machine = ''qemu-microvm''
      then ret ([''-M'', ''microvm,acpi=off,pcie=off,isa-serial=on,x-option-roms=off''],
                [''-device'', ''virtio-blk-device,drive=rootfs''])
      else if machine = ''qemu-q35''
      then ret ([''-M'', ''q35,accel=kvm''], [''-device'', ''virtio-blk-pci,drive=rootfs''])
      else raise (RuntimeError (''unsupported qemu machine '' @ machine)))"

definition measure_qemu :: "startup_config \<Rightarrow> string \<Rightarrow> string \<Rightarrow> pyval \<Rightarrow> string \<Rightarrow> pyval prog" where
  "measure_qemu c machine rootfs_src image_cfg out_dir =
     (let run_dir = pdiv out_dir machine; log_path = pdiv run_dir ''serial.log'' in
      thn (require (QEMU_KERNEL c) ''QEMU kernel'')
      (thn (mkdirs run_dir)
      (bnd (copy_rootfs rootfs_src run_dir) (\<lambda>rootfs.
       bnd (machine_args machine) (\<lambda>(board, device).
       bnd (boot_args c ''ttyS0'' image_cfg []) (\<lambda>append.
       let args = [''qemu-system-x86_64'', ''-enable-kvm''] @ board
             @ [''-cpu'', ''host'', ''-smp'', str_int (VCPU_COUNT c), ''-m'', str_int (MEM_SIZE_MIB c) @ ''M'',
                ''-nodefaults'', ''-no-user-config'', ''-nographic'', ''-no-reboot'', ''-serial'', ''stdio'',
                ''-kernel'', QEMU_KERNEL c, ''-append'', append,
                ''-drive'', ''file='' @ rootfs @ '',format=raw,if=none,id=rootfs''] @ device
       in
       bnd now_ms (\<lambda>start.
       bnd (with_open log_path ''wb'' (popen args)) (watch_machine c machine log_path start))))))))"

definition measure_cloud :: "startup_config \<Rightarrow> string \<Rightarrow> pyval \<Rightarrow> string \<Rightarrow> pyval prog" where
  "measure_cloud c rootfs_src image_cfg out_dir =
     (let run_dir = pdiv out_dir ''cloud-hypervisor''; log_path = pdiv run_dir ''serial.log'' in
      thn (require (CLOUD_HYPERVISOR_BIN c) ''Cloud Hypervisor binary'')
      (thn (require (FIRECRACKER_KERNEL c) ''Cloud Hypervisor kernel'')
      (thn (mkdirs run_dir)
      (bnd (copy_rootfs rootfs_src run_dir) (\<lambda>rootfs.
       bnd (boot_args c ''hvc0'' image_cfg []) (\<lambda>cmdline.
       let args = [CLOUD_HYPERVISOR_BIN c, ''--kernel'', FIRECRACKER_KERNEL c, ''--cmdline'', cmdline,
             ''--disk'', ''path='' @ rootfs @ '',readonly=off'', ''--cpus'', ''boot='' @ str_int (VCPU_COUNT c),
             ''--memory'', ''size='' @ str_int (MEM_SIZE_MIB c) @ ''M'', ''--console'', ''tty'', ''--serial'', ''off'']
       in
       bnd now_ms (\<lambda>start.
       bnd (with_open log_path ''wb'' (popen args)) (watch_machine c ''cloud-hypervisor'' log_path start))))))))"

section \<open>The main program\<close>

definition print_result :: "pyval \<Rightarrow> unit prog" where
  "print_result item =
     bnd (get_or item ''error'' PNone) (\<lambda>err.
     bnd (get_item item ''kind'') (\<lambda>kind.
     if py_true err
     then bnd (get_item item ''error'') (\<lambda>err.
          bnd (get_or item ''log_path'' (PStr [])) (\<lambda>log.
          print (''['' @ ljust 16 (py_str kind) @ ''] error='' @ py_str err @ '' log='' @ py_str log)))
     else bnd (get_item item ''elapsed_to_marker_ms'') (\<lambda>elapsed.
          bnd (get_or item ''first_output_ms'' PNone) (\<lambda>first_output.
          bnd (get_item item ''log_path'') (\<lambda>log.
          print (''['' @ ljust 16 (py_str kind) @ ''] marker_ms='' @ rjust 5 (py_str elapsed)
                 @ '' first_output_ms='' @ rjust 5 (py_str first_output) @ '' log='' @ py_str log))))))"

definition measure :: "startup_config \<Rightarrow> string \<Rightarrow> pyval \<Rightarrow> string \<Rightarrow> string \<Rightarrow> pyval prog" where
  "measure c rootfs image_cfg out_dir runtime =
     (if runtime = ''docker'' then measure_docker c out_dir
      else if runtime = ''firecracker'' then measure_firecracker c rootfs image_cfg out_dir
      else if runtime \<in> {''qemu-microvm'', ''qemu-q35''} then measure_qemu c runtime rootfs image_cfg out_dir
      else if runtime = ''cloud-hypervisor'' then measure_cloud c rootfs image_cfg out_dir
      else raise (RuntimeError (''unknown runtime '' @ runtime)))"

definition error_item :: "string \<Rightarrow> exn \<Rightarrow> pyval" where
  "error_item runtime err = PDict [(''kind'', PStr runtime), (''error'', PStr (exn_str err))]"

definition measure_item :: "startup_config \<Rightarrow> string \<Rightarrow> pyval \<Rightarrow> string \<Rightarrow> string \<Rightarrow> pyval prog" where
  "measure_item c rootfs image_cfg out_dir runtime =
     catching (measure c rootfs image_cfg out_dir runtime)
       (\<lambda>err. if is_exception err then Some (ret (error_item runtime err)) else None)"

definition measure_all :: "startup_config \<Rightarrow> string \<Rightarrow> pyval \<Rightarrow> string \<Rightarrow> pyval list prog" where
  "measure_all c rootfs image_cfg out_dir =
     for_each (RUNTIMES c) [] (\<lambda>runtime results.
       bnd (measure_item c rootfs image_cfg out_dir runtime) (\<lambda>item.
       thn (print_result item) (ret (results @ [item]))))"

definition summary :: "startup_config \<Rightarrow> string \<Rightarrow> string \<Rightarrow> pyval list \<Rightarrow> pyval" where
  "summary c rootfs out_dir results =
     PDict [(''image'', PStr (IMAGE c)), (''command'', PStr (COMMAND c)), (''marker'', PStr (MARKER c)),
            (''rootfs'', PStr rootfs), (''out_dir'', PStr out_dir), (''results'', PList results)]"

definition main :: "startup_config \<Rightarrow> unit prog" where
  "main c =
     thn (mkdirs (WORK_PARENT c))
     (thn (require (ORCA_INIT_BIN c) ''orca-init binary'')
     (bnd (image_inspect c) (\<lambda>(image_cfg, inspect_raw).
      bnd (ensure_rootfs c image_cfg inspect_raw) (\<lambda>(rootfs, cache_dir).
      bnd time_ns (\<lambda>t.
      let out_dir = pdiv (WORK_PARENT c) (''startup-'' @ compact_stamp t) in
      thn (mkdirs out_dir)
      (thn (print (''image='' @ IMAGE c))
      (thn (print (''command='' @ COMMAND c))
      (thn (print (''marker='' @ MARKER c))
      (thn (print (''rootfs='' @ rootfs))
      (thn (print (''out_dir='' @ out_dir))
      (bnd (measure_all c rootfs image_cfg out_dir) (\<lambda>results.
       thn (write_text (pdiv out_dir ''results.json'') (json_dumps_indent_sorted 2 (summary c rootfs out_dir results)))
       (print (''SUMMARY_JSON='' @ json_dumps_sorted (summary c rootfs out_dir results)))))))))))))))"

definition script :: "unit prog" where
  "script = bnd load_config (\<lambda>c. report_errors (main c))"

section \<open>Pieces\<close>

lemma steps_startup_b64 [steps_intros]: "steps (b64 v)"
  by (simp add: b64_def steps_raise steps_ret split: pyval.split)

lemma steps_startup [steps_intros]:
  "steps now_ms" "steps (run cmd ck)" "steps (require path label)" "steps (image_inspect c)"
  "steps (desired_meta c cfg)" "steps (remove_container cid)" "steps (export_image c tar)" "steps (fill_rootfs c tmp mnt tar raw)"
  "steps (make_rootfs c rootfs tmp mnt tar raw)" "steps (build_rootfs c rootfs meta desired raw)" "steps (boot_args c console cfg extra)"
  "steps (log_text log)" "steps (stop_process p)" "steps (machine_args m)" "steps (print_result item)"
  unfolding now_ms_def run_def require_def image_inspect_def Let_def desired_meta_def remove_container_def
    export_image_def fill_rootfs_def make_rootfs_def build_rootfs_def boot_args_def log_text_def stop_process_def machine_args_def
    print_result_def
  by (intro steps_intros)+

lemma steps_rootfs_current [steps_intros]: "steps (rootfs_current c rootfs meta desired)"
  unfolding rootfs_current_def by (intro steps_intros; auto intro: steps_intros split: if_splits)

lemma steps_copy_rootfs [steps_intros]: "steps (copy_rootfs src dir)"
  unfolding copy_rootfs_def Let_def by (intro steps_intros; auto intro: steps_intros split: exn.splits)

lemma steps_ensure_rootfs [steps_intros]: "steps (ensure_rootfs c cfg raw)"
  unfolding ensure_rootfs_def Let_def by (intro steps_intros)

lemma keeps_startup_b64 [keeps_intros]: "keeps E (b64 v)"
  by (simp add: b64_def keeps_raise keeps_ret split: pyval.split)

lemma keeps_startup [keeps_intros]:
  "keeps E now_ms" "keeps E (run cmd ck)" "keeps E (require path label)" "keeps E (image_inspect c)"
  "keeps E (desired_meta c cfg)" "keeps E (remove_container cid)" "keeps E (export_image c tar)" "keeps E (fill_rootfs c tmp mnt tar raw)"
  "keeps E (make_rootfs c rootfs tmp mnt tar raw)" "keeps E (build_rootfs c rootfs meta desired raw)" "keeps E (boot_args c console cfg extra)"
  "keeps E (log_text log)" "keeps E (machine_args m)" "keeps E (print_result item)"
  unfolding now_ms_def run_def require_def image_inspect_def Let_def desired_meta_def remove_container_def
    export_image_def fill_rootfs_def make_rootfs_def build_rootfs_def boot_args_def log_text_def machine_args_def
    print_result_def
  by (intro keeps_intros)+

lemma keeps_rootfs_current [keeps_intros]: "keeps E (rootfs_current c rootfs meta desired)"
  unfolding rootfs_current_def by (intro keeps_intros; auto intro: keeps_intros split: if_splits)

lemma keeps_copy_rootfs [keeps_intros]: "keeps E (copy_rootfs src dir)"
  unfolding copy_rootfs_def Let_def by (intro keeps_intros; auto intro: keeps_intros split: exn.splits)

lemma keeps_ensure_rootfs [keeps_intros]: "keeps E (ensure_rootfs c cfg raw)"
  unfolding ensure_rootfs_def Let_def by (intro keeps_intros)

interpretation marker_wait: poller "marker_body c process log start" for c process log start
  by unfold_locales (unfold marker_body_def, intro pauses_intros steps_intros, simp)

lemma marker_spawn_free: "emits spawn_free (marker_body c process log start first)"
  unfolding marker_body_def log_text_def now_ms_def by (intro emits_intros; simp add: spawn_free_def)

lemma keeps_wait_for_marker:
  "clock_law E \<Longrightarrow> keeps E (wait_for_marker c process log start limit)"
  unfolding wait_for_marker_def by (intro keeps_intros marker_wait.keeps_wait marker_spawn_free)

lemma reaps_startup_stop: "kill_law E \<Longrightarrow> reaps E p (stop_process p)"
  unfolding stop_process_def by (rule reaps_stop_running)

lemma reaps_watch_machine:
  assumes "clock_law E" "kill_law E" shows "reaps E p (watch_machine c kind log start p)"
  unfolding watch_machine_def by (intro reaps_finally reaps_startup_stop keeps_intros keeps_wait_for_marker assms)

lemma keeps_startup_measure:
  assumes "clock_law E" "kill_law E" shows "keeps E (measure c rootfs cfg out runtime)"
proof -
  note child = keeps_spawns [OF spawns_with_open [OF spawns_popen]]
  note machine = child [OF reaps_watch_machine [OF assms]]
  have fc: "spawns E (\<lambda>p. p) (with_open a ma (with_open b mb (bnd (resolve_path x) (\<lambda>y. popen (f y)))))" for a ma b mb x f
    by (intro spawns_with_open spawns_bnd spawns_popen keeps_intros)
  have "keeps E (measure_firecracker c rootfs cfg out)"
    unfolding measure_firecracker_def Let_def
    by (intro keeps_spawns [OF fc reaps_watch_machine [OF assms]] keeps_intros)
  moreover have "keeps E (measure_qemu c runtime rootfs cfg out)" "keeps E (measure_cloud c rootfs cfg out)"
    unfolding measure_qemu_def measure_cloud_def Let_def by (intro machine keeps_intros)+
  moreover have "keeps E (measure_docker c out)"
    unfolding measure_docker_def Let_def
    by (intro child reaps_finally reaps_startup_stop keeps_intros keeps_wait_for_marker assms)
  ultimately show ?thesis unfolding measure_def by (intro keeps_intros)
qed

lemma keeps_measure_all:
  assumes "clock_law E" "kill_law E" shows "keeps E (measure_all c rootfs cfg out)"
  unfolding measure_all_def measure_item_def
  by (intro keeps_intros keeps_startup_measure [OF assms]) (auto intro: keeps_intros split: if_splits)

text \<open>
  C35: a run of the startup script ends, and every container and machine it started has been
  waited for.
\<close>

theorem startup_children:
  assumes "clock_law E" "kill_law E"
  shows "wp (main c) (\<lambda>r h'. live h' \<subseteq> live h) E h"
proof -
  have "keeps E (main c)"
    unfolding main_def Let_def by (intro keeps_intros keeps_measure_all assms)
  then show ?thesis by (simp add: keeps_def)
qed

text \<open>A small configuration.\<close>

definition sample_startup :: startup_config where
  "sample_startup = \<lparr>IMAGE = ''alpine:3.22'', COMMAND = ''echo READY'', MARKER = ''READY'', WORK_PARENT = ''/w'', ASSET_DIR = ''/a'',
     ROOTFS_SIZE_MB = 512, MEM_SIZE_MIB = 256, VCPU_COUNT = 1, TIMEOUT_SECONDS = 30, RUNTIMES = [''docker'', ''qemu-q35''],
     ORCA_INIT_BIN = ''/a/orca-init'', FIRECRACKER_BIN = ''/a/firecracker'', FIRECRACKER_KERNEL = ''/a/vmlinux'',
     QEMU_KERNEL = ''/boot/vmlinuz'', CLOUD_HYPERVISOR_BIN = ''/a/cloud-hypervisor'', FORCE_ROOTFS = True\<rparr>"

lemma startup_children_witness:
  "clock_law quiet_env \<and> kill_law quiet_env \<and> wp (main sample_startup) (\<lambda>r h'. live h' \<subseteq> live []) quiet_env []"
  using startup_children [OF quiet_laws, of sample_startup "[]"] quiet_laws by blast

section \<open>The results are well typed\<close>

definition result_type :: pytype where
  "result_type = TDict [(''kind'', TStr), (''elapsed_to_marker_ms'', TInt), (''first_output_ms'', TEither TNone TInt),
     (''log_path'', TStr), (''marker'', TStr), (''last_orca_lines'', TList TStr)]"

definition error_type :: pytype where
  "error_type = TDict [(''kind'', TStr), (''error'', TText)]"

definition summary_type :: pytype where
  "summary_type = TDict [(''image'', TStr), (''command'', TStr), (''marker'', TStr), (''rootfs'', TStr), (''out_dir'', TStr),
     (''results'', TList (TEither result_type error_type))]"

text \<open>The times of a result are not negative, and output comes no later than the marker.\<close>

definition times_ordered :: "pyval \<Rightarrow> bool" where
  "times_ordered item =
     (case field item ''elapsed_to_marker_ms'' of
        Some (PInt elapsed) \<Rightarrow> 0 \<le> elapsed \<and>
          (case field item ''first_output_ms'' of Some (PInt first) \<Rightarrow> 0 \<le> first \<and> first \<le> elapsed | _ \<Rightarrow> True)
      | _ \<Rightarrow> True)"

definition item_for :: "string \<Rightarrow> pyval \<Rightarrow> bool" where
  "item_for runtime item =
     (has_type (TEither result_type error_type) item \<and> field item ''kind'' = Some (PStr runtime) \<and> times_ordered item)"

lemma item_for_result:
  assumes "0 \<le> elapsed" "\<And>ms. first = Some ms \<Longrightarrow> 0 \<le> ms \<and> ms \<le> elapsed"
  shows "item_for kind (result c kind elapsed first log logs)"
  using assms
  by (simp add: item_for_def result_def Let_def result_type_def times_ordered_def list_all_iff split: option.split)

lemma item_for_error: "plain_exn e \<Longrightarrow> item_for runtime (error_item runtime e)"
  by (simp add: item_for_def error_item_def error_type_def times_ordered_def plain_exn_def)

lemma wp_print_result:
  assumes "item_for runtime item" shows "wp (print_result item) (\<lambda>r h'. r = Ok ()) E h"
proof -
  consider "has_type result_type item" | "has_type error_type item" using assms by (auto simp: item_for_def)
  then show ?thesis
    by cases (auto simp: result_type_def error_type_def print_result_def get_or_def get_item_def as_obj_def as_dict_def or_raise_def
        dict_get_def py_true_def print_def tell_def wp_simps split: pyval.splits list.splits)
qed

text \<open>The state of the loop: the time of the first output, if there was one.\<close>

definition first_seen :: "env \<Rightarrow> int \<Rightarrow> int option \<Rightarrow> hist \<Rightarrow> bool" where
  "first_seen E start first h =
     (start \<le> e_clock E h div 1000000 \<and> (\<forall>ms. first = Some ms \<longrightarrow> 0 \<le> ms \<and> ms \<le> e_clock E h div 1000000 - start))"

lemma first_seen_later: "clock_law E \<Longrightarrow> first_seen E start first h \<Longrightarrow> suffix h h' \<Longrightarrow> first_seen E start first h'"
  using clock_div_suffix [of E h h'] unfolding first_seen_def by force

lemma first_seen_now:
  "first_seen E start first h \<Longrightarrow> first_seen E start (Some (e_clock E h div 1000000 - start)) h"
  by (simp add: first_seen_def)

definition found_ok :: "startup_config \<Rightarrow> string \<times> int \<times> int option \<Rightarrow> bool" where
  "found_ok c found = (case found of (logs, elapsed, first) \<Rightarrow>
     contains (MARKER c) logs \<and> 0 \<le> elapsed \<and> (\<forall>ms. first = Some ms \<longrightarrow> 0 \<le> ms \<and> ms \<le> elapsed))"

lemma wp_found:
  assumes "first_seen E start first h" "contains (MARKER c) logs"
  shows "wp (bnd now_ms (\<lambda>t. ret (Leave (logs, t - start, first)))) (\<lambda>r h'. case r of Exc e \<Rightarrow> True
      | Ok (Leave x) \<Rightarrow> found_ok c x | Ok (Continue s') \<Rightarrow> first_seen E start s' h') E h"
  using assms by (simp add: now_ms_def wp_simps time_ns_def found_ok_def first_seen_def)

lemma wp_marker_body:
  assumes "clock_law E" "first_seen E start first h"
  shows "wp (marker_body c p log start first) (\<lambda>r h'. case r of Exc e \<Rightarrow> True
      | Ok (Leave x) \<Rightarrow> found_ok c x | Ok (Continue s') \<Rightarrow> first_seen E start s' h') E h"
proof -
  let ?Q = "\<lambda>r h'. case r of Exc e \<Rightarrow> True | Ok (Leave x) \<Rightarrow> found_ok c x | Ok (Continue s') \<Rightarrow> first_seen E start s' h'"
  note later = first_seen_later [OF assms(1)]
  have exited: "wp (bnd (log_text log) (\<lambda>logs. if contains (MARKER c) logs
      then bnd now_ms (\<lambda>t. ret (Leave (logs, t - start, first))) else raise (e logs))) ?Q E h1"
    if "first_seen E start first h1" for first e h1
    by (rule wp_bnd_steps, intro steps_intros, intro wp_ifI wp_found later [OF that]; simp add: wp_raise)
  have polled: "wp (bnd (poll p) (\<lambda>st. if st \<noteq> None then bnd (log_text log) (\<lambda>logs. if contains (MARKER c) logs
      then bnd now_ms (\<lambda>t. ret (Leave (logs, t - start, first))) else raise (e logs))
      else thn (sleep_ms 10) (ret (Continue first)))) ?Q E h1" if "first_seen E start first h1" for first e h1
    by (rule wp_bnd_steps, intro steps_intros, intro wp_ifI exited later [OF that])
      (simp_all add: sleep_ms_def tell_def wp_simps later [OF that] suffix_ConsI)
  have rest: "wp (if contains (MARKER c) logs then bnd now_ms (\<lambda>t. ret (Leave (logs, t - start, first)))
      else bnd (poll p) (\<lambda>st. if st \<noteq> None then bnd (log_text log) (\<lambda>logs. if contains (MARKER c) logs
      then bnd now_ms (\<lambda>t. ret (Leave (logs, t - start, first))) else raise (e logs))
      else thn (sleep_ms 10) (ret (Continue first)))) ?Q E h1" if "first_seen E start first h1" for first e logs h1
    using that by (intro wp_ifI wp_found polled)
  have upd: "wp (if b then bnd now_ms (\<lambda>t. ret (Some (t - start))) else ret first)
      (\<lambda>r h'. \<exists>f. r = Ok f \<and> first_seen E start f h') E h1" if "first_seen E start first h1" for b h1
    using that first_seen_later [OF assms(1) first_seen_now [OF that]] by (simp add: now_ms_def time_ns_def wp_simps suffix_Cons)
  have known: "wp (bnd (if b then bnd now_ms (\<lambda>t. ret (Some (t - start))) else ret first) f) ?Q E h1"
    if "first_seen E start first h1" "\<And>first h2. first_seen E start first h2 \<Longrightarrow> wp (f first) ?Q E h2" for b f h1
    unfolding wp_bnd by (rule wp_mono [OF upd [OF that(1)]]) (auto intro: that(2))
  show ?thesis
    unfolding marker_body_def
    by (rule wp_bnd_steps, intro steps_intros, rule known [OF later [OF assms(2)]], assumption, rule rest) simp_all
qed

lemma wp_wait_for_marker:
  assumes "clock_law E" "start \<le> e_clock E h div 1000000"
  shows "wp (wait_for_marker c p log start n) (\<lambda>r h'. \<forall>x. r = Ok x \<longrightarrow> found_ok c x) E h"
proof -
  have "wp (while_before deadline (marker_body c p log start) None) (\<lambda>r h'. \<forall>x. r = Ok (Leave x) \<longrightarrow> found_ok c x) E h1"
    if "start \<le> e_clock E h1 div 1000000" for deadline h1
  proof (rule marker_wait.wp_wait [where I = "first_seen E start", OF assms(1)])
    show "first_seen E start None h1" using that by (simp add: first_seen_def)
    fix first h t
    assume "first_seen E start first h"
    then have "first_seen E start first (Clock t # h)" by (rule first_seen_later [OF assms(1)]) (simp add: suffix_ConsI)
    from wp_marker_body [OF assms(1) this, of c p log]
    show "wp (marker_body c p log start first) (\<lambda>r h'. case r of Exc e \<Rightarrow> (\<forall>x. Exc e = Ok (Leave x) \<longrightarrow> found_ok c x)
      | Ok (Leave y) \<Rightarrow> (\<forall>x. Ok (Leave y) = Ok (Leave x) \<longrightarrow> found_ok c x)
      | Ok (Continue s') \<Rightarrow> first_seen E start s' h') E (Clock t # h)"
      by (rule wp_mono) (case_tac r rule: ctl_outcome_cases; auto)
  qed simp
  note w = this [OF order_trans [OF assms(2) clock_div_step [OF assms(1)]]]
  show ?thesis
    unfolding wait_for_marker_def wp_bnd_time
    by (subst wp_bnd, rule wp_mono [OF w], case_tac r rule: ctl_outcome_cases) (auto simp: wp_ret wp_raise)
qed

text \<open>A measurement takes the time, starts a child and watches it.\<close>

lemma yields_started:
  assumes "clock_law E" "steps m"
    and "\<And>start p h. start \<le> e_clock E h div 1000000 \<Longrightarrow> wp (k start p) (\<lambda>r h'. \<forall>v. r = Ok v \<longrightarrow> P v) E h"
  shows "yields E P (bnd now_ms (\<lambda>start. bnd m (k start)))"
  unfolding yields_def now_ms_def
proof
  fix h
  have "wp (bnd m (k (e_clock E h div 1000000))) (\<lambda>r h'. \<forall>v. r = Ok v \<longrightarrow> P v) E (Clock (e_clock E h) # h)"
    by (rule wp_bnd_later [OF assms(2)], rule assms(3), rule clock_div_suffix [OF assms(1)], erule suffix_ConsD, simp)
  then show "wp (bnd (bnd time_ns (\<lambda>t. ret (t div 1000000))) (\<lambda>start. bnd m (k start))) (\<lambda>r h'. \<forall>v. r = Ok v \<longrightarrow> P v) E h"
    by (simp add: bnd_assoc bnd_ret wp_bnd_time)
qed

lemma wp_watched:
  assumes "clock_law E" "start \<le> e_clock E h div 1000000" "\<And>x. found_ok c x \<Longrightarrow> yields E (item_for kind) (f x)"
  shows "wp (finally_do (bnd (wait_for_marker c p log start n) f) (stop_process p)) (\<lambda>r h'. \<forall>v. r = Ok v \<longrightarrow> item_for kind v) E h"
proof (rule wp_finally_later)
  show "wp (bnd (wait_for_marker c p log start n) f) (\<lambda>r h'. \<forall>v. r = Ok v \<longrightarrow> item_for kind v) E h"
    unfolding wp_bnd
    by (rule wp_mono [OF wp_wait_for_marker [OF assms(1,2)]])
      (simp add: assms(3) [unfolded yields_def] split: outcome.split)
qed (intro steps_intros, simp_all)

lemma wp_watch_machine:
  assumes "clock_law E" "start \<le> e_clock E h div 1000000"
  shows "wp (watch_machine c kind log start p) (\<lambda>r h'. \<forall>v. r = Ok v \<longrightarrow> item_for kind v) E h"
  unfolding watch_machine_def
  by (rule wp_watched [OF assms]) (auto simp: found_ok_def intro!: yields_ret item_for_result)

lemma yields_measure:
  assumes "clock_law E" shows "yields E (item_for runtime) (measure c rootfs cfg out runtime)"
proof -
  note machine = yields_started [OF assms _ wp_watch_machine [OF assms]]
  have "yields E (item_for ''firecracker'') (measure_firecracker c rootfs cfg out)"
    unfolding measure_firecracker_def Let_def
    by (rule machine | rule yields_thn | rule yields_bnd | rule steps_returns | intro steps_intros)+
  moreover have "yields E (item_for runtime) (measure_qemu c runtime rootfs cfg out)"
    unfolding measure_qemu_def Let_def split_beta
    by (rule machine | rule yields_thn | rule yields_bnd | rule steps_returns | intro steps_intros)+
  moreover have "yields E (item_for ''cloud-hypervisor'') (measure_cloud c rootfs cfg out)"
    unfolding measure_cloud_def Let_def
    by (rule machine | rule yields_thn | rule yields_bnd | rule steps_returns | intro steps_intros)+
  moreover have "yields E (item_for ''docker'') (measure_docker c out)"
    unfolding measure_docker_def Let_def
    by (rule yields_started [OF assms], intro steps_intros, rule wp_watched [OF assms], assumption)
      (auto simp: found_ok_def intro!: yields_thn yields_ret item_for_result steps_returns steps_intros)
  moreover have "yields E (item_for runtime) (raise e)" for e by (simp add: yields_def wp_raise)
  ultimately show ?thesis by (simp add: measure_def)
qed

lemma tame_startup [tame_intros]:
  "tame now_ms" "tame (run cmd ck)" "tame (require path label)" "tame (log_text log)" "tame (stop_process p)" "tame (machine_args m)"
  unfolding now_ms_def run_def require_def log_text_def stop_process_def machine_args_def by (intro tame_intros; simp)+

lemma tame_b64 [tame_intros]: "tame (b64 v)"
  by (simp add: b64_def tame_raise tame_ret split: pyval.split)

lemma tame_copy_rootfs [tame_intros]: "tame (copy_rootfs src dir)"
  unfolding copy_rootfs_def Let_def by (intro tame_intros; auto intro: tame_intros split: exn.splits)

lemma tame_boot_args [tame_intros]: "tame (boot_args c console cfg extra)"
  unfolding boot_args_def by (intro tame_intros)

lemma tame_wait_for_marker [tame_intros]: "tame (wait_for_marker c p log start n)"
  unfolding wait_for_marker_def marker_body_def by (intro tame_intros; simp)

lemma tame_watch_machine [tame_intros]: "tame (watch_machine c kind log start p)"
  unfolding watch_machine_def by (intro tame_intros)

lemma tame_measure: "tame (measure c rootfs cfg out runtime)"
proof -
  have "tame (measure_docker c out)" "tame (measure_firecracker c rootfs cfg out)" "tame (measure_qemu c m rootfs cfg out)"
    "tame (measure_cloud c rootfs cfg out)" for m
    unfolding measure_docker_def measure_firecracker_def measure_qemu_def measure_cloud_def Let_def by (intro tame_intros)+
  then show ?thesis unfolding measure_def by (intro tame_intros; simp)
qed

lemma wp_measure_item:
  assumes "clock_law E" "kill_law E"
  shows "wp (measure_item c rootfs cfg out runtime) (\<lambda>r h'. \<exists>item. r = Ok item \<and> item_for runtime item) E h"
proof -
  obtain r h' where run: "measure c rootfs cfg out runtime E h = Some (r, h')"
    using keeps_returns [OF keeps_startup_measure [OF assms, of c rootfs cfg out runtime]] unfolding returns_def by fastforce
  have "item_for runtime v" if "r = Ok v" for v
    using yields_measure [OF assms(1), of runtime c rootfs cfg out] run that unfolding yields_def wp_def by (elim allE [of _ h]) simp
  moreover have "plain_exn e" if "r = Exc e" for e
    using tameD [OF tame_measure] run that by blast
  ultimately show ?thesis
    using run item_for_error by (cases r) (auto simp: measure_item_def catching_def wp_def ret_def plain_exn_def)
qed

lemma wp_measure_all:
  assumes "clock_law E" "kill_law E"
  shows "wp (for_each rts items (\<lambda>runtime results. bnd (measure_item c rootfs cfg out runtime) (\<lambda>item.
      thn (print_result item) (ret (results @ [item]))))) (\<lambda>r h'. \<exists>more. r = Ok (items @ more) \<and> list_all2 item_for rts more) E h"
proof (induction rts arbitrary: items h)
  case (Cons runtime rts)
  have one: "wp (bnd (measure_item c rootfs cfg out runtime) (\<lambda>item. thn (print_result item) (ret (items @ [item]))))
      (\<lambda>r h'. \<exists>item. r = Ok (items @ [item]) \<and> item_for runtime item) E h" for items h
    unfolding wp_bnd [of "measure_item c rootfs cfg out runtime"]
    by (rule wp_mono [OF wp_measure_item [OF assms]])
      (auto intro!: wp_thn_ok [where P = "\<lambda>h. True"] wp_mono [OF wp_print_result] simp: wp_ret)
  show ?case
    unfolding for_each.simps
    by (subst wp_bnd, rule wp_mono [OF one]) (auto intro!: wp_mono [OF Cons.IH] simp: list_all2_Cons1)
qed (simp add: wp_ret)

text \<open>
  C5: whatever happens to a measurement, the loop over the runtimes goes on to the end; the
  summary has the type that its readers expect, with one entry for every configured
  runtime, in order, which is a result with ordered times or a non-empty error message.
\<close>

theorem startup_summary_typed:
  assumes "clock_law E" "kill_law E"
  shows "wp (measure_all c rootfs cfg out) (\<lambda>r h'. \<exists>items. r = Ok items
      \<and> has_type summary_type (summary c rootfs out items)
      \<and> list_all2 (\<lambda>runtime item. field item ''kind'' = Some (PStr runtime) \<and> times_ordered item) (RUNTIMES c) items) E h"
proof -
  have "list_all (has_type (TEither result_type error_type)) items" if "list_all2 item_for rts items" for rts items
    using that by induction (simp_all add: item_for_def)
  moreover have "list_all2 (\<lambda>runtime item. field item ''kind'' = Some (PStr runtime) \<and> times_ordered item) rts items"
    if "list_all2 item_for rts items" for rts items
    using that by (rule list_all2_mono) (simp add: item_for_def)
  ultimately show ?thesis
    unfolding measure_all_def
    by (intro wp_mono [OF wp_measure_all [OF assms]]) (auto simp: summary_def summary_type_def)
qed

lemma startup_summary_typed_witness:
  "clock_law quiet_env \<and> kill_law quiet_env \<and>
   wp (measure_all sample_startup ''/w/rootfs.ext4'' (PDict []) ''/w/out'') (\<lambda>r h'. \<exists>items. r = Ok items
      \<and> has_type summary_type (summary sample_startup ''/w/rootfs.ext4'' ''/w/out'' items)
      \<and> list_all2 (\<lambda>runtime item. field item ''kind'' = Some (PStr runtime) \<and> times_ordered item)
          [''docker'', ''qemu-q35''] items) quiet_env []"
proof -
  have "RUNTIMES sample_startup = [''docker'', ''qemu-q35'']" by (simp add: sample_startup_def)
  then show ?thesis
    using startup_summary_typed [OF quiet_laws, of sample_startup "''/w/rootfs.ext4''" "PDict []" "''/w/out''" "[]"] quiet_laws
    by (simp only: simp_thms)
qed

section \<open>The marker is found in time\<close>

text \<open>
  An operation other than a sleep takes at most \<open>d\<close> nanoseconds, and a sleep at most \<open>d\<close>
  more than it was asked for.
\<close>

definition prompt_law :: "int \<Rightarrow> env \<Rightarrow> bool" where
  "prompt_law d E = (\<forall>ev h. e_clock E (ev # h) \<le> e_clock E h + slept ev + d)"

text \<open>
  From time \<open>T\<close> on the log exists and holds the marker, an existing log can be read, and
  the process has not exited before \<open>T\<close>.
\<close>

definition marker_comes :: "env \<Rightarrow> string \<Rightarrow> int \<Rightarrow> string \<Rightarrow> int \<Rightarrow> bool" where
  "marker_comes E marker p log T =
     ((\<forall>h. T \<le> e_clock E h \<longrightarrow> e_exists E h log \<and> (\<exists>s. e_read E h log = Some s \<and> contains marker s))
      \<and> (\<forall>h. e_exists E h log \<longrightarrow> e_read E (Exists log True # h) log \<noteq> None)
      \<and> (\<forall>h. e_poll E h p \<noteq> None \<longrightarrow> T \<le> e_clock E h))"

lemma prompt_step: "prompt_law d E \<Longrightarrow> slept ev = 0 \<Longrightarrow> e_clock E (ev # h) \<le> e_clock E h + d"
  unfolding prompt_law_def by (metis add.right_neutral)

lemma prompt_sleep: "prompt_law d E \<Longrightarrow> 0 \<le> n \<Longrightarrow> e_clock E (Sleep n # h) \<le> e_clock E h + n + d"
  unfolding prompt_law_def by (metis max_absorb2 slept.simps(1))

lemma wp_log_text:
  assumes "clock_law E" "prompt_law d E" "marker_comes E marker p log T"
  shows "wp (log_text log) (\<lambda>r h'. \<exists>s. r = Ok s \<and> (T \<le> e_clock E h \<longrightarrow> contains marker s)
      \<and> e_clock E h \<le> e_clock E h' \<and> e_clock E h' \<le> e_clock E h + 2 * d) E h"
proof -
  let ?h1 = "Exists log (e_exists E h log) # h"
  let ?h2 = "ReadText log (e_read E ?h1 log) # ?h1"
  have c: "e_clock E h \<le> e_clock E ?h1" "e_clock E ?h1 \<le> e_clock E ?h2" by (rule clock_step [OF assms(1)])+
  have p: "e_clock E ?h1 \<le> e_clock E h + d" "e_clock E ?h2 \<le> e_clock E ?h1 + d" by (rule prompt_step [OF assms(2)], simp)+
  show ?thesis
  proof (cases "e_exists E h log")
    case True
    then obtain s where s: "e_read E ?h1 log = Some s" using assms(3) unfolding marker_comes_def by auto
    moreover have "contains marker s" if "T \<le> e_clock E h"
      using assms(3) s order_trans [OF that c(1)] unfolding marker_comes_def by force
    ultimately show ?thesis
      using True c p by (simp add: log_text_def exists_path_def read_text_def wp_simps)
  next
    case False
    then have "\<not> T \<le> e_clock E h" using assms(3) unfolding marker_comes_def by blast
    then show ?thesis using False c p by (simp add: log_text_def exists_path_def wp_simps)
  qed
qed

lemma wp_now_ms: "wp (bnd now_ms f) Q E h = wp (f (e_clock E h div 1000000)) Q E (Clock (e_clock E h) # h)"
  by (simp add: now_ms_def bnd_assoc bnd_ret wp_bnd_time)

definition in_time :: "env \<Rightarrow> int \<Rightarrow> string \<Rightarrow> int \<Rightarrow> hist \<Rightarrow> (int option, string \<times> int \<times> int option) ctl outcome \<Rightarrow> hist \<Rightarrow> bool" where
  "in_time E d marker T h r h' = (case r of
     Ok (Leave x) \<Rightarrow> contains marker (fst x) \<and> e_clock E h' \<le> e_clock E h + 7 * d
   | Ok (Continue s) \<Rightarrow> e_clock E h' \<le> T + 10000000 + 5 * d
   | Exc e \<Rightarrow> False)"

lemma wp_marker_in_time:
  assumes "clock_law E" "prompt_law d E" "marker_comes E (MARKER c) p log T"
  shows "wp (marker_body c p log start first) (in_time E d (MARKER c) T h) E h"
proof -
  note tick = prompt_step [OF assms(2), of "Clock _"] and look = prompt_step [OF assms(2), of "Poll _ _"]
  have d: "0 \<le> d" using clock_step [OF assms(1), of h "Clock 0"] tick [of 0 h] by simp
  have leave: "wp (bnd now_ms (\<lambda>t. ret (Leave (logs, t - start, first)))) (in_time E d (MARKER c) T h) E h1"
    if "contains (MARKER c) logs" "e_clock E h1 \<le> e_clock E h + 6 * d" for logs first h1
    using that tick [of "e_clock E h1" h1] by (simp add: wp_now_ms wp_ret in_time_def)
  have polled: "wp (bnd (poll p) (\<lambda>st. if st \<noteq> None then bnd (log_text log) (\<lambda>logs. if contains (MARKER c) logs
      then bnd now_ms (\<lambda>t. ret (Leave (logs, t - start, first))) else raise (e logs))
      else thn (sleep_ms 10) (ret (Continue first)))) (in_time E d (MARKER c) T h) E h1"
    if h1: "e_clock E h1 \<le> e_clock E h + 3 * d" and early: "e_clock E h < T" for first e h1
  proof -
    let ?h2 = "Poll p (e_poll E h1 p) # h1"
    have h2: "e_clock E h1 \<le> e_clock E ?h2" "e_clock E ?h2 \<le> e_clock E h1 + d"
      using clock_step [OF assms(1)] look by simp_all
    show ?thesis
    proof (cases "e_poll E h1 p")
      case None
      have "e_clock E (Sleep 10000000 # ?h2) \<le> e_clock E ?h2 + 10000000 + d" by (rule prompt_sleep [OF assms(2)]) simp
      then show ?thesis
        using None h1 h2 early by (simp add: poll_def sleep_ms_def tell_def wp_simps in_time_def)
    next
      case (Some st)
      then have "T \<le> e_clock E ?h2" using assms(3) h2(1) unfolding marker_comes_def by force
      then show ?thesis
        using Some h1 h2
        by (auto simp: poll_def wp_bnd [of "answer _ _"] wp_answer wp_bnd [of "log_text log"]
            intro!: wp_mono [OF wp_log_text [OF assms]] leave)
    qed
  qed
  have decide: "wp (if contains (MARKER c) s then bnd now_ms (\<lambda>t. ret (Leave (s, t - start, first)))
      else bnd (poll p) (\<lambda>st. if st \<noteq> None then bnd (log_text log) (\<lambda>logs. if contains (MARKER c) logs
      then bnd now_ms (\<lambda>t. ret (Leave (logs, t - start, first))) else raise (e logs))
      else thn (sleep_ms 10) (ret (Continue first)))) (in_time E d (MARKER c) T h) E h1"
    if "T \<le> e_clock E h \<longrightarrow> contains (MARKER c) s" "e_clock E h1 \<le> e_clock E h + 3 * d" for first s e h1
    using that d by (intro wp_ifI leave polled; linarith)
  have known: "wp (bnd (if b then bnd now_ms (\<lambda>t. ret (Some (t - start))) else ret first) f) Q E h1"
    if "\<And>first h2. e_clock E h2 \<le> e_clock E h1 + d \<Longrightarrow> wp (f first) Q E h2" for b f Q h1
    using that tick [of "e_clock E h1" h1] d by (cases b) (simp_all add: bnd_assoc bnd_ret wp_now_ms)
  show ?thesis
    unfolding marker_body_def
    by (subst wp_bnd, rule wp_mono [OF wp_log_text [OF assms]], elim exE conjE, hypsubst, unfold outcome.case,
        rule known, rule decide, assumption, linarith)
qed

text \<open>
  C4: when the marker is in the log early enough before the deadline, \<open>wait_for_marker\<close> does
  not time out and does not report that the process exited: it returns the text with the
  marker, at most one round of the loop after the marker was there.
\<close>

theorem marker_found:
  assumes "clock_law E" "prompt_law d E" "marker_comes E (MARKER c) p log T"
    and "max (e_clock E h + d) (T + 10000000 + 5 * d) < e_clock E h + sec n"
  shows "wp (wait_for_marker c p log start n) (\<lambda>r h'. \<exists>logs elapsed first. r = Ok (logs, elapsed, first)
      \<and> contains (MARKER c) logs \<and> e_clock E h' \<le> max (e_clock E h + d) (T + 10000000 + 5 * d) + 8 * d) E h"
proof -
  let ?B = "max (e_clock E h + d) (T + 10000000 + 5 * d)"
  let ?Q = "\<lambda>r h'. \<exists>x. r = Ok (Leave x) \<and> contains (MARKER c) (fst x) \<and> e_clock E h' \<le> ?B + 8 * d"
  have "wp (while_before (e_clock E h + sec n) (marker_body c p log start) None) ?Q E (Clock (e_clock E h) # h)"
  proof (rule marker_wait.wp_wait_clock [where I = "\<lambda>s h'. e_clock E h' \<le> ?B", OF assms(1)])
    show "e_clock E (Clock (e_clock E h) # h) \<le> ?B" using prompt_step [OF assms(2), of "Clock (e_clock E h)" h] by simp
    fix first h1
    assume B: "e_clock E h1 \<le> ?B"
    let ?h2 = "Clock (e_clock E h1) # h1"
    have "e_clock E ?h2 \<le> e_clock E h1 + d" by (rule prompt_step [OF assms(2)]) simp
    then have "e_clock E ?h2 \<le> ?B + d" using B by linarith
    then show "wp (marker_body c p log start first) (\<lambda>r h'. case r of Exc e \<Rightarrow> ?Q (Exc e) h'
      | Ok (Leave x) \<Rightarrow> ?Q (Ok (Leave x)) h' | Ok (Continue s') \<Rightarrow> e_clock E h' \<le> ?B) E ?h2"
      by (intro wp_mono [OF wp_marker_in_time [OF assms(1-3)]])
        (case_tac r rule: ctl_outcome_cases; simp add: in_time_def)
  next
    fix first h1
    assume "e_clock E h1 \<le> ?B" "e_clock E h + sec n \<le> e_clock E h1"
    then show "?Q (Ok (Continue first)) (Clock (e_clock E h1) # h1)" using assms(4) by linarith
  qed
  then show ?thesis
    unfolding wait_for_marker_def wp_bnd_time by (subst wp_bnd, elim wp_mono) (auto simp: wp_ret)
qed

text \<open>The marker is in the log from 20 ms on.\<close>

definition booting_env :: env where
  "booting_env = quiet_env \<lparr>
     e_exists := (\<lambda>h p. True),
     e_read := (\<lambda>h p. Some (if 20000000 \<le> sum_list (map slept h) then ''boot READY'' else ''boot'')),
     e_poll := (\<lambda>h p. None)\<rparr>"

lemma booting_laws: "clock_law booting_env" "prompt_law 0 booting_env" "marker_comes booting_env (MARKER sample_startup) 1 ''log'' 20000000"
proof -
  have "contains ''READY'' ''boot READY''" by code_simp
  then show "marker_comes booting_env (MARKER sample_startup) 1 ''log'' 20000000"
    by (simp add: marker_comes_def booting_env_def quiet_env_def sample_startup_def)
qed (simp_all add: clock_law_def prompt_law_def booting_env_def quiet_env_def)

lemma marker_found_witness:
  "clock_law booting_env \<and> prompt_law 0 booting_env \<and> marker_comes booting_env (MARKER sample_startup) 1 ''log'' 20000000
   \<and> wp (wait_for_marker sample_startup 1 ''log'' 0 30) (\<lambda>r h'. \<exists>logs elapsed first. r = Ok (logs, elapsed, first)
      \<and> contains (MARKER sample_startup) logs \<and> e_clock booting_env h' \<le> 30000000) booting_env []"
proof -
  have "max (e_clock booting_env [] + 0) (20000000 + 10000000 + 5 * 0) = 30000000" "e_clock booting_env [] + sec 30 = 30000000000"
    by (simp_all add: booting_env_def quiet_env_def sec_def)
  then show ?thesis
    using marker_found [OF booting_laws, of "[]" 30 0] booting_laws by simp
qed

section \<open>Names of cache directories\<close>

lemma dash_runs_name: "list_all name_char (dash_runs s)"
  by (induction s rule: dash_runs.induct) (simp_all add: name_char_def)

lemma dash_runs_id: "list_all name_char s \<Longrightarrow> dash_runs s = s"
  by (induction s rule: dash_runs.induct) simp_all

lemma replace_char_id: "c \<notin> set s \<Longrightarrow> replace [c] new s = s"
  by (induction s) auto

text \<open>
  C36: \<open>safe_name\<close> gives a string of letters, digits, dots, underscores and dashes that neither
  begins nor ends with a dash, and leaves such a string as it is.
\<close>

theorem safe_name_plain:
  "list_all name_char (safe_name s) \<and> strip_by (\<lambda>c. c = CHR ''-'') (safe_name s) = safe_name s
   \<and> safe_name (safe_name s) = safe_name s \<and> CHR ''/'' \<notin> set (safe_name s)"
proof -
  let ?t = "safe_name s"
  have chars: "list_all name_char ?t"
    using dash_runs_name set_strip_by unfolding safe_name_def list_all_iff by blast
  moreover have strip: "strip_by (\<lambda>c. c = CHR ''-'') ?t = ?t"
    unfolding safe_name_def by (rule strip_by_id, rule strip_by_cases)
  moreover have no: "CHR ''/'' \<notin> set ?t" "CHR '':'' \<notin> set ?t"
    using chars by (auto simp: list_all_iff name_char_def is_digit_def dest!: bspec)
  moreover have "safe_name ?t = ?t"
    using no chars strip by (subst safe_name_def) (simp add: replace_char_id dash_runs_id)
  ultimately show ?thesis by blast
qed

section \<open>Two defects\<close>

text \<open>The marker seen only after the exit gives a result without the time of the first output.\<close>

definition quick_env :: env where
  "quick_env = quiet_env \<lparr>
     e_exists := (\<lambda>h p. True),
     e_read := (\<lambda>h p. Some (if list_ex (is_reap 1) h then ''READY'' else []))\<rparr>"

lemma late_marker_without_first_output:
  "case marker_body sample_startup 1 ''log'' 0 None quick_env [] of
     Some (Ok (Leave (logs, elapsed, first)), h) \<Rightarrow> logs = ''READY'' \<and> first = None
   | _ \<Rightarrow> False"
  by code_simp

text \<open>
  The metadata is not removed before a rebuild.  Here \<open>FORCE_ROOTFS\<close> asks for one, which
  fails when the files are extracted; the next run takes the incomplete file system.
\<close>

definition startup_meta :: pyval where
  "startup_meta = PDict [(''image'', PStr ''alpine:3.22''), (''image_id'', PStr ''sha256:1''), (''rootfs_size_mb'', PInt 512),
     (''orca_init_size'', PInt 1), (''orca_init_mtime_ns'', PInt 1)]"

definition broken_tar_env :: env where
  "broken_tar_env = quiet_env \<lparr>
     e_exists := (\<lambda>h p. True),
     e_read := (\<lambda>h p. Some (json_dumps_indent_sorted 2 startup_meta)),
     e_shell := (\<lambda>h c. (if starts_with c ''tar '' then 1 else 0, ''/w/tmp''))\<rparr>"

lemma broken_tar_current:
  "wp (rootfs_current (sample_startup \<lparr>FORCE_ROOTFS := False\<rparr>) ''/w/rootfs.ext4'' ''/w/meta.json'' startup_meta)
     (\<lambda>r h. r = Ok True) broken_tar_env h"
proof -
  have "json_ok startup_meta" "py_eq (sort_keys startup_meta) startup_meta" by code_simp+
  then obtain m where "json_loads (json_dumps_indent_sorted 2 startup_meta) = Some m" "py_eq m startup_meta"
    using loads_dumps(4) [of startup_meta 2] by blast
  then show ?thesis
    by (simp add: rootfs_current_def sample_startup_def broken_tar_env_def quiet_env_def prim_defs wp_simps loads_def)
qed

lemma failed_rebuild_reused:
  "wp (build_rootfs sample_startup ''/w/rootfs.ext4'' ''/w/meta.json'' startup_meta []) (\<lambda>r h.
      (\<exists>e. r = Exc e) \<and> Unlink ''/w/rootfs.ext4'' \<in> set h \<and>
      wp (rootfs_current (sample_startup \<lparr>FORCE_ROOTFS := False\<rparr>) ''/w/rootfs.ext4'' ''/w/meta.json'' startup_meta)
        (\<lambda>r h. r = Ok True) broken_tar_env h) broken_tar_env []"
proof -
  have "wp (build_rootfs sample_startup ''/w/rootfs.ext4'' ''/w/meta.json'' startup_meta []) (\<lambda>r h.
      (\<exists>e. r = Exc e) \<and> Unlink ''/w/rootfs.ext4'' \<in> set h) broken_tar_env []"
    by (simp add: build_rootfs_def export_image_def make_rootfs_def fill_rootfs_def remove_container_def run_def Let_def
        prim_defs wp_simps broken_tar_env_def quiet_env_def)
  then show ?thesis by (rule wp_mono) (simp add: broken_tar_current)
qed

end
