(* ===== verification/Cpu_Bench.thy ===== *)
theory Cpu_Bench
  imports Waiting Go_Bench
begin

text \<open>
  \<open>src/scripts/measure-cpu-docker-vs-firecracker.py\<close>: a single-threaded CPU benchmark in
  a container and in a Firecracker machine, and the ratio of the two times.
\<close>

section \<open>Configuration and small operations\<close>

record cpu_config =
  IMAGE :: string
  ASSET_DIR :: string
  WORK_PARENT :: string
  ITERATIONS :: int
  TIMEOUT_SECONDS :: int
  MEM_SIZE_MIB :: int
  VCPU_COUNT :: int

definition load_config :: "cpu_config prog" where
  "load_config =
     bnd (env_get ''CPU_BENCH_IMAGE'' ''alpine:3.22'') (\<lambda>img.
     bnd (env_path ''ASSET_DIR'' ''firecracker-assets'') (\<lambda>asset_dir.
     bnd (env_path ''WORK_PARENT'' ''.tmp/cpu-bench'') (\<lambda>work_parent.
     bnd (env_int ''CPU_BENCH_ITERATIONS'' ''600000000'') (\<lambda>iterations.
     bnd (env_int ''CPU_BENCH_TIMEOUT_SECONDS'' ''120'') (\<lambda>timeout_seconds.
     bnd (env_int ''MEM_SIZE_MIB'' ''256'') (\<lambda>mem_size_mib.
     bnd (env_int ''VCPU_COUNT'' ''1'') (\<lambda>vcpu_count.
     ret \<lparr>IMAGE = img, ASSET_DIR = asset_dir, WORK_PARENT = work_parent, ITERATIONS = iterations,
          TIMEOUT_SECONDS = timeout_seconds, MEM_SIZE_MIB = mem_size_mib, VCPU_COUNT = vcpu_count\<rparr>)))))))"

definition run :: "string \<Rightarrow> bool \<Rightarrow> string prog" where
  "run cmd check = sh_run cmd check"

definition q :: "string \<Rightarrow> string" where
  "q value = shlex_quote value"

definition now_ms :: "int prog" where
  "now_ms = bnd time_ns (\<lambda>t. ret (t div 1000000))"

definition cpu_mark :: string where
  "cpu_mark = ''CPU_BENCH_RESULT=''"

text \<open>\<open>re.search(r"CPU_BENCH_RESULT=(\{.*?\})", output)\<close>: up to the first closing brace of the line.\<close>

definition lazy_braced :: "string \<Rightarrow> string option" where
  "lazy_braced s =
     (case s of
        [] \<Rightarrow> None
      | c # r \<Rightarrow>
          let u = takeWhile (\<lambda>c. c \<noteq> CHR ''}'' \<and> c \<noteq> nl) r in
          if c = CHR ''{'' \<and> starts_with (drop (length u) r) ''}'' then Some (''{'' @ u @ ''}'') else None)"

fun search_lazy :: "string \<Rightarrow> string option" where
  "search_lazy [] = None"
| "search_lazy (c # s) =
     (case (if starts_with (c # s) cpu_mark then lazy_braced (drop (length cpu_mark) (c # s)) else None) of
        Some g \<Rightarrow> Some g
      | None \<Rightarrow> search_lazy s)"

definition extract_result :: "string \<Rightarrow> pyval prog" where
  "extract_result output =
     (case search_lazy output of
        None \<Rightarrow> raise (RuntimeError (''CPU_BENCH_RESULT marker not found in output:'' @ [nl] @ last_chars 4000 output))
      | Some g \<Rightarrow> loads g)"

definition build_binary :: "string \<Rightarrow> unit prog" where
  "build_binary bin_path =
     thn (mkdirs (path_parent bin_path))
     (thn (print (''building static linux cpu benchmark at '' @ bin_path))
     (thn (run (''CGO_ENABLED=0 GOOS=linux GOARCH=amd64 go build -trimpath -ldflags '' @ [squote] @ ''-s -w'' @ [squote]
             @ '' -o '' @ q bin_path @ '' ./cmd/cpu-bench'') True) skip))"

section \<open>The measurements\<close>

definition measure_docker :: "cpu_config \<Rightarrow> string \<Rightarrow> pyval prog" where
  "measure_docker c bin_path =
     thn (print (''running single-thread cpu benchmark in Docker image '' @ IMAGE c))
     (bnd now_ms (\<lambda>start.
      bnd (run (''docker run --rm --entrypoint /cpu-bench -v '' @ q bin_path @ '':/cpu-bench:ro '' @ q (IMAGE c)
             @ '' -kind docker -iterations '' @ str_int (ITERATIONS c)) True) (\<lambda>output.
      bnd (extract_result output) (\<lambda>result.
      bnd now_ms (\<lambda>t.
      bnd (set_item result ''wall_ms'' (PInt (t - start))) (\<lambda>result.
      set_item result ''raw_output'' (PStr (strip output))))))))"

definition build_initramfs :: "cpu_config \<Rightarrow> string \<Rightarrow> string \<Rightarrow> unit prog" where
  "build_initramfs c bin_path initramfs_path =
     thn (mkdirs (path_parent initramfs_path))
     (bnd (run (''mktemp -d '' @ q (pdiv (WORK_PARENT c) ''initramfs.XXXXXX'')) True) (\<lambda>out.
      let root = mk_path (strip out) in
      finally_do
        (thn (run (''install -m 0755 '' @ q bin_path @ '' '' @ q (pdiv root ''init'')) True)
        (bnd (resolve_path initramfs_path) (\<lambda>target.
         thn (run (''cd '' @ q root @ '' && find . -print0 | cpio --null -ov --format=newc 2>/dev/null | gzip -9 > ''
                @ q target) True) skip)))
        (thn (run (''rm -rf '' @ q root) False) skip)))"

definition machine_config :: "cpu_config \<Rightarrow> string \<Rightarrow> string \<Rightarrow> string \<Rightarrow> pyval" where
  "machine_config c kernel_path initrd log_path =
     PDict [(''boot-source'', PDict [
               (''kernel_image_path'', PStr kernel_path),
               (''initrd_path'', PStr initrd),
               (''boot_args'', PStr (''console=ttyS0 reboot=k panic=1 pci=off init=/init ''
                  @ ''-kind firecracker -iterations '' @ str_int (ITERATIONS c)))]),
            (''drives'', PList []),
            (''machine-config'', PDict [
               (''vcpu_count'', PInt (VCPU_COUNT c)),
               (''mem_size_mib'', PInt (MEM_SIZE_MIB c)),
               (''track_dirty_pages'', PBool False)]),
            (''logger'', PDict [
               (''log_path'', PStr log_path),
               (''level'', PStr ''Info''),
               (''show_level'', PBool True),
               (''show_log_origin'', PBool True)])]"

definition result_body :: "string \<Rightarrow> int \<Rightarrow> int \<Rightarrow> string \<Rightarrow> (string, pyval) ctl prog" where
  "result_body run_dir proc start output =
     (let serial_log = pdiv run_dir ''serial.log'' in
      bnd (exists_path serial_log) (\<lambda>present.
      bnd (if present then read_text serial_log else ret output) (\<lambda>output.
      if contains cpu_mark output
      then bnd (extract_result output) (\<lambda>result.
           bnd now_ms (\<lambda>t.
           bnd (set_item result ''wall_ms'' (PInt (t - start))) (\<lambda>result.
           bnd (set_item result ''work_dir'' (PStr run_dir)) (\<lambda>result.
           bnd (set_item result ''serial_log'' (PStr serial_log)) (\<lambda>result.
           ret (Leave result))))))
      else bnd (poll proc) (\<lambda>st.
           if st \<noteq> None \<and> \<not> contains cpu_mark output
           then raise (RuntimeError (''Firecracker exited before result:'' @ [nl] @ last_chars 4000 output))
           else thn (sleep_ms 50) (ret (Continue output))))))"

definition wait_result :: "cpu_config \<Rightarrow> string \<Rightarrow> int \<Rightarrow> int \<Rightarrow> pyval prog" where
  "wait_result c run_dir proc start =
     bnd time_ns (\<lambda>t.
     bnd (while_before (t + sec (TIMEOUT_SECONDS c)) (result_body run_dir proc start) []) (\<lambda>r.
     case r of
       Leave result \<Rightarrow> ret result
     | Continue _ \<Rightarrow>
         raise (TimeoutError (''timed out waiting for CPU_BENCH_RESULT; serial log: '' @ pdiv run_dir ''serial.log''))))"

definition run_machine :: "cpu_config \<Rightarrow> string \<Rightarrow> pyval prog" where
  "run_machine c run_dir =
     (let serial_log = pdiv run_dir ''serial.log'';
          firecracker_log = pdiv run_dir ''firecracker.log'';
          socket_path = pdiv run_dir ''firecracker.sock'';
          config_path = pdiv run_dir ''firecracker.json''
      in
      bnd (resolve_path (pdiv (ASSET_DIR c) ''vmlinux'')) (\<lambda>kernel_path.
      bnd (resolve_path (pdiv run_dir ''cpu-bench-initramfs.cpio.gz'')) (\<lambda>initrd.
      thn (write_text config_path (json_dumps_indent 2 (machine_config c kernel_path initrd firecracker_log)))
      (thn (print ''running single-thread cpu benchmark in Firecracker'')
      (bnd now_ms (\<lambda>start.
       thn (open_file serial_log ''wb'')
       (thn (open_file firecracker_log ''ab'')
       (bnd (resolve_path (pdiv (ASSET_DIR c) ''firecracker'')) (\<lambda>fc_path.
        bnd (popen [fc_path, ''--api-sock'', socket_path, ''--config-file'', config_path]) (\<lambda>proc.
        thn (close_file serial_log)
        (thn (close_file firecracker_log)
        (finally_do (wait_result c run_dir proc start) (stop_running proc (sec 5))))))))))))))"

definition measure_firecracker :: "cpu_config \<Rightarrow> string \<Rightarrow> pyval prog" where
  "measure_firecracker c bin_path =
     bnd (exists_path (pdiv (ASSET_DIR c) ''firecracker'')) (\<lambda>fc.
     bnd (if fc then exists_path (pdiv (ASSET_DIR c) ''vmlinux'') else ret False) (\<lambda>assets.
     if \<not> assets then raise (RuntimeError (''missing Firecracker assets under '' @ ASSET_DIR c)) else
     bnd (exists_path ''/dev/kvm'') (\<lambda>kvm.
     if \<not> kvm then raise (RuntimeError ''/dev/kvm is missing'') else
     bnd (run (''mktemp -d '' @ q (pdiv (WORK_PARENT c) ''firecracker.XXXXXX'')) True) (\<lambda>out.
     let run_dir = mk_path (strip out) in
     thn (build_initramfs c bin_path (pdiv run_dir ''cpu-bench-initramfs.cpio.gz''))
     (run_machine c run_dir)))))"

section \<open>The main program\<close>

definition print_result :: "pyval \<Rightarrow> unit prog" where
  "print_result result =
     bnd (fmt_fields [(''['', ''kind''), (''] duration_ms='', ''duration_ms''), ('' wall_ms='', ''wall_ms''),
            ('' ops_per_sec='', ''ops_per_sec''), ('' num_cpu='', ''num_cpu''), ('' gomaxprocs='', ''gomaxprocs''),
            ('' checksum='', ''checksum'')] result) (\<lambda>line.
     thn (print line)
     (bnd (get_or result ''serial_log'' PNone) (\<lambda>log.
      if py_true log then bnd (get_item result ''serial_log'') (\<lambda>log. print (''  serial_log='' @ py_str log)) else skip)))"

definition duration_ratio :: "pyval \<Rightarrow> pyval \<Rightarrow> f64 prog" where
  "duration_ratio firecracker docker =
     bnd (get_item firecracker ''duration_ms'') (\<lambda>fv.
     bnd (to_float fv) (\<lambda>fx.
     bnd (get_item docker ''duration_ms'') (\<lambda>dv.
     bnd (to_float dv) (\<lambda>dx.
     float_div fx dx))))"

definition summary :: "pyval \<Rightarrow> pyval \<Rightarrow> f64 \<Rightarrow> pyval" where
  "summary docker firecracker ratio =
     PDict [(''docker'', docker), (''firecracker'', firecracker), (''ratio'', PFloat ratio)]"

definition main :: "cpu_config \<Rightarrow> unit prog" where
  "main c =
     (let bin_path = pdiv (WORK_PARENT c) ''cpu-bench-linux-amd64'' in
      thn (mkdirs (WORK_PARENT c))
      (thn (build_binary bin_path)
      (bnd (measure_docker c bin_path) (\<lambda>docker.
       bnd (measure_firecracker c bin_path) (\<lambda>firecracker.
       thn (print [])
       (thn (print_result docker)
       (thn (print_result firecracker)
       (bnd (duration_ratio firecracker docker) (\<lambda>ratio.
        thn (print (''firecracker_vs_docker_duration_ratio='' @ fmt_fixed 2 ratio @ ''x''))
        (print (''SUMMARY_JSON='' @ json_dumps_sorted (summary docker firecracker ratio))))))))))))"

definition script :: "unit prog" where
  "script = bnd load_config (\<lambda>c. report_errors (main c))"

section \<open>No child is left running\<close>

lemma steps_cpu_extract [steps_intros]: "steps (extract_result output)"
  unfolding extract_result_def by (intro steps_intros)

lemma keeps_cpu [keeps_intros]:
  "keeps E (run cmd ck)" "keeps E now_ms" "keeps E (extract_result output)" "keeps E (build_binary p)" "keeps E (measure_docker c p)"
  "keeps E (build_initramfs c p i)" "keeps E (print_result v)" "keeps E (duration_ratio v w)"
  unfolding run_def now_ms_def extract_result_def build_binary_def measure_docker_def build_initramfs_def print_result_def duration_ratio_def
  by (intro keeps_intros)+

interpretation cpu_wait: poller "result_body dir proc start" for dir proc start
  by unfold_locales (unfold result_body_def now_ms_def, intro pauses_intros steps_intros, simp)

lemma cpu_spawn_free: "emits spawn_free (result_body dir proc start out)"
  unfolding result_body_def now_ms_def extract_result_def by (intro emits_intros; simp add: spawn_free_def)

lemma keeps_cpu_wait: "clock_law E \<Longrightarrow> keeps E (wait_result c dir proc start)"
  unfolding wait_result_def by (intro keeps_intros cpu_wait.keeps_wait cpu_spawn_free)

lemma keeps_cpu_machine:
  assumes "clock_law E" "kill_law E" shows "keeps E (measure_firecracker c p)"
  unfolding measure_firecracker_def run_machine_def Let_def close_file_def
  by (intro keeps_popen keeps_intros reaps_tell reaps_finally reaps_stop_running keeps_cpu_wait assms; simp add: spawn_free_def keeps_answer tell_def)

text \<open>
  C37: a run of the CPU benchmark ends, with a summary or an exception, and the machine it
  started has been waited for on every path.
\<close>

theorem cpu_children:
  assumes "clock_law E" "kill_law E"
  shows "wp (main c) (\<lambda>r h'. live h' \<subseteq> live h) E h"
proof -
  have "keeps E (main c)" unfolding main_def Let_def by (intro keeps_intros keeps_cpu_machine assms)
  then show ?thesis by (simp add: keeps_def)
qed

definition sample_cpu :: cpu_config where
  "sample_cpu = \<lparr>IMAGE = ''alpine'', ASSET_DIR = ''/a'', WORK_PARENT = ''/w'', ITERATIONS = 10, TIMEOUT_SECONDS = 5, MEM_SIZE_MIB = 256,
     VCPU_COUNT = 1\<rparr>"

lemma cpu_children_witness:
  "clock_law quiet_env \<and> kill_law quiet_env \<and> wp (main sample_cpu) (\<lambda>r h'. live h' \<subseteq> live []) quiet_env []"
  using cpu_children [OF quiet_laws, of sample_cpu "[]"] quiet_laws by blast

section \<open>The result is read back\<close>

interpretation cpu_marker: result_marker cpu_mark "''CPU_BENCH_RESULT''"
  by unfold_locales (simp_all add: cpu_mark_def)

lemma lazy_braced_object:
  assumes "g = ''{'' @ u @ ''}''" "list_all (\<lambda>c. c \<noteq> CHR ''}'' \<and> c \<noteq> nl) u"
  shows "lazy_braced (g @ rest) = Some g"
proof -
  have "takeWhile (\<lambda>c. c \<noteq> CHR ''}'' \<and> c \<noteq> nl) (u @ CHR ''}'' # rest) = u"
    using assms(2) by (simp add: takeWhile_append2 list_all_iff)
  then show ?thesis by (simp add: assms(1) lazy_braced_def)
qed

lemma search_lazy_first:
  assumes "\<not> contains cpu_mark pre" "lazy_braced t = Some g"
  shows "search_lazy (pre @ cpu_mark @ t) = Some g"
  using assms(1)
proof (induction pre)
  case Nil
  obtain c r where cr: "cpu_mark @ t = c # r" by (cases "cpu_mark @ t") (auto simp: cpu_mark_def)
  moreover have "starts_with (cpu_mark @ t) cpu_mark" by (simp add: starts_with_iff)
  moreover have "drop (length cpu_mark) (cpu_mark @ t) = t" by simp
  ultimately show ?case using assms(2) by (metis append_Nil option.simps(5) search_lazy.simps(2))
next
  case (Cons c pre)
  have "\<not> contains cpu_mark pre" using Cons.prems contains_append2 [of cpu_mark pre "[c]"] by auto
  then show ?case using Cons.IH cpu_marker.no_early_start [OF Cons.prems, of t] by simp
qed

lemma hex_digit_no_brace: "n < 16 \<Longrightarrow> CHR ''}'' \<noteq> hex_digit n"
proof
  assume "n < 16" "CHR ''}'' = hex_digit n"
  moreover have "hex_val CHR ''}'' = None" by (simp add: hex_val_def)
  ultimately show False using hex_val_digit [of n] by simp
qed

lemma hex4_no_brace: "CHR ''}'' \<notin> set (hex4 k)"
  by (simp add: hex4_def hex2_def hex_digit_no_brace)

lemma go_char_no_brace: "CHR ''}'' \<noteq> c \<Longrightarrow> CHR ''}'' \<notin> set (go_char c)"
  by (simp add: go_char_def hex4_no_brace)

lemma no_brace_go_string: "CHR ''}'' \<notin> set s \<Longrightarrow> CHR ''}'' \<notin> set (go_string s)"
  by (induction s) (simp_all add: go_string_def go_char_no_brace)

lemma no_brace_str_int: "CHR ''}'' \<notin> set (str_int k)"
  by (auto simp: str_int_def is_digit_def dest: str_nat_digits)

lemma cpu_fields_no_brace:
  assumes "CHR ''}'' \<notin> set (cpu_Kind r)" "CHR ''}'' \<notin> set (cpu_GoVersion r)"
  shows "CHR ''}'' \<notin> set (join '','' (map go_member (cpu_fields r)))"
  using no_brace_go_string no_brace_str_int assms by (simp add: cpu_fields_def go_member_def)

lemma cpu_mark_same_line: "list_all same_line cpu_mark"
  by (simp add: cpu_mark_def same_line_def)

lemma extract_marshal:
  assumes "\<not> contains cpu_mark pre" "CHR ''}'' \<notin> set (cpu_Kind r)" "CHR ''}'' \<notin> set (cpu_GoVersion r)"
  shows "extract_result (pre @ cpu_mark @ marshal (cpu_fields r) @ rest) = ret (PDict (go_dict (cpu_fields r)))"
proof -
  let ?u = "join '','' (map go_member (cpu_fields r))"
  have u: "marshal (cpu_fields r) = ''{'' @ ?u @ ''}''" by (simp add: marshal_def)
  then have "list_all (\<lambda>c. c \<noteq> CHR ''}'' \<and> c \<noteq> nl) ?u"
    using same_line_marshal [of "cpu_fields r"] cpu_fields_no_brace [OF assms(2,3)] by (auto simp: list_all_iff same_line_def)
  from search_lazy_first [OF assms(1) lazy_braced_object [OF u this]]
  show ?thesis using loads_marshal [OF distinct_fields(2)] by (simp add: extract_result_def loads_def or_raise_def)
qed


definition sample_cpu_result :: cpu_result where
  "sample_cpu_result = \<lparr>cpu_Kind = ''firecracker'', cpu_Iterations = 600000000, cpu_DurationMS = 1500, cpu_OpsPerSec = 400000000,
     cpu_Checksum = 16045690984833335023, cpu_GoVersion = ''go1.24.1'', cpu_NumCPU = 1, cpu_GOMAXPROCS = 1\<rparr>"


text \<open>
  A log that is read while the result line is being written makes the run fail: the loop
  looks for the marker only, and \<open>extract_result\<close> needs the whole object.
\<close>

definition torn_env :: env where
  "torn_env = quiet_env \<lparr>e_exists := (\<lambda>h p. True), e_read := (\<lambda>h p. Some ''CPU_BENCH_RESULT={''), e_poll := (\<lambda>h p. None)\<rparr>"

lemma torn_line_fails:
  "case result_body ''/w'' 1 0 [] torn_env [] of Some (Exc (RuntimeError s), h) \<Rightarrow> True | _ \<Rightarrow> False"
  by code_simp

end
