(* ===== verification/Qemu_Disk.thy ===== *)
theory Qemu_Disk
  imports Waiting
begin

text \<open>
  \<open>src/scripts/measure-qemu-disk.py\<close>: the disk benchmark in a QEMU machine, once for
  every mode.
\<close>

section \<open>Configuration and small operations\<close>

record qemu_config =
  WORK_PARENT :: string
  DATA_PATH :: string
  BIN_PATH :: string
  KERNEL_PATH :: string
  MACHINE :: string
  SIZE_BYTES :: int
  RANDOM_OPS :: int
  MEM_SIZE_MIB :: int
  VCPU_COUNT :: int
  TIMEOUT_SECONDS :: int
  MODES :: "string list"

definition load_config :: "qemu_config prog" where
  "load_config =
     bnd (env_path ''WORK_PARENT'' ''.tmp/vmm-bench'') (\<lambda>work_parent.
     bnd (env_path ''DISK_BENCH_DATA_PATH'' ''.tmp/disk-bench/bench-128mib.dat'') (\<lambda>data_path.
     bnd (env_path ''DISK_BENCH_BIN'' ''bin/disk-bench'') (\<lambda>bin_path.
     bnd (asks e_uname) (\<lambda>release.
     bnd (env_path ''QEMU_KERNEL'' (''/boot/vmlinuz-'' @ release)) (\<lambda>kernel_path.
     bnd (env_get ''QEMU_MACHINE'' ''microvm'') (\<lambda>machine.
     bnd (env_int ''DISK_BENCH_SIZE_BYTES'' (str_int (128 * 1024 * 1024))) (\<lambda>size_bytes.
     bnd (env_int ''DISK_BENCH_RANDOM_OPS'' ''32768'') (\<lambda>random_ops.
     bnd (env_int ''MEM_SIZE_MIB'' ''256'') (\<lambda>mem_size_mib.
     bnd (env_int ''VCPU_COUNT'' ''1'') (\<lambda>vcpu_count.
     bnd (env_int ''QEMU_TIMEOUT_SECONDS'' ''90'') (\<lambda>timeout_seconds.
     bnd (env_list ''DISK_BENCH_MODES'' ''sequential,random'') (\<lambda>modes.
     ret \<lparr>WORK_PARENT = work_parent, DATA_PATH = data_path, BIN_PATH = bin_path, KERNEL_PATH = kernel_path, MACHINE = machine,
          SIZE_BYTES = size_bytes, RANDOM_OPS = random_ops, MEM_SIZE_MIB = mem_size_mib, VCPU_COUNT = vcpu_count,
          TIMEOUT_SECONDS = timeout_seconds, MODES = modes\<rparr>))))))))))))"

definition run :: "string \<Rightarrow> bool \<Rightarrow> string prog" where
  "run cmd check = sh_run cmd check"

definition q :: "string \<Rightarrow> string" where
  "q value = shlex_quote value"

definition now_ms :: "int prog" where
  "now_ms = bnd time_ns (\<lambda>t. ret (t div 1000000))"

definition build_initramfs :: "qemu_config \<Rightarrow> string \<Rightarrow> unit prog" where
  "build_initramfs c initramfs_path =
     thn (mkdirs (path_parent initramfs_path))
     (bnd (run (''mktemp -d '' @ q (pdiv (WORK_PARENT c) ''qemu-initramfs.XXXXXX'')) True) (\<lambda>out.
      let root = mk_path (strip out) in
      finally_do
        (thn (run (''install -m 0755 '' @ q (BIN_PATH c) @ '' '' @ q (pdiv root ''init'')) True)
        (bnd (resolve_path initramfs_path) (\<lambda>target.
         thn (run (''cd '' @ q root @ '' && find . -print0 | cpio --null -ov --format=newc 2>/dev/null | gzip -9 > ''
                @ q target) True) skip)))
        (thn (run (''rm -rf '' @ q root) False) skip)))"

definition result_mark :: string where
  "result_mark = ''DISK_BENCH_RESULT=''"

definition extract_result :: "string \<Rightarrow> pyval prog" where
  "extract_result output =
     (case search_obj result_mark output of
        None \<Rightarrow> raise (RuntimeError (''DISK_BENCH_RESULT marker not found:'' @ [nl] @ last_chars 4000 output))
      | Some g \<Rightarrow> loads g)"

section \<open>The machine\<close>

definition bench_args :: "qemu_config \<Rightarrow> string \<Rightarrow> string" where
  "bench_args c mode =
     (let block_bytes = (if mode = ''sequential'' then 1024 * 1024 else 4096) in
      ''-kind qemu-'' @ MACHINE c @ ''-'' @ mode @ '' -mode '' @ mode @ '' -path /dev/vda -size-bytes '' @ str_int (SIZE_BYTES c)
      @ '' -block-bytes '' @ str_int block_bytes @ '' -random-ops '' @ str_int (RANDOM_OPS c) @ '' -io-depth 1'')"

definition common :: "qemu_config \<Rightarrow> string \<Rightarrow> string \<Rightarrow> string list" where
  "common c mode initramfs_path =
     [''qemu-system-x86_64'', ''-enable-kvm'', ''-cpu'', ''host'', ''-smp'', str_int (VCPU_COUNT c),
      ''-m'', str_int (MEM_SIZE_MIB c) @ ''M'', ''-nodefaults'', ''-no-user-config'', ''-nographic'', ''-no-reboot'',
      ''-serial'', ''stdio'', ''-kernel'', KERNEL_PATH c, ''-initrd'', initramfs_path,
      ''-append'', ''console=ttyS0 quiet loglevel=0 reboot=t panic=-1 init=/init '' @ bench_args c mode,
      ''-drive'', ''file='' @ DATA_PATH c @ '',format=raw,if=none,id=bench,readonly=on'']"

definition qemu_args :: "qemu_config \<Rightarrow> string \<Rightarrow> string \<Rightarrow> string \<Rightarrow> (string list \<times> string) prog" where
  "qemu_args c mode initramfs_path log_path =
     (let args = common c mode initramfs_path in
      if MACHINE c = ''microvm''
      then ret (take 2 args @ [''-M'', ''microvm,acpi=off,pcie=off,isa-serial=on,x-option-roms=off''] @ drop 2 args
                  @ [''-device'', ''virtio-blk-device,drive=bench''], log_path)
      else if MACHINE c = ''q35''
      then ret (take 2 args @ [''-M'', ''q35,accel=kvm''] @ drop 2 args @ [''-device'', ''virtio-blk-pci,drive=bench''], log_path)
      else raise (RuntimeError (''unsupported QEMU_MACHINE='' @ repr_str (MACHINE c))))"

definition measure :: "qemu_config \<Rightarrow> string \<Rightarrow> string \<Rightarrow> pyval prog" where
  "measure c mode initramfs_path =
     (let log_path = pdiv (WORK_PARENT c) (''qemu-'' @ MACHINE c @ ''-'' @ mode @ ''.log'') in
      bnd (qemu_args c mode initramfs_path log_path) (\<lambda>(args, log).
      thn (run ''sync'' False)
      (thn (run ''echo 3 > /proc/sys/vm/drop_caches'' False)
      (bnd now_ms (\<lambda>start.
       bnd (exec_result ([''timeout'', str_int (TIMEOUT_SECONDS c)] @ args) []) (\<lambda>(rc, out).
       bnd now_ms (\<lambda>t.
       thn (write_text log_path out)
       (bnd (extract_result out) (\<lambda>result.
        bnd (set_item result ''wall_ms'' (PInt (t - start))) (\<lambda>result.
        bnd (set_item result ''kernel'' (PStr (KERNEL_PATH c))) (\<lambda>result.
        bnd (set_item result ''machine'' (PStr (MACHINE c))) (\<lambda>result.
        set_item result ''log_path'' (PStr log_path)))))))))))))"

definition measure_mode :: "qemu_config \<Rightarrow> string \<Rightarrow> string \<Rightarrow> pydict \<Rightarrow> pydict prog" where
  "measure_mode c initramfs_path mode results =
     bnd (measure c mode initramfs_path) (\<lambda>result.
     bnd (fmt_fields [(''['', ''kind''), (''] duration_ms='', ''duration_ms''), ('' wall_ms='', ''wall_ms''),
            ('' mb_per_sec='', ''mb_per_sec''), ('' iops='', ''iops''), ('' log='', ''log_path'')] result) (\<lambda>line.
     thn (print line)
     (ret (dict_set results mode result))))"

definition main :: "qemu_config \<Rightarrow> unit prog" where
  "main c =
     (let initramfs_path = pdiv (WORK_PARENT c) ''qemu-disk-bench-initramfs.cpio.gz'' in
      thn (mkdirs (WORK_PARENT c))
      (thn (build_initramfs c initramfs_path)
      (thn (print (''qemu_machine='' @ MACHINE c))
      (thn (print (''qemu_kernel='' @ KERNEL_PATH c))
      (thn (print (''data_path='' @ DATA_PATH c))
      (bnd (for_each (MODES c) [] (measure_mode c initramfs_path)) (\<lambda>results.
       print (''SUMMARY_JSON='' @ json_dumps_sorted (PDict results)))))))))"

definition script :: "unit prog" where
  "script = bnd load_config (\<lambda>c. report_errors (main c))"

section \<open>The summary\<close>

lemma steps_qemu [steps_intros]:
  "steps (run cmd ck)" "steps now_ms" "steps (build_initramfs c p)" "steps (extract_result out)" "steps (qemu_args c mode p log)"
  "steps (fmt_fields fs v)"
  unfolding run_def now_ms_def build_initramfs_def extract_result_def qemu_args_def fmt_fields_def Let_def by (intro steps_intros)+

text \<open>Fields of a result that \<open>measure\<close> adds for a mode.\<close>

definition described :: "qemu_config \<Rightarrow> string \<Rightarrow> pyval \<Rightarrow> bool" where
  "described c mode v =
     (field v ''machine'' = Some (PStr (MACHINE c)) \<and> field v ''kernel'' = Some (PStr (KERNEL_PATH c))
      \<and> field v ''log_path'' = Some (PStr (pdiv (WORK_PARENT c) (''qemu-'' @ MACHINE c @ ''-'' @ mode @ ''.log'')))
      \<and> (\<exists>ms. field v ''wall_ms'' = Some (PInt ms)))"

lemma yields_qemu_measure: "yields E (described c mode) (measure c mode p)"
proof -
  have tail: "yields E (described c mode) (bnd (set_item result ''wall_ms'' (PInt ms)) (\<lambda>result.
        bnd (set_item result ''kernel'' (PStr (KERNEL_PATH c))) (\<lambda>result.
        bnd (set_item result ''machine'' (PStr (MACHINE c))) (\<lambda>result.
        set_item result ''log_path'' (PStr (pdiv (WORK_PARENT c) (''qemu-'' @ MACHINE c @ ''-'' @ mode @ ''.log'')))))))" for result ms
    by (intro yields_bind [OF yields_set_item])
      (auto simp: yields_def described_def intro!: wp_mono [OF yields_set_item [unfolded yields_def, rule_format]])
  show ?thesis
    unfolding measure_def Let_def split_beta by (intro yields_bnd yields_thn tail steps_returns steps_intros)
qed

text \<open>
  C39: a run that ends normally prints a summary with exactly one entry for every mode that
  was asked for, which names the machine, the kernel and the log of that mode.
\<close>

theorem qemu_summary_modes:
  "wp (main c) (\<lambda>r h'. r = Ok () \<longrightarrow> (\<exists>results. hd h' = Out (''SUMMARY_JSON='' @ json_dumps_sorted (PDict results))
     \<and> distinct (map fst results) \<and> set (map fst results) = set (MODES c)
     \<and> list_all (\<lambda>kv. described c (fst kv) (snd kv)) results)) E h"
proof -
  let ?I = "\<lambda>ms d. distinct (map fst d) \<and> set (map fst d) = set ms \<and> list_all (\<lambda>kv. described c (fst kv) (snd kv)) d"
  have "yields E (?I (MODES c)) (for_each (MODES c) [] (measure_mode c p))" for p
  proof (rule yields_for_each)
    fix ms mode and d :: pydict
    assume d: "?I ms d"
    have "?I (ms @ [mode]) (dict_set d mode v)" if "described c mode v" for v
      using d that by (simp add: list_all_dict_set)
    then show "yields E (?I (ms @ [mode])) (measure_mode c p mode d)"
      unfolding measure_mode_def
      by (intro yields_bind [OF yields_qemu_measure] yields_bnd yields_thn yields_ret steps_returns steps_intros)
  qed simp
  note results = this
  show ?thesis
    unfolding main_def Let_def
    by (intro wp_thn_later wp_bnd_later wp_bnd_yields [OF results] steps_intros) (auto simp: print_def tell_def wp_answer)
qed

definition sample_qemu :: qemu_config where
  "sample_qemu = \<lparr>WORK_PARENT = ''/w'', DATA_PATH = ''/w/bench.dat'', BIN_PATH = ''/w/disk-bench'', KERNEL_PATH = ''/boot/vmlinuz'',
     MACHINE = ''q35'', SIZE_BYTES = 4096, RANDOM_OPS = 1, MEM_SIZE_MIB = 256, VCPU_COUNT = 1, TIMEOUT_SECONDS = 5,
     MODES = [''random'', ''sequential'']\<rparr>"

text \<open>A run in which both benchmarks print their result.\<close>

interpretation qemu_mark: result_marker result_mark "''DISK_BENCH_RESULT''"
  by unfold_locales (simp_all add: result_mark_def)

definition guest_fields :: pydict where
  "guest_fields = [(''kind'', PStr ''qemu''), (''duration_ms'', PInt 1), (''mb_per_sec'', PInt 1), (''iops'', PInt 1)]"

definition guest_env :: env where
  "guest_env = quiet_env \<lparr>e_exec := (\<lambda>h argv i. Some (0, result_mark @ json_dumps (PDict guest_fields)))\<rparr>"

lemma guest_result: "extract_result (result_mark @ json_dumps (PDict guest_fields)) = ret (PDict guest_fields)"
proof -
  have "json_ok (PDict guest_fields)" "\<not> contains result_mark []" by code_simp+
  from qemu_mark.search_dumps [OF this, of "[]"] loads_dumps(1) [OF this(1)]
  show ?thesis by (simp add: extract_result_def loads_def or_raise_def)
qed

lemma guest_lookup:
  "map_of guest_fields ''kind'' = Some (PStr ''qemu'')" "map_of guest_fields ''duration_ms'' = Some (PInt 1)"
  "map_of guest_fields ''mb_per_sec'' = Some (PInt 1)" "map_of guest_fields ''iops'' = Some (PInt 1)"
  by (simp_all add: guest_fields_def)

lemma sample_qemu_ends: "wp (main sample_qemu) (\<lambda>r h'. r = Ok ()) guest_env []"
  by (simp add: main_def sample_qemu_def build_initramfs_def Let_def run_def now_ms_def measure_mode_def measure_def qemu_args_def
      fmt_fields_def guest_env_def quiet_env_def prim_defs wp_simps guest_result guest_lookup set_item_def get_item_def as_dict_def
      numeral_eq_Suc)

lemma qemu_summary_modes_witness:
  "wp (main sample_qemu) (\<lambda>r h'. r = Ok () \<and> (\<exists>results. hd h' = Out (''SUMMARY_JSON='' @ json_dumps_sorted (PDict results))
     \<and> distinct (map fst results) \<and> set (map fst results) = {''random'', ''sequential''}
     \<and> list_all (\<lambda>kv. described sample_qemu (fst kv) (snd kv)) results)) guest_env []"
proof -
  have modes: "set (MODES sample_qemu) = {''random'', ''sequential''}" by (simp add: sample_qemu_def)
  show ?thesis by (rule wp_returns [OF sample_qemu_ends qemu_summary_modes [of sample_qemu guest_env "[]", unfolded modes]])
qed

end
