(* ===== verification/Fc_Nbd.thy ===== *)
theory Fc_Nbd
  imports Waiting
begin

text \<open>
  \<open>src/scripts/measure-firecracker-file-vs-nbd.py\<close>: the disk benchmark in Firecracker on
  a file and on a network block device, for every mode and queue depth.
\<close>

section \<open>Configuration\<close>

record fc_nbd_config =
  ASSET_DIR :: string
  WORK_DIR :: string
  RESULTS_FILE :: string
  DISK_BENCH_BIN :: string
  NBD_SERVER_BIN :: string
  DATA_FILE :: string
  SIZE_MB :: int
  RANDOM_OPS :: int
  SEQ_BLOCK_BYTES :: int
  RANDOM_BLOCK_BYTES :: int
  IO_DEPTHS :: "int list"
  MODES :: "string list"
  TARGETS :: "string list"
  DIRECT :: bool
  DROP_CACHES :: bool
  READ_AHEAD_KB :: string
  TIMEOUT_SECONDS :: int
  VCPU_COUNT :: int
  MEM_SIZE_MIB :: int
  NBD_ADDR :: string
  NBD_EXPORT :: string

definition env_ints :: "string \<Rightarrow> string \<Rightarrow> int list prog" where
  "env_ints k dflt =
     bnd (env_list k dflt) (\<lambda>vs. for_each vs [] (\<lambda>v ns. bnd (to_int v) (\<lambda>n. ret (ns @ [n]))))"

definition load_config :: "fc_nbd_config prog" where
  "load_config =
     bnd (env_path ''ASSET_DIR'' ''firecracker-assets'') (\<lambda>asset_dir.
     bnd (env_path ''FC_FILE_NBD_WORK_DIR'' ''.tmp/firecracker-file-vs-nbd'') (\<lambda>work_dir.
     bnd (env_path ''FC_FILE_NBD_RESULTS_FILE'' ''docs/benchmarks/firecracker-file-vs-nbd-results.txt'') (\<lambda>results_file.
     bnd (env_path ''FC_FILE_NBD_DISK_BENCH_BIN'' (pdiv work_dir ''disk-bench'')) (\<lambda>disk_bench_bin.
     bnd (env_path ''FC_FILE_NBD_SERVER_BIN'' (pdiv work_dir ''local-nbd-file-server'')) (\<lambda>nbd_server_bin.
     bnd (env_path ''FC_FILE_NBD_DATA_FILE'' (pdiv work_dir ''bench.dat'')) (\<lambda>data_file.
     bnd (env_int ''FC_FILE_NBD_SIZE_MB'' ''256'') (\<lambda>size_mb.
     bnd (env_int ''FC_FILE_NBD_RANDOM_OPS'' ''4096'') (\<lambda>random_ops.
     bnd (env_int ''FC_FILE_NBD_SEQ_BLOCK_BYTES'' (str_int (1024 * 1024))) (\<lambda>seq_block_bytes.
     bnd (env_int ''FC_FILE_NBD_RANDOM_BLOCK_BYTES'' ''4096'') (\<lambda>random_block_bytes.
     bnd (env_ints ''FC_FILE_NBD_IO_DEPTHS'' ''1'') (\<lambda>io_depths.
     bnd (env_list ''FC_FILE_NBD_MODES'' ''sequential,random'') (\<lambda>modes.
     bnd (env_list ''FC_FILE_NBD_TARGETS'' ''file,nbd-range,nbd-chunk'') (\<lambda>targets.
     bnd (env_flag ''FC_FILE_NBD_DIRECT'' ''false'') (\<lambda>direct.
     bnd (env_flag ''FC_FILE_NBD_DROP_CACHES'' ''true'') (\<lambda>drop.
     bnd (env_get ''FC_FILE_NBD_READ_AHEAD_KB'' []) (\<lambda>read_ahead_kb.
     bnd (env_int ''FC_FILE_NBD_TIMEOUT_SECONDS'' ''90'') (\<lambda>timeout_seconds.
     bnd (env_int ''FC_FILE_NBD_VCPU_COUNT'' ''1'') (\<lambda>vcpu_count.
     bnd (env_int ''FC_FILE_NBD_MEM_SIZE_MIB'' ''256'') (\<lambda>mem_size_mib.
     bnd (env_get ''FC_FILE_NBD_ADDR'' ''127.0.0.1:10910'') (\<lambda>nbd_addr.
     bnd (env_get ''FC_FILE_NBD_EXPORT'' ''bench'') (\<lambda>nbd_export.
     ret \<lparr>ASSET_DIR = asset_dir, WORK_DIR = work_dir, RESULTS_FILE = results_file, DISK_BENCH_BIN = disk_bench_bin,
          NBD_SERVER_BIN = nbd_server_bin, DATA_FILE = data_file, SIZE_MB = size_mb, RANDOM_OPS = random_ops,
          SEQ_BLOCK_BYTES = seq_block_bytes, RANDOM_BLOCK_BYTES = random_block_bytes, IO_DEPTHS = io_depths, MODES = modes,
          TARGETS = targets, DIRECT = direct, DROP_CACHES = drop, READ_AHEAD_KB = strip read_ahead_kb,
          TIMEOUT_SECONDS = timeout_seconds, VCPU_COUNT = vcpu_count, MEM_SIZE_MIB = mem_size_mib, NBD_ADDR = nbd_addr,
          NBD_EXPORT = nbd_export\<rparr>)))))))))))))))))))))"

section \<open>Small operations\<close>

definition run :: "string \<Rightarrow> bool \<Rightarrow> string prog" where
  "run cmd check = thn (print (''$ '' @ cmd)) (sh_run cmd check)"

definition q :: "string \<Rightarrow> string" where
  "q value = shlex_quote value"

definition now_ms :: "int prog" where
  "now_ms = bnd time_ns (\<lambda>t. ret (t div 1000000))"

definition result_mark :: string where
  "result_mark = ''DISK_BENCH_RESULT=''"

definition extract_result :: "string \<Rightarrow> pyval prog" where
  "extract_result output =
     (case search_obj result_mark output of
        None \<Rightarrow> raise (RuntimeError (''DISK_BENCH_RESULT marker not found:'' @ [nl] @ last_chars 4000 output))
      | Some g \<Rightarrow> loads g)"

definition go_build :: "string \<Rightarrow> string \<Rightarrow> unit prog" where
  "go_build bin package =
     bnd (exists_path bin) (\<lambda>present.
     cond_do (\<not> present)
       (thn (run (''CGO_ENABLED=0 GOOS=linux GOARCH=amd64 go build -trimpath -ldflags '' @ [squote] @ ''-s -w'' @ [squote]
               @ '' -o '' @ q bin @ '' '' @ package) True) skip))"

definition maybe_build_binaries :: "fc_nbd_config \<Rightarrow> unit prog" where
  "maybe_build_binaries c =
     thn (mkdirs (WORK_DIR c))
     (thn (go_build (DISK_BENCH_BIN c) ''./cmd/disk-bench'')
     (go_build (NBD_SERVER_BIN c) ''./cmd/local-nbd-file-server''))"

definition prepare_data_file :: "fc_nbd_config \<Rightarrow> unit prog" where
  "prepare_data_file c =
     (let size_bytes = SIZE_MB c * 1024 * 1024 in
      thn (mkdirs (path_parent (DATA_FILE c)))
      (bnd (exists_path (DATA_FILE c)) (\<lambda>present.
       bnd (if present then bnd (stat_size (DATA_FILE c)) (\<lambda>n. ret (n = size_bytes)) else ret False) (\<lambda>reuse.
       if reuse then print (''reusing data file '' @ DATA_FILE c)
       else thn (unlink_ok (DATA_FILE c))
            (thn (run (''dd if=/dev/urandom of='' @ q (DATA_FILE c) @ '' bs=1M count='' @ str_int (SIZE_MB c) @ '' status=none'') True)
            (thn (run ''sync'' False) skip))))))"

definition build_initramfs :: "fc_nbd_config \<Rightarrow> string \<Rightarrow> unit prog" where
  "build_initramfs c initramfs_path =
     bnd (run (''mktemp -d '' @ q (pdiv (WORK_DIR c) ''initramfs.XXXXXX'')) True) (\<lambda>out.
     let root = mk_path (strip out) in
     finally_do
       (thn (run (''install -m 0755 '' @ q (DISK_BENCH_BIN c) @ '' '' @ q (pdiv root ''init'')) True)
       (bnd (resolve_path initramfs_path) (\<lambda>target.
        thn (run (''cd '' @ q root @ '' && find . -print0 | cpio --null -ov --format=newc 2>/dev/null | gzip -9 > ''
               @ q target) True) skip)))
       (thn (run (''rm -rf '' @ q root) False) skip))"

definition drop_caches :: "fc_nbd_config \<Rightarrow> unit prog" where
  "drop_caches c =
     cond_do (DROP_CACHES c)
       (thn (run ''sync'' False)
       (thn (run (''sh -c '' @ [squote] @ ''echo 3 > /proc/sys/vm/drop_caches'' @ [squote]) False) skip))"

definition device_body :: "int \<Rightarrow> unit \<Rightarrow> (unit, string) ctl prog" where
  "device_body i s =
     (let dev = ''/dev/nbd'' @ str_int i; pid = ''/sys/block/nbd'' @ str_int i @ ''/pid'' in
      bnd (exists_path dev) (\<lambda>present.
      bnd (if present then bnd (exists_path pid) (\<lambda>busy. ret (\<not> busy)) else ret False) (\<lambda>free.
      ret (if free then Leave dev else Continue ()))))"

definition find_free_nbd :: "string prog" where
  "find_free_nbd =
     bnd (env_get ''FC_FILE_NBD_DEVICE'' []) (\<lambda>v.
     let preferred = strip v in
     if preferred \<noteq> [] then ret preferred
     else bnd (for_until [0..31] () device_body) (\<lambda>r.
          case r of
            Leave dev \<Rightarrow> ret dev
          | Continue _ \<Rightarrow> raise (RuntimeError ''no free /dev/nbdX device found'')))"

section \<open>The network block device\<close>

definition host_port :: "fc_nbd_config \<Rightarrow> (string \<times> string) prog" where
  "host_port c = or_raise (ValueError (NBD_ADDR c)) (rsplit1 CHR '':'' (NBD_ADDR c))"

definition server_body :: "int \<Rightarrow> string \<Rightarrow> string \<Rightarrow> unit \<Rightarrow> (unit, unit) ctl prog" where
  "server_body proc host port s =
     bnd (poll proc) (\<lambda>st.
     if st \<noteq> None then raise (RuntimeError ''NBD server exited early'')
     else bnd (run (''timeout 1 bash -lc '' @ [squote] @ ''</dev/tcp/'' @ q host @ ''/'' @ q port @ [squote]
                 @ '' >/dev/null 2>&1; echo $?'') False) (\<lambda>raw.
          if ends_with (strip raw) ''0'' then ret (Leave ())
          else thn (sleep_ms 100) (ret (Continue ()))))"

definition wait_for_server :: "fc_nbd_config \<Rightarrow> int \<Rightarrow> unit prog" where
  "wait_for_server c proc =
     bnd (host_port c) (\<lambda>(host, port).
     bnd time_ns (\<lambda>t.
     bnd (while_before (t + sec 10) (server_body proc host port) ()) (\<lambda>r.
     case r of
       Leave _ \<Rightarrow> skip
     | Continue _ \<Rightarrow> raise (TimeoutError (''timed out waiting for NBD server at '' @ NBD_ADDR c)))))"

definition attach_nbd :: "fc_nbd_config \<Rightarrow> string \<Rightarrow> unit prog" where
  "attach_nbd c device =
     bnd (host_port c) (\<lambda>(host, port).
     thn (run (''nbd-client '' @ q host @ '' '' @ q port @ '' '' @ q device @ '' -N '' @ q (NBD_EXPORT c)) True) skip)"

definition detach_nbd :: "string \<Rightarrow> unit prog" where
  "detach_nbd device = cond_do (device \<noteq> []) (thn (run (''nbd-client -d '' @ q device) False) skip)"

definition start_nbd_server_mode :: "fc_nbd_config \<Rightarrow> string \<Rightarrow> int prog" where
  "start_nbd_server_mode c mode =
     bnd (popen [NBD_SERVER_BIN c,
            ''-addr'', NBD_ADDR c,
            ''-file'', DATA_FILE c,
            ''-export'', NBD_EXPORT c,
            ''-mode'', mode,
            ''-chunk-size'', str_int (4 * 1024 * 1024)]) (\<lambda>proc.
     thn (wait_for_server c proc) (ret proc))"

definition start_nbd_server :: "fc_nbd_config \<Rightarrow> int prog" where
  "start_nbd_server c = start_nbd_server_mode c ''range''"

definition stop_process :: "int \<Rightarrow> unit prog" where
  "stop_process proc =
     bnd (poll proc) (\<lambda>st.
     cond_do (st = None)
       (thn (kill_group proc ''SIGTERM'')
       (catching (thn (wait_limit proc (sec 5)) skip)
          (on_timeout
             (thn (kill_group proc ''SIGKILL'')
             (thn (wait_limit proc (sec 5)) skip))))))"

section \<open>The measurement\<close>

definition boot_args :: "fc_nbd_config \<Rightarrow> string \<Rightarrow> string \<Rightarrow> int \<Rightarrow> string" where
  "boot_args c target mode io_depth =
     (let block_bytes = (if mode = ''sequential'' then SEQ_BLOCK_BYTES c else RANDOM_BLOCK_BYTES c) in
      ''console=ttyS0 reboot=k panic=1 pci=off init=/init ''
      @ ''-kind firecracker-'' @ target @ ''-'' @ mode @ ''-qd'' @ str_int io_depth @ '' ''
      @ ''-mode '' @ mode @ '' -path /dev/vda -size-bytes '' @ str_int (SIZE_MB c * 1024 * 1024) @ '' ''
      @ ''-block-bytes '' @ str_int block_bytes @ '' -random-ops '' @ str_int (RANDOM_OPS c) @ '' -io-depth '' @ str_int io_depth
      @ (if READ_AHEAD_KB c \<noteq> [] then '' -read-ahead-kb '' @ READ_AHEAD_KB c else [])
      @ (if DIRECT c then '' -direct'' else []))"

definition machine_config :: "fc_nbd_config \<Rightarrow> string \<Rightarrow> string \<Rightarrow> string \<Rightarrow> string \<Rightarrow> string \<Rightarrow> pyval" where
  "machine_config c kernel_path initrd args drive log_path =
     PDict [(''boot-source'', PDict [
               (''kernel_image_path'', PStr kernel_path),
               (''initrd_path'', PStr initrd),
               (''boot_args'', PStr args)]),
            (''drives'', PList [PDict [
               (''drive_id'', PStr ''bench''),
               (''path_on_host'', PStr drive),
               (''is_root_device'', PBool False),
               (''is_read_only'', PBool True)]]),
            (''machine-config'', PDict [
               (''vcpu_count'', PInt (VCPU_COUNT c)),
               (''mem_size_mib'', PInt (MEM_SIZE_MIB c)),
               (''track_dirty_pages'', PBool False)]),
            (''logger'', PDict [
               (''log_path'', PStr log_path),
               (''level'', PStr ''Info''),
               (''show_level'', PBool True),
               (''show_log_origin'', PBool True)])]"

definition result_body :: "string \<Rightarrow> string \<Rightarrow> int \<Rightarrow> int \<Rightarrow> string \<Rightarrow> (string, pyval) ctl prog" where
  "result_body target run_dir proc start output =
     (let serial_log = pdiv run_dir ''serial.log'' in
      bnd (exists_path serial_log) (\<lambda>present.
      bnd (if present then read_text serial_log else ret output) (\<lambda>output.
      if search_obj result_mark output \<noteq> None
      then bnd (extract_result output) (\<lambda>result.
           bnd (set_item result ''target'' (PStr target)) (\<lambda>result.
           bnd now_ms (\<lambda>t.
           bnd (set_item result ''wall_ms'' (PInt (t - start))) (\<lambda>result.
           bnd (set_item result ''work_dir'' (PStr run_dir)) (\<lambda>result.
           ret (Leave result))))))
      else bnd (poll proc) (\<lambda>st.
           if st \<noteq> None
           then raise (RuntimeError (''Firecracker exited before result:'' @ [nl] @ last_chars 4000 output))
           else thn (sleep_ms 50) (ret (Continue output))))))"

definition wait_result :: "fc_nbd_config \<Rightarrow> string \<Rightarrow> string \<Rightarrow> int \<Rightarrow> int \<Rightarrow> pyval prog" where
  "wait_result c target run_dir proc start =
     bnd time_ns (\<lambda>t.
     bnd (while_before (t + sec (TIMEOUT_SECONDS c)) (result_body target run_dir proc start) []) (\<lambda>r.
     case r of
       Leave result \<Rightarrow> ret result
     | Continue _ \<Rightarrow> raise (TimeoutError (''timed out waiting for result; serial_log='' @ pdiv run_dir ''serial.log''))))"

definition run_machine :: "fc_nbd_config \<Rightarrow> string \<Rightarrow> string \<Rightarrow> string \<Rightarrow> int \<Rightarrow> string \<Rightarrow> pyval prog" where
  "run_machine c target drive_path mode io_depth run_dir =
     (let initramfs = pdiv run_dir ''initramfs.cpio.gz'';
          serial_log = pdiv run_dir ''serial.log'';
          firecracker_log = pdiv run_dir ''firecracker.log'';
          socket_path = pdiv run_dir ''firecracker.sock'';
          config_path = pdiv run_dir ''firecracker.json''
      in
      thn (build_initramfs c initramfs)
      (bnd (resolve_path (pdiv (ASSET_DIR c) ''vmlinux'')) (\<lambda>kernel_path.
       bnd (resolve_path initramfs) (\<lambda>initrd.
       bnd (if starts_with drive_path ''/dev/'' then ret drive_path else resolve_path (mk_path drive_path)) (\<lambda>drive.
       thn (write_text config_path (json_dumps_indent 2
              (machine_config c kernel_path initrd (boot_args c target mode io_depth) drive firecracker_log)))
       (thn (drop_caches c)
       (bnd now_ms (\<lambda>start.
        thn (open_file serial_log ''wb'')
        (thn (open_file firecracker_log ''ab'')
        (bnd (resolve_path (pdiv (ASSET_DIR c) ''firecracker'')) (\<lambda>fc_path.
         bnd (popen [fc_path, ''--api-sock'', socket_path, ''--config-file'', config_path]) (\<lambda>proc.
         thn (close_file serial_log)
         (thn (close_file firecracker_log)
         (finally_do (wait_result c target run_dir proc start) (stop_running proc (sec 5))))))))))))))))"

definition measure_firecracker :: "fc_nbd_config \<Rightarrow> string \<Rightarrow> string \<Rightarrow> string \<Rightarrow> int \<Rightarrow> pyval prog" where
  "measure_firecracker c target drive_path mode io_depth =
     bnd (exists_path (pdiv (ASSET_DIR c) ''firecracker'')) (\<lambda>fc.
     bnd (if fc then exists_path (pdiv (ASSET_DIR c) ''vmlinux'') else ret False) (\<lambda>assets.
     if \<not> assets then raise (RuntimeError (''missing Firecracker assets under '' @ ASSET_DIR c)) else
     bnd (exists_path ''/dev/kvm'') (\<lambda>kvm.
     if \<not> kvm then raise (RuntimeError ''/dev/kvm is missing'') else
     bnd (run (''mktemp -d '' @ q (pdiv (WORK_DIR c) ''fc.XXXXXX'')) True) (\<lambda>out.
     run_machine c target drive_path mode io_depth (mk_path (strip out))))))"

section \<open>The table and the main program\<close>

definition tab :: char where
  "tab = CHR 0x09"

definition columns :: "string list" where
  "columns = [''target'', ''mode'', ''io_depth'', ''mb_per_sec'', ''iops'', ''duration_ms'', ''wall_ms'',
     ''block_bytes'', ''ops'', ''bytes_read'', ''checksum'']"

definition heading :: "fc_nbd_config \<Rightarrow> string \<Rightarrow> string \<Rightarrow> string list" where
  "heading c nbd_device date =
     [[],
      ''firecracker-file-vs-nbd run '' @ date,
      ''data_file='' @ DATA_FILE c,
      ''nbd_device='' @ nbd_device,
      ''size_mb='' @ str_int (SIZE_MB c) @ '' random_ops='' @ str_int (RANDOM_OPS c)
        @ '' io_depths='' @ join '','' (map str_int (IO_DEPTHS c)) @ '' direct='' @ lower (py_str (PBool (DIRECT c)))
        @ '' drop_caches='' @ lower (py_str (PBool (DROP_CACHES c)))
        @ '' read_ahead_kb='' @ (if READ_AHEAD_KB c \<noteq> [] then READ_AHEAD_KB c else ''default''),
      [],
      join [tab] columns]"

definition append_results :: "fc_nbd_config \<Rightarrow> pyval list \<Rightarrow> string \<Rightarrow> unit prog" where
  "append_results c rows nbd_device =
     thn (mkdirs (path_parent (RESULTS_FILE c)))
     (bnd time_ns (\<lambda>t.
      bnd (for_each rows (heading c nbd_device (iso_stamp t)) (\<lambda>row lines.
             bnd (fmt_fields (zip ([] # replicate 10 [tab]) columns) row) (\<lambda>line. ret (lines @ [line])))) (\<lambda>lines.
      with_open (RESULTS_FILE c) ''a''
        (for_all lines (\<lambda>line. append_text (RESULTS_FILE c) (rstrip line @ [nl]))))))"

definition report_row :: "fc_nbd_config \<Rightarrow> string \<Rightarrow> string \<Rightarrow> string \<Rightarrow> int \<Rightarrow> pyval list \<Rightarrow> pyval list prog" where
  "report_row c target drive_path mode io_depth rows =
     thn (print (''running Firecracker target='' @ target @ '' mode='' @ mode @ '' io_depth='' @ str_int io_depth))
     (bnd (measure_firecracker c target drive_path mode io_depth) (\<lambda>row.
      thn (print (json_dumps_sorted row)) (ret (rows @ [row]))))"

text \<open>
  One round of the loops.  The \<open>finally\<close> clause has something to undo from the moment
  \<open>start_nbd_server_mode\<close> has returned.
\<close>

definition measure_row :: "fc_nbd_config \<Rightarrow> string \<Rightarrow> string \<Rightarrow> int \<Rightarrow> string \<Rightarrow> pyval list \<Rightarrow> pyval list prog" where
  "measure_row c nbd_device mode io_depth target rows =
     (if target \<in> {''nbd'', ''nbd-range'', ''nbd-chunk''}
      then thn (detach_nbd nbd_device)
           (bnd (start_nbd_server_mode c (if target = ''nbd-chunk'' then ''chunk'' else ''range'')) (\<lambda>nbd_server.
            finally_do
              (thn (attach_nbd c nbd_device) (report_row c target nbd_device mode io_depth rows))
              (thn (detach_nbd nbd_device) (stop_process nbd_server))))
      else report_row c target (DATA_FILE c) mode io_depth rows)"

definition main :: "fc_nbd_config \<Rightarrow> unit prog" where
  "main c =
     thn (maybe_build_binaries c)
     (thn (prepare_data_file c)
     (bnd find_free_nbd (\<lambda>nbd_device.
      thn (detach_nbd nbd_device)
      (bnd (for_each (MODES c) [] (\<lambda>mode rows.
              for_each (IO_DEPTHS c) rows (\<lambda>io_depth rows.
              for_each (TARGETS c) rows (\<lambda>target rows.
              measure_row c nbd_device mode io_depth target rows)))) (\<lambda>rows.
       thn (append_results c rows nbd_device)
       (print (''wrote '' @ RESULTS_FILE c)))))))"

definition script :: "unit prog" where
  "script = bnd load_config (\<lambda>c. report_errors (main c))"

section \<open>No child is left running\<close>

text \<open>
  The group of a child that has not been waited for can be signalled: the child is its
  leader, and it stays in the process table until it is waited for.
\<close>

definition group_law :: "env \<Rightarrow> bool" where
  "group_law E = (\<forall>h p sig. p \<in> live h \<longrightarrow> e_group E h p sig)"

lemma steps_fc_extract [steps_intros]: "steps (extract_result out)"
  unfolding extract_result_def by (intro steps_intros)

lemma keeps_fc [keeps_intros]:
  "keeps E (run cmd ck)" "keeps E now_ms" "keeps E (extract_result out)" "keeps E (go_build b p)" "keeps E (maybe_build_binaries c)"
  "keeps E (prepare_data_file c)" "keeps E (build_initramfs c p)" "keeps E (drop_caches c)" "keeps E (device_body i u)"
  "keeps E find_free_nbd" "keeps E (host_port c)" "keeps E (attach_nbd c device)" "keeps E (detach_nbd device)"
  "keeps E (append_results c rows device)"
  unfolding run_def now_ms_def extract_result_def go_build_def maybe_build_binaries_def prepare_data_file_def Let_def build_initramfs_def
    drop_caches_def device_body_def find_free_nbd_def env_get_def host_port_def attach_nbd_def detach_nbd_def append_results_def
    with_open_def fmt_fields_def
  by (intro keeps_intros)+

lemma steps_fc_run [steps_intros]: "steps (run cmd ck)"
  unfolding run_def by (intro steps_intros)

interpretation fc_wait: poller "result_body target dir proc start" for target dir proc start
  by unfold_locales (unfold result_body_def now_ms_def, intro pauses_intros steps_intros, simp)

interpretation fc_server_wait: poller "server_body proc host port" for proc host port
  by unfold_locales (unfold server_body_def, intro pauses_intros steps_intros, simp)

lemma fc_spawn_free:
  "emits spawn_free (result_body target dir proc start out)" "emits spawn_free (server_body proc host port u)"
  unfolding result_body_def server_body_def extract_result_def now_ms_def run_def
  by (intro emits_intros; simp add: spawn_free_def)+

lemma keeps_fc_waits:
  assumes "clock_law E"
  shows "keeps E (wait_result c target dir proc start)" "keeps E (wait_for_server c proc)"
  unfolding wait_result_def wait_for_server_def
  by (intro keeps_intros fc_wait.keeps_wait fc_server_wait.keeps_wait assms fc_spawn_free)+

lemma keeps_fc_machine:
  assumes "clock_law E" "kill_law E" shows "keeps E (measure_firecracker c target drive mode depth)"
  unfolding measure_firecracker_def run_machine_def Let_def close_file_def
  by (intro keeps_popen keeps_intros reaps_tell reaps_finally reaps_stop_running keeps_fc_waits assms; simp add: spawn_free_def keeps_answer tell_def)

lemma keeps_report_row:
  assumes "clock_law E" "kill_law E" shows "keeps E (report_row c target drive mode depth rows)"
  unfolding report_row_def by (intro keeps_intros keeps_fc_machine assms)

lemma reaps_group_stop:
  assumes "kill_law E" "group_law E" shows "reaps E p (stop_process p)"
proof -
  let ?Q = "\<lambda>h h'. live h' \<subseteq> live h - {p}"
  have kill: "wp (thn (kill_group p ''SIGKILL'') (thn (wait_limit p (sec 5)) skip)) (\<lambda>r h'. ?Q h h') E h1" if "live h1 = live h" for h h1
  proof (cases "p \<in> live h1")
    case True
    then have "e_group E h1 p ''SIGKILL''" using assms(2) by (simp add: group_law_def)
    moreover from this have "e_wait E (SignalGroup p ''SIGKILL'' True # h1) p (sec 5) \<noteq> None"
      using assms(1) by (simp add: kill_law_def killed_def)
    ultimately show ?thesis using that by (auto simp: kill_group_def wait_limit_def check_ok_def wp_simps)
  next
    case False
    then show ?thesis using that by (auto simp: kill_group_def wait_limit_def check_ok_def wp_simps split: option.split)
  qed
  have wait: "wp (catching (thn (wait_limit p (sec 5)) skip)
       (on_timeout (thn (kill_group p ''SIGKILL'') (thn (wait_limit p (sec 5)) skip)))) (\<lambda>r h'. ?Q h h') E h1" if "live h1 = live h" for h h1
    using that kill
    by (auto simp: wp_catching wait_limit_def wp_thn wp_bnd wp_answer wp_or_raise wp_skip on_timeout_def split: option.split)
  show ?thesis
    unfolding reaps_def
  proof
    fix h
    let ?h1 = "Poll p (e_poll E h p) # h"
    let ?h2 = "SignalGroup p ''SIGTERM'' (e_group E ?h1 p ''SIGTERM'') # ?h1"
    have "p \<notin> live h" if "e_poll E h p = None" "\<not> e_group E ?h1 p ''SIGTERM''"
      using that assms(2) unfolding group_law_def by (metis live_Poll)
    then show "wp (stop_process p) (\<lambda>r h'. ?Q h h') E h"
      using wait [of ?h2 h]
      by (auto simp: stop_process_def poll_def kill_group_def check_ok_def cond_do_def wp_thn wp_bnd wp_answer wp_if wp_skip wp_raise)
  qed
qed

lemma wp_start_server:
  assumes "clock_law E"
  shows "wp (start_nbd_server_mode c mode) (\<lambda>r h'. \<forall>p. r = Ok p \<longrightarrow> live h' \<subseteq> insert p (live h)) E h"
proof -
  have w: "wp (thn (wait_for_server c p) (ret p)) (\<lambda>r h'. live h' \<subseteq> insert p (live h) \<and> (\<forall>p'. r = Ok p' \<longrightarrow> p' = p)) E h1"
    if "live h1 \<subseteq> insert p (live h)" for p h1
    unfolding wp_thn
    by (rule wp_mono [OF keepsD [OF keeps_fc_waits(2) [OF assms] that]]) (simp add: wp_ret split: outcome.split)
  have rest: "wp (thn (wait_for_server c p) (ret p)) (\<lambda>r h'. \<forall>p'. r = Ok p' \<longrightarrow> live h' \<subseteq> insert p' (live h)) E h1"
    if "live h1 \<subseteq> insert p (live h)" for p h1
    by (rule wp_mono [OF w [OF that]]) blast
  show ?thesis
    unfolding start_nbd_server_mode_def
    by (auto simp: popen_def wp_bnd wp_answer wp_or_raise intro!: rest split: option.split)
qed

lemma fc_row_children:
  assumes "clock_law E" "kill_law E" "group_law E"
  shows "target \<notin> {''nbd'', ''nbd-range'', ''nbd-chunk''} \<Longrightarrow> keeps E (measure_row c device mode depth target rows)"
    and "keeps_ok E (measure_row c device mode depth target rows)"
proof -
  show on_file: "keeps E (measure_row c device mode depth target rows)" if "target \<notin> {''nbd'', ''nbd-range'', ''nbd-chunk''}"
    unfolding measure_row_def if_not_P [OF that] by (rule keeps_report_row [OF assms(1,2)])
  show "keeps_ok E (measure_row c device mode depth target rows)"
  proof (cases "target \<in> {''nbd'', ''nbd-range'', ''nbd-chunk''}")
    case True
    have "reaps E p (thn (detach_nbd device) (stop_process p))" for p
      by (rule reaps_thn_ok, unfold detach_nbd_def run_def)
        (auto simp: cond_do_def sh_run_def sh_result_def print_def tell_def wp_simps
           intro: reaps_group_stop [OF assms(2,3)] split: prod.split)
    then show ?thesis
      unfolding measure_row_def if_P [OF True] thn_def [of "detach_nbd device" "bnd _ _"]
      by (intro keeps_ok_bnd keeps_ok_spawns [OF wp_start_server [OF assms(1)]] reaps_finally keeps_intros keeps_report_row assms)
  qed (simp add: on_file keeps_ok_keeps)
qed

text \<open>
  C40: when the run ends normally, every machine and every block-device server it started has
  been waited for; when only the file is measured this also holds when it ends with an
  exception.
\<close>

theorem fc_nbd_children:
  assumes "clock_law E" "kill_law E" "group_law E"
  shows "wp (main c) (\<lambda>r h'. r = Ok () \<or> set (TARGETS c) \<inter> {''nbd'', ''nbd-range'', ''nbd-chunk''} = {} \<longrightarrow> live h' \<subseteq> live h) E h"
proof (cases "set (TARGETS c) \<inter> {''nbd'', ''nbd-range'', ''nbd-chunk''} = {}")
  case True
  have "keeps E (main c)"
    unfolding main_def by (intro keeps_intros fc_row_children assms) (use True in blast)
  then show ?thesis by (auto simp: keeps_def intro: wp_mono)
next
  case False
  have "keeps_ok E (main c)"
    unfolding main_def thn_def
    by (intro keeps_ok_bnd keeps_ok_bind [OF keeps_ok_for_each] keeps_ok_for_each fc_row_children assms keeps_intros keeps_ok_keeps)
  then have "wp (main c) (\<lambda>r h'. (\<exists>v. r = Ok v) \<longrightarrow> live h' \<subseteq> live h) E h" by (simp add: keeps_ok_def)
  then show ?thesis by (rule wp_mono) (use False in auto)
qed

definition sample_fc_nbd :: fc_nbd_config where
  "sample_fc_nbd = \<lparr>ASSET_DIR = ''/a'', WORK_DIR = ''/w'', RESULTS_FILE = ''/w/results.txt'', DISK_BENCH_BIN = ''/w/disk-bench'',
     NBD_SERVER_BIN = ''/w/nbd'', DATA_FILE = ''/w/bench.dat'', SIZE_MB = 1, RANDOM_OPS = 1, SEQ_BLOCK_BYTES = 4096,
     RANDOM_BLOCK_BYTES = 4096, IO_DEPTHS = [1], MODES = [''random''], TARGETS = [''file'', ''nbd-range''], DIRECT = False,
     DROP_CACHES = False, READ_AHEAD_KB = [], TIMEOUT_SECONDS = 5, VCPU_COUNT = 1, MEM_SIZE_MIB = 256,
     NBD_ADDR = ''127.0.0.1:10910'', NBD_EXPORT = ''bench''\<rparr>"

definition file_only :: fc_nbd_config where
  "file_only = sample_fc_nbd \<lparr>TARGETS := [''file'']\<rparr>"

lemma fc_nbd_children_witness:
  "clock_law quiet_env \<and> kill_law quiet_env \<and> group_law quiet_env \<and>
   wp (main file_only) (\<lambda>r h'. live h' \<subseteq> live []) quiet_env []"
proof -
  have "group_law quiet_env" by (simp add: group_law_def quiet_env_def)
  then show ?thesis using fc_nbd_children [OF quiet_laws, of file_only "[]"] quiet_laws by (simp add: file_only_def)
qed

end
