(* ===== verification/Spec2Isabelle.thy ===== *)
theory Spec2Isabelle
  imports Vhost_Blk Demo Hotpool Docker_Nbd Vmm_Matrix Vmm_Startup Cpu_Bench Qemu_Disk Fc_Nbd
begin

text \<open>
  Verification of the benchmark and demonstration programs of the repository: the Python
  scripts under \<open>src/scripts\<close> and \<open>src/demos/overlaybd-jb-two-node/demo.py\<close>.

  \<^bold>\<open>The programs.\<close>  Each script measures containers, virtual machines or block devices.  It
  reads its configuration from environment variables, runs shell commands, starts child
  processes (Firecracker, QEMU, Cloud Hypervisor, storage and NBD servers, daemons), polls
  their logs until a marker or a result line appears or a deadline passes, stops what it
  started, and writes a table or a JSON summary.  The scripts call no function of each
  other except that \<open>measure-jetbrains-hotpool-commands.py\<close> loads
  \<open>measure-jetbrains-workspace-timings.py\<close>, and that
  \<open>measure-firecracker-vhost-user-blk.py\<close> runs \<open>measure-disk-docker-vs-firecracker.py\<close> as a
  command and reads the summary it prints.

  \<^bold>\<open>The language.\<close>  \<open>Prelude\<close> has Python dictionaries as association lists in insertion
  order.  \<open>PyString\<close>, \<open>Paths\<close>, \<open>PyTime\<close>, \<open>PyVal\<close>, \<open>Json\<close>, \<open>Base64\<close>, \<open>Shell_Words\<close>,
  \<open>Markers\<close> and \<open>Argparse\<close> define what the scripts use of the standard library (string
  methods, \<open>pathlib\<close>, \<open>time.strftime\<close>, values and 64-bit floats, \<open>json\<close>, \<open>base64\<close>,
  \<open>shlex\<close>, the regular expressions that find results, \<open>argparse\<close>), with the round trips
  \<open>json.loads(json.dumps(v)) = v\<close>, decoding of encoded text, and splitting of quoted words.

  \<^bold>\<open>Effects.\<close>  In \<open>Prog\<close> a program is a function of an environment and a history.  The
  history is the list of events so far, newest first: commands run, processes started,
  polled, signalled and waited for, files read and written, clock readings, sleeps, text
  printed.  The environment is a record of functions that answer each operation from the
  history; nothing is assumed about the answers.  A program gives a value or an exception
  (\<open>Ok\<close>, \<open>Exc\<close>) and the new history, or \<open>None\<close> if it does not return, which only a loop
  (\<open>py_loop\<close>, a \<open>partial_function\<close>) can cause.  \<open>try/except\<close>, \<open>try/finally\<close>, \<open>for\<close> and
  \<open>while time.time() < deadline\<close> are combinators.  \<open>Script\<close> has the operations that many
  scripts share.

  \<^bold>\<open>Rules.\<close>  \<open>Prog_Rules\<close>: weakest preconditions \<open>wp m Q E h\<close>, which claim that the program
  returns and that \<open>Q\<close> holds of its outcome and history, so every theorem stated with
  \<open>wp\<close> is also a termination claim.  \<open>Procs\<close>: the children that are \<open>live\<close> in a history
  and rules for programs that keep or reap them.  \<open>Waiting\<close>: the locale \<open>poller\<close>, the
  contract of a polling loop (its body sleeps before it goes round again), interpreted on
  the loop body of every script; it gives that the wait ends.  \<open>Traces\<close>: rules about the
  order and the completeness of events.  \<open>Failures\<close>: programs whose exceptions are caught
  by \<open>except Exception\<close> and have a message.  The locale \<open>result_marker\<close> of \<open>Markers\<close> is
  interpreted on the markers of the disk, CPU and summary lines; the loops that collect
  markers share a locale of \<open>Workspace_Reports\<close>, which \<open>Docker_Nbd\<close> interprets too.

  \<^bold>\<open>Hypotheses about the environment.\<close>  \<open>clock_law\<close>: the clock does not run backwards and a
  sleep takes at least its time.  \<open>kill_law\<close>: a process that was killed can be waited for.
  \<open>spawn_law\<close>: a new child has an identifier that no live child has.  \<open>group_law\<close>: the
  process group of a child that was not waited for can be signalled.  \<open>prompt_law d\<close>: an
  operation takes at most \<open>d\<close> longer than the sleep it asks for.  Each is documented
  behaviour of the operating system and is shown to hold in a concrete environment, where
  the theorem that uses it is applied.

  \<^bold>\<open>The scripts.\<close>  One theory for each, with its configuration as a record, one definition for
  each function of the script and for the loop bodies, and the theorems about them:

  \<^item> \<open>Disk_Bench\<close> (\<open>measure-disk-docker-vs-firecracker.py\<close>): runs end and leave no child;
    results are read back; the storage daemon can be left behind when it is slow.
  \<^item> \<open>Vhost_Blk\<close> (\<open>measure-firecracker-vhost-user-blk.py\<close>): the summary of the disk benchmark
    is understood; the report has one row for each backend and mode.
  \<^item> \<open>Demo\<close> (\<open>demo.py\<close>): the steps of the scenario run in order, only after consent and not
    at all in a dry run; the remote shell reads the commands as meant.
  \<^item> \<open>Workspace_Timings\<close>, \<open>Workspace_Reports\<close>, \<open>Workspace_Resources\<close>
    (\<open>measure-jetbrains-workspace-timings.py\<close>): the definitions; the summary agrees with
    the logs that were polled; children, network, containers and the cached root file
    system.
  \<^item> \<open>Hotpool\<close> (\<open>measure-jetbrains-hotpool-commands.py\<close>): nothing is typed before the console
    is ready; network and machine are removed.
  \<^item> \<open>Docker_Nbd\<close> (\<open>measure-jetbrains-docker-nbd.py\<close>): mount, device and daemons are undone in
    the right order however the run ends; its polling loop is that of \<open>Workspace_Timings\<close>.
  \<^item> \<open>Vmm_Matrix\<close> (\<open>measure-vmm-block-matrix.py\<close>): the table has a line for every runtime,
    target and mode; children.
  \<^item> \<open>Vmm_Startup\<close> (\<open>measure-vmm-startup.py\<close>): a marker that comes in time is found; a failed
    runtime does not stop the others and the summary is well typed; children; names of the
    cache directories.
  \<^item> \<open>Cpu_Bench\<close> (\<open>measure-cpu-docker-vs-firecracker.py\<close>), \<open>Qemu_Disk\<close>
    (\<open>measure-qemu-disk.py\<close>), \<open>Fc_Nbd\<close> (\<open>measure-firecracker-file-vs-nbd.py\<close>): children,
    results and summaries.

  Lemmas on concrete environments show defects: results lost between the last read of a
  log and the exit of the process (\<open>late_result_lost\<close>), processes left behind by a failing
  start (\<open>start_backend_leaks_daemon\<close>, \<open>start_nbd_leaks_server\<close>), a network left behind
  (\<open>setup_tap_leaks_network\<close>), an incomplete file system reused
  (\<open>interrupted_rebuild_reused\<close>, \<open>failed_rebuild_reused\<close>), a result line read while it is
  written (\<open>torn_line_fails\<close>).

  \<^bold>\<open>Bounds.\<close>  There is no fuel for the loops of the scripts: waits are shown to end from the
  laws of the clock.  The JSON reader recurses on the length of its input, which bounds
  the nesting.

  \<^bold>\<open>Limits of the model.\<close>  Time is an integer number of nanoseconds where Python has a float.
  Characters are code points up to 255; errors of decoding are not modelled
  (\<open>errors="replace"\<close> is part of what a read answers).  The wording of messages of the
  standard library is not modelled, nor is an interrupt between two operations.
  \<open>argparse\<close> follows Python 3.11 without its error texts.  Output and error stream are
  kept apart only by their events.

  \<^bold>\<open>Not modelled.\<close>  The remaining scripts (\<open>measure-cold-image-startup.py\<close>,
  \<open>measure-docker-layer-resume.py\<close>, \<open>measure-docker-vs-orca-disk-fair.py\<close>,
  \<open>measure-file-vs-nbd.py\<close>, \<open>measure-firecracker-stargz-iops.py\<close>, \<open>measure-orca-iops.py\<close>,
  \<open>measure-overlaybd-first-output.py\<close>, \<open>measure-overlaybd-jetbrains-workspace-real.py\<close>,
  \<open>measure-stargz-layer-resume.py\<close>, \<open>measure-sysbox-stargz-first-output-scenarios.py\<close>,
  \<open>measure-sysbox-stargz-iops.py\<close>): long fixed sequences of container commands around the
  patterns that the modelled scripts have.  The Go services and tools (\<open>src/cmd\<close>), the Go
  packages (\<open>src/pkg\<close>), the shell scripts and the Kotlin program: to the scripts they are
  commands, processes and files, which the environment answers for.
\<close>

end
